(* ===== verification/Sync_Prelude.thy ===== *)
theory Sync_Prelude
  imports Main "HOL-Library.Word" "HOL-Library.Sublist" "HOL-Library.List_Lexorder" "HOL-Library.Char_ord"
begin

text \<open>
  What every component of the development shares: the result-and-state action that stands
  for a Rust function returning \<open>Result\<close> and working on shared state, the frame
  interface that lifts a relation on states over whole handlers, saturating arithmetic on
  machine words, and the operations of Rust's \<open>str\<close> on UTF-8 byte strings.
\<close>

named_theorems run_simps "how an action runs: used to open a handler step by step"
named_theorems step_moves "actions whose writes are committed steps of the database"
named_theorems content_moves "actions that leave the served content alone"

section \<open>Actions: results and state\<close>

text \<open>
  A Rust function that returns \<open>Result<T, E>\<close> and reads or writes shared state is an
  action: it takes the state and returns the result together with the new state. The
  state of a failed action is kept: a write that was committed before an early return stays.
\<close>

type_synonym ('e, 'w, 'a) act = "'w \<Rightarrow> ('e + 'a) \<times> 'w"

definition ret :: "'a \<Rightarrow> ('e, 'w, 'a) act" where
  "ret x = (\<lambda>w. (Inr x, w))"

definition throw :: "'e \<Rightarrow> ('e, 'w, 'a) act" where
  "throw e = (\<lambda>w. (Inl e, w))"

text \<open>The question mark operator: run, leave on an error, continue with the value.\<close>

definition bindE :: "('e, 'w, 'a) act \<Rightarrow> ('a \<Rightarrow> ('e, 'w, 'b) act) \<Rightarrow> ('e, 'w, 'b) act" where
  "bindE m f = (\<lambda>w. case m w of (Inl e, w') \<Rightarrow> (Inl e, w') | (Inr x, w') \<Rightarrow> f x w')"

text \<open>\<open>map_err\<close>, and the \<open>From\<close> conversions applied by the question mark operator.\<close>

definition map_err :: "('e \<Rightarrow> 'f) \<Rightarrow> ('e, 'w, 'a) act \<Rightarrow> ('f, 'w, 'a) act" where
  "map_err h m = (\<lambda>w. case m w of (Inl e, w') \<Rightarrow> (Inl (h e), w') | (Inr x, w') \<Rightarrow> (Inr x, w'))"

text \<open>A pure \<open>Result\<close>, an \<open>ok_or_else\<close>, a guard, and a result kept as a value.\<close>

definition lift_res :: "'e + 'a \<Rightarrow> ('e, 'w, 'a) act" where
  "lift_res r = (\<lambda>w. (r, w))"

definition ok_or :: "'e \<Rightarrow> 'a option \<Rightarrow> ('e, 'w, 'a) act" where
  "ok_or e x = (case x of None \<Rightarrow> throw e | Some y \<Rightarrow> ret y)"

definition whenE :: "bool \<Rightarrow> ('e, 'w, unit) act \<Rightarrow> ('e, 'w, unit) act" where
  "whenE b m = (if b then m else ret ())"

definition attempt :: "('e, 'w, 'a) act \<Rightarrow> ('f, 'w, 'e + 'a) act" where
  "attempt m = (\<lambda>w. case m w of (r, w') \<Rightarrow> (Inr r, w'))"

text \<open>Running an action and matching on how it ended.\<close>

definition handleE ::
  "('e, 'w, 'a) act \<Rightarrow> ('e \<Rightarrow> ('f, 'w, 'b) act) \<Rightarrow> ('a \<Rightarrow> ('f, 'w, 'b) act) \<Rightarrow> ('f, 'w, 'b) act" where
  "handleE m f g = (\<lambda>w. case m w of (Inl e, w') \<Rightarrow> f e w' | (Inr x, w') \<Rightarrow> g x w')"

text \<open>A \<open>for\<close> loop whose body may leave with the question mark operator.\<close>

fun forE :: "'a list \<Rightarrow> ('a \<Rightarrow> ('e, 'w, unit) act) \<Rightarrow> ('e, 'w, unit) act" where
  "forE [] f = ret ()"
| "forE (x # xs) f = bindE (f x) (\<lambda>_. forE xs f)"

fun mapE :: "('a \<Rightarrow> ('e, 'w, 'b) act) \<Rightarrow> 'a list \<Rightarrow> ('e, 'w, 'b list) act" where
  "mapE f [] = ret []"
| "mapE f (x # xs) = bindE (f x) (\<lambda>y. bindE (mapE f xs) (\<lambda>ys. ret (y # ys)))"

lemma ret_run [simp, run_simps]: "ret x w = (Inr x, w)"
  by (simp add: ret_def)

lemma throw_run [simp, run_simps]: "throw e w = (Inl e, w)"
  by (simp add: throw_def)

lemma lift_res_run [simp, run_simps]: "lift_res r w = (r, w)"
  by (simp add: lift_res_def)

lemma ok_or_simps [simp, run_simps]:
  "ok_or e None = throw e" "ok_or e (Some x) = ret x"
  by (simp_all add: ok_or_def)

lemma whenE_simps [simp, run_simps]:
  "whenE True m = m" "whenE False m = ret ()"
  by (simp_all add: whenE_def)

lemma bindE_ret [simp]: "bindE (ret x) f = f x"
  by (rule ext) (simp add: bindE_def)

lemma bindE_throw [simp]: "bindE (throw e) f = throw e"
  by (rule ext) (simp add: bindE_def)

lemma bindE_ret_right [simp]: "bindE m ret = m"
  by (rule ext) (simp add: bindE_def split: prod.splits sum.splits)

lemma bindE_assoc: "bindE (bindE m f) g = bindE m (\<lambda>x. bindE (f x) g)"
  by (rule ext) (simp add: bindE_def split: prod.splits sum.splits)

lemma bindE_okD: "m w = (Inr x, w') \<Longrightarrow> bindE m f w = f x w'"
  by (simp add: bindE_def)

lemma bindE_errD: "m w = (Inl e, w') \<Longrightarrow> bindE m f w = (Inl e, w')"
  by (simp add: bindE_def)

text \<open>Inversion: a sequence succeeds exactly when both parts do, and fails in one of them.\<close>

lemma bindE_Inr_iff:
  "bindE m f w = (Inr y, w') \<longleftrightarrow> (\<exists>x w1. m w = (Inr x, w1) \<and> f x w1 = (Inr y, w'))"
  by (auto simp: bindE_def split: prod.splits sum.splits)

lemma bindE_Inl_iff:
  "bindE m f w = (Inl e, w') \<longleftrightarrow>
     m w = (Inl e, w') \<or> (\<exists>x w1. m w = (Inr x, w1) \<and> f x w1 = (Inl e, w'))"
  by (auto simp: bindE_def split: prod.splits sum.splits)

lemma handleE_iff:
  "handleE m f g w = (r, w') \<longleftrightarrow>
     (\<exists>e w1. m w = (Inl e, w1) \<and> f e w1 = (r, w')) \<or> (\<exists>x w1. m w = (Inr x, w1) \<and> g x w1 = (r, w'))"
  by (auto simp: handleE_def split: prod.splits sum.splits)

lemma map_err_Inr_iff: "map_err h m w = (Inr y, w') \<longleftrightarrow> m w = (Inr y, w')"
  by (auto simp: map_err_def split: prod.splits sum.splits)

lemma map_err_Inl_iff:
  "map_err h m w = (Inl e, w') \<longleftrightarrow> (\<exists>d. m w = (Inl d, w') \<and> e = h d)"
  by (auto simp: map_err_def split: prod.splits sum.splits)

lemma attempt_Inr_iff: "attempt m w = (Inr r, w') \<longleftrightarrow> m w = (r, w')"
  by (auto simp: attempt_def split: prod.splits)

lemma attempt_not_Inl [simp]: "attempt m w \<noteq> (Inl e, w')"
  by (auto simp: attempt_def split: prod.splits)

lemma ok_or_Inr_iff: "ok_or e x w = (Inr y, w') \<longleftrightarrow> x = Some y \<and> w' = w"
  by (cases x) auto

lemma ok_or_Inl_iff: "ok_or e x w = (Inl d, w') \<longleftrightarrow> x = None \<and> d = e \<and> w' = w"
  by (cases x) auto

lemma whenE_Inr_iff:
  "whenE b m w = (Inr y, w') \<longleftrightarrow> (if b then m w = (Inr y, w') else w' = w)"
  by (auto simp: whenE_def)

lemma whenE_Inl_iff: "whenE b m w = (Inl e, w') \<longleftrightarrow> b \<and> m w = (Inl e, w')"
  by (auto simp: whenE_def)

lemma bindE_handleE: "bindE (handleE m f g) h = handleE m (\<lambda>e. bindE (f e) h) (\<lambda>x. bindE (g x) h)"
  by (rule ext) (simp add: handleE_def bindE_def split: prod.splits sum.splits)

lemma map_sum_Inr_iff: "map_sum h id r = Inr y \<longleftrightarrow> r = Inr y"
  by (cases r) simp_all

lemmas act_ok_iff = handleE_iff bindE_Inr_iff map_err_Inr_iff attempt_Inr_iff ok_or_Inr_iff whenE_Inr_iff
lemmas act_err_iff = handleE_iff bindE_Inl_iff map_err_Inl_iff ok_or_Inl_iff whenE_Inl_iff

section \<open>The frame interface\<close>

text \<open>
  \<open>moves R m\<close>: however the action \<open>m\<close> ends, its start and end states are
  related by \<open>R\<close>. For a reflexive and transitive \<open>R\<close> it composes over
  sequencing, so a fact about single transactions lifts to whole handlers. Components
  interpret the locale with "a table is unchanged", "an invariant is kept" or "the
  database moved by committed transactions".
\<close>

definition moves :: "('w \<Rightarrow> 'w \<Rightarrow> bool) \<Rightarrow> ('e, 'w, 'a) act \<Rightarrow> bool" where
  "moves R m \<longleftrightarrow> (\<forall>w. R w (snd (m w)))"

lemma movesI: "(\<And>w r w'. m w = (r, w') \<Longrightarrow> R w w') \<Longrightarrow> moves R m"
  by (simp add: moves_def prod_eq_iff)

lemma movesD: "moves R m \<Longrightarrow> m w = (r, w') \<Longrightarrow> R w w'"
  by (metis moves_def snd_conv)

lemma moves_snd: "moves R m \<Longrightarrow> R w (snd (m w))"
  by (simp add: moves_def)

lemma moves_mono: "moves R m \<Longrightarrow> (\<And>w w'. R w w' \<Longrightarrow> S w w') \<Longrightarrow> moves S m"
  by (simp add: moves_def)

locale frame =
  fixes R :: "'w \<Rightarrow> 'w \<Rightarrow> bool"
  assumes frame_refl: "R w w"
    and frame_trans: "R u v \<Longrightarrow> R v w \<Longrightarrow> R u w"
begin

lemma frame_ret: "moves R (ret x)"
  by (simp add: moves_def frame_refl)

lemma frame_throw: "moves R (throw e)"
  by (simp add: moves_def frame_refl)

lemma frame_lift_res: "moves R (lift_res r)"
  by (simp add: moves_def frame_refl)

lemma frame_Pair: "moves R (Pair r)"
  by (simp add: moves_def frame_refl)

lemma frame_ok_or: "moves R (ok_or e x)"
  by (cases x) (simp_all add: frame_ret frame_throw)

lemma frame_bindE: "moves R m \<Longrightarrow> (\<And>x. moves R (f x)) \<Longrightarrow> moves R (bindE m f)"
  by (rule movesI) (auto simp: bindE_def split: prod.splits sum.splits
      intro: frame_trans dest: movesD)

lemma frame_bind_lift: "(\<And>x. r = Inr x \<Longrightarrow> moves R (f x)) \<Longrightarrow> moves R (bindE (lift_res r) f)"
  by (rule movesI) (auto simp: bindE_def frame_refl split: prod.splits sum.splits dest: movesD)

lemma frame_map_err: "moves R m \<Longrightarrow> moves R (map_err h m)"
  by (rule movesI) (auto simp: map_err_def split: prod.splits sum.splits dest: movesD)

lemma frame_attempt: "moves R m \<Longrightarrow> moves R (attempt m)"
  by (rule movesI) (auto simp: attempt_def split: prod.splits dest: movesD)

lemma frame_handleE:
  "moves R m \<Longrightarrow> (\<And>e. moves R (f e)) \<Longrightarrow> (\<And>x. moves R (g x)) \<Longrightarrow> moves R (handleE m f g)"
  by (rule movesI) (fastforce simp: handleE_iff intro: frame_trans dest: movesD)

lemma frame_whenE: "moves R m \<Longrightarrow> moves R (whenE b m)"
  by (cases b) (simp_all add: frame_ret)

lemma frame_forE: "(\<And>x. moves R (f x)) \<Longrightarrow> moves R (forE xs f)"
  by (induction xs) (simp_all add: frame_ret frame_bindE)

lemma frame_mapE: "(\<And>x. moves R (f x)) \<Longrightarrow> moves R (mapE f xs)"
  by (induction xs) (simp_all add: frame_ret frame_bindE)

lemmas frame_rules = frame_ret frame_Pair frame_throw frame_lift_res frame_ok_or frame_bindE
  frame_map_err frame_attempt frame_handleE frame_whenE frame_forE frame_mapE

end

section \<open>Watching a part of the state\<close>

text \<open>
  \<open>runs_from p s m R\<close>: started where the watched part \<open>p\<close> of the state is
  \<open>s\<close>, the action ends with a result and a watched part related by \<open>R\<close>. Steps
  that keep the watched part are skipped; what they return is known from their own run.
\<close>

definition keeps :: "('w \<Rightarrow> 's) \<Rightarrow> 'w \<Rightarrow> 'w \<Rightarrow> bool" where
  "keeps p w w' \<longleftrightarrow> p w' = p w"

interpretation keeping: frame "keeps p" for p :: "'w \<Rightarrow> 's"
  by unfold_locales (simp_all add: keeps_def)

definition runs_from ::
  "('w \<Rightarrow> 's) \<Rightarrow> 's \<Rightarrow> ('e, 'w, 'a) act \<Rightarrow> ('e + 'a \<Rightarrow> 's \<Rightarrow> bool) \<Rightarrow> bool" where
  "runs_from p s m R \<longleftrightarrow> (\<forall>w r w'. p w = s \<longrightarrow> m w = (r, w') \<longrightarrow> R r (p w'))"

lemma runs_fromI: "(\<And>w r w'. p w = s \<Longrightarrow> m w = (r, w') \<Longrightarrow> R r (p w')) \<Longrightarrow> runs_from p s m R"
  by (simp add: runs_from_def)

lemma runs_fromD: "runs_from p (p w) m R \<Longrightarrow> m w = (r, w') \<Longrightarrow> R r (p w')"
  by (simp add: runs_from_def)

lemma runs_mono: "runs_from p s m R \<Longrightarrow> (\<And>r s'. R r s' \<Longrightarrow> Q r s') \<Longrightarrow> runs_from p s m Q"
  by (auto simp: runs_from_def)

lemma runs_ret: "R (Inr x) s \<Longrightarrow> runs_from p s (ret x) R"
  by (simp add: runs_from_def)

lemma runs_throw: "R (Inl e) s \<Longrightarrow> runs_from p s (throw e) R"
  by (simp add: runs_from_def)

lemma runs_keep: "moves (keeps p) m \<Longrightarrow> (\<And>r. R r s) \<Longrightarrow> runs_from p s m R"
  by (auto simp: runs_from_def keeps_def dest: movesD)

lemma runs_bind:
  "runs_from p s m (\<lambda>r s'. case r of Inl e \<Rightarrow> R (Inl e) s' | Inr x \<Rightarrow> runs_from p s' (f x) R) \<Longrightarrow>
     runs_from p s (bindE m f) R"
  unfolding runs_from_def bindE_def by (fastforce split: prod.splits sum.splits)

lemma runs_skip:
  assumes "moves (keeps p) m" "\<And>e. R (Inl e) s"
    and "\<And>w x w'. p w = s \<Longrightarrow> m w = (Inr x, w') \<Longrightarrow> runs_from p s (f x) R"
  shows "runs_from p s (bindE m f) R"
proof (rule runs_bind, rule runs_fromI)
  fix w r w'
  assume w: "p w = s" and run: "m w = (r, w')"
  then have "p w' = s" using movesD [OF assms(1) run] by (simp add: keeps_def)
  then show "case r of Inl e \<Rightarrow> R (Inl e) (p w') | Inr x \<Rightarrow> runs_from p (p w') (f x) R"
    using assms(2) assms(3) [OF w] run by (cases r) auto
qed

section \<open>Machine integers\<close>

type_synonym u64 = "64 word"
type_synonym u32 = "32 word"

text \<open>\<open>saturating_add\<close> stops at the largest value of the width instead of wrapping.\<close>

definition sat_add :: "'a::len word \<Rightarrow> 'a word \<Rightarrow> 'a word" where
  "sat_add a b = (if a + b < a then - 1 else a + b)"

lemma unat_max_word: "unat (- 1 :: 'a::len word) = 2 ^ LENGTH('a) - 1"
  by (simp add: unsigned_minus_1_eq_mask mask_eq_exp_minus_1)

lemma unat_sat_add:
  fixes a b :: "'a::len word"
  shows "unat (sat_add a b) = min (unat a + unat b) (2 ^ LENGTH('a) - 1)"
proof (cases "unat a + unat b < 2 ^ LENGTH('a)")
  case True
  then have "unat (a + b) = unat a + unat b"
    by (simp add: unat_word_ariths)
  with True show ?thesis
    by (simp add: sat_add_def word_less_nat_alt)
next
  case False
  then have "unat (a + b) < unat a"
    by (metis no_olen_add_nat not_less word_le_nat_alt)
  with False show ?thesis
    by (simp add: sat_add_def word_less_nat_alt unat_max_word min_def)
qed

definition sat_mul :: "'a::len word \<Rightarrow> 'a word \<Rightarrow> 'a word" where
  "sat_mul a b = (if unat a * unat b < 2 ^ LENGTH('a) then a * b else - 1)"

lemma unat_sat_mul:
  fixes a b :: "'a::len word"
  shows "unat (sat_mul a b) = min (unat a * unat b) (2 ^ LENGTH('a) - 1)"
  by (auto simp: sat_mul_def unat_word_ariths unat_max_word)

lemma sat_add_ge: "a \<le> sat_add a (b :: 'a::len word)"
  by (auto simp: sat_add_def not_less)

lemma sat_add_one_greater: "a \<noteq> - 1 \<Longrightarrow> a < sat_add a (1 :: 'a::len word)"
proof -
  assume "a \<noteq> - 1"
  then have "a < a + 1"
    by (metis inc_less_eq_triv_imp not_less)
  then show ?thesis
    by (metis less_asym sat_add_def)
qed

text \<open>\<open>clamp\<close> on \<open>i128\<close> to the range of \<open>i64\<close>.\<close>

definition clamp_i64 :: "int \<Rightarrow> int" where
  "clamp_i64 x = max (- (2 ^ 63)) (min (2 ^ 63 - 1) x)"

lemma clamp_i64_range: "- (2 ^ 63) \<le> clamp_i64 x \<and> clamp_i64 x \<le> 2 ^ 63 - 1"
  by (simp add: clamp_i64_def)

lemma clamp_i64_id: "- (2 ^ 63) \<le> x \<Longrightarrow> x \<le> 2 ^ 63 - 1 \<Longrightarrow> clamp_i64 x = x"
  by (simp add: clamp_i64_def)

section \<open>Options\<close>

text \<open>\<open>Option::or\<close>, \<open>Option::zip\<close> and \<open>Option::filter\<close>.\<close>

definition opt_or :: "'a option \<Rightarrow> 'a option \<Rightarrow> 'a option" where
  "opt_or x y = (case x of None \<Rightarrow> y | Some _ \<Rightarrow> x)"

definition opt_filter :: "('a \<Rightarrow> bool) \<Rightarrow> 'a option \<Rightarrow> 'a option" where
  "opt_filter P x = (case x of None \<Rightarrow> None | Some y \<Rightarrow> if P y then Some y else None)"

definition opt_get :: "'a \<Rightarrow> 'a option \<Rightarrow> 'a" where
  "opt_get d x = (case x of None \<Rightarrow> d | Some y \<Rightarrow> y)"

lemma opt_simps [simp]:
  "opt_or None y = y" "opt_or (Some a) y = Some a"
  "opt_filter P None = None" "opt_filter P (Some a) = (if P a then Some a else None)"
  "opt_get d None = d" "opt_get d (Some a) = a"
  by (simp_all add: opt_or_def opt_filter_def opt_get_def)

text \<open>\<open>Result::ok\<close>.\<close>

definition res_ok :: "'e + 'a \<Rightarrow> 'a option" where
  "res_ok r = (case r of Inl _ \<Rightarrow> None | Inr x \<Rightarrow> Some x)"

lemma res_ok_simps [simp]: "res_ok (Inl e) = None" "res_ok (Inr x) = Some x"
  by (simp_all add: res_ok_def)

lemma res_ok_Some_iff: "res_ok r = Some x \<longleftrightarrow> r = Inr x"
  by (cases r) auto

end
