(* ===== verification/Rust_Str.thy ===== *)
theory Rust_Str
  imports Sync_Prelude
begin

text \<open>
  The operations of Rust's \<open>str\<close> that the server uses. A \<open>str\<close> is the list of
  its UTF-8 bytes (a HOL \<open>char\<close> is a byte), so \<open>len\<close> is \<open>length\<close>, equality
  and the order of keys are those of the bytes, and bytes and strings share a type.
  Operations on characters (\<open>chars\<close>, \<open>trim\<close>) work on the list of encoded
  characters, \<open>utf8_chars\<close>.
\<close>

type_synonym bytes = "char list"

section \<open>Prefixes, suffixes and splitting\<close>

definition starts_with :: "string \<Rightarrow> string \<Rightarrow> bool" where
  "starts_with s p = prefix p s"

definition ends_with :: "string \<Rightarrow> string \<Rightarrow> bool" where
  "ends_with s p = suffix p s"

definition strip_prefix :: "string \<Rightarrow> string \<Rightarrow> string option" where
  "strip_prefix s p = (if prefix p s then Some (drop (length p) s) else None)"

definition strip_suffix :: "string \<Rightarrow> string \<Rightarrow> string option" where
  "strip_suffix s p = (if suffix p s then Some (take (length s - length p) s) else None)"

text \<open>\<open>split_once\<close>: the parts around the first occurrence of the separator.\<close>

fun split_once :: "string \<Rightarrow> string \<Rightarrow> (string \<times> string) option" where
  "split_once [] sep = (if sep = [] then Some ([], []) else None)"
| "split_once (c # s) sep =
     (if prefix sep (c # s) then Some ([], drop (length sep) (c # s))
      else map_option (\<lambda>(a, b). (c # a, b)) (split_once s sep))"

text \<open>\<open>split(c)\<close>: all fields between occurrences of a byte; never empty.\<close>

fun split_on :: "char \<Rightarrow> string \<Rightarrow> string list" where
  "split_on c [] = [[]]"
| "split_on c (x # s) =
     (if x = c then [] # split_on c s
      else case split_on c s of [] \<Rightarrow> [[x]] | f # fs \<Rightarrow> (x # f) # fs)"

text \<open>\<open>split(c).next()\<close>.\<close>

definition first_field :: "char \<Rightarrow> string \<Rightarrow> string" where
  "first_field c s = takeWhile (\<lambda>x. x \<noteq> c) s"

lemma starts_with_Nil [simp]: "starts_with s []"
  by (simp add: starts_with_def)

lemma strip_prefix_Some_iff: "strip_prefix s p = Some r \<longleftrightarrow> s = p @ r"
  by (auto simp: strip_prefix_def prefix_def)

lemma strip_suffix_Some_iff: "strip_suffix s p = Some r \<longleftrightarrow> s = r @ p"
  by (auto simp: strip_suffix_def suffix_def)

lemma strip_suffix_None_iff: "strip_suffix s p = None \<longleftrightarrow> \<not> suffix p s"
  by (simp add: strip_suffix_def)

lemma split_once_Some: "split_once s sep = Some (a, b) \<Longrightarrow> s = a @ sep @ b"
proof (induction s arbitrary: a)
  case Nil
  then show ?case by (simp split: if_splits)
next
  case (Cons c s)
  then show ?case
    by (cases "prefix sep (c # s)") (auto simp: prefix_def)
qed

lemma split_on_nonempty: "split_on c s \<noteq> []"
  by (induction s) (auto split: list.splits)

lemma split_on_hd: "hd (split_on c s) = first_field c s"
  by (induction s) (auto simp: first_field_def split_on_nonempty split: list.splits)

text \<open>A separator that starts with a byte missing from the left part is found right after it.\<close>

lemma split_once_append:
  assumes "hd sep \<notin> set a" and "sep \<noteq> []"
  shows "split_once (a @ sep @ b) sep = Some (a, b)"
  using assms
proof (induction a)
  case Nil
  then show ?case by (cases sep) auto
next
  case (Cons c a)
  then have "\<not> prefix sep (c # a @ sep @ b)"
    by (cases sep) auto
  with Cons show ?case by simp
qed

section \<open>Characters\<close>

text \<open>The number of bytes of a character, from its first byte.\<close>

definition utf8_len :: "char \<Rightarrow> nat" where
  "utf8_len c = (let n = of_char c :: nat
     in if n < 0xC0 then 1 else if n < 0xE0 then 2 else if n < 0xF0 then 3 else 4)"

lemma utf8_len_pos: "0 < utf8_len c"
  by (simp add: utf8_len_def Let_def)

function utf8_chars :: "string \<Rightarrow> string list" where
  "utf8_chars [] = []"
| "utf8_chars (c # s) = take (utf8_len c) (c # s) # utf8_chars (drop (utf8_len c) (c # s))"
  by pat_completeness auto
termination
  by (relation "measure length") (auto simp: utf8_len_pos)

lemma concat_utf8_chars [simp]: "concat (utf8_chars s) = s"
  by (induction s rule: utf8_chars.induct) (simp_all del: take_Suc_Cons)

lemma utf8_chars_Nil_iff [simp]: "utf8_chars s = [] \<longleftrightarrow> s = []"
  by (cases s) simp_all

lemma utf8_len_ascii: "(of_char c :: nat) < 0x80 \<Longrightarrow> utf8_len c = 1"
  by (simp add: utf8_len_def)

lemma utf8_chars_ascii: "\<forall>c \<in> set s. (of_char c :: nat) < 0x80 \<Longrightarrow> utf8_chars s = map (\<lambda>c. [c]) s"
  by (induction s) (simp_all add: utf8_len_ascii)

text \<open>\<open>char::is_control\<close> (category Cc): U+0000 to U+001F and U+007F to U+009F.\<close>

fun is_control :: "string \<Rightarrow> bool" where
  "is_control [c] = (let n = of_char c :: nat in n < 0x20 \<or> n = 0x7F)"
| "is_control [c, d] = (let n = of_char c :: nat; m = of_char d :: nat in n = 0xC2 \<and> 0x80 \<le> m \<and> m < 0xA0)"
| "is_control _ = False"

text \<open>
  \<open>char::is_whitespace\<close> (property White_Space): U+0009 to U+000D, U+0020, U+0085,
  U+00A0, U+1680, U+2000 to U+200A, U+2028, U+2029, U+202F, U+205F and U+3000.
\<close>

definition is_whitespace :: "string \<Rightarrow> bool" where
  "is_whitespace ch = (case map (of_char :: char \<Rightarrow> nat) ch of
      [a] \<Rightarrow> 9 \<le> a \<and> a \<le> 13 \<or> a = 0x20
    | [a, b] \<Rightarrow> a = 0xC2 \<and> (b = 0x85 \<or> b = 0xA0)
    | [a, b, c] \<Rightarrow> a = 0xE1 \<and> b = 0x9A \<and> c = 0x80
        \<or> a = 0xE2 \<and> b = 0x80 \<and> (0x80 \<le> c \<and> c \<le> 0x8A \<or> c = 0xA8 \<or> c = 0xA9 \<or> c = 0xAF)
        \<or> a = 0xE2 \<and> b = 0x81 \<and> c = 0x9F
        \<or> a = 0xE3 \<and> b = 0x80 \<and> c = 0x80
    | _ \<Rightarrow> False)"

definition is_ascii_alphanumeric :: "string \<Rightarrow> bool" where
  "is_ascii_alphanumeric ch = (case map (of_char :: char \<Rightarrow> nat) ch of
      [a] \<Rightarrow> 0x30 \<le> a \<and> a \<le> 0x39 \<or> 0x41 \<le> a \<and> a \<le> 0x5A \<or> 0x61 \<le> a \<and> a \<le> 0x7A
    | _ \<Rightarrow> False)"

text \<open>\<open>trim\<close>: white space characters dropped at both ends.\<close>

definition trim :: "string \<Rightarrow> string" where
  "trim s = concat (rev (dropWhile is_whitespace (rev (dropWhile is_whitespace (utf8_chars s)))))"

definition to_ascii_lowercase :: "string \<Rightarrow> string" where
  "to_ascii_lowercase s = map (\<lambda>c. let n = of_char c :: nat
     in if 0x41 \<le> n \<and> n \<le> 0x5A then char_of (n + 32) else c) s"

lemma trim_Nil [simp]: "trim [] = []"
  by (simp add: trim_def)

lemma length_trim: "length (trim s) \<le> length s"
proof -
  have le: "length (concat (dropWhile P xs)) \<le> length (concat xs)" for P and xs :: "string list"
    by (induction xs) auto
  have rv: "length (concat (rev xs)) = length (concat xs)" for xs :: "string list"
    by (induction xs) auto
  show ?thesis
    unfolding trim_def
    by (metis concat_utf8_chars le order_trans rv)
qed

text \<open>\<open>str::from_utf8\<close>: well-formed UTF-8, overlong forms and surrogates excluded.\<close>

fun valid_utf8 :: "nat list \<Rightarrow> bool" where
  "valid_utf8 [] = True"
| "valid_utf8 (a # s) =
     (if a < 0x80 then valid_utf8 s
      else case s of
        [] \<Rightarrow> False
      | b # s1 \<Rightarrow>
          if 0xC2 \<le> a \<and> a \<le> 0xDF then 0x80 \<le> b \<and> b \<le> 0xBF \<and> valid_utf8 s1
          else case s1 of
            [] \<Rightarrow> False
          | c # s2 \<Rightarrow>
              if 0xE0 \<le> a \<and> a \<le> 0xEF
              then (if a = 0xE0 then 0xA0 else 0x80) \<le> b \<and> b \<le> (if a = 0xED then 0x9F else 0xBF)
                \<and> 0x80 \<le> c \<and> c \<le> 0xBF \<and> valid_utf8 s2
              else case s2 of
                [] \<Rightarrow> False
              | d # s3 \<Rightarrow>
                  0xF0 \<le> a \<and> a \<le> 0xF4
                  \<and> (if a = 0xF0 then 0x90 else 0x80) \<le> b \<and> b \<le> (if a = 0xF4 then 0x8F else 0xBF)
                  \<and> 0x80 \<le> c \<and> c \<le> 0xBF \<and> 0x80 \<le> d \<and> d \<le> 0xBF \<and> valid_utf8 s3)"

definition from_utf8 :: "bytes \<Rightarrow> string option" where
  "from_utf8 bs = (if valid_utf8 (map of_char bs) then Some bs else None)"

section \<open>Printing numbers\<close>

fun show_nat :: "nat \<Rightarrow> string" where
  "show_nat n = (if n < 10 then [char_of (0x30 + n)]
     else show_nat (n div 10) @ [char_of (0x30 + n mod 10)])"

declare show_nat.simps [simp del]

definition show_int :: "int \<Rightarrow> string" where
  "show_int i = (if i < 0 then ''-'' @ show_nat (nat (- i)) else show_nat (nat i))"

text \<open>A value between single quotes, as the messages print names.\<close>

definition quoted :: "string \<Rightarrow> string" where
  "quoted s = CHR 0x27 # s @ [CHR 0x27]"

section \<open>The order of strings and prefixes\<close>

lemma append_less_append_iff: "p @ x < p @ y \<longleftrightarrow> x < (y :: string)"
  by (induction p) auto

lemma append_le_append_iff: "p @ x \<le> p @ y \<longleftrightarrow> x \<le> (y :: string)"
  by (induction p) auto

lemma prefix_le: "prefix p s \<Longrightarrow> p \<le> (s :: string)"
  using append_le_append_iff [of p "[]"] by (auto elim!: prefixE)

text \<open>The strings that start with \<open>p\<close> are an interval that begins at \<open>p\<close>.\<close>

lemma prefix_interval:
  "p \<le> k \<Longrightarrow> k \<le> k' \<Longrightarrow> prefix p k' \<Longrightarrow> prefix p (k :: string)"
proof (induction p arbitrary: k k')
  case Nil
  then show ?case by simp
next
  case (Cons c p)
  from Cons.prems(3) obtain t' where k': "k' = c # t'" and pt': "prefix p t'"
    by (cases k') auto
  from Cons.prems(1) obtain d t where k: "k = d # t"
    by (cases k) auto
  with Cons.prems k' have "d = c" "p \<le> t" "t \<le> t'"
    by auto
  with Cons.IH pt' k show ?case by simp
qed

end
