(* ===== verification/Sync_Config.thy ===== *)
theory Sync_Config
  imports Rust_Str
begin

text \<open>
  The data of the server (\<^verbatim>\<open>src/src/config.rs\<close>): one record per struct, in its order. A
  field carries a short prefix for its struct (\<open>tok_\<close> for \<open>ApiToken\<close>, and so on),
  because the selectors of HOL records are global names. Counters of type \<open>u64\<close> are
  64-bit words; an \<open>i64\<close> is an \<open>int\<close> that the code clamps. The \<open>json\<close> type
  is \<open>serde_json::Value\<close>; a number that is not an integer is kept as its text.
\<close>

datatype json =
    JNull
  | JBool bool
  | JNum int
  | JFloat string
  | JStr string
  | JArr "json list"
  | JObj "(string \<times> json) list"

definition json_opt_str :: "string option \<Rightarrow> json" where
  "json_opt_str x = (case x of None \<Rightarrow> JNull | Some s \<Rightarrow> JStr s)"

definition json_u64 :: "u64 \<Rightarrow> json" where
  "json_u64 n = JNum (uint n)"

text \<open>The keys of an object, in order.\<close>

fun json_keys :: "json \<Rightarrow> string list" where
  "json_keys (JObj fs) = map fst fs"
| "json_keys _ = []"

record section_revisions =
  sr_connections :: "string option"
  sr_forwards :: "string option"
  sr_app_settings :: "(string \<times> json) list option"
  sr_plugin_settings :: "(string \<times> json) list option"

record sync_metadata =
  meta_exists :: bool
  meta_format :: "string option"
  meta_revision :: "string option"
  meta_etag :: "string option"
  meta_content_hash :: "string option"
  meta_uploaded_at :: "string option"
  meta_device_id :: "string option"
  meta_content_length :: u64
  meta_section_revisions :: "section_revisions option"
  meta_sections :: "json option"
  meta_content_type :: "string option"
  meta_scope :: "json option"

definition empty_metadata :: sync_metadata where
  "empty_metadata = \<lparr>meta_exists = False, meta_format = None, meta_revision = None,
     meta_etag = None, meta_content_hash = None, meta_uploaded_at = None, meta_device_id = None,
     meta_content_length = 0, meta_section_revisions = None, meta_sections = None,
     meta_content_type = None, meta_scope = None\<rparr>"

record error_detail =
  ed_code :: string
  ed_message :: string
  ed_remote_revision :: "string option"
  ed_remote_etag :: "string option"

record write_response =
  wr_ok :: bool
  wr_revision :: "string option"
  wr_etag :: "string option"
  wr_section_revisions :: "section_revisions option"
  wr_error :: "error_detail option"

record object_write_response =
  owr_etag :: "string option"

record stored_object_metadata =
  om_etag :: string
  om_updated_at :: string

record metadata_write_request =
  mw_format :: "string option"
  mw_revision :: string
  mw_uploaded_at :: "string option"
  mw_device_id :: "string option"
  mw_content_type :: "string option"
  mw_scope :: "json option"
  mw_sections :: "json option"
  mw_section_revisions :: "section_revisions option"

record namespace_info =
  ni_namespace :: string
  ni_revision :: "string option"
  ni_uploaded_at :: "string option"
  ni_device_id :: "string option"
  ni_blob_size :: u64
  ni_object_count :: u64
  ni_object_bytes :: u64
  ni_total_bytes :: u64
  ni_growth_bytes :: int
  ni_last_write_at :: "string option"
  ni_storage_observed_at :: "string option"
  ni_deleted_bytes :: u64
  ni_format :: "string option"
  ni_deleted_at :: "string option"

record api_token =
  tok_id :: string
  tok_name :: string
  tok_token_hash :: string
  tok_encrypted_token :: "string option"
  tok_namespace_pattern :: string
  tok_permissions :: "string list"
  tok_created_at :: string
  tok_enabled :: bool
  tok_expires_at :: "string option"
  tok_rotated_at :: "string option"
  tok_disabled_at :: "string option"
  tok_last_used_at :: "string option"
  tok_device_id :: "string option"
  tok_read_count :: u64
  tok_write_count :: u64
  tok_failed_count :: u64
  tok_last_namespace :: "string option"
  tok_last_permission :: "string option"
  tok_last_client_ip :: "string option"
  tok_last_client_version :: "string option"

record device_record =
  dev_id :: string
  dev_name :: string
  dev_namespace_pattern :: "string option"
  dev_token_id :: "string option"
  dev_enabled :: bool
  dev_created_at :: string
  dev_updated_at :: string
  dev_last_seen_at :: "string option"
  dev_last_client_ip :: "string option"
  dev_last_client_version :: "string option"
  dev_notes :: "string option"

record metadata_retention_config =
  store_revision :: bool
  store_uploaded_at :: bool
  store_device_id :: bool
  store_content_hash :: bool

record login_attempt_record =
  la_first_failure_at :: string
  la_failures :: u32
  la_blocked_until :: "string option"

record deleted_namespace_record =
  dn_deleted_at :: string

record sync_conflict_record =
  sc_id :: string
  sc_occurred_at :: string
  sc_namespace :: string
  sc_operation :: string
  sc_object_path :: "string option"
  sc_device_id :: "string option"
  sc_requested_revision :: "string option"
  sc_requested_etag :: "string option"
  sc_remote_revision :: "string option"
  sc_remote_etag :: "string option"
  sc_message :: string

record namespace_usage_record =
  us_namespace :: string
  us_observed_at :: string
  us_blob_bytes :: u64
  us_object_count :: u64
  us_object_bytes :: u64
  us_total_bytes :: u64
  us_growth_bytes :: int
  us_soft_deleted :: bool

record admin_user_record =
  usr_username :: string
  usr_password_hash :: string
  usr_role :: string
  usr_session_version :: u64
  usr_enabled :: bool
  usr_created_at :: string
  usr_updated_at :: string
  usr_last_login_at :: "string option"
  usr_last_login_ip :: "string option"
  usr_failed_login_count :: u64
  usr_last_failed_login_at :: "string option"
  usr_password_updated_at :: "string option"
  usr_disabled_at :: "string option"

text \<open>The claims of an administrator session, a \<open>usize\<close> being 64 bits wide (\<open>AdminClaims\<close> of \<^verbatim>\<open>src/src/auth.rs\<close>).\<close>

record admin_claims =
  cl_sub :: string
  cl_exp :: u64
  cl_iat :: u64
  cl_ver :: u64

end
