(* ===== verification/Sync_Error.thy ===== *)
theory Sync_Error
  imports Sync_Config
begin

text \<open>
  The errors of the server (\<^verbatim>\<open>src/src/error.rs\<close>) and of the database layer
  (\<^verbatim>\<open>src/src/db.rs\<close>), and the HTTP response an error becomes. An error of the redb
  crate is either a fault of the store, known by its text, or a value that does not decode,
  which the code wraps as an I/O error.
\<close>

datatype redb_error =
    Store_Fault string
  | Invalid_Data string

text \<open>The text of an error; redb prefixes a wrapped I/O error.\<close>

fun redb_text :: "redb_error \<Rightarrow> string" where
  "redb_text (Store_Fault m) = m"
| "redb_text (Invalid_Data m) = ''I/O error: '' @ m"

datatype conditional_write_error =
    Cond_Conflict (cond_remote_revision: "string option") (cond_remote_etag: "string option")
      (cond_message: string)
  | Cond_Storage string
  | Cond_Serialization string

text \<open>The \<open>From\<close> conversions of the question mark operator.\<close>

definition cond_of_redb :: "redb_error \<Rightarrow> conditional_write_error" where
  "cond_of_redb e = Cond_Storage (redb_text e)"

datatype app_error =
    Bad_Request string
  | Unauthorized string
  | Forbidden string
  | Not_Found string
  | Conflict (conflict_code: string) (conflict_message: string)
      (conflict_remote_revision: "string option") (conflict_remote_etag: "string option")
  | Payload_Too_Large string
  | Insufficient_Storage string
  | Too_Many_Requests string
  | Internal string

definition app_of_redb :: "redb_error \<Rightarrow> app_error" where
  "app_of_redb e = Internal (''Database error: '' @ redb_text e)"

definition app_of_serde :: "string \<Rightarrow> app_error" where
  "app_of_serde m = Bad_Request (''JSON error: '' @ m)"

definition error_body :: "string \<Rightarrow> string \<Rightarrow> json" where
  "error_body code msg = JObj [(''error'', JObj [(''code'', JStr code), (''message'', JStr msg)])]"

text \<open>\<open>IntoResponse for AppError\<close>: the status and the JSON body.\<close>

fun into_response :: "app_error \<Rightarrow> nat \<times> json" where
  "into_response (Bad_Request msg) = (400, error_body ''bad_request'' msg)"
| "into_response (Unauthorized msg) = (401, error_body ''unauthorized'' msg)"
| "into_response (Forbidden msg) = (403, error_body ''forbidden'' msg)"
| "into_response (Not_Found msg) = (404, error_body ''not_found'' msg)"
| "into_response (Conflict code msg rrev retag) =
     (412, JObj [(''ok'', JBool False),
       (''error'', JObj [(''code'', JStr code), (''message'', JStr msg),
          (''remoteRevision'', json_opt_str rrev), (''remoteEtag'', json_opt_str retag)])])"
| "into_response (Payload_Too_Large msg) = (413, error_body ''payload_too_large'' msg)"
| "into_response (Insufficient_Storage msg) = (507, error_body ''insufficient_storage'' msg)"
| "into_response (Too_Many_Requests msg) = (429, error_body ''too_many_requests'' msg)"
| "into_response (Internal msg) = (500, error_body ''internal_error'' ''Internal server error'')"

fun map_conditional_write_error :: "conditional_write_error \<Rightarrow> app_error" where
  "map_conditional_write_error (Cond_Conflict rrev retag msg) =
     Conflict ''etag_conflict_detected'' msg rrev retag"
| "map_conditional_write_error (Cond_Storage m) = Internal (''Database error: '' @ m)"
| "map_conditional_write_error (Cond_Serialization m) = Internal (''Serialization error: '' @ m)"

lemma into_response_status:
  "fst (into_response e) \<in> {400, 401, 403, 404, 412, 413, 429, 500, 507}"
  by (cases e) simp_all

lemma map_conditional_write_error_412:
  "fst (into_response (map_conditional_write_error e)) = 412 \<longleftrightarrow>
     (\<exists>r t m. e = Cond_Conflict r t m)"
  by (cases e) simp_all

end
