(* ===== verification/Redb_Table.thy ===== *)
theory Redb_Table
  imports Rust_Str
begin

text \<open>
  A table of the redb key-value store: a finite map whose entries are iterated in the
  order of the keys. The server relies on exactly this much of the store: what a read
  returns after an insert or a removal, and that \<open>iter\<close> and \<open>range\<close> walk the
  entries in strictly ascending key order. These laws are the interface
  \<open>ordered_table\<close>; every lemma about scans is proved from them once. The tables of the
  model are the type \<open>table\<close> of sorted association lists, which carries its invariant
  and has one value for each content, and it provides the interface.
\<close>

section \<open>The interface\<close>

locale ordered_table =
  fixes empty :: "'t"
    and get :: "'t \<Rightarrow> 'k::linorder \<Rightarrow> 'v option"
    and put :: "'k \<Rightarrow> 'v \<Rightarrow> 't \<Rightarrow> 't"
    and del :: "'k \<Rightarrow> 't \<Rightarrow> 't"
    and items :: "'t \<Rightarrow> ('k \<times> 'v) list"
  assumes get_empty: "get empty k = None"
    and get_put: "get (put k v t) k' = (if k' = k then Some v else get t k')"
    and get_del: "get (del k t) k' = (if k' = k then None else get t k')"
    and items_sorted: "sorted_wrt (<) (map fst (items t))"
    and items_get: "(k, v) \<in> set (items t) \<longleftrightarrow> get t k = Some v"
    and table_ext: "(\<And>k. get t k = get u k) \<Longrightarrow> t = u"
begin

lemma keys_distinct: "distinct (map fst (items t))"
  using items_sorted [of t] by (rule strict_sorted_iff [THEN iffD1, THEN conjunct2])

lemma keys_get: "k \<in> set (map fst (items t)) \<longleftrightarrow> get t k \<noteq> None"
  using items_get by force

lemma items_empty: "items empty = []"
  using items_get [of _ _ empty] get_empty by (cases "items empty") auto

lemma items_cong:
  assumes "\<And>k. get t k = get u k"
  shows "items t = items u"
  using table_ext [OF assms] by simp

lemma get_put_same: "get (put k v t) k = Some v"
  by (simp add: get_put)

lemma get_put_other: "k' \<noteq> k \<Longrightarrow> get (put k v t) k' = get t k'"
  by (simp add: get_put)

lemma put_idem: "get t k = Some v \<Longrightarrow> put k v t = t"
  by (rule table_ext) (simp add: get_put)

lemma del_put: "del k (put k v t) = del k t"
  by (rule table_ext) (simp add: get_put get_del)

lemma del_absent: "get t k = None \<Longrightarrow> del k t = t"
  by (rule table_ext) (simp add: get_del)

lemma sorted_keys_filter: "sorted_wrt (<) (map fst (filter P (items t)))"
  using items_sorted [of t] by (simp add: sorted_wrt_map sorted_wrt_filter)

lemma sorted_set_unique:
  fixes xs ys :: "('k \<times> 'v) list"
  assumes x: "sorted_wrt (<) (map fst xs)" and y: "sorted_wrt (<) (map fst ys)"
    and s: "set xs = set ys"
  shows "xs = ys"
proof (rule map_inj_on)
  show "map fst xs = map fst ys"
    using y x by (rule strict_sorted_equal) (simp add: s)
  show "inj_on fst (set xs \<union> set ys)"
    using x s by (simp add: strict_sorted_iff distinct_map)
qed

lemma items_del: "items (del k t) = filter (\<lambda>e. fst e \<noteq> k) (items t)"
  by (rule sorted_set_unique [OF items_sorted sorted_keys_filter])
    (auto simp: items_get get_del split: if_splits)

lemma set_items_put:
  "set (items (put k v t)) = insert (k, v) {e \<in> set (items t). fst e \<noteq> k}"
  by (auto simp: items_get get_put split: if_splits)

lemma length_items_put:
  "length (items (put k v t)) = (if get t k = None then Suc (length (items t)) else length (items t))"
proof -
  have card: "length (items u) = card {j. get u j \<noteq> None}" for u
  proof -
    have "{j. get u j \<noteq> None} = set (map fst (items u))"
      using keys_get by blast
    then show ?thesis
      using distinct_card [OF keys_distinct [of u]] by simp
  qed
  have fin: "finite {j. get t j \<noteq> None}"
    using keys_get [of _ t] by (metis (mono_tags) Collect_cong List.finite_set Collect_mem_eq)
  have "{j. get (put k v t) j \<noteq> None} = insert k {j. get t j \<noteq> None}"
    by (auto simp: get_put)
  then show ?thesis
    using fin by (auto simp: card insert_absorb)
qed

text \<open>Removing the keys of an initial part of the walk leaves the rest of it.\<close>

lemma items_del_all: "items (fold del ks t) = filter (\<lambda>e. fst e \<notin> set ks) (items t)"
  by (induction ks arbitrary: t) (auto simp: items_del intro: filter_cong)

lemma items_del_first: "items (fold del (take n (map fst (items t))) t) = drop n (items t)"
proof -
  have dist: "distinct (map fst (take n (items t)) @ map fst (drop n (items t)))"
    using keys_distinct [of t] by (simp flip: map_append)
  have "filter (\<lambda>e. fst e \<notin> fst ` set (take n (items t))) (take n (items t)) = []"
    by (auto simp: filter_empty_conv)
  moreover have "filter (\<lambda>e. fst e \<notin> fst ` set (take n (items t))) (drop n (items t)) = drop n (items t)"
    using dist by (auto simp: filter_id_conv)
  ultimately have "filter (\<lambda>e. fst e \<notin> fst ` set (take n (items t)))
      (take n (items t) @ drop n (items t)) = drop n (items t)"
    by (simp only: filter_append append_Nil)
  then show ?thesis
    by (simp add: items_del_all take_map)
qed

lemma get_del_all: "get (fold del ks t) k = (if k \<in> set ks then None else get t k)"
  by (induction ks arbitrary: t) (auto simp: get_del)

end

section \<open>Scans of string tables\<close>

text \<open>
  \<open>range(lo..)\<close> and \<open>range((Excluded(lo), Unbounded))\<close>: the part of the walk from a
  key on. A scan of a prefix starts at the prefix, or after a cursor that has it, and
  stops at the first key without it.
\<close>

definition range_from :: "string \<Rightarrow> (string \<times> 'v) list \<Rightarrow> (string \<times> 'v) list" where
  "range_from lo es = filter (\<lambda>e. lo \<le> fst e) es"

definition range_after :: "string \<Rightarrow> (string \<times> 'v) list \<Rightarrow> (string \<times> 'v) list" where
  "range_after lo es = filter (\<lambda>e. lo < fst e) es"

lemma takeWhile_take: "takeWhile P (take n xs) = take n (takeWhile P xs)"
  by (induction xs arbitrary: n) (auto simp: take_Cons split: nat.splits)

lemma takeWhile_eq_filter_sorted:
  assumes "sorted_wrt (<) (map fst es)"
    and "\<And>e e'. e \<in> set es \<Longrightarrow> e' \<in> set es \<Longrightarrow> fst e < fst e' \<Longrightarrow> P e' \<Longrightarrow> P e"
  shows "takeWhile P es = filter P es"
  using assms
proof (induction es)
  case Nil
  then show ?case by simp
next
  case (Cons e es)
  show ?case
  proof (cases "P e")
    case True
    have "takeWhile P es = filter P es"
    proof (rule Cons.IH)
      show "sorted_wrt (<) (map fst es)"
        using Cons.prems(1) by simp
      show "P a" if "a \<in> set es" "b \<in> set es" "fst a < fst b" "P b" for a b
        using Cons.prems(2) [of a b] that by simp
    qed
    with True show ?thesis by simp
  next
    case False
    with Cons.prems have "\<not> P e'" if "e' \<in> set es" for e'
      using that by fastforce
    with False show ?thesis by (simp add: filter_False)
  qed
qed

locale string_table = ordered_table empty get put del items
  for empty :: "'t"
    and get :: "'t \<Rightarrow> string \<Rightarrow> 'v option"
    and put :: "string \<Rightarrow> 'v \<Rightarrow> 't \<Rightarrow> 't"
    and del :: "string \<Rightarrow> 't \<Rightarrow> 't"
    and items :: "'t \<Rightarrow> (string \<times> 'v) list"
begin

lemma prefix_scan:
  "takeWhile (\<lambda>e. starts_with (fst e) p) (range_from p (items t))
     = filter (\<lambda>e. starts_with (fst e) p) (items t)"
proof -
  have "takeWhile (\<lambda>e. starts_with (fst e) p) (range_from p (items t))
      = filter (\<lambda>e. starts_with (fst e) p) (range_from p (items t))"
    by (rule takeWhile_eq_filter_sorted)
      (auto simp: range_from_def sorted_keys_filter starts_with_def
        dest: prefix_interval less_imp_le)
  also have "\<dots> = filter (\<lambda>e. starts_with (fst e) p) (items t)"
    unfolding range_from_def filter_filter
    by (rule filter_cong) (auto simp: starts_with_def dest: prefix_le)
  finally show ?thesis .
qed

lemma prefix_scan_after:
  assumes "starts_with c p"
  shows "takeWhile (\<lambda>e. starts_with (fst e) p) (range_after c (items t))
     = filter (\<lambda>e. starts_with (fst e) p \<and> c < fst e) (items t)"
proof -
  have pc: "p \<le> c"
    using assms by (simp add: starts_with_def prefix_le)
  have "takeWhile (\<lambda>e. starts_with (fst e) p) (range_after c (items t))
      = filter (\<lambda>e. starts_with (fst e) p) (range_after c (items t))"
  proof (rule takeWhile_eq_filter_sorted)
    fix e e' :: "string \<times> 'v"
    assume "e \<in> set (range_after c (items t))" "fst e < fst e'" "starts_with (fst e') p"
    then show "starts_with (fst e) p"
      unfolding starts_with_def range_after_def
      by (intro prefix_interval [of p "fst e" "fst e'"]) (use pc in auto)
  qed (simp add: range_after_def sorted_keys_filter)
  then show ?thesis
    by (simp add: range_after_def conj_commute)
qed

end

section \<open>The tables of the model\<close>

fun ins_entry :: "string \<Rightarrow> 'v \<Rightarrow> (string \<times> 'v) list \<Rightarrow> (string \<times> 'v) list" where
  "ins_entry k v [] = [(k, v)]"
| "ins_entry k v ((j, u) # es) =
     (if j < k then (j, u) # ins_entry k v es
      else if j = k then (k, v) # es
      else (k, v) # (j, u) # es)"

lemma set_ins_entry:
  "sorted_wrt (<) (map fst es) \<Longrightarrow>
     set (ins_entry k v es) = insert (k, v) {e \<in> set es. fst e \<noteq> k}"
proof (induction es)
  case Nil
  then show ?case by simp
next
  case (Cons e es)
  then show ?case
    by (cases e, cases "fst e" k rule: linorder_cases) auto
qed

lemma ins_entry_sorted:
  "sorted_wrt (<) (map fst es) \<Longrightarrow> sorted_wrt (<) (map fst (ins_entry k v es))"
proof (induction es)
  case Nil
  then show ?case by simp
next
  case (Cons e es)
  then show ?case
    by (cases e, cases "fst e" k rule: linorder_cases) (auto simp: set_ins_entry)
qed

lemma map_of_filter_key:
  "map_of (filter (\<lambda>e. fst e \<noteq> k) es) j = (if j = k then None else map_of es j)"
  by (induction es) auto

lemma map_of_ins_entry:
  "map_of (ins_entry k v es) j = (if j = k then Some v else map_of es j)"
  by (induction es) auto

typedef 'v table = "{es :: (string \<times> 'v) list. sorted_wrt (<) (map fst es)}"
  morphisms titems Table
  by (rule exI [of _ "[]"]) simp

setup_lifting type_definition_table

lemma titems_code [code abstype]: "Table (titems t) = t"
  by (rule titems_inverse)

lift_definition tempty :: "'v table" is "[]"
  by simp

lift_definition tget :: "'v table \<Rightarrow> string \<Rightarrow> 'v option" is map_of .

lift_definition tput :: "string \<Rightarrow> 'v \<Rightarrow> 'v table \<Rightarrow> 'v table" is ins_entry
  by (rule ins_entry_sorted)

lift_definition tdel :: "string \<Rightarrow> 'v table \<Rightarrow> 'v table" is "\<lambda>k. filter (\<lambda>e. fst e \<noteq> k)"
  by (simp add: sorted_wrt_map sorted_wrt_filter)

lemma titems_sorted: "sorted_wrt (<) (map fst (titems t))"
  using titems [of t] by simp

lemma titems_get: "(k, v) \<in> set (titems t) \<longleftrightarrow> tget t k = Some v"
  by transfer (simp add: strict_sorted_iff)

lemma tget_ext:
  assumes "\<And>k. tget t k = tget u k"
  shows "t = u"
proof -
  have "set (titems t) = set (titems u)"
    using assms by (auto simp: titems_get)
  moreover have "sorted_wrt (<) (map fst (titems t))" "sorted_wrt (<) (map fst (titems u))"
    by (rule titems_sorted)+
  ultimately have "titems t = titems u"
    by (metis list.set_map map_inj_on strict_sorted_equal strict_sorted_iff distinct_map sup.idem)
  then show ?thesis
    by (simp add: titems_inject)
qed

interpretation tbl: string_table tempty tget tput tdel titems
proof
  fix k k' :: string and v :: 'a and t u :: "'a table"
  show "tget tempty k = None"
    by transfer simp
  show "tget (tput k v t) k' = (if k' = k then Some v else tget t k')"
    by transfer (simp add: map_of_ins_entry)
  show "tget (tdel k t) k' = (if k' = k then None else tget t k')"
    by transfer (simp add: map_of_filter_key)
  show "sorted_wrt (<) (map fst (titems t))"
    by (rule titems_sorted)
  show "((k, v) \<in> set (titems t)) = (tget t k = Some v)"
    by (rule titems_get)
  show "(\<And>k. tget t k = tget u k) \<Longrightarrow> t = u"
    by (rule tget_ext)
qed

text \<open>A table is compared by its rows, and its size is their number.\<close>

instantiation table :: (equal) equal
begin

definition equal_table :: "'a table \<Rightarrow> 'a table \<Rightarrow> bool" where
  "equal_table t u \<longleftrightarrow> titems t = titems u"

instance
  by standard (simp add: equal_table_def titems_inject)

end

instantiation table :: (type) size
begin

definition size_table :: "'a table \<Rightarrow> nat" where
  "size_table t = length (titems t)"

instance ..

end

lemmas tget_simps [simp] = tbl.get_empty tbl.get_put tbl.get_del tbl.items_empty tbl.del_put

end
