(* ===== verification/Sync_Env.thy ===== *)
theory Sync_Env
  imports Sync_Error Redb_Table
begin

text \<open>
  What the server runs on. The database is the record of its twelve redb tables; the world
  is the database and a counter that numbers the uses of the outside (clock, random
  numbers, faults), so that every use can give a new value. Third-party code is the record
  \<open>ext\<close> of parameters: clocks and random sources, the fault source of the store, the
  ciphers, hashes and encodings of the crates, and a JSON codec for each stored struct.
  What the server relies on them for is stated as predicates on the record
  (\<open>codecs_ok\<close>, \<open>time_ok\<close>, \<open>aead_ok\<close>), which are hypotheses of the
  properties that need them.
\<close>

section \<open>The database\<close>

text \<open>
  Tables of JSON documents hold values of an opaque type \<open>'j\<close>, the serialized
  documents; blob and object tables hold bytes.
\<close>

record 'j db =
  metadata_table :: "'j table"
  blob_table :: "bytes table"
  object_table :: "bytes table"
  object_meta_table :: "'j table"
  token_table :: "'j table"
  token_hash_table :: "string table"
  login_attempt_table :: "'j table"
  deleted_namespace_table :: "'j table"
  device_table :: "'j table"
  sync_conflict_table :: "'j table"
  namespace_usage_table :: "'j table"
  admin_user_table :: "'j table"

text \<open>\<open>Database::open\<close> on a new file: every table exists and is empty.\<close>

definition open_db :: "'j db" where
  "open_db = \<lparr>metadata_table = tempty, blob_table = tempty, object_table = tempty,
     object_meta_table = tempty, token_table = tempty, token_hash_table = tempty,
     login_attempt_table = tempty, deleted_namespace_table = tempty, device_table = tempty,
     sync_conflict_table = tempty, namespace_usage_table = tempty, admin_user_table = tempty\<rparr>"

record 'j world =
  db :: "'j db"
  tick :: nat

section \<open>Third-party code\<close>

record ('a, 'j) codec =
  to_vec :: "'a \<Rightarrow> string + 'j"
  from_slice :: "'j \<Rightarrow> string + 'a"

definition codec_ok :: "('a, 'j) codec \<Rightarrow> bool" where
  "codec_ok c \<longleftrightarrow> (\<forall>x. \<exists>v. to_vec c x = Inr v \<and> from_slice c v = Inr x)"

lemma codec_okE:
  assumes "codec_ok c"
  obtains v where "to_vec c x = Inr v" "from_slice c v = Inr x"
  using assms by (auto simp: codec_ok_def)

lemma codec_ok_decode: "codec_ok c \<Longrightarrow> to_vec c x = Inr v \<Longrightarrow> from_slice c v = Inr x"
  by (metis codec_ok_def sum.inject(2))

text \<open>
  Times are nanoseconds since the epoch. A source indexed by a number gives its value at
  that use of the outside; \<open>statvfs\<close> gives the available blocks and the fragment size of the
  file system that holds the database.
\<close>

record 'j ext =
  clock :: "nat \<Rightarrow> int"
  uuid_v4 :: "nat \<Rightarrow> string"
  rng_nonce :: "nat \<Rightarrow> bytes"
  store_fault :: "nat \<Rightarrow> string option"
  statvfs :: "nat \<Rightarrow> (u64 \<times> u64) option"
  parse_rfc3339 :: "string \<Rightarrow> int option"
  to_rfc3339 :: "int \<Rightarrow> string"
  url_decode :: "string \<Rightarrow> string option"
  parse_ip :: "string \<Rightarrow> string option"
  unicode_alphanumeric :: "string \<Rightarrow> bool"
  sha256 :: "bytes \<Rightarrow> bytes"
  hex_encode :: "bytes \<Rightarrow> string"
  hex_decode :: "string \<Rightarrow> string + bytes"
  base64_encode :: "bytes \<Rightarrow> string"
  base64_decode :: "string \<Rightarrow> string + bytes"
  aead_encrypt :: "bytes \<Rightarrow> bytes \<Rightarrow> bytes \<Rightarrow> string + bytes"
  aead_decrypt :: "bytes \<Rightarrow> bytes \<Rightarrow> bytes \<Rightarrow> string + bytes"
  bcrypt_hash :: "nat \<Rightarrow> string \<Rightarrow> string + string"
  bcrypt_verify :: "string \<Rightarrow> string \<Rightarrow> string + bool"
  jwt_encode :: "string \<Rightarrow> admin_claims \<Rightarrow> string + string"
  jwt_decode :: "int \<Rightarrow> string \<Rightarrow> string \<Rightarrow> string + admin_claims"
  parse_section_revisions :: "string \<Rightarrow> section_revisions option"
  c_metadata :: "(sync_metadata, 'j) codec"
  c_object_meta :: "(stored_object_metadata, 'j) codec"
  c_token :: "(api_token, 'j) codec"
  c_device :: "(device_record, 'j) codec"
  c_login :: "(login_attempt_record, 'j) codec"
  c_deleted :: "(deleted_namespace_record, 'j) codec"
  c_conflict :: "(sync_conflict_record, 'j) codec"
  c_usage :: "(namespace_usage_record, 'j) codec"
  c_user :: "(admin_user_record, 'j) codec"

text \<open>Serialization of the stored structs succeeds and is read back as written.\<close>

definition codecs_ok :: "'j ext \<Rightarrow> bool" where
  "codecs_ok E \<longleftrightarrow> codec_ok (c_metadata E) \<and> codec_ok (c_object_meta E) \<and> codec_ok (c_token E)
     \<and> codec_ok (c_device E) \<and> codec_ok (c_login E) \<and> codec_ok (c_deleted E)
     \<and> codec_ok (c_conflict E) \<and> codec_ok (c_usage E) \<and> codec_ok (c_user E)"

lemma codecs_okD:
  assumes "codecs_ok E"
  shows "codec_ok (c_metadata E)" "codec_ok (c_object_meta E)" "codec_ok (c_token E)"
    "codec_ok (c_device E)" "codec_ok (c_login E)" "codec_ok (c_deleted E)"
    "codec_ok (c_conflict E)" "codec_ok (c_usage E)" "codec_ok (c_user E)"
  using assms by (simp_all add: codecs_ok_def)

text \<open>A printed time is read back as the same instant, and prints sort as the times do.\<close>

text \<open>
  RFC 3339 has four digits for the year: a time of the years 0 to 9999 (in nanoseconds since
  1970) is printed without loss and parsed back.
\<close>

definition printable_time :: "int \<Rightarrow> bool" where
  "printable_time t \<longleftrightarrow> - 62167219200000000000 \<le> t \<and> t < 253402300800000000000"

definition time_ok :: "'j ext \<Rightarrow> bool" where
  "time_ok E \<longleftrightarrow> (\<forall>t. printable_time t \<longrightarrow> parse_rfc3339 E (to_rfc3339 E t) = Some t)"

definition time_order_ok :: "'j ext \<Rightarrow> bool" where
  "time_order_ok E \<longleftrightarrow> (\<forall>s t. s < t \<longrightarrow> to_rfc3339 E s < to_rfc3339 E t)"

text \<open>
  ChaCha20-Poly1305: encryption under a 12-byte nonce succeeds, adds the 16-byte tag, and is
  undone by decryption under the same key and nonce.
\<close>

definition aead_ok :: "'j ext \<Rightarrow> bool" where
  "aead_ok E \<longleftrightarrow> (\<forall>i. length (rng_nonce E i) = 12) \<and>
     (\<forall>k n m. \<exists>c. aead_encrypt E k n m = Inr c \<and> length c = length m + 16
        \<and> aead_decrypt E k n c = Inr m)"

text \<open>
  \<open>jsonwebtoken\<close>: encoding succeeds, a token is text of base64url characters and
  dots, and until it expires it is decoded under its own secret to the claims it carries.
\<close>

definition jwt_char :: "char \<Rightarrow> bool" where
  "jwt_char c \<longleftrightarrow> is_ascii_alphanumeric [c] \<or> c = CHR ''-'' \<or> c = CHR ''_'' \<or> c = CHR ''.''"

definition jwt_ok :: "'j ext \<Rightarrow> bool" where
  "jwt_ok E \<longleftrightarrow> (\<forall>secret claims. \<exists>token. jwt_encode E secret claims = Inr token
     \<and> token \<noteq> [] \<and> list_all jwt_char token
     \<and> (\<forall>now. now div 1000000000 \<le> uint (cl_exp claims) \<longrightarrow> jwt_decode E now token secret = Inr claims))"

text \<open>A store without faults.\<close>

definition no_faults :: "'j ext \<Rightarrow> bool" where
  "no_faults E \<longleftrightarrow> (\<forall>i. store_fault E i = None)"

section \<open>The configuration\<close>

text \<open>\<open>AppState\<close> without the database handle; the other fields never change.\<close>

record app_state =
  encryption_key :: "bytes option"
  admin_enabled :: bool
  jwt_secret :: string
  admin_jwt_secret_persistent :: bool
  admin_cookie_secure :: bool
  token_reveal_key :: bytes
  token_reveal_persistent :: bool
  trust_proxy_headers :: bool
  sync_cors_allowed_origins :: "string list"
  max_blob_size :: nat
  max_object_size :: nat
  min_free_disk_bytes :: u64
  login_window_seconds :: int
  login_lockout_seconds :: int
  max_login_failures :: u32
  token_usage_write_interval_seconds :: int
  usage_refresh_interval_seconds :: int
  max_sync_conflict_records :: nat
  default_token_ttl_seconds :: "int option"
  metadata_retention :: metadata_retention_config

section \<open>Uses of the outside\<close>

definition sample :: "(nat \<Rightarrow> 'a) \<Rightarrow> ('e, 'j world, 'a) act" where
  "sample f = (\<lambda>w. (Inr (f (tick w)), w\<lparr>tick := Suc (tick w)\<rparr>))"

definition utc_now :: "'j ext \<Rightarrow> ('e, 'j world, int) act" where
  "utc_now E = sample (clock E)"

definition now_rfc3339 :: "'j ext \<Rightarrow> ('e, 'j world, string) act" where
  "now_rfc3339 E = sample (\<lambda>i. to_rfc3339 E (clock E i))"

definition new_uuid :: "'j ext \<Rightarrow> ('e, 'j world, string) act" where
  "new_uuid E = sample (uuid_v4 E)"

text \<open>\<open>TimeDelta::num_seconds\<close>: whole seconds, rounded towards zero.\<close>

definition num_seconds :: "int \<Rightarrow> int" where
  "num_seconds d = sgn d * (\<bar>d\<bar> div 1000000000)"

text \<open>
  \<open>Duration::seconds\<close>, in nanoseconds. Times are unbounded integers here; chrono panics when
  a duration passes \<open>i64::MAX / 1000\<close> seconds or a sum leaves the years it represents, which
  only an extreme configuration of the lockout or of the default expiry can bring about.
\<close>

definition seconds :: "int \<Rightarrow> int" where
  "seconds s = s * 1000000000"

lemma num_seconds_seconds [simp]: "num_seconds (seconds s) = s"
  by (cases s "0::int" rule: linorder_cases) (simp_all add: num_seconds_def seconds_def abs_mult)

lemma num_seconds_mono: "0 \<le> a \<Longrightarrow> a \<le> b \<Longrightarrow> num_seconds a \<le> num_seconds b"
  by (cases "a = 0"; cases "b = 0") (auto simp: num_seconds_def zdiv_mono1)

text \<open>
  Transactions. A read transaction sees one snapshot of the database. A write transaction
  runs its body on the database and commits the result at once; when the body returns
  early with an error, or the store fails, the transaction is dropped and nothing changes.
  \<open>conv\<close> is the \<open>From\<close> conversion of redb's errors at this use.
\<close>

definition read_txn :: "'j ext \<Rightarrow> (redb_error \<Rightarrow> 'e) \<Rightarrow> ('j db \<Rightarrow> 'e + 'a) \<Rightarrow> ('e, 'j world, 'a) act" where
  "read_txn E conv f = (\<lambda>w. case store_fault E (tick w) of
       Some m \<Rightarrow> (Inl (conv (Store_Fault m)), w\<lparr>tick := Suc (tick w)\<rparr>)
     | None \<Rightarrow> (f (db w), w\<lparr>tick := Suc (tick w)\<rparr>))"

definition write_txn :: "'j ext \<Rightarrow> (redb_error \<Rightarrow> 'e) \<Rightarrow> ('j db \<Rightarrow> 'e + 'a \<times> 'j db) \<Rightarrow> ('e, 'j world, 'a) act" where
  "write_txn E conv f = (\<lambda>w. case store_fault E (tick w) of
       Some m \<Rightarrow> (Inl (conv (Store_Fault m)), w\<lparr>tick := Suc (tick w)\<rparr>)
     | None \<Rightarrow> (case f (db w) of
           Inl e \<Rightarrow> (Inl e, w\<lparr>tick := Suc (tick w)\<rparr>)
         | Inr (x, d) \<Rightarrow> (Inr x, w\<lparr>db := d, tick := Suc (tick w)\<rparr>)))"

lemma sample_ok_iff:
  "sample f w = (Inr x, w') \<longleftrightarrow> x = f (tick w) \<and> w' = w\<lparr>tick := Suc (tick w)\<rparr>"
  by (auto simp: sample_def)

lemma sample_not_err [simp]: "sample f w \<noteq> (Inl e, w')"
  by (simp add: sample_def)

lemma read_txn_ok_iff:
  "read_txn E conv f w = (Inr x, w') \<longleftrightarrow>
     store_fault E (tick w) = None \<and> f (db w) = Inr x \<and> w' = w\<lparr>tick := Suc (tick w)\<rparr>"
  by (auto simp: read_txn_def split: option.splits)

lemma write_txn_ok_iff:
  "write_txn E conv f w = (Inr x, w') \<longleftrightarrow> store_fault E (tick w) = None \<and>
     (\<exists>d. f (db w) = Inr (x, d) \<and> w' = w\<lparr>db := d, tick := Suc (tick w)\<rparr>)"
  by (auto simp: write_txn_def split: option.splits sum.splits)

lemma read_txn_err_iff:
  "read_txn E conv f w = (Inl e, w') \<longleftrightarrow> w' = w\<lparr>tick := Suc (tick w)\<rparr> \<and>
     (case store_fault E (tick w) of Some m \<Rightarrow> e = conv (Store_Fault m) | None \<Rightarrow> f (db w) = Inl e)"
  by (auto simp: read_txn_def split: option.splits)

lemma write_txn_err_iff:
  "write_txn E conv f w = (Inl e, w') \<longleftrightarrow> w' = w\<lparr>tick := Suc (tick w)\<rparr> \<and>
     (case store_fault E (tick w) of Some m \<Rightarrow> e = conv (Store_Fault m) | None \<Rightarrow> f (db w) = Inl e)"
  by (auto simp: write_txn_def split: option.splits sum.splits)

lemma read_txn_no_faults:
  "no_faults E \<Longrightarrow> read_txn E conv f w = (f (db w), w\<lparr>tick := Suc (tick w)\<rparr>)"
  by (simp add: read_txn_def no_faults_def)

lemma write_txn_no_faults:
  "no_faults E \<Longrightarrow> write_txn E conv f w = (case f (db w) of
       Inl e \<Rightarrow> (Inl e, w\<lparr>tick := Suc (tick w)\<rparr>)
     | Inr (x, d) \<Rightarrow> (Inr x, w\<lparr>db := d, tick := Suc (tick w)\<rparr>))"
  by (simp add: write_txn_def no_faults_def)

lemmas outside_defs = utc_now_def now_rfc3339_def new_uuid_def
lemmas txn_ok_iff = sample_ok_iff read_txn_ok_iff write_txn_ok_iff

text \<open>What a transaction does to a watched part \<open>q\<close> of the database.\<close>

lemma keep_sample: "moves (keeps (\<lambda>w. q (db w))) (sample f)"
  by (simp add: moves_def sample_def keeps_def)

lemma keep_outside:
  "moves (keeps (\<lambda>w. q (db w))) (utc_now E)" "moves (keeps (\<lambda>w. q (db w))) (now_rfc3339 E)"
  "moves (keeps (\<lambda>w. q (db w))) (new_uuid E)"
  by (simp_all add: outside_defs keep_sample)

lemma keep_read_txn: "moves (keeps (\<lambda>w. q (db w))) (read_txn E conv f)"
  by (auto simp: moves_def read_txn_def keeps_def split: option.splits)

lemma keep_write_txn:
  "(\<And>d x d'. f d = Inr (x, d') \<Longrightarrow> q d' = q d) \<Longrightarrow> moves (keeps (\<lambda>w. q (db w))) (write_txn E conv f)"
  by (auto simp: moves_def write_txn_def keeps_def split: option.splits sum.splits)

lemma runs_write_txn:
  "(\<And>e. R (Inl e) s) \<Longrightarrow> (\<And>d x d'. q d = s \<Longrightarrow> f d = Inr (x, d') \<Longrightarrow> R (Inr x) (q d')) \<Longrightarrow>
     runs_from (\<lambda>w. q (db w)) s (map_err c (write_txn E conv f)) R"
  by (auto simp: runs_from_def map_err_def write_txn_def split: option.splits sum.splits prod.splits)

lemmas keep_rules = keeping.frame_rules keep_sample keep_outside keep_read_txn

section \<open>Frames over the database\<close>

text \<open>
  A preorder on databases gives a frame on worlds: uses of the outside and read
  transactions stay inside it, and a write transaction does when its body does.
\<close>

locale db_frame =
  fixes Q :: "'j db \<Rightarrow> 'j db \<Rightarrow> bool"
  assumes Q_refl: "Q d d"
    and Q_trans: "Q d e \<Longrightarrow> Q e f \<Longrightarrow> Q d f"

definition on_db :: "('j db \<Rightarrow> 'j db \<Rightarrow> bool) \<Rightarrow> 'j world \<Rightarrow> 'j world \<Rightarrow> bool" where
  "on_db Q w w' = Q (db w) (db w')"

sublocale db_frame \<subseteq> frame "on_db Q"
  by unfold_locales (auto simp: on_db_def Q_refl intro: Q_trans)

context db_frame
begin

lemma frame_sample: "moves (on_db Q) (sample f)"
  by (simp add: moves_def sample_def on_db_def Q_refl)

lemma frame_utc_now: "moves (on_db Q) (utc_now E)"
  by (simp add: utc_now_def frame_sample)

lemma frame_now_rfc3339: "moves (on_db Q) (now_rfc3339 E)"
  by (simp add: now_rfc3339_def frame_sample)

lemma frame_new_uuid: "moves (on_db Q) (new_uuid E)"
  by (simp add: new_uuid_def frame_sample)

lemma frame_read_txn: "moves (on_db Q) (read_txn E conv f)"
  by (auto simp: moves_def read_txn_def on_db_def Q_refl split: option.splits)

lemma frame_write_txn:
  "(\<And>d x d'. f d = Inr (x, d') \<Longrightarrow> Q d d') \<Longrightarrow> moves (on_db Q) (write_txn E conv f)"
  by (auto simp: moves_def write_txn_def on_db_def Q_refl split: option.splits sum.splits)

lemmas db_frame_rules = frame_rules frame_sample frame_utc_now frame_now_rfc3339 frame_new_uuid
  frame_read_txn

end

end
