(* ===== verification/Auth.thy ===== *)
theory Auth
  imports Sync_Env
begin

text \<open>
  Hashing of secrets, administrator sessions, and the scopes of API tokens: namespace
  patterns and permission lists (\<^verbatim>\<open>src/src/auth.rs\<close>).
\<close>

section \<open>Secrets and sessions\<close>

definition hash_api_token :: "'j ext \<Rightarrow> string \<Rightarrow> string" where
  "hash_api_token E token = hex_encode E (sha256 E token)"

text \<open>The salt is random, so hashing is a use of the outside.\<close>

definition hash_admin_password :: "'j ext \<Rightarrow> string \<Rightarrow> (string, 'j world, string) act" where
  "hash_admin_password E password = bindE (sample (\<lambda>i. bcrypt_hash E i password)) lift_res"

definition verify_admin_password :: "'j ext \<Rightarrow> string \<Rightarrow> string \<Rightarrow> bool" where
  "verify_admin_password E password h =
     (case bcrypt_verify E password h of Inl _ \<Rightarrow> False | Inr b \<Rightarrow> b)"

definition create_admin_jwt_for_user ::
  "'j ext \<Rightarrow> string \<Rightarrow> string \<Rightarrow> u64 \<Rightarrow> (string, 'j world, string) act" where
  "create_admin_jwt_for_user E secret username session_version =
     bindE (utc_now E) (\<lambda>t.
       let now = word_of_int (t div 1000000000);
           claims = \<lparr>cl_sub = username, cl_exp = now + 86400, cl_iat = now, cl_ver = session_version\<rparr>
       in lift_res (jwt_encode E secret claims))"

text \<open>The decoder checks the signature and, against the clock, the expiry.\<close>

definition validate_admin_jwt ::
  "'j ext \<Rightarrow> string \<Rightarrow> string \<Rightarrow> (string, 'j world, admin_claims) act" where
  "validate_admin_jwt E token secret =
     bindE (sample (\<lambda>i. jwt_decode E (clock E i) token secret)) lift_res"

section \<open>Namespace patterns\<close>

definition namespace_matches :: "string \<Rightarrow> string \<Rightarrow> bool" where
  "namespace_matches namespace pattern =
     (if pattern = ''*'' then True
      else case strip_suffix pattern ''*'' of
        Some pre \<Rightarrow> starts_with namespace pre
      | None \<Rightarrow> namespace = pattern)"

text \<open>\<open>char::is_alphanumeric\<close>: the Unicode tables of the library are asked beyond ASCII.\<close>

definition is_alphanumeric :: "'j ext \<Rightarrow> string \<Rightarrow> bool" where
  "is_alphanumeric E ch \<longleftrightarrow> is_ascii_alphanumeric ch
     \<or> (\<forall>c \<in> set ch. 0x80 \<le> (of_char c :: nat)) \<and> unicode_alphanumeric E ch"

definition name_char :: "'j ext \<Rightarrow> string \<Rightarrow> bool" where
  "name_char E ch \<longleftrightarrow> is_alphanumeric E ch \<or> ch = ''-'' \<or> ch = ''_'' \<or> ch = ''.''"

definition validate_namespace_pattern :: "'j ext \<Rightarrow> string \<Rightarrow> bool" where
  "validate_namespace_pattern E pattern =
     (if pattern = ''*'' then True
      else let candidate = opt_get pattern (strip_suffix pattern ''*'')
        in candidate \<noteq> [] \<and> list_all (name_char E) (utf8_chars candidate))"

section \<open>Permissions\<close>

definition normalize_permissions :: "string list \<Rightarrow> string list" where
  "normalize_permissions permissions =
     remdups_adj (sort (map (\<lambda>p. to_ascii_lowercase (trim p)) permissions))"

definition validate_permissions :: "string list \<Rightarrow> bool" where
  "validate_permissions permissions \<longleftrightarrow>
     permissions \<noteq> [] \<and> list_all (\<lambda>p. p = ''read'' \<or> p = ''write'') permissions"

definition permissions_allow :: "string list \<Rightarrow> string \<Rightarrow> bool" where
  "permissions_allow permissions required = list_ex (\<lambda>p. p = required) permissions"

section \<open>Lemmas\<close>

text \<open>A pattern is a literal name, or the names that begin with what precedes its final star.\<close>

lemma namespace_matches_spec:
  "namespace_matches ns pat \<longleftrightarrow>
     (if suffix ''*'' pat then prefix (butlast pat) ns else ns = pat)"
  by (cases pat rule: rev_cases)
    (auto simp: namespace_matches_def strip_suffix_def starts_with_def)

lemma permissions_allow_iff: "permissions_allow ps r \<longleftrightarrow> r \<in> set ps"
  by (auto simp: permissions_allow_def list_ex_iff)

lemma set_normalize_permissions:
  "set (normalize_permissions ps) = (\<lambda>p. to_ascii_lowercase (trim p)) ` set ps"
  by (simp add: normalize_permissions_def)

lemma remdups_adj_strict: "sorted xs \<Longrightarrow> sorted_wrt (<) (remdups_adj xs)"
  by (induction xs rule: remdups_adj.induct) (auto simp: le_less)

lemma normalize_permissions_strict: "sorted_wrt (<) (normalize_permissions ps)"
  by (simp add: normalize_permissions_def remdups_adj_strict)

text \<open>A validated permission list is one of the three subsets, in normal form.\<close>

lemma valid_permissions_cases:
  assumes "validate_permissions (normalize_permissions ps)"
  shows "normalize_permissions ps \<in> {[''read''], [''write''], [''read'', ''write'']}"
proof -
  let ?n = "normalize_permissions ps"
  have sub: "set ?n \<subseteq> {''read'', ''write''}" and ne: "?n \<noteq> []"
    using assms by (auto simp: validate_permissions_def list_all_iff)
  have eqs: "?n = sorted_list_of_set (set ?n)"
    using normalize_permissions_strict [of ps]
    by (metis sorted_list_of_set.idem_if_sorted_distinct strict_sorted_iff)
  have "set ?n = {''read''} \<or> set ?n = {''write''} \<or> set ?n = {''read'', ''write''}"
  proof -
    from sub have "set ?n \<in> Pow {''read'', ''write''}" by (rule PowI)
    then have "set ?n \<in> {{}, {''read''}, {''write''}, {''read'', ''write''}}"
      by (simp add: Pow_insert) blast
    with ne show ?thesis by auto
  qed
  then show ?thesis
    using eqs by (elim disjE) (simp_all add: sorted_list_of_set_insert_remove)
qed

text \<open>A name made of name characters holds no byte below the digits but dash and dot.\<close>

lemma name_char_no_slash: "name_char E ch \<Longrightarrow> c \<in> set ch \<Longrightarrow> c \<noteq> CHR ''/'' \<and> c \<noteq> CHR ''*''"
  by (auto simp: name_char_def is_alphanumeric_def is_ascii_alphanumeric_def split: list.splits)

lemma name_chars_no_slash:
  assumes "list_all (name_char E) (utf8_chars s)"
  shows "CHR ''/'' \<notin> set s" "CHR ''*'' \<notin> set s"
proof -
  have "c \<noteq> CHR ''/'' \<and> c \<noteq> CHR ''*''" if "c \<in> set s" for c
  proof -
    from that have "c \<in> \<Union> (set ` set (utf8_chars s))"
      by (metis concat_utf8_chars set_concat)
    then obtain ch where "ch \<in> set (utf8_chars s)" "c \<in> set ch" by auto
    with assms show ?thesis
      by (auto simp: list_all_iff dest: name_char_no_slash)
  qed
  then show "CHR ''/'' \<notin> set s" "CHR ''*'' \<notin> set s" by auto
qed

end
