(* ===== verification/Crypto.thy ===== *)
theory Crypto
  imports Sync_Env
begin

text \<open>
  Encryption at rest (\<^verbatim>\<open>src/src/crypto.rs\<close>): the framing of nonce and ciphertext
  around the ChaCha20-Poly1305 crate, key parsing and derivation, content hashes.
\<close>

definition parse_hex_key :: "'j ext \<Rightarrow> string \<Rightarrow> string + bytes" where
  "parse_hex_key E hex_str =
     (case hex_decode E hex_str of
        Inl e \<Rightarrow> Inl (''Invalid hex: '' @ e)
      | Inr bs \<Rightarrow>
          if length bs \<noteq> 32 then Inl (''Key must be 32 bytes, got '' @ show_nat (length bs))
          else Inr bs)"

definition derive_key :: "'j ext \<Rightarrow> bytes \<Rightarrow> bytes" where
  "derive_key E secret_material = sha256 E secret_material"

definition encrypt :: "'j ext \<Rightarrow> bytes \<Rightarrow> bytes \<Rightarrow> (string, 'j world, bytes) act" where
  "encrypt E key plaintext =
     bindE (sample (rng_nonce E)) (\<lambda>nonce.
     bindE (map_err (\<lambda>e. ''Encryption failed: '' @ e) (lift_res (aead_encrypt E key nonce plaintext))) (\<lambda>ciphertext.
     ret (nonce @ ciphertext)))"

definition decrypt :: "'j ext \<Rightarrow> bytes \<Rightarrow> bytes \<Rightarrow> string + bytes" where
  "decrypt E key encrypted =
     (if length encrypted < 12 + 16 then Inl ''Encrypted data too short''
      else case aead_decrypt E key (take 12 encrypted) (drop 12 encrypted) of
        Inl e \<Rightarrow> Inl (''Decryption failed: '' @ e)
      | Inr m \<Rightarrow> Inr m)"

definition sha256_hex :: "'j ext \<Rightarrow> bytes \<Rightarrow> string" where
  "sha256_hex E data = hex_encode E (sha256 E data)"

lemma encrypt_decrypt:
  assumes "aead_ok E" and "encrypt E key m w = (r, w')"
  obtains c where "r = Inr c" "decrypt E key c = Inr m" "length c = length m + 28"
    "w' = w\<lparr>tick := Suc (tick w)\<rparr>"
proof -
  let ?n = "rng_nonce E (tick w)"
  from assms(1) obtain c where c: "aead_encrypt E key ?n m = Inr c" "length c = length m + 16"
      "aead_decrypt E key ?n c = Inr m" and n: "length ?n = 12"
    unfolding aead_ok_def by blast
  have "r = Inr (?n @ c)" "w' = w\<lparr>tick := Suc (tick w)\<rparr>"
    using assms(2) c by (simp_all add: encrypt_def bindE_def map_err_def sample_def)
  moreover have "decrypt E key (?n @ c) = Inr m"
    using c n by (simp add: decrypt_def)
  ultimately show ?thesis
    using that c n by simp
qed

end
