(* ===== verification/Cond_Store.thy ===== *)
theory Cond_Store
  imports Rust_Str
begin

text \<open>
  The contract of optimistic locking, as an interface. A cell has a version (its ETag) and
  one conditional write: it may demand the version it replaces (\<open>If-Match\<close>) or that the
  cell is absent (\<open>If-None-Match: *\<close>), and it installs a new version. The lemmas say
  what clients rely on when their writes interleave: of all writes that demand the same
  version, and of all writes that demand absence, at most one succeeds. The blob and the
  object store interpret the locale with their own operations.
\<close>

text \<open>A sequence of conditional writes in the order in which they commit.\<close>

fun run_cas ::
  "(string option \<Rightarrow> bool \<Rightarrow> 'p \<Rightarrow> 's \<Rightarrow> 'e + 's) \<Rightarrow> (string option \<times> bool \<times> 'p) list \<Rightarrow> 's
     \<Rightarrow> bool list \<times> 's" where
  "run_cas cas [] s = ([], s)"
| "run_cas cas ((x, a, p) # rs) s =
     (case cas x a p s of
        Inl _ \<Rightarrow> (False # fst (run_cas cas rs s), snd (run_cas cas rs s))
      | Inr s1 \<Rightarrow> (True # fst (run_cas cas rs s1), snd (run_cas cas rs s1)))"

text \<open>How many of the requests that satisfy \<open>P\<close> succeeded.\<close>

definition successes :: "('r \<Rightarrow> bool) \<Rightarrow> 'r list \<Rightarrow> bool list \<Rightarrow> nat" where
  "successes P rs bs = length (filter (\<lambda>rb. P (fst rb) \<and> snd rb) (zip rs bs))"

lemma successes_simps [simp]:
  "successes P [] bs = 0"
  "successes P (r # rs) (b # bs) = (if P r \<and> b then Suc (successes P rs bs) else successes P rs bs)"
  by (simp_all add: successes_def)

locale cond_store =
  fixes version :: "'s \<Rightarrow> string option"
    and present :: "'s \<Rightarrow> bool"
    and cas :: "string option \<Rightarrow> bool \<Rightarrow> 'p \<Rightarrow> 's \<Rightarrow> 'e + 's"
    and tag :: "'p \<Rightarrow> string"
    and good :: "'p \<Rightarrow> bool"
  assumes cas_expected: "cas (Some e) a p s = Inr s' \<Longrightarrow> opt_get '''' (version s) = e"
    and cas_absent: "cas None True p s = Inr s' \<Longrightarrow> \<not> present s"
    and cas_version: "good p \<Longrightarrow> cas x a p s = Inr s' \<Longrightarrow> version s' = Some (tag p)"
    and cas_present: "good p \<Longrightarrow> cas x a p s = Inr s' \<Longrightarrow> present s'"
begin

lemma none_after_change:
  assumes "opt_get '''' (version s) \<noteq> e"
    and "\<forall>(x, a, p) \<in> set rs. good p \<and> tag p \<noteq> e"
  shows "successes (\<lambda>r. fst r = Some e) rs (fst (run_cas cas rs s)) = 0"
  using assms
proof (induction rs arbitrary: s)
  case Nil
  then show ?case by simp
next
  case (Cons r rs)
  obtain x a p where r: "r = (x, a, p)" by (cases r) auto
  show ?case
  proof (cases "cas x a p s")
    case (Inl err)
    with Cons r show ?thesis by simp
  next
    case (Inr s1)
    have "x \<noteq> Some e"
      using Inr Cons.prems(1) cas_expected by blast
    moreover have "opt_get '''' (version s1) \<noteq> e"
      using Cons.prems(2) r cas_version [OF _ Inr] by simp
    ultimately show ?thesis
      using Cons r Inr by simp
  qed
qed

lemma at_most_one_match:
  assumes "\<forall>(x, a, p) \<in> set rs. good p \<and> tag p \<noteq> e"
  shows "successes (\<lambda>r. fst r = Some e) rs (fst (run_cas cas rs s)) \<le> 1"
  using assms
proof (induction rs arbitrary: s)
  case Nil
  then show ?case by simp
next
  case (Cons r rs)
  obtain x a p where r: "r = (x, a, p)" by (cases r) auto
  show ?case
  proof (cases "cas x a p s")
    case (Inl err)
    with Cons r show ?thesis by simp
  next
    case (Inr s1)
    then have "opt_get '''' (version s1) \<noteq> e"
      using Cons.prems r cas_version [OF _ Inr] by simp
    then show ?thesis
      using none_after_change [of s1 e rs] Cons.prems r Inr by simp
  qed
qed

lemma none_after_present:
  assumes "present s" and "\<forall>(x, a, p) \<in> set rs. good p"
  shows "successes (\<lambda>r. fst r = None \<and> fst (snd r)) rs (fst (run_cas cas rs s)) = 0"
  using assms
proof (induction rs arbitrary: s)
  case Nil
  then show ?case by simp
next
  case (Cons r rs)
  obtain x a p where r: "r = (x, a, p)" by (cases r) auto
  show ?case
  proof (cases "cas x a p s")
    case (Inl err)
    with Cons r show ?thesis by simp
  next
    case (Inr s1)
    have "\<not> (x = None \<and> a)"
      using Inr Cons.prems(1) cas_absent by fastforce
    moreover have "present s1"
      using Cons.prems(2) r cas_present [OF _ Inr] by simp
    ultimately show ?thesis
      using Cons r Inr by auto
  qed
qed

lemma at_most_one_create:
  assumes "\<forall>(x, a, p) \<in> set rs. good p"
  shows "successes (\<lambda>r. fst r = None \<and> fst (snd r)) rs (fst (run_cas cas rs s)) \<le> 1"
  using assms
proof (induction rs arbitrary: s)
  case Nil
  then show ?case by simp
next
  case (Cons r rs)
  obtain x a p where r: "r = (x, a, p)" by (cases r) auto
  show ?case
  proof (cases "cas x a p s")
    case (Inl err)
    with Cons r show ?thesis by simp
  next
    case (Inr s1)
    then have "present s1"
      using Cons.prems r cas_present [OF _ Inr] by simp
    then show ?thesis
      using none_after_present [of s1 rs] Cons.prems r Inr by simp
  qed
qed

end

end
