(* ===== verification/Db_Store.thy ===== *)
theory Db_Store
  imports Sync_Env Cond_Store
begin

text \<open>
  The storage operations of \<^verbatim>\<open>src/src/db.rs\<close> for namespace metadata, blobs and
  objects: the composed keys, the conditional writes, listing and deletion. An operation
  \<open>db_f\<close> is the transaction of the method \<open>f\<close>; where its body is more than one
  expression, the body is the function \<open>f_tx\<close> on the database.
\<close>

section \<open>Rows\<close>

text \<open>
  \<open>table.get(key)?.map(from_slice).transpose().map_err(..Io(InvalidData))\<close>, and
  \<open>to_vec(..).map_err(..Io(InvalidData))\<close>.
\<close>

definition decode_row :: "('a, 'j) codec \<Rightarrow> 'j option \<Rightarrow> redb_error + 'a option" where
  "decode_row c row = (case row of
       None \<Rightarrow> Inr None
     | Some v \<Rightarrow> (case from_slice c v of Inl e \<Rightarrow> Inl (Invalid_Data e) | Inr x \<Rightarrow> Inr (Some x)))"

definition encode_row :: "('a, 'j) codec \<Rightarrow> 'a \<Rightarrow> redb_error + 'j" where
  "encode_row c x = (case to_vec c x of Inl e \<Rightarrow> Inl (Invalid_Data e) | Inr v \<Rightarrow> Inr v)"

text \<open>Listings skip the rows that do not decode.\<close>

definition decode_all :: "('a, 'j) codec \<Rightarrow> 'j table \<Rightarrow> 'a list" where
  "decode_all c t = List.map_filter (\<lambda>e. res_ok (from_slice c (snd e))) (titems t)"

lemma decode_row_None [simp]: "decode_row c None = Inr None"
  by (simp add: decode_row_def)

lemma decode_row_Some_iff:
  "decode_row c row = Inr (Some x) \<longleftrightarrow> (\<exists>v. row = Some v \<and> from_slice c v = Inr x)"
  by (auto simp: decode_row_def split: option.splits sum.splits)

lemma decode_row_None_iff: "decode_row c row = Inr None \<longleftrightarrow> row = None"
  by (auto simp: decode_row_def split: option.splits sum.splits)

lemma encode_row_ok_iff: "encode_row c x = Inr v \<longleftrightarrow> to_vec c x = Inr v"
  by (auto simp: encode_row_def split: sum.splits)

lemma encode_row_decode:
  "codec_ok c \<Longrightarrow> encode_row c x = Inr v \<Longrightarrow> decode_row c (Some v) = Inr (Some x)"
  by (auto simp: encode_row_ok_iff decode_row_def codec_ok_def) (metis sum.simps(6) Inr_inject)

lemma encode_row_codec_ok: "codec_ok c \<Longrightarrow> \<exists>v. encode_row c x = Inr v \<and> from_slice c v = Inr x"
  by (auto simp: encode_row_def codec_ok_def) (metis sum.simps(6))

lemma encode_row_total: "codec_ok c \<Longrightarrow> encode_row c x \<noteq> Inl e"
  using encode_row_codec_ok [of c x] by auto

lemma set_decode_all:
  "x \<in> set (decode_all c t) \<longleftrightarrow> (\<exists>k v. tget t k = Some v \<and> from_slice c v = Inr x)"
  by (auto simp: decode_all_def map_filter_def res_ok_Some_iff titems_get [symmetric] image_iff)
    (force simp: res_ok_Some_iff)+

section \<open>Keys\<close>

definition metadata_key :: "string \<Rightarrow> string" where
  "metadata_key namespace = ''ns:'' @ namespace"

definition blob_key :: "string \<Rightarrow> string" where
  "blob_key namespace = ''ns:'' @ namespace"

definition object_key :: "string \<Rightarrow> string \<Rightarrow> string" where
  "object_key namespace path = ''ns:'' @ namespace @ ''/obj:'' @ path"

definition object_meta_key :: "string \<Rightarrow> string \<Rightarrow> string" where
  "object_meta_key namespace path = object_key namespace path"

section \<open>Metadata and blobs\<close>

definition db_get_metadata :: "'j ext \<Rightarrow> string \<Rightarrow> (redb_error, 'j world, 'j option) act" where
  "db_get_metadata E namespace =
     read_txn E id (\<lambda>d. Inr (tget (metadata_table d) (metadata_key namespace)))"

definition db_set_metadata :: "'j ext \<Rightarrow> string \<Rightarrow> 'j \<Rightarrow> (redb_error, 'j world, unit) act" where
  "db_set_metadata E namespace data =
     write_txn E id (\<lambda>d. Inr ((), d\<lparr>metadata_table := tput (metadata_key namespace) data (metadata_table d)\<rparr>))"

definition db_get_blob :: "'j ext \<Rightarrow> string \<Rightarrow> (redb_error, 'j world, bytes option) act" where
  "db_get_blob E namespace = read_txn E id (\<lambda>d. Inr (tget (blob_table d) (blob_key namespace)))"

text \<open>
  The check of a conditional blob write: with an expected ETag it must equal the current
  one (the empty string when there is none); otherwise, when absence is required, no
  snapshot may exist.
\<close>

definition blob_conflict ::
  "sync_metadata option \<Rightarrow> string option \<Rightarrow> bool \<Rightarrow> conditional_write_error option" where
  "blob_conflict current_meta expected_etag require_absent =
     (case expected_etag of
        Some expected \<Rightarrow>
          let current_etag = opt_get '''' (Option.bind current_meta meta_etag)
          in if current_etag \<noteq> expected
             then Some (Cond_Conflict (Option.bind current_meta meta_revision)
                    (Option.bind current_meta meta_etag)
                    ''Remote snapshot changed before upload completed'')
             else None
      | None \<Rightarrow>
          if require_absent \<and> opt_get False (map_option meta_exists current_meta)
          then Some (Cond_Conflict (Option.bind current_meta meta_revision)
                 (Option.bind current_meta meta_etag) ''Remote snapshot already exists'')
          else None)"

text \<open>In a conditional write a row that does not decode is a serialization error.\<close>

definition cond_decode :: "('a, 'j) codec \<Rightarrow> 'j option \<Rightarrow> conditional_write_error + 'a option" where
  "cond_decode c row = (case row of
       None \<Rightarrow> Inr None
     | Some v \<Rightarrow> (case from_slice c v of Inl e \<Rightarrow> Inl (Cond_Serialization e) | Inr x \<Rightarrow> Inr (Some x)))"

definition put_blob_tx ::
  "'j ext \<Rightarrow> string \<Rightarrow> string option \<Rightarrow> bool \<Rightarrow> bytes \<Rightarrow> 'j \<Rightarrow> 'j db
     \<Rightarrow> conditional_write_error + unit \<times> 'j db" where
  "put_blob_tx E namespace expected_etag require_absent blob metadata d =
     (case cond_decode (c_metadata E) (tget (metadata_table d) (metadata_key namespace)) of
        Inl e \<Rightarrow> Inl e
      | Inr current_meta \<Rightarrow>
          (case blob_conflict current_meta expected_etag require_absent of
             Some err \<Rightarrow> Inl err
           | None \<Rightarrow> Inr ((), d\<lparr>blob_table := tput (blob_key namespace) blob (blob_table d),
               metadata_table := tput (metadata_key namespace) metadata (metadata_table d)\<rparr>)))"

definition db_put_blob_if_matches ::
  "'j ext \<Rightarrow> string \<Rightarrow> string option \<Rightarrow> bool \<Rightarrow> bytes \<Rightarrow> 'j
     \<Rightarrow> (conditional_write_error, 'j world, unit) act" where
  "db_put_blob_if_matches E namespace expected_etag require_absent blob metadata =
     write_txn E cond_of_redb (put_blob_tx E namespace expected_etag require_absent blob metadata)"

section \<open>Objects\<close>

definition list_object_paths_tx ::
  "string \<Rightarrow> string \<Rightarrow> string option \<Rightarrow> nat \<Rightarrow> 'j db \<Rightarrow> string list" where
  "list_object_paths_tx namespace pre after limit d =
     (let namespace_prefix = object_key namespace '''';
          key_prefix = object_key namespace pre;
          entries = (case after of
              Some path \<Rightarrow> range_after (object_key namespace path) (titems (object_table d))
            | None \<Rightarrow> range_from key_prefix (titems (object_table d)))
      in map (\<lambda>e. drop (length namespace_prefix) (fst e))
           (takeWhile (\<lambda>e. starts_with (fst e) key_prefix) (take limit entries)))"

definition db_list_object_paths ::
  "'j ext \<Rightarrow> string \<Rightarrow> string \<Rightarrow> string option \<Rightarrow> nat \<Rightarrow> (redb_error, 'j world, string list) act" where
  "db_list_object_paths E namespace pre after limit =
     read_txn E id (\<lambda>d. Inr (list_object_paths_tx namespace pre after limit d))"

definition delete_object_tx :: "string \<Rightarrow> string \<Rightarrow> 'j db \<Rightarrow> bool \<times> 'j db" where
  "delete_object_tx namespace path d =
     (tget (object_table d) (object_key namespace path) \<noteq> None,
      d\<lparr>object_table := tdel (object_key namespace path) (object_table d),
        object_meta_table := tdel (object_meta_key namespace path) (object_meta_table d)\<rparr>)"

definition db_delete_object :: "'j ext \<Rightarrow> string \<Rightarrow> string \<Rightarrow> (redb_error, 'j world, bool) act" where
  "db_delete_object E namespace path = write_txn E id (\<lambda>d. Inr (delete_object_tx namespace path d))"

definition db_get_object :: "'j ext \<Rightarrow> string \<Rightarrow> string \<Rightarrow> (redb_error, 'j world, bytes option) act" where
  "db_get_object E namespace path =
     read_txn E id (\<lambda>d. Inr (tget (object_table d) (object_key namespace path)))"

definition db_get_object_metadata ::
  "'j ext \<Rightarrow> string \<Rightarrow> string \<Rightarrow> (redb_error, 'j world, stored_object_metadata option) act" where
  "db_get_object_metadata E namespace path =
     read_txn E id (\<lambda>d. decode_row (c_object_meta E)
       (tget (object_meta_table d) (object_meta_key namespace path)))"

definition object_conflict ::
  "stored_object_metadata option \<Rightarrow> string option \<Rightarrow> bool \<Rightarrow> conditional_write_error option" where
  "object_conflict current_meta expected_etag require_absent =
     (case expected_etag of
        Some expected \<Rightarrow>
          let current_etag = opt_get '''' (map_option om_etag current_meta)
          in if current_etag \<noteq> expected
             then Some (Cond_Conflict None (map_option om_etag current_meta)
                    ''Remote object changed before upload completed'')
             else None
      | None \<Rightarrow>
          if require_absent \<and> current_meta \<noteq> None
          then Some (Cond_Conflict None (map_option om_etag current_meta)
                 ''Remote object already exists'')
          else None)"

definition put_object_tx ::
  "'j ext \<Rightarrow> string \<Rightarrow> string \<Rightarrow> string option \<Rightarrow> bool \<Rightarrow> bytes \<Rightarrow> stored_object_metadata \<Rightarrow> 'j db
     \<Rightarrow> conditional_write_error + unit \<times> 'j db" where
  "put_object_tx E namespace path expected_etag require_absent data metadata d =
     (let key = object_key namespace path; meta_key = object_meta_key namespace path in
      case to_vec (c_object_meta E) metadata of
        Inl e \<Rightarrow> Inl (Cond_Serialization e)
      | Inr serialized_meta \<Rightarrow>
          (case cond_decode (c_object_meta E) (tget (object_meta_table d) meta_key) of
             Inl e \<Rightarrow> Inl e
           | Inr current_meta \<Rightarrow>
               (case object_conflict current_meta expected_etag require_absent of
                  Some err \<Rightarrow> Inl err
                | None \<Rightarrow> Inr ((), d\<lparr>object_table := tput key data (object_table d),
                    object_meta_table := tput meta_key serialized_meta (object_meta_table d)\<rparr>))))"

definition db_put_object_if_matches ::
  "'j ext \<Rightarrow> string \<Rightarrow> string \<Rightarrow> string option \<Rightarrow> bool \<Rightarrow> bytes \<Rightarrow> stored_object_metadata
     \<Rightarrow> (conditional_write_error, 'j world, unit) act" where
  "db_put_object_if_matches E namespace path expected_etag require_absent data metadata =
     write_txn E cond_of_redb (put_object_tx E namespace path expected_etag require_absent data metadata)"

text \<open>\<open>Database::check_writable\<close>: an empty write transaction.\<close>

definition db_check_writable :: "'j ext \<Rightarrow> (redb_error, 'j world, unit) act" where
  "db_check_writable E = write_txn E id (\<lambda>d. Inr ((), d))"

section \<open>Lemmas: keys\<close>

lemma object_key_inject:
  assumes "CHR ''/'' \<notin> set ns" "CHR ''/'' \<notin> set ns'"
  shows "object_key ns p = object_key ns' p' \<longleftrightarrow> ns = ns' \<and> p = p'"
proof
  assume "object_key ns p = object_key ns' p'"
  then have "split_once (ns @ ''/obj:'' @ p) ''/obj:'' = split_once (ns' @ ''/obj:'' @ p') ''/obj:''"
    by (simp add: object_key_def)
  then show "ns = ns' \<and> p = p'"
    using split_once_append [of "''/obj:''" ns p] split_once_append [of "''/obj:''" ns' p'] assms
    by simp
qed simp

lemma object_key_append: "object_key ns p = object_key ns '''' @ p"
  by (simp add: object_key_def)

lemma object_key_prefix_iff:
  "starts_with (object_key ns p) (object_key ns q) \<longleftrightarrow> starts_with p q"
  by (simp add: starts_with_def object_key_def)

lemma object_key_less_iff: "object_key ns p < object_key ns q \<longleftrightarrow> p < q"
  by (metis append_less_append_iff object_key_append)

lemma starts_with_key_decomp:
  "starts_with k (object_key ns q) \<Longrightarrow>
     k = object_key ns (drop (length (object_key ns '''')) k)"
  by (auto simp: starts_with_def object_key_def prefix_def)

lemma starts_with_object_key:
  assumes "CHR ''/'' \<notin> set ns" "CHR ''/'' \<notin> set ns'"
  shows "starts_with (object_key ns' p) (object_key ns '''') \<longleftrightarrow> ns' = ns"
  using assms starts_with_key_decomp [of "object_key ns' p" ns]
  by (auto simp: object_key_inject object_key_prefix_iff)

section \<open>Lemmas: listing\<close>

text \<open>The specification of a listing: the paths of a namespace in ascending order.\<close>

definition object_paths :: "string \<Rightarrow> 'j db \<Rightarrow> string list" where
  "object_paths ns d = map (\<lambda>e. drop (length (object_key ns '''')) (fst e))
     (filter (\<lambda>e. starts_with (fst e) (object_key ns '''')) (titems (object_table d)))"

lemma set_object_paths:
  "p \<in> set (object_paths ns d) \<longleftrightarrow> tget (object_table d) (object_key ns p) \<noteq> None"
proof
  assume "p \<in> set (object_paths ns d)"
  then obtain k v where "(k, v) \<in> set (titems (object_table d))"
      "starts_with k (object_key ns '''')" "p = drop (length (object_key ns '''')) k"
    by (auto simp: object_paths_def)
  then show "tget (object_table d) (object_key ns p) \<noteq> None"
    using starts_with_key_decomp by (fastforce simp: titems_get)
next
  assume "tget (object_table d) (object_key ns p) \<noteq> None"
  then obtain v where v: "(object_key ns p, v) \<in> set (titems (object_table d))"
    by (auto simp: titems_get)
  have "drop (length (object_key ns '''')) (object_key ns p) = p"
    by (subst object_key_append) simp
  with v show "p \<in> set (object_paths ns d)"
    by (auto simp: object_paths_def image_iff object_key_prefix_iff
        intro!: bexI [of _ "(object_key ns p, v)"])
qed

lemma object_paths_strict: "sorted_wrt (<) (object_paths ns d)"
proof -
  let ?n = "length (object_key ns '''')"
  let ?es = "filter (\<lambda>e. starts_with (fst e) (object_key ns '''')) (titems (object_table d))"
  have mono: "drop ?n (fst e) < drop ?n (fst e')"
    if "e \<in> set ?es" "e' \<in> set ?es" "fst e < fst e'" for e e'
  proof -
    have "starts_with (fst e) (object_key ns '''')" "starts_with (fst e') (object_key ns '''')"
      using that by auto
    then obtain p p' where "fst e = object_key ns p" "fst e' = object_key ns p'"
        "drop ?n (fst e) = p" "drop ?n (fst e') = p'"
      using starts_with_key_decomp by blast
    with that(3) show ?thesis
      by (simp add: object_key_less_iff)
  qed
  have "sorted_wrt (\<lambda>e e'. fst e < fst e') ?es"
    using tbl.sorted_keys_filter by (simp add: sorted_wrt_map)
  then have "sorted_wrt (\<lambda>e e'. drop ?n (fst e) < drop ?n (fst e')) ?es"
    by (rule sorted_wrt_mono_rel [rotated]) (rule mono)
  then show ?thesis
    by (simp add: object_paths_def sorted_wrt_map)
qed

text \<open>
  A listing returns the first paths of the specification that have the prefix and lie
  beyond the cursor.
\<close>

lemma list_object_paths_spec:
  assumes "case after of None \<Rightarrow> True | Some c \<Rightarrow> starts_with c pre"
  shows "list_object_paths_tx ns pre after limit d = take limit
     (filter (\<lambda>p. starts_with p pre \<and> (case after of None \<Rightarrow> True | Some c \<Rightarrow> c < p)) (object_paths ns d))"
proof -
  let ?n = "length (object_key ns '''')"
  let ?ok = "\<lambda>p. starts_with p pre \<and> (case after of None \<Rightarrow> True | Some c \<Rightarrow> c < p)"
  let ?es = "titems (object_table d)"
  have key: "starts_with k (object_key ns pre) \<and> (case after of None \<Rightarrow> True | Some c \<Rightarrow> object_key ns c < k)
      \<longleftrightarrow> starts_with k (object_key ns '''') \<and> ?ok (drop ?n k)" for k
  proof (cases "starts_with k (object_key ns '''')")
    case True
    then obtain p where p: "k = object_key ns p" "drop ?n k = p"
      using starts_with_key_decomp by blast
    then show ?thesis
      by (simp add: object_key_prefix_iff object_key_less_iff split: option.split)
  next
    case False
    then show ?thesis
      by (auto simp: starts_with_def object_key_append [of ns pre] dest: append_prefixD)
  qed
  have "list_object_paths_tx ns pre after limit d = take limit (map (\<lambda>e. drop ?n (fst e))
      (filter (\<lambda>e. starts_with (fst e) (object_key ns pre)
         \<and> (case after of None \<Rightarrow> True | Some c \<Rightarrow> object_key ns c < fst e)) ?es))"
    using assms
    by (cases after)
      (simp_all add: list_object_paths_tx_def Let_def takeWhile_take take_map tbl.prefix_scan
        tbl.prefix_scan_after object_key_prefix_iff)
  then show ?thesis
    by (simp add: key object_paths_def filter_map comp_def)
qed

section \<open>Lemmas: conditional writes\<close>

lemma cond_decode_Inr_iff:
  "cond_decode c row = Inr x \<longleftrightarrow>
     (case row of None \<Rightarrow> x = None | Some v \<Rightarrow> (\<exists>y. from_slice c v = Inr y \<and> x = Some y))"
  by (auto simp: cond_decode_def split: option.splits sum.splits)

lemma cond_decode_simps [simp]:
  "cond_decode c None = Inr None"
  "from_slice c v = Inr x \<Longrightarrow> cond_decode c (Some v) = Inr (Some x)"
  by (simp_all add: cond_decode_def)

lemma put_blob_tx_ok_iff:
  "put_blob_tx E ns x a blob v d = Inr (u, d') \<longleftrightarrow>
     (\<exists>cur. cond_decode (c_metadata E) (tget (metadata_table d) (metadata_key ns)) = Inr cur
        \<and> blob_conflict cur x a = None
        \<and> d' = d\<lparr>blob_table := tput (blob_key ns) blob (blob_table d),
              metadata_table := tput (metadata_key ns) v (metadata_table d)\<rparr>)"
  by (auto simp: put_blob_tx_def split: sum.splits option.splits)

lemma put_object_tx_ok_iff:
  "put_object_tx E ns path x a data m d = Inr (u, d') \<longleftrightarrow>
     (\<exists>v cur. to_vec (c_object_meta E) m = Inr v
        \<and> cond_decode (c_object_meta E) (tget (object_meta_table d) (object_key ns path)) = Inr cur
        \<and> object_conflict cur x a = None
        \<and> d' = d\<lparr>object_table := tput (object_key ns path) data (object_table d),
              object_meta_table := tput (object_key ns path) v (object_meta_table d)\<rparr>)"
  by (auto simp: put_object_tx_def object_meta_key_def Let_def split: sum.splits option.splits)

lemma blob_conflict_None_iff:
  "blob_conflict cur x a = None \<longleftrightarrow>
     (case x of Some e \<Rightarrow> opt_get '''' (Option.bind cur meta_etag) = e
      | None \<Rightarrow> \<not> (a \<and> opt_get False (map_option meta_exists cur)))"
  by (auto simp: blob_conflict_def Let_def split: option.splits)

lemma object_conflict_None_iff:
  "object_conflict cur x a = None \<longleftrightarrow>
     (case x of Some e \<Rightarrow> opt_get '''' (map_option om_etag cur) = e
      | None \<Rightarrow> \<not> (a \<and> cur \<noteq> None))"
  by (auto simp: object_conflict_def Let_def split: option.splits)

text \<open>The cell of a blob, and of an object, as instances of the optimistic locking contract.\<close>

definition codec_keeps :: "('a, 'j) codec \<Rightarrow> 'a \<Rightarrow> bool" where
  "codec_keeps c x = (case to_vec c x of Inl _ \<Rightarrow> False | Inr v \<Rightarrow> res_ok (from_slice c v) = Some x)"

lemma codec_keeps: "codec_ok c \<Longrightarrow> codec_keeps c x"
  by (erule codec_okE [of c x]) (simp add: codec_keeps_def)

definition current_meta :: "'j ext \<Rightarrow> string \<Rightarrow> 'j db \<Rightarrow> sync_metadata option" where
  "current_meta E ns d = opt_get None (res_ok
     (cond_decode (c_metadata E) (tget (metadata_table d) (metadata_key ns))))"

definition blob_version :: "'j ext \<Rightarrow> string \<Rightarrow> 'j db \<Rightarrow> string option" where
  "blob_version E ns d = Option.bind (current_meta E ns d) meta_etag"

definition blob_present :: "'j ext \<Rightarrow> string \<Rightarrow> 'j db \<Rightarrow> bool" where
  "blob_present E ns d = opt_get False (map_option meta_exists (current_meta E ns d))"

definition blob_cas ::
  "'j ext \<Rightarrow> string \<Rightarrow> string option \<Rightarrow> bool \<Rightarrow> bytes \<times> sync_metadata \<Rightarrow> 'j db
     \<Rightarrow> conditional_write_error + 'j db" where
  "blob_cas E ns x a p d = (case to_vec (c_metadata E) (snd p) of
       Inl e \<Rightarrow> Inl (Cond_Serialization e)
     | Inr v \<Rightarrow> map_sum id snd (put_blob_tx E ns x a (fst p) v d))"

definition blob_tag :: "bytes \<times> sync_metadata \<Rightarrow> string" where
  "blob_tag p = opt_get '''' (meta_etag (snd p))"

definition blob_good :: "'j ext \<Rightarrow> bytes \<times> sync_metadata \<Rightarrow> bool" where
  "blob_good E p \<longleftrightarrow> codec_keeps (c_metadata E) (snd p) \<and> meta_exists (snd p) \<and> meta_etag (snd p) \<noteq> None"

lemma blob_cas_ok_iff:
  "blob_cas E ns x a p d = Inr d' \<longleftrightarrow>
     (\<exists>v. to_vec (c_metadata E) (snd p) = Inr v \<and> put_blob_tx E ns x a (fst p) v d = Inr ((), d'))"
  by (auto simp: blob_cas_def map_sum_def split: sum.splits)

lemma current_meta_decode:
  "cond_decode (c_metadata E) (tget (metadata_table d) (metadata_key ns)) = Inr cur \<Longrightarrow>
     current_meta E ns d = cur"
  by (simp add: current_meta_def)

interpretation blob: cond_store "blob_version E ns" "blob_present E ns" "blob_cas E ns" blob_tag "blob_good E"
  for E :: "'j ext" and ns
proof
  fix e :: string and x a p and s s' :: "'j db"
  show "opt_get '''' (blob_version E ns s) = e" if "blob_cas E ns (Some e) a p s = Inr s'"
    using that by (auto simp: blob_cas_ok_iff put_blob_tx_ok_iff blob_conflict_None_iff
        blob_version_def current_meta_decode)
  show "\<not> blob_present E ns s" if "blob_cas E ns None True p s = Inr s'"
    using that by (auto simp: blob_cas_ok_iff put_blob_tx_ok_iff blob_conflict_None_iff
        blob_present_def current_meta_decode)
  show "blob_version E ns s' = Some (blob_tag p)" "blob_present E ns s'"
    if "blob_good E p" "blob_cas E ns x a p s = Inr s'"
    using that by (auto simp: blob_cas_ok_iff put_blob_tx_ok_iff blob_good_def codec_keeps_def
        res_ok_Some_iff blob_version_def blob_present_def current_meta_def blob_tag_def)
qed

definition current_object_meta :: "'j ext \<Rightarrow> string \<Rightarrow> string \<Rightarrow> 'j db \<Rightarrow> stored_object_metadata option" where
  "current_object_meta E ns path d = opt_get None (res_ok
     (cond_decode (c_object_meta E) (tget (object_meta_table d) (object_key ns path))))"

definition object_version :: "'j ext \<Rightarrow> string \<Rightarrow> string \<Rightarrow> 'j db \<Rightarrow> string option" where
  "object_version E ns path d = map_option om_etag (current_object_meta E ns path d)"

definition object_present :: "'j ext \<Rightarrow> string \<Rightarrow> string \<Rightarrow> 'j db \<Rightarrow> bool" where
  "object_present E ns path d \<longleftrightarrow> current_object_meta E ns path d \<noteq> None"

definition object_cas ::
  "'j ext \<Rightarrow> string \<Rightarrow> string \<Rightarrow> string option \<Rightarrow> bool \<Rightarrow> bytes \<times> stored_object_metadata \<Rightarrow> 'j db
     \<Rightarrow> conditional_write_error + 'j db" where
  "object_cas E ns path x a p d = map_sum id snd (put_object_tx E ns path x a (fst p) (snd p) d)"

definition object_tag :: "bytes \<times> stored_object_metadata \<Rightarrow> string" where
  "object_tag p = om_etag (snd p)"

definition object_good :: "'j ext \<Rightarrow> bytes \<times> stored_object_metadata \<Rightarrow> bool" where
  "object_good E p = codec_keeps (c_object_meta E) (snd p)"

lemma object_cas_ok_iff:
  "object_cas E ns path x a p d = Inr d' \<longleftrightarrow> put_object_tx E ns path x a (fst p) (snd p) d = Inr ((), d')"
  by (auto simp: object_cas_def map_sum_def split: sum.splits)

lemma current_object_meta_decode:
  "cond_decode (c_object_meta E) (tget (object_meta_table d) (object_key ns path)) = Inr cur \<Longrightarrow>
     current_object_meta E ns path d = cur"
  by (simp add: current_object_meta_def)

interpretation object: cond_store "object_version E ns path" "object_present E ns path"
    "object_cas E ns path" object_tag "object_good E"
  for E :: "'j ext" and ns path
proof
  fix e :: string and x a p and s s' :: "'j db"
  show "opt_get '''' (object_version E ns path s) = e" if "object_cas E ns path (Some e) a p s = Inr s'"
    using that by (auto simp: object_cas_ok_iff put_object_tx_ok_iff object_conflict_None_iff
        object_version_def current_object_meta_decode)
  show "\<not> object_present E ns path s" if "object_cas E ns path None True p s = Inr s'"
    using that by (auto simp: object_cas_ok_iff put_object_tx_ok_iff object_conflict_None_iff
        object_present_def current_object_meta_decode)
  show "object_version E ns path s' = Some (object_tag p)" "object_present E ns path s'"
    if "object_good E p" "object_cas E ns path x a p s = Inr s'"
    using that by (auto simp: object_cas_ok_iff put_object_tx_ok_iff object_good_def codec_keeps_def
        res_ok_Some_iff object_version_def object_present_def current_object_meta_def object_tag_def)
qed

section \<open>Lemmas: objects and their metadata\<close>

text \<open>Every object has a metadata row and every metadata row an object.\<close>

definition objects_paired :: "'j db \<Rightarrow> bool" where
  "objects_paired d \<longleftrightarrow> (\<forall>k. tget (object_table d) k = None \<longleftrightarrow> tget (object_meta_table d) k = None)"

lemma objects_pairedD:
  "objects_paired d \<Longrightarrow> tget (object_table d) k = None \<longleftrightarrow> tget (object_meta_table d) k = None"
  by (simp add: objects_paired_def)

lemma put_object_paired:
  "objects_paired d \<Longrightarrow> put_object_tx E ns path x a data m d = Inr (u, d') \<Longrightarrow> objects_paired d'"
  by (auto simp: put_object_tx_ok_iff objects_paired_def)

lemma delete_object_paired:
  "objects_paired d \<Longrightarrow> objects_paired (snd (delete_object_tx ns path d))"
  by (auto simp: delete_object_tx_def object_meta_key_def objects_paired_def)

end
