(* ===== verification/Db_Tokens.thy ===== *)
theory Db_Tokens
  imports Db_Store
begin

text \<open>
  API tokens and devices in the database (\<^verbatim>\<open>src/src/db.rs\<close>): the token table,
  the index from the hash of a secret to the token that owns it, the audit counters of a
  token and of the device it is linked to. The lemmas show that every operation keeps the
  index exact, so that a secret finds a token exactly while that token holds its hash.
\<close>

definition token_key :: "string \<Rightarrow> string" where
  "token_key i = ''tok:'' @ i"

definition device_key :: "string \<Rightarrow> string" where
  "device_key i = ''dev:'' @ i"

section \<open>Tokens\<close>

definition db_get_all_tokens :: "'j ext \<Rightarrow> (redb_error, 'j world, api_token list) act" where
  "db_get_all_tokens E = read_txn E id (\<lambda>d. Inr (decode_all (c_token E) (token_table d)))"

definition get_token_tx :: "'j ext \<Rightarrow> string \<Rightarrow> 'j db \<Rightarrow> redb_error + api_token option" where
  "get_token_tx E i d = decode_row (c_token E) (tget (token_table d) (token_key i))"

definition db_get_token :: "'j ext \<Rightarrow> string \<Rightarrow> (redb_error, 'j world, api_token option) act" where
  "db_get_token E i = read_txn E id (get_token_tx E i)"

text \<open>The index is read in one transaction and the token in a second one.\<close>

definition db_get_token_by_hash :: "'j ext \<Rightarrow> string \<Rightarrow> (redb_error, 'j world, api_token option) act" where
  "db_get_token_by_hash E token_hash =
     bindE (read_txn E id (\<lambda>d. Inr (tget (token_hash_table d) token_hash))) (\<lambda>found.
       case found of
         None \<Rightarrow> ret None
       | Some token_id \<Rightarrow> db_get_token E token_id)"

definition set_token_tx :: "'j ext \<Rightarrow> api_token \<Rightarrow> 'j db \<Rightarrow> redb_error + unit \<times> 'j db" where
  "set_token_tx E token d =
     (case get_token_tx E (tok_id token) d of
        Inl e \<Rightarrow> Inl e
      | Inr existing \<Rightarrow>
          let hash_table = (case existing of
                None \<Rightarrow> token_hash_table d
              | Some old \<Rightarrow> tdel (tok_token_hash old) (token_hash_table d))
          in case encode_row (c_token E) token of
               Inl e \<Rightarrow> Inl e
             | Inr data \<Rightarrow> Inr ((), d\<lparr>token_table := tput (token_key (tok_id token)) data (token_table d),
                 token_hash_table := tput (tok_token_hash token) (tok_id token) hash_table\<rparr>))"

definition db_set_token :: "'j ext \<Rightarrow> api_token \<Rightarrow> (redb_error, 'j world, unit) act" where
  "db_set_token E token = write_txn E id (set_token_tx E token)"

text \<open>What a use changes in the token, and in the device linked to it.\<close>

definition touch_token ::
  "string \<Rightarrow> string \<Rightarrow> string \<Rightarrow> string option \<Rightarrow> string \<Rightarrow> api_token \<Rightarrow> api_token" where
  "touch_token namespace permission client_ip client_version observed_at token =
     (let token = token\<lparr>tok_last_used_at := Some observed_at, tok_last_namespace := Some namespace,
            tok_last_permission := Some permission, tok_last_client_ip := Some client_ip,
            tok_last_client_version := client_version\<rparr>
      in if permission = ''read'' then token\<lparr>tok_read_count := sat_add (tok_read_count token) 1\<rparr>
         else if permission = ''write'' then token\<lparr>tok_write_count := sat_add (tok_write_count token) 1\<rparr>
         else token)"

definition touch_device ::
  "string \<Rightarrow> string \<Rightarrow> string option \<Rightarrow> string \<Rightarrow> device_record \<Rightarrow> device_record" where
  "touch_device token_id client_ip client_version observed_at device =
     device\<lparr>dev_token_id := Some (opt_get token_id (dev_token_id device)),
       dev_last_seen_at := Some observed_at, dev_last_client_ip := Some client_ip,
       dev_last_client_version := opt_or client_version (dev_last_client_version device),
       dev_updated_at := observed_at\<rparr>"

definition touch_device_tx ::
  "'j ext \<Rightarrow> string \<Rightarrow> string option \<Rightarrow> string \<Rightarrow> string option \<Rightarrow> string \<Rightarrow> 'j db
     \<Rightarrow> redb_error + unit \<times> 'j db" where
  "touch_device_tx E token_id device_id client_ip client_version observed_at d =
     (case device_id of
        None \<Rightarrow> Inr ((), d)
      | Some dev \<Rightarrow>
          (case decode_row (c_device E) (tget (device_table d) (device_key dev)) of
             Inl e \<Rightarrow> Inl e
           | Inr None \<Rightarrow> Inr ((), d)
           | Inr (Some device) \<Rightarrow>
               (case encode_row (c_device E) (touch_device token_id client_ip client_version observed_at device) of
                  Inl e \<Rightarrow> Inl e
                | Inr data \<Rightarrow> Inr ((), d\<lparr>device_table := tput (device_key dev) data (device_table d)\<rparr>))))"

definition record_token_usage_tx ::
  "'j ext \<Rightarrow> string \<Rightarrow> string \<Rightarrow> string \<Rightarrow> string \<Rightarrow> string option \<Rightarrow> string \<Rightarrow> 'j db
     \<Rightarrow> redb_error + unit \<times> 'j db" where
  "record_token_usage_tx E i namespace permission client_ip client_version observed_at d =
     (case get_token_tx E i d of
        Inl e \<Rightarrow> Inl e
      | Inr None \<Rightarrow> Inr ((), d)
      | Inr (Some token) \<Rightarrow>
          (case encode_row (c_token E)
               (touch_token namespace permission client_ip client_version observed_at token) of
             Inl e \<Rightarrow> Inl e
           | Inr data \<Rightarrow> touch_device_tx E i (tok_device_id token) client_ip client_version observed_at
               (d\<lparr>token_table := tput (token_key i) data (token_table d)\<rparr>)))"

definition db_record_token_usage ::
  "'j ext \<Rightarrow> string \<Rightarrow> string \<Rightarrow> string \<Rightarrow> string \<Rightarrow> string option \<Rightarrow> string
     \<Rightarrow> (redb_error, 'j world, unit) act" where
  "db_record_token_usage E i namespace permission client_ip client_version observed_at =
     write_txn E id (record_token_usage_tx E i namespace permission client_ip client_version observed_at)"

definition record_token_failure_tx :: "'j ext \<Rightarrow> string \<Rightarrow> 'j db \<Rightarrow> redb_error + unit \<times> 'j db" where
  "record_token_failure_tx E i d =
     (case get_token_tx E i d of
        Inl e \<Rightarrow> Inl e
      | Inr None \<Rightarrow> Inr ((), d)
      | Inr (Some token) \<Rightarrow>
          (case encode_row (c_token E) (token\<lparr>tok_failed_count := sat_add (tok_failed_count token) 1\<rparr>) of
             Inl e \<Rightarrow> Inl e
           | Inr data \<Rightarrow> Inr ((), d\<lparr>token_table := tput (token_key i) data (token_table d)\<rparr>)))"

definition db_record_token_failure :: "'j ext \<Rightarrow> string \<Rightarrow> (redb_error, 'j world, unit) act" where
  "db_record_token_failure E i = write_txn E id (record_token_failure_tx E i)"

definition delete_token_tx :: "'j ext \<Rightarrow> string \<Rightarrow> 'j db \<Rightarrow> redb_error + unit \<times> 'j db" where
  "delete_token_tx E i d =
     (case get_token_tx E i d of
        Inl e \<Rightarrow> Inl e
      | Inr existing \<Rightarrow> Inr ((), d\<lparr>token_table := tdel (token_key i) (token_table d),
          token_hash_table := (case existing of
              None \<Rightarrow> token_hash_table d
            | Some old \<Rightarrow> tdel (tok_token_hash old) (token_hash_table d))\<rparr>))"

definition db_delete_token :: "'j ext \<Rightarrow> string \<Rightarrow> (redb_error, 'j world, unit) act" where
  "db_delete_token E i = write_txn E id (delete_token_tx E i)"

section \<open>Devices\<close>

definition db_list_devices :: "'j ext \<Rightarrow> (redb_error, 'j world, device_record list) act" where
  "db_list_devices E = read_txn E id (\<lambda>d. Inr (decode_all (c_device E) (device_table d)))"

definition db_get_device :: "'j ext \<Rightarrow> string \<Rightarrow> (redb_error, 'j world, device_record option) act" where
  "db_get_device E i = read_txn E id (\<lambda>d. decode_row (c_device E) (tget (device_table d) (device_key i)))"

definition set_device_tx :: "'j ext \<Rightarrow> device_record \<Rightarrow> 'j db \<Rightarrow> redb_error + unit \<times> 'j db" where
  "set_device_tx E device d = (case encode_row (c_device E) device of
       Inl e \<Rightarrow> Inl e
     | Inr data \<Rightarrow> Inr ((), d\<lparr>device_table := tput (device_key (dev_id device)) data (device_table d)\<rparr>))"

definition db_set_device :: "'j ext \<Rightarrow> device_record \<Rightarrow> (redb_error, 'j world, unit) act" where
  "db_set_device E device = write_txn E id (set_device_tx E device)"

definition db_delete_device :: "'j ext \<Rightarrow> string \<Rightarrow> (redb_error, 'j world, unit) act" where
  "db_delete_device E i = write_txn E id (\<lambda>d.
     Inr ((), d\<lparr>device_table := tdel (device_key i) (device_table d)\<rparr>))"

section \<open>The hash index\<close>

text \<open>
  The token stored under an id, and the invariant: every row is a token stored under its
  own id, and the index sends a hash to an id exactly when the token of that id has it.
\<close>

definition token_at :: "'j ext \<Rightarrow> string \<Rightarrow> 'j db \<Rightarrow> api_token option" where
  "token_at E i d = opt_get None (res_ok (get_token_tx E i d))"

definition token_index_ok :: "'j ext \<Rightarrow> 'j db \<Rightarrow> bool" where
  "token_index_ok E d \<longleftrightarrow>
     (\<forall>i. case get_token_tx E i d of Inl _ \<Rightarrow> False | Inr None \<Rightarrow> True | Inr (Some t) \<Rightarrow> tok_id t = i)
     \<and> (\<forall>h i. tget (token_hash_table d) h = Some i \<longleftrightarrow> (\<exists>t. token_at E i d = Some t \<and> tok_token_hash t = h))"

lemma token_key_eq [simp]: "token_key i = token_key j \<longleftrightarrow> i = j"
  by (simp add: token_key_def)

lemma device_key_eq [simp]: "device_key i = device_key j \<longleftrightarrow> i = j"
  by (simp add: device_key_def)

lemma token_index_okD:
  assumes "token_index_ok E d"
  shows "get_token_tx E i d = Inr (token_at E i d)"
    and "token_at E i d = Some t \<Longrightarrow> tok_id t = i"
    and "tget (token_hash_table d) h = Some i \<longleftrightarrow> (\<exists>t. token_at E i d = Some t \<and> tok_token_hash t = h)"
proof -
  have row: "case get_token_tx E i d of Inl _ \<Rightarrow> False | Inr None \<Rightarrow> True | Inr (Some t) \<Rightarrow> tok_id t = i"
    using assms by (simp add: token_index_ok_def)
  then show "get_token_tx E i d = Inr (token_at E i d)"
    by (auto simp: token_at_def split: sum.splits)
  then show "token_at E i d = Some t \<Longrightarrow> tok_id t = i"
    using row by simp
  show "tget (token_hash_table d) h = Some i \<longleftrightarrow> (\<exists>t. token_at E i d = Some t \<and> tok_token_hash t = h)"
    using assms by (simp add: token_index_ok_def)
qed

lemma token_index_okI:
  assumes "\<And>i. get_token_tx E i d = Inr (f i)"
    and "\<And>i t. f i = Some t \<Longrightarrow> tok_id t = i"
    and "\<And>h i. tget (token_hash_table d) h = Some i \<longleftrightarrow> (\<exists>t. f i = Some t \<and> tok_token_hash t = h)"
  shows "token_index_ok E d"
  using assms by (simp add: token_index_ok_def token_at_def split: option.split)

text \<open>No two tokens share a hash.\<close>

lemma token_hash_unique:
  assumes "token_index_ok E d" "token_at E i d = Some s" "token_at E j d = Some t"
    "tok_token_hash s = tok_token_hash t"
  shows "i = j"
  using assms by (metis token_index_okD(3) option.inject)

text \<open>
  Replacing the row of one token in place, its hash kept: the shape of the two audit
  operations.
\<close>

lemma get_token_put:
  "from_slice (c_token E) v = Inr t \<Longrightarrow>
     get_token_tx E j (d\<lparr>token_table := tput (token_key i) v (token_table d)\<rparr>) =
       (if j = i then Inr (Some t) else get_token_tx E j d)"
  by (auto simp: get_token_tx_def decode_row_def)

lemma get_token_other [simp]:
  "get_token_tx E i (d\<lparr>device_table := x\<rparr>) = get_token_tx E i d"
  "get_token_tx E i (d\<lparr>token_hash_table := y\<rparr>) = get_token_tx E i d"
  by (simp_all add: get_token_tx_def)

lemma token_index_update:
  assumes ok: "token_index_ok E d" and old: "token_at E i d = Some s"
    and v: "from_slice (c_token E) v = Inr t"
    and same: "tok_id t = tok_id s" "tok_token_hash t = tok_token_hash s"
  shows "token_index_ok E (d\<lparr>token_table := tput (token_key i) v (token_table d)\<rparr>)"
proof (rule token_index_okI [where f = "\<lambda>j. if j = i then Some t else token_at E j d"])
  show "get_token_tx E j (d\<lparr>token_table := tput (token_key i) v (token_table d)\<rparr>)
      = Inr (if j = i then Some t else token_at E j d)" for j
    by (simp add: get_token_put [OF v] token_index_okD(1) [OF ok])
  show "tok_id u = j" if "(if j = i then Some t else token_at E j d) = Some u" for j u
    using that token_index_okD(2) [OF ok] old same by (auto split: if_splits)
  show "tget (token_hash_table (d\<lparr>token_table := tput (token_key i) v (token_table d)\<rparr>)) h = Some j
      \<longleftrightarrow> (\<exists>u. (if j = i then Some t else token_at E j d) = Some u \<and> tok_token_hash u = h)" for h j
    using token_index_okD(3) [OF ok, of h j] old same by auto
qed

lemma token_index_device [simp]:
  "token_index_ok E (d\<lparr>device_table := x\<rparr>) = token_index_ok E d"
  by (simp add: token_index_ok_def token_at_def)

lemma touch_token_same [simp]:
  "tok_id (touch_token n p c cv now t) = tok_id t"
  "tok_token_hash (touch_token n p c cv now t) = tok_token_hash t"
  by (simp_all add: touch_token_def Let_def)

lemma record_token_failure_cases:
  assumes "token_index_ok E d" and "record_token_failure_tx E i d = Inr (u, d')"
  shows "token_at E i d = None \<and> d' = d \<or>
    (\<exists>t v. token_at E i d = Some t
      \<and> to_vec (c_token E) (t\<lparr>tok_failed_count := sat_add (tok_failed_count t) 1\<rparr>) = Inr v
      \<and> d' = d\<lparr>token_table := tput (token_key i) v (token_table d)\<rparr>)"
  using assms(2) token_index_okD(1) [OF assms(1), of i]
  by (auto simp: record_token_failure_tx_def encode_row_ok_iff split: sum.splits option.splits)

lemma record_token_failure_index:
  assumes "codec_ok (c_token E)" "token_index_ok E d"
    and "record_token_failure_tx E i d = Inr (u, d')"
  shows "token_index_ok E d'"
  using record_token_failure_cases [OF assms(2,3)] assms(2)
  by (auto dest!: codec_ok_decode [OF assms(1)] intro!: token_index_update)

lemma touch_device_tx_index:
  "touch_device_tx E i dv c cv now d = Inr (u, d') \<Longrightarrow> token_index_ok E d' = token_index_ok E d"
  by (auto simp: touch_device_tx_def split: option.splits sum.splits)

lemma record_token_usage_index:
  assumes "codec_ok (c_token E)" "token_index_ok E d"
    and "record_token_usage_tx E i n p c cv now d = Inr (u, d')"
  shows "token_index_ok E d'"
proof (cases "token_at E i d")
  case None
  with assms(2,3) token_index_okD(1) [OF assms(2), of i] show ?thesis
    by (simp add: record_token_usage_tx_def)
next
  case (Some t)
  with assms(3) token_index_okD(1) [OF assms(2), of i]
  obtain v where "to_vec (c_token E) (touch_token n p c cv now t) = Inr v"
      "touch_device_tx E i (tok_device_id t) c cv now
         (d\<lparr>token_table := tput (token_key i) v (token_table d)\<rparr>) = Inr (u, d')"
    by (auto simp: record_token_usage_tx_def encode_row_ok_iff split: sum.splits)
  then show ?thesis
    using token_index_update [OF assms(2) Some] codec_ok_decode [OF assms(1)]
    by (simp add: touch_device_tx_index)
qed

text \<open>
  Storing a token whose new hash is not that of another token keeps the index; afterwards
  the token is found under its new hash and not under the old one.
\<close>

lemma token_at_put:
  assumes "token_index_ok E d" "set_token_tx E t d = Inr (u, d')" "codec_ok (c_token E)"
  shows "get_token_tx E j d' = Inr (if j = tok_id t then Some t else token_at E j d)"
    and "token_hash_table d' = tput (tok_token_hash t) (tok_id t)
       (case token_at E (tok_id t) d of None \<Rightarrow> token_hash_table d
        | Some s \<Rightarrow> tdel (tok_token_hash s) (token_hash_table d))"
  using assms(2) token_index_okD(1) [OF assms(1)]
  by (auto simp: set_token_tx_def encode_row_ok_iff Let_def get_token_put
      dest!: codec_ok_decode [OF assms(3)] split: sum.splits option.splits)

lemma set_token_index:
  assumes c: "codec_ok (c_token E)" and ok: "token_index_ok E d"
    and set: "set_token_tx E t d = Inr (u, d')"
    and fresh: "\<forall>i. tget (token_hash_table d) (tok_token_hash t) = Some i \<longrightarrow> i = tok_id t"
  shows "token_index_ok E d'"
proof (rule token_index_okI [where f = "\<lambda>j. if j = tok_id t then Some t else token_at E j d"])
  show "get_token_tx E j d' = Inr (if j = tok_id t then Some t else token_at E j d)" for j
    by (rule token_at_put(1) [OF ok set c])
  show "tok_id s = j" if "(if j = tok_id t then Some t else token_at E j d) = Some s" for j s
    using that token_index_okD(2) [OF ok] by (auto split: if_splits)
  show "tget (token_hash_table d') h = Some j \<longleftrightarrow>
      (\<exists>s. (if j = tok_id t then Some t else token_at E j d) = Some s \<and> tok_token_hash s = h)" for h j
  proof (cases "token_at E (tok_id t) d")
    case None
    then show ?thesis
      using token_index_okD(3) [OF ok, of h j] fresh
      by (auto simp: token_at_put(2) [OF ok set c])
  next
    case (Some s)
    have "tget (token_hash_table d) (tok_token_hash s) = Some (tok_id t)"
      using token_index_okD(3) [OF ok, of "tok_token_hash s" "tok_id t"] Some by blast
    then show ?thesis
      using token_index_okD(3) [OF ok, of h j] fresh Some
      by (auto simp: token_at_put(2) [OF ok set c])
  qed
qed

lemma delete_token_index:
  assumes ok: "token_index_ok E d" and del: "delete_token_tx E i d = Inr (u, d')"
  shows "token_index_ok E d'" and "token_at E i d' = None"
    and "j \<noteq> i \<Longrightarrow> token_at E j d' = token_at E j d"
proof -
  have get: "get_token_tx E j d' = Inr (if j = i then None else token_at E j d)" for j
    using del token_index_okD(1) [OF ok, of j]
    by (auto simp: delete_token_tx_def get_token_tx_def decode_row_def split: sum.splits)
  have tab: "token_hash_table d' = (case token_at E i d of None \<Rightarrow> token_hash_table d
      | Some s \<Rightarrow> tdel (tok_token_hash s) (token_hash_table d))"
    using del token_index_okD(1) [OF ok, of i] by (auto simp: delete_token_tx_def)
  show "token_index_ok E d'"
  proof (rule token_index_okI [OF get])
    show "tok_id s = j" if "(if j = i then None else token_at E j d) = Some s" for j s
      using that token_index_okD(2) [OF ok] by (auto split: if_splits)
    show "tget (token_hash_table d') h = Some j \<longleftrightarrow>
        (\<exists>s. (if j = i then None else token_at E j d) = Some s \<and> tok_token_hash s = h)" for h j
      using token_index_okD(3) [OF ok, of h j] token_index_okD(3) [OF ok, of h i]
      by (auto simp: tab split: option.split)
  qed
  show "token_at E i d' = None" and "j \<noteq> i \<Longrightarrow> token_at E j d' = token_at E j d"
    by (simp_all add: token_at_def get)
qed

text \<open>What a lookup by hash finds, when the store does not change between its two reads.\<close>

lemma db_get_token_by_hash_run:
  assumes "token_index_ok E (db w)" and "db_get_token_by_hash E h w = (Inr r, w')"
  shows "db w' = db w \<and> (case r of
      None \<Rightarrow> \<forall>i t. token_at E i (db w) = Some t \<longrightarrow> tok_token_hash t \<noteq> h
    | Some t \<Rightarrow> token_at E (tok_id t) (db w) = Some t \<and> tok_token_hash t = h)"
proof (cases "tget (token_hash_table (db w)) h")
  case None
  with assms token_index_okD(3) [OF assms(1), of h] show ?thesis
    by (auto simp: db_get_token_by_hash_def act_ok_iff txn_ok_iff)
next
  case (Some i)
  then obtain t where t: "token_at E i (db w) = Some t" "tok_token_hash t = h" "tok_id t = i"
    using token_index_okD(2,3) [OF assms(1)] by metis
  then have "get_token_tx E i (db w) = Inr (Some t)"
    using token_index_okD(1) [OF assms(1), of i] by simp
  with Some assms(2) have "r = Some t" "db w' = db w"
    by (auto simp: db_get_token_by_hash_def db_get_token_def act_ok_iff txn_ok_iff)
  with t show ?thesis by simp
qed

end
