(* ===== verification/Db_Usage.thy ===== *)
theory Db_Usage
  imports Db_Store
begin

text \<open>
  Storage accounting (\<^verbatim>\<open>src/src/db.rs\<close>): blob sizes, the counts and sizes of the
  objects of a namespace, the time of its last object write, and the usage snapshots that
  are refreshed when they are stale.
\<close>

definition namespace_usage_key :: "string \<Rightarrow> string" where
  "namespace_usage_key namespace = ''usage:'' @ namespace"

text \<open>Whether a time is later than the current one; a first time always is.\<close>

definition timestamp_is_after :: "'j ext \<Rightarrow> string option \<Rightarrow> string \<Rightarrow> bool" where
  "timestamp_is_after E current candidate = (case current of
       None \<Rightarrow> True
     | Some cur \<Rightarrow> (case (parse_rfc3339 E candidate, parse_rfc3339 E cur) of
           (Some t, Some s) \<Rightarrow> t > s
         | _ \<Rightarrow> False))"

definition db_blob_size :: "'j ext \<Rightarrow> string \<Rightarrow> (redb_error, 'j world, u64) act" where
  "db_blob_size E namespace = read_txn E id (\<lambda>d.
     Inr (opt_get 0 (map_option (\<lambda>v. of_nat (length v)) (tget (blob_table d) (blob_key namespace)))))"

text \<open>
  The two loops over the rows of the namespace: count and bytes of the objects, then the
  latest \<open>updatedAt\<close> of their metadata, rows that do not decode skipped.
\<close>

definition count_row :: "string \<times> bytes \<Rightarrow> u64 \<times> u64 \<Rightarrow> u64 \<times> u64" where
  "count_row e acc = (fst acc + 1, sat_add (snd acc) (of_nat (length (snd e))))"

definition object_totals :: "(string \<times> bytes) list \<Rightarrow> u64 \<times> u64" where
  "object_totals es = fold count_row es (0, 0)"

definition latest_update :: "'j ext \<Rightarrow> (string \<times> 'j) list \<Rightarrow> string option" where
  "latest_update E es = fold (\<lambda>e last_write_at.
     case from_slice (c_object_meta E) (snd e) of
       Inl _ \<Rightarrow> last_write_at
     | Inr meta \<Rightarrow>
         if timestamp_is_after E last_write_at (om_updated_at meta)
         then Some (om_updated_at meta) else last_write_at) es None"

definition namespace_object_stats_tx :: "'j ext \<Rightarrow> string \<Rightarrow> 'j db \<Rightarrow> u64 \<times> u64 \<times> string option" where
  "namespace_object_stats_tx E namespace d =
     (let pre = ''ns:'' @ namespace @ ''/obj:'';
          (count, bytes) = object_totals (takeWhile (\<lambda>e. starts_with (fst e) pre)
             (range_from pre (titems (object_table d))));
          last_write_at = latest_update E (takeWhile (\<lambda>e. starts_with (fst e) pre)
             (range_from pre (titems (object_meta_table d))))
      in (count, bytes, last_write_at))"

definition db_namespace_object_stats ::
  "'j ext \<Rightarrow> string \<Rightarrow> (redb_error, 'j world, u64 \<times> u64 \<times> string option) act" where
  "db_namespace_object_stats E namespace =
     read_txn E id (\<lambda>d. Inr (namespace_object_stats_tx E namespace d))"

definition db_get_namespace_usage ::
  "'j ext \<Rightarrow> string \<Rightarrow> (redb_error, 'j world, namespace_usage_record option) act" where
  "db_get_namespace_usage E namespace = read_txn E id (\<lambda>d.
     decode_row (c_usage E) (tget (namespace_usage_table d) (namespace_usage_key namespace)))"

definition set_namespace_usage_tx ::
  "'j ext \<Rightarrow> string \<Rightarrow> namespace_usage_record \<Rightarrow> 'j db \<Rightarrow> redb_error + namespace_usage_record \<times> 'j db" where
  "set_namespace_usage_tx E namespace usage d = (case encode_row (c_usage E) usage of
       Inl e \<Rightarrow> Inl e
     | Inr v \<Rightarrow> Inr (usage, d\<lparr>namespace_usage_table :=
           tput (namespace_usage_key namespace) v (namespace_usage_table d)\<rparr>))"

definition usage_of ::
  "string \<Rightarrow> string \<Rightarrow> bool \<Rightarrow> u64 \<Rightarrow> u64 \<Rightarrow> u64 \<Rightarrow> namespace_usage_record option \<Rightarrow> namespace_usage_record" where
  "usage_of namespace observed_at soft_deleted blob_bytes object_count object_bytes previous =
     (let total_bytes = sat_add blob_bytes object_bytes;
          previous_total = opt_get total_bytes (map_option us_total_bytes previous);
          growth_bytes = uint total_bytes - uint previous_total
      in \<lparr>us_namespace = namespace, us_observed_at = observed_at, us_blob_bytes = blob_bytes,
          us_object_count = object_count, us_object_bytes = object_bytes,
          us_total_bytes = total_bytes, us_growth_bytes = clamp_i64 growth_bytes,
          us_soft_deleted = soft_deleted\<rparr>)"

definition db_refresh_namespace_usage ::
  "'j ext \<Rightarrow> string \<Rightarrow> string \<Rightarrow> bool \<Rightarrow> (redb_error, 'j world, namespace_usage_record) act" where
  "db_refresh_namespace_usage E namespace observed_at soft_deleted =
     bindE (db_blob_size E namespace) (\<lambda>blob_bytes.
     bindE (db_namespace_object_stats E namespace) (\<lambda>(object_count, object_bytes, _).
     bindE (db_get_namespace_usage E namespace) (\<lambda>previous.
     write_txn E id (set_namespace_usage_tx E namespace
       (usage_of namespace observed_at soft_deleted blob_bytes object_count object_bytes previous)))))"

lemma usage_of_namespace [simp]: "us_namespace (usage_of ns now del b c n p) = ns"
  by (simp add: usage_of_def Let_def)

text \<open>A snapshot is due when there is none, when a time does not parse, or when it is old enough.\<close>

definition usage_refresh_due :: "'j ext \<Rightarrow> namespace_usage_record option \<Rightarrow> string \<Rightarrow> int \<Rightarrow> bool" where
  "usage_refresh_due E usage observed_at interval_seconds =
     opt_get True (Option.bind usage (\<lambda>u.
       Option.bind (parse_rfc3339 E (us_observed_at u)) (\<lambda>previous.
       Option.bind (parse_rfc3339 E observed_at) (\<lambda>current.
       Some (num_seconds (current - previous) \<ge> interval_seconds)))))"

definition db_refresh_namespace_usage_if_stale ::
  "'j ext \<Rightarrow> string \<Rightarrow> string \<Rightarrow> bool \<Rightarrow> int \<Rightarrow> (redb_error, 'j world, namespace_usage_record option) act" where
  "db_refresh_namespace_usage_if_stale E namespace observed_at soft_deleted interval_seconds =
     (let refresh = bindE (db_refresh_namespace_usage E namespace observed_at soft_deleted) (\<lambda>u. ret (Some u))
      in if interval_seconds > 0
         then bindE (db_get_namespace_usage E namespace) (\<lambda>usage.
           if usage_refresh_due E usage observed_at interval_seconds then refresh else ret None)
         else refresh)"

section \<open>Lemmas\<close>

text \<open>The loops compute the number and the total size of the rows, saturated at 64 bits.\<close>

lemma fold_count_row_fst: "fst (fold count_row es acc) = fst acc + of_nat (length es)"
  by (induction es arbitrary: acc) (auto simp: count_row_def algebra_simps)

lemma object_totals_count: "fst (object_totals es) = of_nat (length es)"
  by (simp add: object_totals_def fold_count_row_fst)

lemma fold_count_row_snd:
  "\<forall>e \<in> set es. length (snd e) < 2 ^ 64 \<Longrightarrow>
     unat (snd (fold count_row es acc)) = min (unat (snd acc) + (\<Sum>e \<leftarrow> es. length (snd e))) (2 ^ 64 - 1)"
proof (induction es arbitrary: acc)
  case Nil
  have "unat (snd acc) < 2 ^ 64"
    using unsigned_less [of "snd acc"] by simp
  then show ?case by simp
next
  case (Cons e es)
  then have "unat (of_nat (length (snd e)) :: u64) = length (snd e)"
    by (simp add: unsigned_of_nat take_bit_nat_eq_self)
  then have "unat (snd (count_row e acc)) = min (unat (snd acc) + length (snd e)) (2 ^ 64 - 1)"
    by (simp add: count_row_def unat_sat_add)
  with Cons show ?case
    by (simp add: min_def)
qed

lemma object_totals_bytes:
  "\<forall>e \<in> set es. length (snd e) < 2 ^ 64 \<Longrightarrow>
     unat (snd (object_totals es)) = min (\<Sum>e \<leftarrow> es. length (snd e)) (2 ^ 64 - 1)"
  by (simp add: object_totals_def fold_count_row_snd)

text \<open>The rows of a namespace, as the scans see them.\<close>

definition namespace_rows :: "string \<Rightarrow> 'v table \<Rightarrow> (string \<times> 'v) list" where
  "namespace_rows ns t = filter (\<lambda>e. starts_with (fst e) (object_key ns '''')) (titems t)"

lemma namespace_object_stats_rows:
  "namespace_object_stats_tx E ns d =
     (fst (object_totals (namespace_rows ns (object_table d))),
      snd (object_totals (namespace_rows ns (object_table d))),
      latest_update E (namespace_rows ns (object_meta_table d)))"
proof -
  have key: "''ns:'' @ ns @ ''/obj:'' = object_key ns ''''"
    by (simp add: object_key_def)
  show ?thesis
    unfolding namespace_object_stats_tx_def Let_def key tbl.prefix_scan namespace_rows_def
    by (simp add: case_prod_beta)
qed

lemma namespace_object_stats_count:
  "fst (namespace_object_stats_tx E ns d) = of_nat (length (object_paths ns d))"
  by (simp add: namespace_object_stats_rows object_totals_count object_paths_def namespace_rows_def)

text \<open>What a refresh computes and stores.\<close>

lemma set_namespace_usage_tx_ok_iff:
  "set_namespace_usage_tx E ns us d = Inr (r, d') \<longleftrightarrow> (\<exists>v. encode_row (c_usage E) us = Inr v \<and> r = us
     \<and> d' = d\<lparr>namespace_usage_table := tput (namespace_usage_key ns) v (namespace_usage_table d)\<rparr>)"
  by (auto simp: set_namespace_usage_tx_def split: sum.splits)

lemma db_refresh_namespace_usage_ok:
  assumes "db_refresh_namespace_usage E ns now del w = (Inr us, w')" and "codec_ok (c_usage E)"
  obtains previous where
    "decode_row (c_usage E) (tget (namespace_usage_table (db w)) (namespace_usage_key ns)) = Inr previous"
    "us_object_count us = fst (namespace_object_stats_tx E ns (db w))"
    "us_object_bytes us = fst (snd (namespace_object_stats_tx E ns (db w)))"
    "us_total_bytes us = sat_add (us_blob_bytes us) (us_object_bytes us)"
    "us_growth_bytes us = clamp_i64 (uint (us_total_bytes us)
       - uint (opt_get (us_total_bytes us) (map_option us_total_bytes previous)))"
    "decode_row (c_usage E) (tget (namespace_usage_table (db w')) (namespace_usage_key ns)) = Inr (Some us)"
proof -
  let ?stats = "namespace_object_stats_tx E ns (db w)"
  from assms(1) obtain previous blob_bytes v where
      p: "decode_row (c_usage E) (tget (namespace_usage_table (db w)) (namespace_usage_key ns)) = Inr previous"
      and us: "us = usage_of ns now del blob_bytes (fst ?stats) (fst (snd ?stats)) previous"
      and v: "encode_row (c_usage E) us = Inr v"
      and d: "db w' = (db w)\<lparr>namespace_usage_table := tput (namespace_usage_key ns) v (namespace_usage_table (db w))\<rparr>"
    by (auto simp: db_refresh_namespace_usage_def act_ok_iff txn_ok_iff db_blob_size_def
        db_namespace_object_stats_def db_get_namespace_usage_def set_namespace_usage_tx_ok_iff
        case_prod_beta)
  show ?thesis
  proof (rule that [OF p])
    show "decode_row (c_usage E) (tget (namespace_usage_table (db w')) (namespace_usage_key ns)) = Inr (Some us)"
      using v d encode_row_decode [OF assms(2)] by simp
  qed (simp_all add: us usage_of_def Let_def)
qed

end
