(* ===== verification/Db_Namespaces.thy ===== *)
theory Db_Namespaces
  imports Db_Usage
begin

text \<open>
  The namespaces of the store (\<^verbatim>\<open>src/src/db.rs\<close>): a namespace exists through its
  rows, so listing collects it from the keys; soft deletion is a row in a table of its own
  that can be removed again, hard deletion removes every row. The lemmas show what a
  listing contains, that a hard deletion leaves nothing of the namespace behind and, for a
  name without a slash, that it leaves every other namespace alone.
\<close>

section \<open>Operations\<close>

text \<open>A \<open>BTreeSet\<close> of strings, walked in order.\<close>

definition btree_set :: "string list \<Rightarrow> string list" where
  "btree_set xs = sort (remdups xs)"

definition list_namespaces_tx :: "'j db \<Rightarrow> string list" where
  "list_namespaces_tx d =
     (let deleted = map fst (titems (deleted_namespace_table d));
          from_metadata = List.map_filter (\<lambda>e. strip_prefix (fst e) ''ns:'') (titems (metadata_table d));
          from_objects = List.map_filter (\<lambda>e.
            Option.bind (strip_prefix (fst e) ''ns:'') (\<lambda>key. map_option fst (split_once key ''/obj:'')))
            (titems (object_table d))
      in btree_set (filter (\<lambda>ns. ns \<notin> set deleted) (from_metadata @ from_objects)))"

definition db_list_namespaces :: "'j ext \<Rightarrow> (redb_error, 'j world, string list) act" where
  "db_list_namespaces E = read_txn E id (\<lambda>d. Inr (list_namespaces_tx d))"

text \<open>Unlike the other listings this one fails on a row that does not decode.\<close>

fun decode_deleted ::
  "'j ext \<Rightarrow> (string \<times> 'j) list \<Rightarrow> redb_error + (string \<times> deleted_namespace_record) list" where
  "decode_deleted E [] = Inr []"
| "decode_deleted E ((namespace, v) # es) = (case from_slice (c_deleted E) v of
       Inl e \<Rightarrow> Inl (Invalid_Data e)
     | Inr record \<Rightarrow> (case decode_deleted E es of
           Inl e \<Rightarrow> Inl e
         | Inr rest \<Rightarrow> Inr ((namespace, record) # rest)))"

definition db_list_deleted_namespaces ::
  "'j ext \<Rightarrow> (redb_error, 'j world, (string \<times> deleted_namespace_record) list) act" where
  "db_list_deleted_namespaces E =
     read_txn E id (\<lambda>d. decode_deleted E (titems (deleted_namespace_table d)))"

definition db_is_namespace_deleted :: "'j ext \<Rightarrow> string \<Rightarrow> (redb_error, 'j world, bool) act" where
  "db_is_namespace_deleted E namespace =
     read_txn E id (\<lambda>d. Inr (tget (deleted_namespace_table d) namespace \<noteq> None))"

definition soft_delete_namespace_tx :: "'j ext \<Rightarrow> string \<Rightarrow> string \<Rightarrow> 'j db \<Rightarrow> redb_error + unit \<times> 'j db" where
  "soft_delete_namespace_tx E namespace deleted_at d =
     (case encode_row (c_deleted E) \<lparr>dn_deleted_at = deleted_at\<rparr> of
        Inl e \<Rightarrow> Inl e
      | Inr data \<Rightarrow> Inr ((), d\<lparr>deleted_namespace_table := tput namespace data (deleted_namespace_table d)\<rparr>))"

definition db_soft_delete_namespace :: "'j ext \<Rightarrow> string \<Rightarrow> string \<Rightarrow> (redb_error, 'j world, unit) act" where
  "db_soft_delete_namespace E namespace deleted_at =
     write_txn E id (soft_delete_namespace_tx E namespace deleted_at)"

definition restore_namespace_tx :: "string \<Rightarrow> 'j db \<Rightarrow> 'j db" where
  "restore_namespace_tx namespace d =
     d\<lparr>deleted_namespace_table := tdel namespace (deleted_namespace_table d)\<rparr>"

definition db_restore_namespace :: "'j ext \<Rightarrow> string \<Rightarrow> (redb_error, 'j world, unit) act" where
  "db_restore_namespace E namespace = write_txn E id (\<lambda>d. Inr ((), restore_namespace_tx namespace d))"

definition hard_delete_namespace_tx :: "string \<Rightarrow> 'j db \<Rightarrow> 'j db" where
  "hard_delete_namespace_tx namespace d =
     (let obj_prefix = ''ns:'' @ namespace @ ''/obj:'';
          to_delete = filter (\<lambda>key. starts_with key obj_prefix) (map fst (titems (object_table d)))
      in d\<lparr>metadata_table := tdel (metadata_key namespace) (metadata_table d),
          blob_table := tdel (blob_key namespace) (blob_table d),
          deleted_namespace_table := tdel namespace (deleted_namespace_table d),
          namespace_usage_table := tdel (namespace_usage_key namespace) (namespace_usage_table d),
          object_table := fold tdel to_delete (object_table d),
          object_meta_table := fold tdel to_delete (object_meta_table d)\<rparr>)"

definition db_hard_delete_namespace :: "'j ext \<Rightarrow> string \<Rightarrow> (redb_error, 'j world, unit) act" where
  "db_hard_delete_namespace E namespace = write_txn E id (\<lambda>d. Inr ((), hard_delete_namespace_tx namespace d))"

section \<open>Lemmas\<close>

lemma set_btree_set [simp]: "set (btree_set xs) = set xs"
  by (simp add: btree_set_def)

lemma btree_set_strict: "sorted_wrt (<) (btree_set xs)"
  by (simp add: btree_set_def strict_sorted_iff)

text \<open>A namespace lives through a metadata row or an object, unless it is soft-deleted.\<close>

definition namespace_live :: "string \<Rightarrow> 'j db \<Rightarrow> bool" where
  "namespace_live ns d \<longleftrightarrow> tget (deleted_namespace_table d) ns = None
     \<and> (tget (metadata_table d) (metadata_key ns) \<noteq> None
        \<or> (\<exists>path. tget (object_table d) (object_key ns path) \<noteq> None))"

lemma mem_keys: "k \<in> set (map fst (titems t)) \<longleftrightarrow> tget t k \<noteq> None"
  by (rule tbl.keys_get)

lemma set_map_filter_iff: "y \<in> set (List.map_filter f xs) \<longleftrightarrow> (\<exists>x \<in> set xs. f x = Some y)"
  by (force simp: map_filter_def)

lemma list_namespaces_iff:
  assumes "CHR ''/'' \<notin> set ns"
  shows "ns \<in> set (list_namespaces_tx d) \<longleftrightarrow> namespace_live ns d"
proof -
  have meta: "(\<exists>e \<in> set (titems (metadata_table d)). strip_prefix (fst e) ''ns:'' = Some ns)
      \<longleftrightarrow> tget (metadata_table d) (metadata_key ns) \<noteq> None"
    by (force simp: strip_prefix_Some_iff metadata_key_def titems_get [symmetric])
  have split: "Option.bind (strip_prefix k ''ns:'') (\<lambda>key. map_option fst (split_once key ''/obj:'')) = Some ns
      \<longleftrightarrow> (\<exists>path. k = object_key ns path)" for k
    using split_once_append [of "''/obj:''" ns] assms
    by (auto simp: bind_eq_Some_conv strip_prefix_Some_iff object_key_def dest!: split_once_Some)
  have obj: "(\<exists>e \<in> set (titems (object_table d)). Option.bind (strip_prefix (fst e) ''ns:'')
        (\<lambda>key. map_option fst (split_once key ''/obj:'')) = Some ns)
      \<longleftrightarrow> (\<exists>path. tget (object_table d) (object_key ns path) \<noteq> None)"
    unfolding split by (force simp: titems_get [symmetric])
  show ?thesis
    by (simp add: list_namespaces_tx_def Let_def set_map_filter_iff meta obj mem_keys namespace_live_def
        del: set_map) auto
qed

lemma list_namespaces_strict: "sorted_wrt (<) (list_namespaces_tx d)"
  by (simp add: list_namespaces_tx_def Let_def btree_set_strict)

text \<open>Hard deletion, table by table.\<close>

lemma hard_delete_objects:
  "tget (object_table (hard_delete_namespace_tx ns d)) k =
     (if starts_with k (object_key ns '''') then None else tget (object_table d) k)"
  by (auto simp: hard_delete_namespace_tx_def Let_def tbl.get_del_all object_key_def mem_keys
      simp del: set_map)

lemma hard_delete_object_metas:
  "objects_paired d \<Longrightarrow> tget (object_meta_table (hard_delete_namespace_tx ns d)) k =
     (if starts_with k (object_key ns '''') then None else tget (object_meta_table d) k)"
  by (auto simp: hard_delete_namespace_tx_def Let_def tbl.get_del_all object_key_def mem_keys
      objects_paired_def simp del: set_map)

lemma hard_delete_paired: "objects_paired d \<Longrightarrow> objects_paired (hard_delete_namespace_tx ns d)"
  by (simp add: objects_paired_def [of "hard_delete_namespace_tx ns d"] hard_delete_objects
      hard_delete_object_metas objects_pairedD)

text \<open>Everything the store holds of a namespace.\<close>

definition namespace_view ::
  "string \<Rightarrow> 'j db \<Rightarrow> 'j option \<times> bytes option \<times> (string \<Rightarrow> bytes option) \<times> (string \<Rightarrow> 'j option)
     \<times> 'j option \<times> 'j option" where
  "namespace_view ns d =
     (tget (metadata_table d) (metadata_key ns), tget (blob_table d) (blob_key ns),
      (\<lambda>path. tget (object_table d) (object_key ns path)),
      (\<lambda>path. tget (object_meta_table d) (object_key ns path)),
      tget (namespace_usage_table d) (namespace_usage_key ns), tget (deleted_namespace_table d) ns)"

definition no_namespace ::
  "'j option \<times> bytes option \<times> (string \<Rightarrow> bytes option) \<times> (string \<Rightarrow> 'j option)
     \<times> 'j option \<times> 'j option" where
  "no_namespace = (None, None, (\<lambda>_. None), (\<lambda>_. None), None, None)"

lemma hard_delete_rows:
  "tget (metadata_table (hard_delete_namespace_tx ns d)) (metadata_key m) =
     (if m = ns then None else tget (metadata_table d) (metadata_key m))"
  "tget (blob_table (hard_delete_namespace_tx ns d)) (blob_key m) =
     (if m = ns then None else tget (blob_table d) (blob_key m))"
  "tget (namespace_usage_table (hard_delete_namespace_tx ns d)) (namespace_usage_key m) =
     (if m = ns then None else tget (namespace_usage_table d) (namespace_usage_key m))"
  "tget (deleted_namespace_table (hard_delete_namespace_tx ns d)) m =
     (if m = ns then None else tget (deleted_namespace_table d) m)"
  by (simp_all add: hard_delete_namespace_tx_def Let_def metadata_key_def blob_key_def namespace_usage_key_def)

lemma hard_delete_only:
  "(hard_delete_namespace_tx ns d)\<lparr>metadata_table := metadata_table d, blob_table := blob_table d,
     object_table := object_table d, object_meta_table := object_meta_table d,
     namespace_usage_table := namespace_usage_table d, deleted_namespace_table := deleted_namespace_table d\<rparr> = d"
  by (simp add: hard_delete_namespace_tx_def Let_def)

lemma hard_delete_view_same:
  "objects_paired d \<Longrightarrow> namespace_view ns (hard_delete_namespace_tx ns d) = no_namespace"
  by (simp add: namespace_view_def no_namespace_def hard_delete_rows hard_delete_objects
      hard_delete_object_metas object_key_prefix_iff)

lemma hard_delete_view_other:
  assumes "objects_paired d" "CHR ''/'' \<notin> set ns" "CHR ''/'' \<notin> set m" "m \<noteq> ns"
  shows "namespace_view m (hard_delete_namespace_tx ns d) = namespace_view m d"
  using assms by (simp add: namespace_view_def hard_delete_rows hard_delete_objects
      hard_delete_object_metas starts_with_object_key)

end
