(* ===== verification/Db_Admin.thy ===== *)
theory Db_Admin
  imports Db_Usage
begin

text \<open>
  The administrative tables of \<^verbatim>\<open>src/src/db.rs\<close>: the bounded log of sync
  conflicts, the administrator accounts, and the login attempts per client address.
\<close>

section \<open>Sync conflicts\<close>

definition sync_conflict_key :: "string \<Rightarrow> string \<Rightarrow> string" where
  "sync_conflict_key occurred_at cid = ''conflict:'' @ occurred_at @ '':'' @ cid"

text \<open>Insert the record, then remove the first keys while there are too many.\<close>

definition add_sync_conflict_tx ::
  "'j ext \<Rightarrow> sync_conflict_record \<Rightarrow> nat \<Rightarrow> 'j db \<Rightarrow> redb_error + unit \<times> 'j db" where
  "add_sync_conflict_tx E conflict max_records d =
     (case encode_row (c_conflict E) conflict of
        Inl e \<Rightarrow> Inl e
      | Inr data \<Rightarrow>
          let table = tput (sync_conflict_key (sc_occurred_at conflict) (sc_id conflict)) data
                (sync_conflict_table d);
              excess = length (titems table) - max_records;
              keys_to_remove = take excess (map fst (titems table))
          in Inr ((), d\<lparr>sync_conflict_table := fold tdel keys_to_remove table\<rparr>))"

definition db_add_sync_conflict ::
  "'j ext \<Rightarrow> sync_conflict_record \<Rightarrow> nat \<Rightarrow> (redb_error, 'j world, unit) act" where
  "db_add_sync_conflict E conflict max_records = write_txn E id (add_sync_conflict_tx E conflict max_records)"

text \<open>A stable sort in descending order.\<close>

definition sort_by_desc :: "('a \<Rightarrow> 'k::linorder) \<Rightarrow> 'a list \<Rightarrow> 'a list" where
  "sort_by_desc f xs = rev (sort_key f (rev xs))"

definition db_list_sync_conflicts ::
  "'j ext \<Rightarrow> nat \<Rightarrow> (redb_error, 'j world, sync_conflict_record list) act" where
  "db_list_sync_conflicts E limit = read_txn E id (\<lambda>d.
     Inr (take limit (sort_by_desc sc_occurred_at (decode_all (c_conflict E) (sync_conflict_table d)))))"

section \<open>Administrator accounts\<close>

definition admin_user_key :: "string \<Rightarrow> string" where
  "admin_user_key username = ''admin:'' @ username"

definition db_list_admin_users :: "'j ext \<Rightarrow> (redb_error, 'j world, admin_user_record list) act" where
  "db_list_admin_users E = read_txn E id (\<lambda>d. Inr (decode_all (c_user E) (admin_user_table d)))"

definition db_get_admin_user ::
  "'j ext \<Rightarrow> string \<Rightarrow> (redb_error, 'j world, admin_user_record option) act" where
  "db_get_admin_user E username = read_txn E id (\<lambda>d.
     decode_row (c_user E) (tget (admin_user_table d) (admin_user_key username)))"

definition set_admin_user_tx :: "'j ext \<Rightarrow> admin_user_record \<Rightarrow> 'j db \<Rightarrow> redb_error + unit \<times> 'j db" where
  "set_admin_user_tx E user d = (case encode_row (c_user E) user of
       Inl e \<Rightarrow> Inl e
     | Inr data \<Rightarrow> Inr ((), d\<lparr>admin_user_table :=
           tput (admin_user_key (usr_username user)) data (admin_user_table d)\<rparr>))"

definition db_set_admin_user :: "'j ext \<Rightarrow> admin_user_record \<Rightarrow> (redb_error, 'j world, unit) act" where
  "db_set_admin_user E user = write_txn E id (set_admin_user_tx E user)"

definition db_delete_admin_user :: "'j ext \<Rightarrow> string \<Rightarrow> (redb_error, 'j world, unit) act" where
  "db_delete_admin_user E username = write_txn E id (\<lambda>d.
     Inr ((), d\<lparr>admin_user_table := tdel (admin_user_key username) (admin_user_table d)\<rparr>))"

section \<open>Login attempts\<close>

definition db_get_login_attempt ::
  "'j ext \<Rightarrow> string \<Rightarrow> (redb_error, 'j world, login_attempt_record option) act" where
  "db_get_login_attempt E ip = read_txn E id (\<lambda>d.
     decode_row (c_login E) (tget (login_attempt_table d) ip))"

definition set_login_attempt_tx ::
  "'j ext \<Rightarrow> string \<Rightarrow> login_attempt_record \<Rightarrow> 'j db \<Rightarrow> redb_error + unit \<times> 'j db" where
  "set_login_attempt_tx E ip attempt_rec d = (case encode_row (c_login E) attempt_rec of
       Inl e \<Rightarrow> Inl e
     | Inr data \<Rightarrow> Inr ((), d\<lparr>login_attempt_table := tput ip data (login_attempt_table d)\<rparr>))"

definition db_set_login_attempt ::
  "'j ext \<Rightarrow> string \<Rightarrow> login_attempt_record \<Rightarrow> (redb_error, 'j world, unit) act" where
  "db_set_login_attempt E ip attempt_rec = write_txn E id (set_login_attempt_tx E ip attempt_rec)"

definition db_delete_login_attempt :: "'j ext \<Rightarrow> string \<Rightarrow> (redb_error, 'j world, unit) act" where
  "db_delete_login_attempt E ip = write_txn E id (\<lambda>d.
     Inr ((), d\<lparr>login_attempt_table := tdel ip (login_attempt_table d)\<rparr>))"

text \<open>An attempt is kept while its block lasts, or, without one, while the window does.\<close>

definition keep_attempt :: "'j ext \<Rightarrow> int \<Rightarrow> int \<Rightarrow> login_attempt_record \<Rightarrow> bool" where
  "keep_attempt E now window_seconds record =
     (let first_failure_at = parse_rfc3339 E (la_first_failure_at record);
          blocked_until = Option.bind (la_blocked_until record) (parse_rfc3339 E)
      in case blocked_until of
           Some until \<Rightarrow> until > now
         | None \<Rightarrow> (case first_failure_at of
               Some first \<Rightarrow> num_seconds (now - first) \<le> window_seconds
             | None \<Rightarrow> False))"

definition cleanup_login_attempts_tx :: "'j ext \<Rightarrow> int \<Rightarrow> int \<Rightarrow> 'j db \<Rightarrow> 'j db" where
  "cleanup_login_attempts_tx E now window_seconds d =
     (let expired = map fst (filter (\<lambda>e.
            \<not> (case res_ok (from_slice (c_login E) (snd e)) of
                 None \<Rightarrow> False
               | Some record \<Rightarrow> keep_attempt E now window_seconds record))
            (titems (login_attempt_table d)))
      in d\<lparr>login_attempt_table := fold tdel expired (login_attempt_table d)\<rparr>)"

definition db_cleanup_login_attempts :: "'j ext \<Rightarrow> int \<Rightarrow> int \<Rightarrow> (redb_error, 'j world, unit) act" where
  "db_cleanup_login_attempts E now window_seconds =
     write_txn E id (\<lambda>d. Inr ((), cleanup_login_attempts_tx E now window_seconds d))"

section \<open>Lemmas\<close>

text \<open>
  The conflict log never exceeds its bound, and what it drops are the first keys of the
  walk, that is, the oldest conflicts.
\<close>

lemma add_sync_conflict_items:
  assumes "add_sync_conflict_tx E c m d = Inr (u, d')" and "to_vec (c_conflict E) c = Inr v"
  shows "titems (sync_conflict_table d') =
     (let t = tput (sync_conflict_key (sc_occurred_at c) (sc_id c)) v (sync_conflict_table d)
      in drop (length (titems t) - m) (titems t))"
  using assms by (auto simp: add_sync_conflict_tx_def encode_row_def Let_def tbl.items_del_first)

lemma add_sync_conflict_bound:
  assumes "add_sync_conflict_tx E c m d = Inr (u, d')"
  shows "size (sync_conflict_table d') \<le> m"
proof -
  from assms obtain v where "to_vec (c_conflict E) c = Inr v"
    by (auto simp: add_sync_conflict_tx_def encode_row_def split: sum.splits)
  from add_sync_conflict_items [OF assms this] show ?thesis
    by (simp add: Let_def size_table_def)
qed

lemma set_sort_by_desc [simp]: "set (sort_by_desc f xs) = set xs"
  by (simp add: sort_by_desc_def)

lemma sort_by_desc_sorted: "sorted_wrt (\<lambda>a b. f b \<le> f a) (sort_by_desc f xs)"
proof -
  have "sorted (map f (sort_key f (rev xs)))"
    by (rule sorted_sort_key)
  then show ?thesis
    by (simp add: sort_by_desc_def sorted_wrt_rev sorted_map)
qed

text \<open>After a cleanup the kept attempts are there unchanged and all others are gone.\<close>

lemma cleanup_login_attempts_get:
  "tget (login_attempt_table (cleanup_login_attempts_tx E now win d)) ip =
     (case tget (login_attempt_table d) ip of
        None \<Rightarrow> None
      | Some v \<Rightarrow> (case from_slice (c_login E) v of
            Inr r \<Rightarrow> if keep_attempt E now win r then Some v else None
          | Inl _ \<Rightarrow> None))"
proof -
  let ?t = "login_attempt_table d"
  let ?drop = "\<lambda>e. \<not> (case res_ok (from_slice (c_login E) (snd e)) of
      None \<Rightarrow> False | Some record \<Rightarrow> keep_attempt E now win record)"
  have "ip \<in> set (map fst (filter ?drop (titems ?t))) \<longleftrightarrow> (\<exists>v. tget ?t ip = Some v \<and> ?drop (ip, v))"
    by (force simp: titems_get [symmetric])
  then show ?thesis
    by (auto simp: cleanup_login_attempts_tx_def Let_def tbl.get_del_all split: option.splits sum.splits)
qed

end
