(* ===== verification/Api_Auth.thy ===== *)
theory Api_Auth
  imports Auth Crypto Db_Tokens Db_Namespaces Db_Admin
begin

text \<open>
  The gate of the sync API (\<^verbatim>\<open>src/src/api.rs\<close>): credentials of a request,
  token checks, the audit trail of a token, decoding of path parameters, and the disk
  reserve. A request carries its headers as a list of names in lower case with the bytes
  of their values, and the text of the peer address.
\<close>

section \<open>Requests\<close>

type_synonym headers = "(string \<times> bytes) list"

text \<open>\<open>HeaderValue::to_str\<close> and \<open>from_str\<close> accept visible ASCII and the tab.\<close>

definition header_text :: "bytes \<Rightarrow> bool" where
  "header_text v \<longleftrightarrow> list_all (\<lambda>c. let n = (of_char c :: nat) in 32 \<le> n \<and> n < 127 \<or> n = 9) v"

definition header :: "headers \<Rightarrow> string \<Rightarrow> string option" where
  "header headers name = opt_filter header_text (map_of headers name)"

datatype sync_permission = Read | Write

fun as_str :: "sync_permission \<Rightarrow> string" where
  "as_str Read = ''read''"
| "as_str Write = ''write''"

section \<open>Credentials\<close>

definition token_of_credential :: "string \<Rightarrow> string" where
  "token_of_credential credential =
     opt_get credential (map_option snd (split_once credential '':''))"

definition bearer_or_basic :: "'j ext \<Rightarrow> string option \<Rightarrow> app_error + string" where
  "bearer_or_basic E auth_header = (case auth_header of
     None \<Rightarrow> Inl (Unauthorized ''Missing Authorization header'')
   | Some h \<Rightarrow> (case strip_prefix h ''Bearer '' of
       Some bearer \<Rightarrow> Inr (trim bearer)
     | None \<Rightarrow> (case strip_prefix h ''Basic '' of
         Some basic \<Rightarrow>
           (case Option.bind (res_ok (base64_decode E (trim basic))) from_utf8 of
              None \<Rightarrow> Inl (Unauthorized ''Invalid Basic auth encoding'')
            | Some credential \<Rightarrow> Inr (token_of_credential credential))
       | None \<Rightarrow> Inl (Unauthorized ''Unsupported auth scheme''))))"

definition extract_auth :: "'j ext \<Rightarrow> headers \<Rightarrow> (app_error, 'j world, api_token) act" where
  "extract_auth E headers =
     bindE (lift_res (bearer_or_basic E (header headers ''authorization''))) (\<lambda>token.
     bindE (map_err (\<lambda>e. Internal (''Token lookup error: '' @ redb_text e))
         (db_get_token_by_hash E (hash_api_token E token))) (\<lambda>found.
     ok_or (Unauthorized ''Invalid token'') found))"

section \<open>Token checks\<close>

text \<open>The clock is read only when the token has an expiry that parses.\<close>

definition token_expired :: "'j ext \<Rightarrow> api_token \<Rightarrow> ('e, 'j world, bool) act" where
  "token_expired E token = (case Option.bind (tok_expires_at token) (parse_rfc3339 E) of
       None \<Rightarrow> ret False
     | Some expires_at \<Rightarrow> bindE (utc_now E) (\<lambda>now. ret (expires_at \<le> now)))"

definition ensure_token_active :: "'j ext \<Rightarrow> api_token \<Rightarrow> (app_error, 'j world, unit) act" where
  "ensure_token_active E token =
     (if \<not> tok_enabled token then throw (Unauthorized ''Token is disabled'')
      else bindE (token_expired E token) (\<lambda>expired.
        if expired then throw (Unauthorized ''Token has expired'') else ret ()))"

definition token_usage_update_due :: "'j ext \<Rightarrow> api_token \<Rightarrow> int \<Rightarrow> int \<Rightarrow> bool" where
  "token_usage_update_due E token now interval_seconds =
     (if interval_seconds \<le> 0 then True
      else case Option.bind (tok_last_used_at token) (parse_rfc3339 E) of
        None \<Rightarrow> True
      | Some last_used \<Rightarrow> num_seconds (now - last_used) \<ge> interval_seconds)"

definition record_token_failure :: "'j ext \<Rightarrow> string \<Rightarrow> (app_error, 'j world, unit) act" where
  "record_token_failure E token_id =
     map_err (\<lambda>e. Internal (''Failed to update token failure count: '' @ redb_text e))
       (db_record_token_failure E token_id)"

text \<open>The address of the client: the first one forwarded, when the proxy is trusted and it parses.\<close>

definition resolve_sync_client_ip :: "'j ext \<Rightarrow> app_state \<Rightarrow> headers \<Rightarrow> string \<Rightarrow> string" where
  "resolve_sync_client_ip E st headers peer_ip =
     (if \<not> trust_proxy_headers st then peer_ip
      else opt_get peer_ip (Option.bind
        (map_option trim (opt_or (map_option (first_field CHR '','') (header headers ''x-forwarded-for''))
           (header headers ''x-real-ip'')))
        (parse_ip E)))"

definition sync_client_version :: "headers \<Rightarrow> string option" where
  "sync_client_version headers =
     map_option (\<lambda>v. concat (take 128 (utf8_chars v)))
       (opt_filter (\<lambda>v. v \<noteq> []) (map_option trim (header headers ''x-oxideterm-client-version'')))"

definition ensure_namespace_active :: "'j ext \<Rightarrow> string \<Rightarrow> (app_error, 'j world, unit) act" where
  "ensure_namespace_active E namespace =
     bindE (map_err app_of_redb (db_is_namespace_deleted E namespace)) (\<lambda>deleted.
     whenE deleted (throw (Not_Found (''Namespace '' @ quoted namespace @ '' is soft-deleted''))))"

definition authorize_sync_request_with_permission ::
  "'j ext \<Rightarrow> app_state \<Rightarrow> headers \<Rightarrow> string \<Rightarrow> sync_permission \<Rightarrow> string
     \<Rightarrow> (app_error, 'j world, api_token) act" where
  "authorize_sync_request_with_permission E st headers namespace permission peer_ip =
     bindE (ensure_namespace_active E namespace) (\<lambda>_.
     bindE (extract_auth E headers) (\<lambda>token.
     handleE (ensure_token_active E token)
       (\<lambda>error. bindE (record_token_failure E (tok_id token)) (\<lambda>_. throw error))
       (\<lambda>_.
         if \<not> namespace_matches namespace (tok_namespace_pattern token)
         then bindE (record_token_failure E (tok_id token)) (\<lambda>_.
           throw (Forbidden (''Token not authorized for namespace '' @ quoted namespace)))
         else if \<not> permissions_allow (tok_permissions token) (as_str permission)
         then bindE (record_token_failure E (tok_id token)) (\<lambda>_.
           throw (Forbidden (''Token is missing '' @ quoted (as_str permission) @ '' permission'')))
         else
           bindE (utc_now E) (\<lambda>now.
           bindE (whenE (token_usage_update_due E token now (token_usage_write_interval_seconds st))
             (map_err (\<lambda>e. Internal (''Failed to update token audit info: '' @ redb_text e))
               (db_record_token_usage E (tok_id token) namespace (as_str permission)
                  (resolve_sync_client_ip E st headers peer_ip) (sync_client_version headers)
                  (to_rfc3339 E now)))) (\<lambda>_.
           ret token)))))"

section \<open>Path parameters\<close>

text \<open>Namespace names: 1-128 bytes of alphanumeric characters, dash, underscore, dot.\<close>

definition validate_namespace :: "'j ext \<Rightarrow> string \<Rightarrow> app_error + unit" where
  "validate_namespace E ns =
     (if ns = [] \<or> length ns > 128 then Inl (Bad_Request ''Namespace must be 1-128 characters'')
      else if \<not> list_all (name_char E) (utf8_chars ns)
      then Inl (Bad_Request ''Namespace may only contain alphanumeric, dash, underscore, dot'')
      else Inr ())"

definition decode_namespace :: "'j ext \<Rightarrow> string \<Rightarrow> app_error + string" where
  "decode_namespace E raw = (case url_decode E raw of
       None \<Rightarrow> Inl (Bad_Request ''Invalid namespace encoding'')
     | Some decoded \<Rightarrow> (case validate_namespace E decoded of
           Inl e \<Rightarrow> Inl e
         | Inr _ \<Rightarrow> Inr decoded))"

definition decode_object_path :: "'j ext \<Rightarrow> string \<Rightarrow> app_error + string" where
  "decode_object_path E raw = (case url_decode E raw of
       None \<Rightarrow> Inl (Bad_Request ''Invalid object path encoding'')
     | Some decoded \<Rightarrow>
         if decoded = [] \<or> length decoded > 1024 \<or> list_ex is_control (utf8_chars decoded)
         then Inl (Bad_Request ''Object path must be 1-1024 visible characters'')
         else Inr decoded)"

section \<open>Disk reserve\<close>

text \<open>The product is taken at 128 bits, so that the bound of 64 bits is the only one it meets.\<close>

definition disk_free_bytes :: "'j ext \<Rightarrow> nat \<Rightarrow> u64 option" where
  "disk_free_bytes E i = (case statvfs E i of
       None \<Rightarrow> None
     | Some (f_bavail, f_frsize) \<Rightarrow>
         let available_blocks = ucast f_bavail :: 128 word;
             fragment_size = ucast f_frsize :: 128 word
         in Some (ucast (min (sat_mul available_blocks fragment_size) (ucast (- 1 :: u64)))))"

lemma disk_free_bytes_exact:
  assumes "statvfs E i = Some (blocks, fsize)"
  obtains n where "disk_free_bytes E i = Some n" "unat n = min (unat blocks * unat fsize) (2 ^ 64 - 1)"
proof -
  let ?p = "sat_mul (ucast blocks :: 128 word) (ucast fsize)"
  let ?n = "ucast (min ?p (ucast (- 1 :: u64))) :: u64"
  have small: "unat x < 2 ^ 64" for x :: u64 using unsigned_less [of x, where ?'a = nat] by simp
  have "unat blocks * unat fsize < 2 ^ 64 * 2 ^ 64"
    by (rule mult_strict_mono [OF small small]) simp_all
  then have below: "unat blocks * unat fsize < 2 ^ 128" by (simp only: power_add [symmetric]) simp
  have big: "unat (- 1 :: u64) = 2 ^ 64 - 1" using unat_max_word [where ?'a = 64] by simp
  have wide: "unat (ucast x :: 128 word) = unat x" for x :: u64
    using small [of x] by (simp add: unsigned_ucast_eq take_bit_nat_eq_self)
  have "unat (min ?p (ucast (- 1 :: u64))) = min (unat blocks * unat fsize) (2 ^ 64 - 1)"
    using below by (simp add: min_def word_le_nat_alt unat_sat_mul wide big)
  then have "unat ?n = min (unat blocks * unat fsize) (2 ^ 64 - 1)"
    by (simp add: unsigned_ucast_eq take_bit_nat_eq_self)
  with that [of ?n] assms show thesis by (simp add: disk_free_bytes_def Let_def)
qed

definition ensure_disk_capacity :: "'j ext \<Rightarrow> app_state \<Rightarrow> u64 \<Rightarrow> (app_error, 'j world, unit) act" where
  "ensure_disk_capacity E st incoming_bytes =
     (if min_free_disk_bytes st = 0 then ret ()
      else bindE (sample (disk_free_bytes E)) (\<lambda>found.
        case found of
          None \<Rightarrow> ret ()
        | Some free_bytes \<Rightarrow>
            let required_bytes = sat_add (min_free_disk_bytes st) incoming_bytes
            in if free_bytes < required_bytes
               then throw (Insufficient_Storage (''Only '' @ show_nat (unat free_bytes)
                 @ '' bytes free; refusing write because at least '' @ show_nat (unat required_bytes)
                 @ '' bytes are required''))
               else ret ()))"

text \<open>
  The reserve, as the \<open>i\<close>th reading of the file system shows it: nothing is demanded, or the
  file system did not answer, or the reserve is still free once the new bytes are written.
\<close>

definition disk_room :: "'j ext \<Rightarrow> app_state \<Rightarrow> u64 \<Rightarrow> nat \<Rightarrow> bool" where
  "disk_room E st n i \<longleftrightarrow> min_free_disk_bytes st = 0 \<or>
     (case disk_free_bytes E i of None \<Rightarrow> True | Some free \<Rightarrow> sat_add (min_free_disk_bytes st) n \<le> free)"

lemma disk_room_run:
  assumes "disk_room E st n (tick w)"
  shows "\<exists>w'. ensure_disk_capacity E st n w = (Inr (), w') \<and> db w' = db w"
  using assms
  by (cases "disk_free_bytes E (tick w)")
    (auto simp: disk_room_def ensure_disk_capacity_def bindE_def sample_def Let_def)

lemma no_disk_room_run:
  assumes "\<not> disk_room E st n (tick w)"
  shows "\<exists>msg w'. ensure_disk_capacity E st n w = (Inl (Insufficient_Storage msg), w') \<and> db w' = db w"
  using assms
  by (cases "disk_free_bytes E (tick w)")
    (auto simp: disk_room_def ensure_disk_capacity_def bindE_def sample_def Let_def)

section \<open>Conflict records\<close>

record conflict_observation =
  co_namespace :: string
  co_operation :: string
  co_object_path :: "string option"
  co_device_id :: "string option"
  co_requested_revision :: "string option"
  co_requested_etag :: "string option"

definition record_conditional_write_conflict ::
  "'j ext \<Rightarrow> app_state \<Rightarrow> conflict_observation \<Rightarrow> conditional_write_error
     \<Rightarrow> (app_error, 'j world, unit) act" where
  "record_conditional_write_conflict E st observation error =
     (if max_sync_conflict_records st = 0 then ret ()
      else case error of
        Cond_Conflict remote_revision remote_etag msg \<Rightarrow>
          bindE (new_uuid E) (\<lambda>i.
          bindE (now_rfc3339 E) (\<lambda>now.
          map_err (\<lambda>e. Internal (''Failed to record sync conflict: '' @ redb_text e))
            (db_add_sync_conflict E \<lparr>sc_id = i, sc_occurred_at = now,
               sc_namespace = co_namespace observation, sc_operation = co_operation observation,
               sc_object_path = co_object_path observation, sc_device_id = co_device_id observation,
               sc_requested_revision = co_requested_revision observation,
               sc_requested_etag = co_requested_etag observation,
               sc_remote_revision = remote_revision, sc_remote_etag = remote_etag,
               sc_message = msg\<rparr> (max_sync_conflict_records st))))
      | _ \<Rightarrow> ret ())"

definition request_etag_for_conflict :: "string option \<Rightarrow> string option \<Rightarrow> string option" where
  "request_etag_for_conflict if_match if_none_match =
     opt_filter (\<lambda>v. v \<noteq> []) (map_option trim (opt_or if_match if_none_match))"

section \<open>Lemmas\<close>

lemma validate_namespace_ok_iff:
  "validate_namespace E ns = Inr u \<longleftrightarrow>
     ns \<noteq> [] \<and> length ns \<le> 128 \<and> list_all (name_char E) (utf8_chars ns)"
  by (auto simp: validate_namespace_def)

lemma decode_namespace_ok_iff:
  "decode_namespace E raw = Inr ns \<longleftrightarrow>
     url_decode E raw = Some ns \<and> ns \<noteq> [] \<and> length ns \<le> 128 \<and> list_all (name_char E) (utf8_chars ns)"
  by (auto simp: decode_namespace_def validate_namespace_ok_iff split: option.splits sum.splits)
    (auto simp: validate_namespace_def split: if_splits)

lemma decode_namespace_no_slash: "decode_namespace E raw = Inr ns \<Longrightarrow> CHR ''/'' \<notin> set ns"
  by (auto simp: decode_namespace_ok_iff dest: name_chars_no_slash)

lemma decode_object_path_ok_iff:
  "decode_object_path E raw = Inr p \<longleftrightarrow>
     url_decode E raw = Some p \<and> p \<noteq> [] \<and> length p \<le> 1024 \<and> \<not> list_ex is_control (utf8_chars p)"
  by (auto simp: decode_object_path_def split: option.splits)


lemma ensure_disk_capacity_db:
  "ensure_disk_capacity E st n w = (r, w') \<Longrightarrow> db w' = db w"
  by (auto simp: ensure_disk_capacity_def bindE_def sample_def Let_def split: option.splits if_splits)

lemma token_expired_run:
  "token_expired E token w = (Inr b, w') \<longleftrightarrow>
     (case Option.bind (tok_expires_at token) (parse_rfc3339 E) of
        None \<Rightarrow> \<not> b \<and> w' = w
      | Some t \<Rightarrow> b = (t \<le> clock E (tick w)) \<and> w' = w\<lparr>tick := Suc (tick w)\<rparr>)"
  by (auto simp: token_expired_def bindE_def outside_defs sample_def split: option.split)

end
