(* ===== verification/Api_Sync.thy ===== *)
theory Api_Sync
  imports Api_Auth
begin

text \<open>
  The handlers of the sync API (\<^verbatim>\<open>src/src/api.rs\<close>), each a composition of the
  gate, the database transactions and the storage helpers in the order of the source. A
  handler returns what it puts into the response: the record or JSON value of the body, or
  status, headers and bytes.
\<close>

section \<open>Storage helpers\<close>

definition encrypt_if_needed :: "'j ext \<Rightarrow> app_state \<Rightarrow> bytes \<Rightarrow> (app_error, 'j world, bytes) act" where
  "encrypt_if_needed E st data = (case encryption_key st of
       Some key \<Rightarrow> map_err Internal (encrypt E key data)
     | None \<Rightarrow> ret data)"

definition decrypt_if_needed :: "'j ext \<Rightarrow> app_state \<Rightarrow> bytes \<Rightarrow> app_error + bytes" where
  "decrypt_if_needed E st data = (case encryption_key st of
       Some key \<Rightarrow> map_sum Internal id (decrypt E key data)
     | None \<Rightarrow> Inr data)"

definition retain_metadata_value :: "bool \<Rightarrow> 'a option \<Rightarrow> 'a option" where
  "retain_metadata_value enabled v = (if enabled then v else None)"

text \<open>The stored metadata, where a row that does not decode counts as absent.\<close>

definition stored_metadata :: "'j ext \<Rightarrow> string \<Rightarrow> (app_error, 'j world, sync_metadata option) act" where
  "stored_metadata E namespace =
     bindE (map_err app_of_redb (db_get_metadata E namespace)) (\<lambda>row.
     ret (Option.bind row (\<lambda>v. res_ok (from_slice (c_metadata E) v))))"

definition refresh_usage :: "'j ext \<Rightarrow> app_state \<Rightarrow> string \<Rightarrow> string \<Rightarrow> (app_error, 'j world, unit) act" where
  "refresh_usage E st namespace now =
     bindE (map_err app_of_redb (db_refresh_namespace_usage_if_stale E namespace now False
       (usage_refresh_interval_seconds st))) (\<lambda>_. ret ())"

definition oxide_type :: string where
  "oxide_type = ''application/vnd.oxideterm.oxide''"

text \<open>The response header that carries an ETag, when the ETag is a header value.\<close>

definition etag_header :: "string option \<Rightarrow> headers" where
  "etag_header etag = (case opt_filter header_text etag of
       None \<Rightarrow> [] | Some v \<Rightarrow> [(''etag'', v)])"

section \<open>Metadata\<close>

definition get_metadata ::
  "'j ext \<Rightarrow> app_state \<Rightarrow> string \<Rightarrow> string \<Rightarrow> headers \<Rightarrow> (app_error, 'j world, sync_metadata) act" where
  "get_metadata E st raw_namespace peer_ip headers =
     bindE (lift_res (decode_namespace E raw_namespace)) (\<lambda>namespace.
     bindE (authorize_sync_request_with_permission E st headers namespace Read peer_ip) (\<lambda>_.
     bindE (map_err app_of_redb (db_get_metadata E namespace)) (\<lambda>row.
     case row of
       Some data \<Rightarrow> lift_res (map_sum app_of_serde id (from_slice (c_metadata E) data))
     | None \<Rightarrow> ret empty_metadata)))"

definition metadata_of_write ::
  "app_state \<Rightarrow> metadata_write_request \<Rightarrow> sync_metadata option \<Rightarrow> string \<Rightarrow> string \<Rightarrow> sync_metadata" where
  "metadata_of_write st body existing etag now =
     \<lparr>meta_exists = True,
      meta_format = mw_format body,
      meta_revision = retain_metadata_value (store_revision (metadata_retention st)) (Some (mw_revision body)),
      meta_etag = Some etag,
      meta_content_hash = retain_metadata_value (store_content_hash (metadata_retention st))
        (Option.bind existing meta_content_hash),
      meta_uploaded_at = retain_metadata_value (store_uploaded_at (metadata_retention st))
        (opt_or (mw_uploaded_at body) (Some now)),
      meta_device_id = retain_metadata_value (store_device_id (metadata_retention st)) (mw_device_id body),
      meta_content_length = opt_get 0 (map_option meta_content_length existing),
      meta_section_revisions = mw_section_revisions body,
      meta_sections = mw_sections body,
      meta_content_type = mw_content_type body,
      meta_scope = mw_scope body\<rparr>"

definition put_metadata ::
  "'j ext \<Rightarrow> app_state \<Rightarrow> string \<Rightarrow> string \<Rightarrow> headers \<Rightarrow> metadata_write_request
     \<Rightarrow> (app_error, 'j world, write_response) act" where
  "put_metadata E st raw_namespace peer_ip headers body =
     bindE (lift_res (decode_namespace E raw_namespace)) (\<lambda>namespace.
     bindE (authorize_sync_request_with_permission E st headers namespace Write peer_ip) (\<lambda>_.
     bindE (ensure_disk_capacity E st (256 * 1024)) (\<lambda>_.
     bindE (stored_metadata E namespace) (\<lambda>existing.
     bindE (new_uuid E) (\<lambda>etag.
     bindE (now_rfc3339 E) (\<lambda>now.
     let meta = metadata_of_write st body existing etag now in
     bindE (lift_res (map_sum app_of_serde id (to_vec (c_metadata E) meta))) (\<lambda>serialized.
     bindE (map_err app_of_redb (db_set_metadata E namespace serialized)) (\<lambda>_.
     bindE (refresh_usage E st namespace now) (\<lambda>_.
     ret \<lparr>wr_ok = True, wr_revision = Some (mw_revision body), wr_etag = Some etag,
          wr_section_revisions = meta_section_revisions meta, wr_error = None\<rparr>)))))))))"

section \<open>Blobs\<close>

definition get_blob ::
  "'j ext \<Rightarrow> app_state \<Rightarrow> string \<Rightarrow> string \<Rightarrow> headers \<Rightarrow> (app_error, 'j world, headers \<times> bytes) act" where
  "get_blob E st raw_namespace peer_ip headers =
     bindE (lift_res (decode_namespace E raw_namespace)) (\<lambda>namespace.
     bindE (authorize_sync_request_with_permission E st headers namespace Read peer_ip) (\<lambda>_.
     bindE (map_err app_of_redb (db_get_blob E namespace)) (\<lambda>row.
     bindE (ok_or (Not_Found ''No blob found'') row) (\<lambda>encrypted_blob.
     bindE (lift_res (decrypt_if_needed E st encrypted_blob)) (\<lambda>blob.
     bindE (stored_metadata E namespace) (\<lambda>meta.
     ret ((''content-type'', oxide_type) # etag_header (Option.bind meta meta_etag), blob)))))))"

definition metadata_of_blob ::
  "'j ext \<Rightarrow> app_state \<Rightarrow> headers \<Rightarrow> bytes \<Rightarrow> sync_metadata option \<Rightarrow> string \<Rightarrow> string \<Rightarrow> sync_metadata" where
  "metadata_of_blob E st headers body existing new_etag now =
     \<lparr>meta_exists = True,
      meta_format = Option.bind existing meta_format,
      meta_revision = retain_metadata_value (store_revision (metadata_retention st))
        (header headers ''x-oxideterm-revision''),
      meta_etag = Some new_etag,
      meta_content_hash = retain_metadata_value (store_content_hash (metadata_retention st))
        (Some (sha256_hex E body)),
      meta_uploaded_at = retain_metadata_value (store_uploaded_at (metadata_retention st)) (Some now),
      meta_device_id = retain_metadata_value (store_device_id (metadata_retention st))
        (header headers ''x-oxideterm-device-id''),
      meta_content_length = of_nat (length body),
      meta_section_revisions = Option.bind (header headers ''x-oxideterm-section-revisions'')
        (parse_section_revisions E),
      meta_sections = Option.bind existing meta_sections,
      meta_content_type = Some oxide_type,
      meta_scope = Option.bind existing meta_scope\<rparr>"

definition put_blob ::
  "'j ext \<Rightarrow> app_state \<Rightarrow> string \<Rightarrow> string \<Rightarrow> headers \<Rightarrow> bytes \<Rightarrow> (app_error, 'j world, write_response) act" where
  "put_blob E st raw_namespace peer_ip headers body =
     bindE (lift_res (decode_namespace E raw_namespace)) (\<lambda>namespace.
     bindE (authorize_sync_request_with_permission E st headers namespace Write peer_ip) (\<lambda>_.
     bindE (whenE (length body > max_blob_size st) (throw (Payload_Too_Large (''Blob size ''
         @ show_nat (length body) @ '' exceeds limit '' @ show_nat (max_blob_size st))))) (\<lambda>_.
     bindE (ensure_disk_capacity E st (of_nat (length body))) (\<lambda>_.
     bindE (stored_metadata E namespace) (\<lambda>existing_meta.
     let if_match = header headers ''if-match'';
         if_none_match = header headers ''if-none-match'';
         revision = header headers ''x-oxideterm-revision'';
         device_id = header headers ''x-oxideterm-device-id'' in
     bindE (encrypt_if_needed E st body) (\<lambda>encrypted.
     bindE (new_uuid E) (\<lambda>new_etag.
     bindE (now_rfc3339 E) (\<lambda>now.
     let meta = metadata_of_blob E st headers body existing_meta new_etag now in
     bindE (lift_res (map_sum app_of_serde id (to_vec (c_metadata E) meta))) (\<lambda>serialized_meta.
     handleE (db_put_blob_if_matches E namespace if_match (if_none_match = Some ''*'')
         encrypted serialized_meta)
       (\<lambda>error.
         bindE (record_conditional_write_conflict E st
             \<lparr>co_namespace = namespace, co_operation = ''blob'', co_object_path = None,
              co_device_id = device_id, co_requested_revision = revision,
              co_requested_etag = request_etag_for_conflict if_match if_none_match\<rparr> error) (\<lambda>_.
         throw (map_conditional_write_error error)))
       (\<lambda>_.
         bindE (now_rfc3339 E) (\<lambda>observed_at.
         bindE (refresh_usage E st namespace observed_at) (\<lambda>_.
         ret \<lparr>wr_ok = True, wr_revision = revision, wr_etag = Some new_etag,
              wr_section_revisions = meta_section_revisions meta, wr_error = None\<rparr>))))))))))))"

section \<open>Objects\<close>

record object_list_query =
  q_prefix :: string
  q_cursor :: "string option"
  q_limit :: "nat option"

definition list_query_ok :: "object_list_query \<Rightarrow> bool" where
  "list_query_ok q \<longleftrightarrow>
     (let limit = opt_get 256 (q_limit q) in
      1 \<le> limit \<and> limit \<le> 256 \<and> length (q_prefix q) \<le> 1024
      \<and> \<not> list_ex is_control (utf8_chars (q_prefix q))
      \<and> (case q_cursor q of None \<Rightarrow> True | Some cursor \<Rightarrow>
           cursor \<noteq> [] \<and> length cursor \<le> 1024 \<and> \<not> list_ex is_control (utf8_chars cursor)
           \<and> starts_with cursor (q_prefix q)))"

text \<open>One row more than the page is read to see whether there is a next page.\<close>

definition page_of :: "nat \<Rightarrow> string list \<Rightarrow> string list \<times> string option" where
  "page_of limit paths =
     (if length paths > limit
      then (take limit paths, if take limit paths = [] then None else Some (last (take limit paths)))
      else (paths, None))"

definition list_page ::
  "'j ext \<Rightarrow> app_state \<Rightarrow> string \<Rightarrow> string \<Rightarrow> object_list_query \<Rightarrow> headers
     \<Rightarrow> (app_error, 'j world, string list \<times> string option) act" where
  "list_page E st raw_namespace peer_ip query headers =
     bindE (lift_res (decode_namespace E raw_namespace)) (\<lambda>namespace.
     bindE (authorize_sync_request_with_permission E st headers namespace Read peer_ip) (\<lambda>_.
     bindE (whenE (\<not> list_query_ok query) (throw (Bad_Request ''Invalid object listing parameters''))) (\<lambda>_.
     let limit = opt_get 256 (q_limit query) in
     bindE (map_err app_of_redb (db_list_object_paths E namespace (q_prefix query) (q_cursor query) (limit + 1))) (\<lambda>paths.
     ret (page_of limit paths)))))"

definition list_objects ::
  "'j ext \<Rightarrow> app_state \<Rightarrow> string \<Rightarrow> string \<Rightarrow> object_list_query \<Rightarrow> headers \<Rightarrow> (app_error, 'j world, json) act" where
  "list_objects E st raw_namespace peer_ip query headers =
     bindE (list_page E st raw_namespace peer_ip query headers) (\<lambda>(paths, next_cursor).
     ret (JObj [(''objects'', JArr (map (\<lambda>path. JObj [(''path'', JStr path)]) paths)),
                (''nextCursor'', json_opt_str next_cursor)]))"

definition delete_object ::
  "'j ext \<Rightarrow> app_state \<Rightarrow> string \<Rightarrow> string \<Rightarrow> string \<Rightarrow> headers \<Rightarrow> (app_error, 'j world, nat) act" where
  "delete_object E st raw_namespace raw_path peer_ip headers =
     bindE (lift_res (decode_namespace E raw_namespace)) (\<lambda>namespace.
     bindE (authorize_sync_request_with_permission E st headers namespace Write peer_ip) (\<lambda>_.
     bindE (lift_res (decode_object_path E raw_path)) (\<lambda>decoded_path.
     bindE (map_err app_of_redb (db_delete_object E namespace decoded_path)) (\<lambda>deleted.
     bindE (whenE deleted (bindE (now_rfc3339 E) (refresh_usage E st namespace))) (\<lambda>_.
     ret 204)))))"

definition object_content_type :: "string \<Rightarrow> string" where
  "object_content_type path =
     (if ends_with path ''.json'' then ''application/json''
      else if ends_with path ''.oxide'' then oxide_type
      else ''application/octet-stream'')"

definition get_object ::
  "'j ext \<Rightarrow> app_state \<Rightarrow> string \<Rightarrow> string \<Rightarrow> string \<Rightarrow> headers
     \<Rightarrow> (app_error, 'j world, nat \<times> headers \<times> bytes) act" where
  "get_object E st raw_namespace raw_path peer_ip headers =
     bindE (lift_res (decode_namespace E raw_namespace)) (\<lambda>namespace.
     bindE (authorize_sync_request_with_permission E st headers namespace Read peer_ip) (\<lambda>_.
     bindE (lift_res (decode_object_path E raw_path)) (\<lambda>decoded_path.
     bindE (map_err app_of_redb (db_get_object E namespace decoded_path)) (\<lambda>row.
     case row of
       Some encrypted \<Rightarrow>
         bindE (lift_res (decrypt_if_needed E st encrypted)) (\<lambda>data.
         bindE (map_err app_of_redb (db_get_object_metadata E namespace decoded_path)) (\<lambda>object_meta.
         ret (200, (''content-type'', object_content_type decoded_path)
                # etag_header (map_option om_etag object_meta), data)))
     | None \<Rightarrow> ret (404, [], [])))))"

definition put_object ::
  "'j ext \<Rightarrow> app_state \<Rightarrow> string \<Rightarrow> string \<Rightarrow> string \<Rightarrow> headers \<Rightarrow> bytes
     \<Rightarrow> (app_error, 'j world, object_write_response) act" where
  "put_object E st raw_namespace raw_path peer_ip headers body =
     bindE (lift_res (decode_namespace E raw_namespace)) (\<lambda>namespace.
     bindE (authorize_sync_request_with_permission E st headers namespace Write peer_ip) (\<lambda>_.
     bindE (lift_res (decode_object_path E raw_path)) (\<lambda>decoded_path.
     bindE (whenE (length body > max_object_size st) (throw (Payload_Too_Large (''Object size ''
         @ show_nat (length body) @ '' exceeds limit '' @ show_nat (max_object_size st))))) (\<lambda>_.
     bindE (ensure_disk_capacity E st (of_nat (length body))) (\<lambda>_.
     bindE (encrypt_if_needed E st body) (\<lambda>encrypted.
     bindE (new_uuid E) (\<lambda>etag.
     bindE (now_rfc3339 E) (\<lambda>now.
     let if_match = header headers ''if-match'';
         if_none_match = header headers ''if-none-match'' in
     handleE (db_put_object_if_matches E namespace decoded_path if_match
         (if_none_match = Some ''*'') encrypted \<lparr>om_etag = etag, om_updated_at = now\<rparr>)
       (\<lambda>error.
         bindE (record_conditional_write_conflict E st
             \<lparr>co_namespace = namespace, co_operation = ''object'', co_object_path = Some decoded_path,
              co_device_id = header headers ''x-oxideterm-device-id'',
              co_requested_revision = header headers ''x-oxideterm-revision'',
              co_requested_etag = request_etag_for_conflict if_match if_none_match\<rparr> error) (\<lambda>_.
         throw (map_conditional_write_error error)))
       (\<lambda>_.
         bindE (now_rfc3339 E) (\<lambda>observed_at.
         bindE (refresh_usage E st namespace observed_at) (\<lambda>_.
         ret \<lparr>owr_etag = Some etag\<rparr>)))))))))))"

section \<open>Health and readiness\<close>

definition health_check :: json where
  "health_check = JObj [(''status'', JStr ''ok''), (''service'', JStr ''oxideterm-cloud-sync-server'')]"

text \<open>The handler without the size of the database file, which it reports as the disk gives it.\<close>

definition readiness_check :: "'j ext \<Rightarrow> app_state \<Rightarrow> u64 \<Rightarrow> (app_error, 'j world, nat \<times> json) act" where
  "readiness_check E st db_size_bytes =
     bindE (attempt (db_check_writable E)) (\<lambda>checked.
     bindE (sample (disk_free_bytes E)) (\<lambda>free_bytes.
     let db_writable = (res_ok checked \<noteq> None);
         disk_above_minimum = opt_get True (map_option (\<lambda>free. free \<ge> min_free_disk_bytes st) free_bytes);
         ready = (db_writable \<and> disk_above_minimum)
     in ret (if ready then 200 else 503, JObj
          [(''status'', JStr (if ready then ''ready'' else ''degraded'')),
           (''dbWritable'', JBool db_writable),
           (''dbSizeBytes'', json_u64 db_size_bytes),
           (''diskFreeBytes'', case free_bytes of None \<Rightarrow> JNull | Some n \<Rightarrow> json_u64 n),
           (''minFreeDiskBytes'', json_u64 (min_free_disk_bytes st)),
           (''diskAboveMinimum'', JBool disk_above_minimum),
           (''encryptionEnabled'', JBool (encryption_key st \<noteq> None)),
           (''adminEnabled'', JBool (admin_enabled st)),
           (''jwtSecretPersistent'', JBool (admin_jwt_secret_persistent st))])))"

end
