(* ===== verification/Db_Steps.thy ===== *)
theory Db_Steps
  imports Db_Admin Db_Tokens Db_Namespaces
begin

text \<open>
  The database as a state machine: one rule per write transaction of
  \<^verbatim>\<open>src/src/db.rs\<close>. redb runs write transactions one after the other, so whatever
  requests run side by side, the database moves by these steps in some order. The
  invariant \<open>db_wf\<close> (rows decode and sit under their own keys, objects and their
  metadata come in pairs, the hash index of the tokens is exact) holds in every reachable
  database.
\<close>

section \<open>Steps\<close>

inductive db_step :: "'j ext \<Rightarrow> 'j db \<Rightarrow> 'j db \<Rightarrow> bool" for E where
  set_metadata: "to_vec (c_metadata E) m = Inr v \<Longrightarrow>
    db_step E d (d\<lparr>metadata_table := tput (metadata_key ns) v (metadata_table d)\<rparr>)"
| put_blob: "to_vec (c_metadata E) m = Inr v \<Longrightarrow> put_blob_tx E ns x a blob v d = Inr (u, d') \<Longrightarrow> db_step E d d'"
| put_object: "put_object_tx E ns path x a data om d = Inr (u, d') \<Longrightarrow> db_step E d d'"
| delete_object: "db_step E d (snd (delete_object_tx ns path d))"
| set_usage: "us_namespace us = ns \<Longrightarrow> set_namespace_usage_tx E ns us d = Inr (r, d') \<Longrightarrow> db_step E d d'"
| add_conflict: "add_sync_conflict_tx E c n d = Inr (u, d') \<Longrightarrow> db_step E d d'"
| set_user: "set_admin_user_tx E user d = Inr (u, d') \<Longrightarrow> db_step E d d'"
| delete_user: "db_step E d (d\<lparr>admin_user_table := tdel (admin_user_key name) (admin_user_table d)\<rparr>)"
| set_login: "set_login_attempt_tx E ip la d = Inr (u, d') \<Longrightarrow> db_step E d d'"
| delete_login: "db_step E d (d\<lparr>login_attempt_table := tdel ip (login_attempt_table d)\<rparr>)"
| cleanup_login: "db_step E d (cleanup_login_attempts_tx E now win d)"
| set_token: "set_token_tx E t d = Inr (u, d') \<Longrightarrow>
    \<forall>i. tget (token_hash_table d) (tok_token_hash t) = Some i \<longrightarrow> i = tok_id t \<Longrightarrow> db_step E d d'"
| token_usage: "record_token_usage_tx E i ns p c cv now d = Inr (u, d') \<Longrightarrow> db_step E d d'"
| token_failure: "record_token_failure_tx E i d = Inr (u, d') \<Longrightarrow> db_step E d d'"
| delete_token: "delete_token_tx E i d = Inr (u, d') \<Longrightarrow> db_step E d d'"
| set_device: "set_device_tx E dev d = Inr (u, d') \<Longrightarrow> db_step E d d'"
| delete_device: "db_step E d (d\<lparr>device_table := tdel (device_key i) (device_table d)\<rparr>)"
| soft_delete: "soft_delete_namespace_tx E ns at d = Inr (u, d') \<Longrightarrow> db_step E d d'"
| restore: "db_step E d (restore_namespace_tx ns d)"
| hard_delete: "db_step E d (hard_delete_namespace_tx ns d)"

inductive db_reachable :: "'j ext \<Rightarrow> 'j db \<Rightarrow> bool" for E where
  start: "db_reachable E open_db"
| step: "db_reachable E d \<Longrightarrow> db_step E d d' \<Longrightarrow> db_reachable E d'"

section \<open>Rows under their own keys\<close>

definition rows_keyed :: "('a, 'j) codec \<Rightarrow> ('a \<Rightarrow> string \<Rightarrow> bool) \<Rightarrow> 'j table \<Rightarrow> bool" where
  "rows_keyed c at t \<longleftrightarrow> (\<forall>k v. tget t k = Some v \<longrightarrow> (\<exists>x. from_slice c v = Inr x \<and> at x k))"

lemma rows_keyed_empty [simp]: "rows_keyed c at tempty"
  by (simp add: rows_keyed_def)

lemma rows_keyed_put: "rows_keyed c at t \<Longrightarrow> from_slice c v = Inr x \<Longrightarrow> at x k \<Longrightarrow> rows_keyed c at (tput k v t)"
  by (auto simp: rows_keyed_def)

lemma rows_keyed_del: "rows_keyed c at t \<Longrightarrow> rows_keyed c at (tdel k t)"
  by (auto simp: rows_keyed_def)

lemma rows_keyed_del_all: "rows_keyed c at t \<Longrightarrow> rows_keyed c at (fold tdel ks t)"
  by (induction ks arbitrary: t) (simp_all add: rows_keyed_del)

lemma rows_keyed_decode:
  "rows_keyed c at t \<Longrightarrow> \<exists>x. decode_row c (tget t k) = Inr x \<and> (\<forall>y. x = Some y \<longrightarrow> at y k)"
  by (cases "tget t k") (fastforce simp: rows_keyed_def decode_row_def)+

lemmas rows_keyed_intros = rows_keyed_put rows_keyed_del rows_keyed_del_all

section \<open>The invariant\<close>

definition any_key :: "'a \<Rightarrow> string \<Rightarrow> bool" where
  "any_key x k \<longleftrightarrow> True"

definition user_key_of :: "admin_user_record \<Rightarrow> string \<Rightarrow> bool" where
  "user_key_of u k \<longleftrightarrow> k = admin_user_key (usr_username u)"

definition device_key_of :: "device_record \<Rightarrow> string \<Rightarrow> bool" where
  "device_key_of v k \<longleftrightarrow> k = device_key (dev_id v)"

definition usage_key_of :: "namespace_usage_record \<Rightarrow> string \<Rightarrow> bool" where
  "usage_key_of u k \<longleftrightarrow> k = namespace_usage_key (us_namespace u)"

definition conflict_key_of :: "sync_conflict_record \<Rightarrow> string \<Rightarrow> bool" where
  "conflict_key_of c k \<longleftrightarrow> k = sync_conflict_key (sc_occurred_at c) (sc_id c)"

definition rows_wf :: "'j ext \<Rightarrow> 'j db \<Rightarrow> bool" where
  "rows_wf E d \<longleftrightarrow> rows_keyed (c_metadata E) any_key (metadata_table d)
     \<and> rows_keyed (c_object_meta E) any_key (object_meta_table d)
     \<and> rows_keyed (c_device E) device_key_of (device_table d)
     \<and> rows_keyed (c_login E) any_key (login_attempt_table d)
     \<and> rows_keyed (c_deleted E) any_key (deleted_namespace_table d)
     \<and> rows_keyed (c_conflict E) conflict_key_of (sync_conflict_table d)
     \<and> rows_keyed (c_usage E) usage_key_of (namespace_usage_table d)
     \<and> rows_keyed (c_user E) user_key_of (admin_user_table d)"

definition db_wf :: "'j ext \<Rightarrow> 'j db \<Rightarrow> bool" where
  "db_wf E d \<longleftrightarrow> rows_wf E d \<and> objects_paired d \<and> token_index_ok E d"

lemmas key_of_defs = any_key_def user_key_of_def device_key_of_def usage_key_of_def conflict_key_of_def

lemma open_db_wf: "db_wf E open_db"
  by (simp add: db_wf_def rows_wf_def open_db_def objects_paired_def token_index_ok_def
      get_token_tx_def token_at_def)

text \<open>Which part of the invariant looks at which tables.\<close>

lemma token_index_tables:
  "token_index_ok E d \<Longrightarrow> token_table d' = token_table d \<Longrightarrow> token_hash_table d' = token_hash_table d \<Longrightarrow>
     token_index_ok E d'"
  by (simp add: token_index_ok_def token_at_def get_token_tx_def)

text \<open>The tables of a token use.\<close>

lemma touch_device_tx_tables:
  "touch_device_tx E i dv c cv now d = Inr (u, d') \<Longrightarrow>
     \<exists>t. d' = d\<lparr>device_table := t\<rparr> \<and> (rows_keyed (c_device E) device_key_of (device_table d) \<longrightarrow>
       codec_ok (c_device E) \<longrightarrow> rows_keyed (c_device E) device_key_of t)"
proof (cases dv)
  case None
  moreover assume "touch_device_tx E i dv c cv now d = Inr (u, d')"
  ultimately have "d' = d\<lparr>device_table := device_table d\<rparr>" by (simp add: touch_device_tx_def)
  then show ?thesis by blast
next
  case (Some k)
  assume "touch_device_tx E i dv c cv now d = Inr (u, d')"
  with Some consider "d' = d\<lparr>device_table := device_table d\<rparr>"
    | dev v where "decode_row (c_device E) (tget (device_table d) (device_key k)) = Inr (Some dev)"
      "to_vec (c_device E) (touch_device i c cv now dev) = Inr v"
      "d' = d\<lparr>device_table := tput (device_key k) v (device_table d)\<rparr>"
    by (auto simp: touch_device_tx_def encode_row_ok_iff split: sum.splits option.splits)
  then show ?thesis
  proof cases
    case 1
    then show ?thesis by blast
  next
    case 2
    have "rows_keyed (c_device E) device_key_of (tput (device_key k) v (device_table d))"
      if "rows_keyed (c_device E) device_key_of (device_table d)" "codec_ok (c_device E)"
    proof -
      have "device_key_of dev (device_key k)"
        using rows_keyed_decode [OF that(1), of "device_key k"] 2(1) by auto
      then have "device_key_of (touch_device i c cv now dev) (device_key k)"
        by (simp add: device_key_of_def touch_device_def)
      with that codec_ok_decode [OF that(2) 2(2)] show ?thesis
        by (blast intro: rows_keyed_put)
    qed
    with 2(3) show ?thesis by blast
  qed
qed

lemma record_token_usage_tables:
  assumes "record_token_usage_tx E i ns p c cv now d = Inr (u, d')"
  shows "\<exists>s t. d' = d\<lparr>token_table := s, device_table := t\<rparr>
    \<and> (rows_keyed (c_device E) device_key_of (device_table d) \<longrightarrow>
       codec_ok (c_device E) \<longrightarrow> rows_keyed (c_device E) device_key_of t)"
proof -
  have "d' = d \<or> (\<exists>dv s. touch_device_tx E i dv c cv now (d\<lparr>token_table := s\<rparr>) = Inr (u, d'))"
    using assms unfolding record_token_usage_tx_def
    by (cases "get_token_tx E i d") (auto split: option.splits sum.splits)
  then show ?thesis
  proof (elim disjE exE)
    assume "d' = d"
    then have "d' = d\<lparr>token_table := token_table d, device_table := device_table d\<rparr>" by simp
    then show ?thesis by blast
  next
    fix dv s
    assume "touch_device_tx E i dv c cv now (d\<lparr>token_table := s\<rparr>) = Inr (u, d')"
    from touch_device_tx_tables [OF this] obtain t where t: "d' = d\<lparr>token_table := s, device_table := t\<rparr>"
        "rows_keyed (c_device E) device_key_of (device_table d) \<longrightarrow>
           codec_ok (c_device E) \<longrightarrow> rows_keyed (c_device E) device_key_of t"
      by auto
    then show ?thesis by blast
  qed
qed

lemma record_token_failure_tables:
  assumes "record_token_failure_tx E i d = Inr (u, d')"
  shows "\<exists>s. d' = d\<lparr>token_table := s\<rparr>"
proof -
  consider "d' = d\<lparr>token_table := token_table d\<rparr>" | s where "d' = d\<lparr>token_table := s\<rparr>"
    using assms by (auto simp: record_token_failure_tx_def split: option.splits sum.splits)
  then show ?thesis by cases blast+
qed

section \<open>The invariant is kept\<close>

text \<open>Replacing one table keeps the rest of the invariant.\<close>

lemma rows_wf_other [simp]:
  "rows_wf E (d\<lparr>blob_table := b\<rparr>) = rows_wf E d"
  "rows_wf E (d\<lparr>object_table := b\<rparr>) = rows_wf E d"
  "rows_wf E (d\<lparr>token_table := j\<rparr>) = rows_wf E d"
  "rows_wf E (d\<lparr>token_hash_table := h\<rparr>) = rows_wf E d"
  by (simp_all add: rows_wf_def)

lemma rows_wf_table:
  assumes "rows_wf E d"
  shows "rows_keyed (c_metadata E) any_key t \<Longrightarrow> rows_wf E (d\<lparr>metadata_table := t\<rparr>)"
    and "rows_keyed (c_object_meta E) any_key t \<Longrightarrow> rows_wf E (d\<lparr>object_meta_table := t\<rparr>)"
    and "rows_keyed (c_device E) device_key_of t \<Longrightarrow> rows_wf E (d\<lparr>device_table := t\<rparr>)"
    and "rows_keyed (c_login E) any_key t \<Longrightarrow> rows_wf E (d\<lparr>login_attempt_table := t\<rparr>)"
    and "rows_keyed (c_deleted E) any_key t \<Longrightarrow> rows_wf E (d\<lparr>deleted_namespace_table := t\<rparr>)"
    and "rows_keyed (c_conflict E) conflict_key_of t \<Longrightarrow> rows_wf E (d\<lparr>sync_conflict_table := t\<rparr>)"
    and "rows_keyed (c_usage E) usage_key_of t \<Longrightarrow> rows_wf E (d\<lparr>namespace_usage_table := t\<rparr>)"
    and "rows_keyed (c_user E) user_key_of t \<Longrightarrow> rows_wf E (d\<lparr>admin_user_table := t\<rparr>)"
  using assms by (simp_all add: rows_wf_def)

lemma rows_wfD:
  assumes "rows_wf E d"
  shows "rows_keyed (c_metadata E) any_key (metadata_table d)"
    and "rows_keyed (c_object_meta E) any_key (object_meta_table d)"
    and "rows_keyed (c_device E) device_key_of (device_table d)"
    and "rows_keyed (c_login E) any_key (login_attempt_table d)"
    and "rows_keyed (c_deleted E) any_key (deleted_namespace_table d)"
    and "rows_keyed (c_conflict E) conflict_key_of (sync_conflict_table d)"
    and "rows_keyed (c_usage E) usage_key_of (namespace_usage_table d)"
    and "rows_keyed (c_user E) user_key_of (admin_user_table d)"
  using assms by (simp_all add: rows_wf_def)

lemmas tx_defs = delete_object_tx_def set_namespace_usage_tx_def add_sync_conflict_tx_def Let_def
  set_admin_user_tx_def set_login_attempt_tx_def cleanup_login_attempts_tx_def set_token_tx_def
  delete_token_tx_def set_device_tx_def soft_delete_namespace_tx_def restore_namespace_tx_def
  hard_delete_namespace_tx_def encode_row_ok_iff

lemma rows_wf_step:
  assumes c: "codecs_ok E" and wf: "rows_wf E d" and step: "db_step E d d'"
  shows "rows_wf E d'"
proof -
  note decode = codecs_okD [OF c, THEN codec_ok_decode]
  note row = decode rows_wfD [OF wf] rows_keyed_intros
  show ?thesis
    using step
  proof cases
    case (set_metadata m v ns)
    then show ?thesis using wf by (auto intro!: rows_wf_table(1) row simp: any_key_def)
  next
    case (put_blob m v ns x a blob u)
    then show ?thesis using wf
      by (auto simp: put_blob_tx_ok_iff any_key_def intro!: rows_wf_table(1) row)
  next
    case put_object
    then show ?thesis using wf
      by (auto simp: put_object_tx_ok_iff any_key_def intro!: rows_wf_table(2) row)
  next
    case token_usage
    from record_token_usage_tables [OF this] c show ?thesis
      by (auto simp: wf codecs_ok_def intro!: rows_wf_table(3) rows_wfD)
  next
    case token_failure
    from record_token_failure_tables [OF this] wf show ?thesis by auto
  next
    case set_usage
    then show ?thesis using wf
      by (auto simp: tx_defs usage_key_of_def intro!: rows_wf_table(7) row split: sum.splits)
  next
    case add_conflict
    then show ?thesis using wf
      by (auto simp: tx_defs conflict_key_of_def intro!: rows_wf_table(6) row split: sum.splits)
  next
    case set_user
    then show ?thesis using wf
      by (auto simp: tx_defs user_key_of_def intro!: rows_wf_table(8) row split: sum.splits)
  next
    case set_login
    then show ?thesis using wf
      by (auto simp: tx_defs any_key_def intro!: rows_wf_table(4) row split: sum.splits)
  next
    case set_device
    then show ?thesis using wf
      by (auto simp: tx_defs device_key_of_def intro!: rows_wf_table(3) row split: sum.splits)
  next
    case soft_delete
    then show ?thesis using wf
      by (auto simp: tx_defs any_key_def intro!: rows_wf_table(5) row split: sum.splits)
  next
    case set_token
    then show ?thesis using wf by (auto simp: tx_defs split: sum.splits)
  next
    case delete_token
    then show ?thesis using wf by (auto simp: tx_defs split: sum.splits)
  qed (use wf in \<open>auto simp: tx_defs intro!: rows_wf_table rows_wfD [OF wf] rows_keyed_intros(2,3)\<close>)
qed

lemma objects_paired_step:
  assumes "objects_paired d" and "db_step E d d'"
  shows "objects_paired d'"
  using assms(2)
proof cases
  case put_object
  with assms(1) show ?thesis by (rule put_object_paired)
next
  case delete_object
  then show ?thesis using delete_object_paired [OF assms(1)] by simp
next
  case token_usage
  from record_token_usage_tables [OF this] assms(1) show ?thesis
    by (auto simp: objects_paired_def)
next
  case token_failure
  from record_token_failure_tables [OF this] assms(1) show ?thesis
    by (auto simp: objects_paired_def)
next
  case hard_delete
  then show ?thesis using hard_delete_paired [OF assms(1)] by simp
next
  case put_blob
  then show ?thesis using assms(1) by (auto simp: put_blob_tx_ok_iff objects_paired_def)
qed (use assms(1) in \<open>auto simp: tx_defs objects_paired_def split: sum.splits\<close>)

lemma token_index_step:
  assumes c: "codecs_ok E" and ok: "token_index_ok E d" and step: "db_step E d d'"
  shows "token_index_ok E d'"
  using step
proof cases
  case token_usage
  show ?thesis by (rule record_token_usage_index [OF codecs_okD(3) [OF c] ok token_usage])
next
  case token_failure
  show ?thesis by (rule record_token_failure_index [OF codecs_okD(3) [OF c] ok token_failure])
next
  case set_token
  show ?thesis by (rule set_token_index [OF codecs_okD(3) [OF c] ok set_token])
next
  case delete_token
  show ?thesis by (rule delete_token_index(1) [OF ok delete_token])
next
  case put_blob
  then show ?thesis by (auto simp: put_blob_tx_ok_iff intro!: token_index_tables [OF ok])
next
  case put_object
  then show ?thesis by (auto simp: put_object_tx_ok_iff intro!: token_index_tables [OF ok])
next
  case set_device
  then show ?thesis by (auto simp: set_device_tx_def split: sum.splits intro!: token_index_tables [OF ok])
next
  case set_usage
  then show ?thesis by (auto simp: set_namespace_usage_tx_def split: sum.splits intro!: token_index_tables [OF ok])
next
  case add_conflict
  then show ?thesis by (auto simp: add_sync_conflict_tx_def Let_def split: sum.splits intro!: token_index_tables [OF ok])
next
  case set_user
  then show ?thesis by (auto simp: set_admin_user_tx_def split: sum.splits intro!: token_index_tables [OF ok])
next
  case set_login
  then show ?thesis by (auto simp: set_login_attempt_tx_def split: sum.splits intro!: token_index_tables [OF ok])
next
  case soft_delete
  then show ?thesis by (auto simp: soft_delete_namespace_tx_def split: sum.splits intro!: token_index_tables [OF ok])
qed (auto simp: delete_object_tx_def cleanup_login_attempts_tx_def restore_namespace_tx_def
      hard_delete_namespace_tx_def Let_def intro!: token_index_tables [OF ok])

lemma db_wf_step:
  assumes "codecs_ok E" "db_wf E d" "db_step E d d'"
  shows "db_wf E d'"
  using assms rows_wf_step objects_paired_step token_index_step
  unfolding db_wf_def by blast

lemma db_wf_steps: "(db_step E)\<^sup>*\<^sup>* d d' \<Longrightarrow> codecs_ok E \<Longrightarrow> db_wf E d \<Longrightarrow> db_wf E d'"
  by (induction rule: rtranclp_induct) (auto intro: db_wf_step)

lemma reachable_wf: "db_reachable E d \<Longrightarrow> codecs_ok E \<Longrightarrow> db_wf E d"
  by (induction rule: db_reachable.induct) (auto intro: open_db_wf db_wf_step)

lemma reachable_steps: "(db_step E)\<^sup>*\<^sup>* d d' \<Longrightarrow> db_reachable E d \<Longrightarrow> db_reachable E d'"
  by (induction rule: rtranclp_induct) (auto intro: db_reachable.step)

section \<open>Handlers move by steps\<close>

text \<open>
  The frames in which the handlers are proved: the database moves by steps; and, for the
  gate, only the audit tables move.
\<close>

interpretation steps: db_frame "(db_step E)\<^sup>*\<^sup>*" for E :: "'j ext"
  by unfold_locales auto

lemma steps_write_txn:
  "(\<And>d x d'. f d = Inr (x, d') \<Longrightarrow> (db_step E)\<^sup>*\<^sup>* d d') \<Longrightarrow>
     moves (on_db (db_step E)\<^sup>*\<^sup>*) (write_txn E' conv f)"
  by (rule steps.frame_write_txn)

text \<open>A database where only tokens and devices differ.\<close>

definition without_audit :: "'j db \<Rightarrow> 'j db" where
  "without_audit d = d\<lparr>token_table := tempty, device_table := tempty\<rparr>"

definition audit_only :: "'j db \<Rightarrow> 'j db \<Rightarrow> bool" where
  "audit_only d d' \<longleftrightarrow> without_audit d = without_audit d'"

interpretation audit: db_frame audit_only
  by unfold_locales (simp_all add: audit_only_def)

lemma audit_only_tables:
  assumes "audit_only d d'"
  shows "metadata_table d' = metadata_table d" "blob_table d' = blob_table d"
    "object_table d' = object_table d" "object_meta_table d' = object_meta_table d"
    "token_hash_table d' = token_hash_table d" "login_attempt_table d' = login_attempt_table d"
    "deleted_namespace_table d' = deleted_namespace_table d"
    "sync_conflict_table d' = sync_conflict_table d"
    "namespace_usage_table d' = namespace_usage_table d" "admin_user_table d' = admin_user_table d"
  using assms by (cases d, cases d', simp add: audit_only_def without_audit_def)+

text \<open>What the sync API serves: the rows of metadata, blobs and objects.\<close>

definition content :: "'j db \<Rightarrow> 'j table \<times> bytes table \<times> bytes table \<times> 'j table" where
  "content d = (metadata_table d, blob_table d, object_table d, object_meta_table d)"

definition same_content :: "'j db \<Rightarrow> 'j db \<Rightarrow> bool" where
  "same_content d d' \<longleftrightarrow> content d = content d'"

interpretation kept: db_frame same_content
  by unfold_locales (simp_all add: same_content_def)


lemma audit_only_content: "audit_only d d' \<Longrightarrow> same_content d d'"
  by (simp add: audit_only_tables same_content_def content_def)

end
