(* ===== verification/Api_Frames.thy ===== *)
theory Api_Frames
  imports Api_Sync Db_Steps
begin

text \<open>
  What the actions of the sync API do to the database as a whole: every one of them moves
  it by committed steps, the gate touches audit tables only, and the readers leave the
  served content alone.
\<close>

section \<open>Single transactions\<close>

abbreviation steps_of :: "'j ext \<Rightarrow> 'j world \<Rightarrow> 'j world \<Rightarrow> bool" where
  "steps_of E \<equiv> on_db (db_step E)\<^sup>*\<^sup>*"

lemma read_moves [step_moves]: "moves (steps_of E) (read_txn E' conv f)"
  by (rule steps.frame_read_txn)

lemma db_read_moves [step_moves]:
  "moves (steps_of E) (db_get_metadata E' ns)" "moves (steps_of E) (db_get_blob E' ns)"
  "moves (steps_of E) (db_list_object_paths E' ns p a n)" "moves (steps_of E) (db_get_object E' ns p)"
  "moves (steps_of E) (db_get_object_metadata E' ns p)" "moves (steps_of E) (db_blob_size E' ns)"
  "moves (steps_of E) (db_namespace_object_stats E' ns)" "moves (steps_of E) (db_get_namespace_usage E' ns)"
  "moves (steps_of E) (db_is_namespace_deleted E' ns)" "moves (steps_of E) (db_get_token E' i)"
  by (simp_all add: db_get_metadata_def db_get_blob_def db_list_object_paths_def db_get_object_def
      db_get_object_metadata_def db_blob_size_def db_namespace_object_stats_def
      db_get_namespace_usage_def db_is_namespace_deleted_def db_get_token_def steps.frame_read_txn)

lemma db_get_token_by_hash_moves [step_moves]: "moves (steps_of E) (db_get_token_by_hash E' h)"
  unfolding db_get_token_by_hash_def
  by (rule steps.frame_bindE) (auto intro: steps.db_frame_rules step_moves split: option.split)

lemma db_write_moves [step_moves]:
  "to_vec (c_metadata E) m = Inr v \<Longrightarrow> moves (steps_of E) (db_set_metadata E ns v)"
  "to_vec (c_metadata E) m = Inr v \<Longrightarrow> moves (steps_of E) (db_put_blob_if_matches E ns x a blob v)"
  "moves (steps_of E) (db_put_object_if_matches E ns p x a data om)"
  "moves (steps_of E) (db_delete_object E ns p)"
  "moves (steps_of E) (db_add_sync_conflict E c n)"
  "moves (steps_of E) (db_record_token_usage E i ns p c' cv now)"
  "moves (steps_of E) (db_record_token_failure E i)"
  by (auto simp: db_set_metadata_def db_put_blob_if_matches_def db_put_object_if_matches_def
      db_delete_object_def db_add_sync_conflict_def db_record_token_usage_def
      db_record_token_failure_def
      intro!: steps.frame_write_txn r_into_rtranclp
      intro: db_step.intros) (metis delete_object snd_conv)

lemma db_check_writable_moves [step_moves]: "moves (steps_of E) (db_check_writable E')"
  by (auto simp: db_check_writable_def intro!: steps.frame_write_txn)

lemma set_usage_moves [step_moves]:
  "us_namespace us = ns \<Longrightarrow> moves (steps_of E) (write_txn E conv (set_namespace_usage_tx E ns us))"
  by (rule steps.frame_write_txn) (blast intro: db_step.set_usage)

lemma db_refresh_namespace_usage_moves [step_moves]:
  "moves (steps_of E) (db_refresh_namespace_usage E ns now s)"
  unfolding db_refresh_namespace_usage_def Let_def
  by (auto intro!: steps.frame_bindE step_moves)

lemma db_refresh_if_stale_moves [step_moves]:
  "moves (steps_of E) (db_refresh_namespace_usage_if_stale E ns now s k)"
  unfolding db_refresh_namespace_usage_if_stale_def Let_def
  by (auto intro!: steps.db_frame_rules step_moves)

section \<open>The gate\<close>

lemma ensure_token_active_moves [step_moves]: "moves (steps_of E) (ensure_token_active E' t)"
  unfolding ensure_token_active_def token_expired_def
  by (auto intro!: steps.db_frame_rules split: option.split)

lemma ensure_namespace_active_moves [step_moves]: "moves (steps_of E) (ensure_namespace_active E' ns)"
  unfolding ensure_namespace_active_def by (intro steps.db_frame_rules step_moves)

lemma extract_auth_moves [step_moves]: "moves (steps_of E) (extract_auth E' hs)"
  unfolding extract_auth_def by (intro steps.db_frame_rules step_moves)

lemma record_token_failure_moves [step_moves]: "moves (steps_of E) (record_token_failure E i)"
  unfolding record_token_failure_def by (intro steps.db_frame_rules step_moves)

lemma authorize_moves [step_moves]:
  "moves (steps_of E) (authorize_sync_request_with_permission E st hs ns p ip)"
  unfolding authorize_sync_request_with_permission_def
  by (auto intro!: steps.db_frame_rules step_moves split: sum.split)

lemma ensure_disk_capacity_moves [step_moves]: "moves (steps_of E) (ensure_disk_capacity E' st n)"
  unfolding ensure_disk_capacity_def by (auto intro!: steps.db_frame_rules simp: Let_def split: option.split)

lemma record_conflict_moves [step_moves]:
  "moves (steps_of E) (record_conditional_write_conflict E st ob e)"
  unfolding record_conditional_write_conflict_def
  by (auto intro!: steps.db_frame_rules step_moves split: conditional_write_error.split)

section \<open>The handlers\<close>

lemma storage_helper_moves [step_moves]:
  "moves (steps_of E) (encrypt_if_needed E' st bs)"
  "moves (steps_of E) (stored_metadata E' ns)"
  "moves (steps_of E) (refresh_usage E st ns now)"
  unfolding encrypt_if_needed_def encrypt_def stored_metadata_def refresh_usage_def
  by (auto intro!: steps.db_frame_rules step_moves split: option.split)

lemma serialized_Inr: "map_sum app_of_serde id r = Inr v \<Longrightarrow> r = Inr v"
  by (cases r) simp_all

lemma get_metadata_moves: "moves (steps_of E) (get_metadata E st rns ip hs)"
  unfolding get_metadata_def by (auto intro!: steps.db_frame_rules step_moves split: option.split)

lemma put_metadata_moves: "moves (steps_of E) (put_metadata E st rns ip hs body)"
  unfolding put_metadata_def Let_def
  by (auto intro!: steps.frame_bind_lift steps.db_frame_rules step_moves dest: serialized_Inr)

lemma get_blob_moves: "moves (steps_of E) (get_blob E st rns ip hs)"
  unfolding get_blob_def by (intro steps.db_frame_rules step_moves)

lemma put_blob_moves: "moves (steps_of E) (put_blob E st rns ip hs body)"
  unfolding put_blob_def Let_def
  by (auto intro!: steps.frame_bind_lift steps.db_frame_rules step_moves dest: serialized_Inr split: sum.split)

lemma list_objects_moves: "moves (steps_of E) (list_objects E st rns ip q hs)"
  unfolding list_objects_def list_page_def Let_def
  by (auto intro!: steps.db_frame_rules step_moves)

lemma delete_object_moves: "moves (steps_of E) (delete_object E st rns rp ip hs)"
  unfolding delete_object_def by (intro steps.db_frame_rules step_moves)

lemma get_object_moves: "moves (steps_of E) (get_object E st rns rp ip hs)"
  unfolding get_object_def by (auto intro!: steps.db_frame_rules step_moves split: option.split)

lemma put_object_moves: "moves (steps_of E) (put_object E st rns rp ip hs body)"
  unfolding put_object_def Let_def
  by (auto intro!: steps.db_frame_rules step_moves split: sum.split)

lemma readiness_check_moves: "moves (steps_of E) (readiness_check E st n)"
  unfolding readiness_check_def Let_def by (auto intro!: steps.db_frame_rules step_moves)

end
