(* ===== verification/Gate.thy ===== *)
theory Gate
  imports Api_Frames
begin

text \<open>
  What the gate of the sync API guarantees: exactly which requests it lets through, and
  that nothing but the audit trail changes whichever way it decides.
\<close>

section \<open>The gate only writes the audit trail\<close>

lemma audit_moves:
  "moves (on_db audit_only) (db_get_token_by_hash E h)"
  "moves (on_db audit_only) (db_is_namespace_deleted E ns)"
  unfolding db_get_token_by_hash_def db_get_token_def db_is_namespace_deleted_def
  by (auto intro!: audit.db_frame_rules split: option.split)

lemma token_write_audit:
  "moves (on_db audit_only) (db_record_token_usage E i ns p c cv now)"
  "moves (on_db audit_only) (db_record_token_failure E i)"
  unfolding db_record_token_usage_def db_record_token_failure_def
  by (auto intro!: audit.frame_write_txn dest!: record_token_usage_tables record_token_failure_tables
      simp: audit_only_def without_audit_def)

lemma authorize_audit_only:
  "moves (on_db audit_only) (authorize_sync_request_with_permission E st hs ns p ip)"
  unfolding authorize_sync_request_with_permission_def ensure_namespace_active_def extract_auth_def
    ensure_token_active_def token_expired_def record_token_failure_def
  by (auto intro!: audit.db_frame_rules audit_moves token_write_audit split: sum.split option.split)

section \<open>Who passes\<close>

text \<open>The token a secret finds, and whether it admits a request at a time.\<close>

definition token_of_request :: "'j ext \<Rightarrow> headers \<Rightarrow> 'j db \<Rightarrow> api_token option" where
  "token_of_request E hs d = (case bearer_or_basic E (header hs ''authorization'') of
       Inl _ \<Rightarrow> None
     | Inr secret \<Rightarrow> Option.bind (tget (token_hash_table d) (hash_api_token E secret)) (\<lambda>i. token_at E i d))"

definition token_admits :: "'j ext \<Rightarrow> int \<Rightarrow> string \<Rightarrow> sync_permission \<Rightarrow> api_token \<Rightarrow> bool" where
  "token_admits E now ns p t \<longleftrightarrow> tok_enabled t
     \<and> (case Option.bind (tok_expires_at t) (parse_rfc3339 E) of None \<Rightarrow> True | Some x \<Rightarrow> now < x)
     \<and> namespace_matches ns (tok_namespace_pattern t)
     \<and> permissions_allow (tok_permissions t) (as_str p)"

definition gate_open :: "'j ext \<Rightarrow> headers \<Rightarrow> string \<Rightarrow> sync_permission \<Rightarrow> 'j world \<Rightarrow> bool" where
  "gate_open E hs ns p w \<longleftrightarrow> tget (deleted_namespace_table (db w)) ns = None
     \<and> (case token_of_request E hs (db w) of
          None \<Rightarrow> False | Some t \<Rightarrow> token_admits E (clock E (tick w + 3)) ns p t)"

lemma gate_open_iff:
  "gate_open E hs ns p w \<longleftrightarrow> tget (deleted_namespace_table (db w)) ns = None
     \<and> (\<exists>t. token_of_request E hs (db w) = Some t \<and> token_admits E (clock E (tick w + 3)) ns p t)"
  by (simp add: gate_open_def split: option.split)

lemma token_of_request_iff:
  assumes "token_index_ok E d"
  shows "token_of_request E hs d = Some t \<longleftrightarrow> (\<exists>secret i. bearer_or_basic E (header hs ''authorization'') = Inr secret
     \<and> token_at E i d = Some t \<and> tok_token_hash t = hash_api_token E secret)"
proof (cases "bearer_or_basic E (header hs ''authorization'')")
  case (Inr secret)
  then show ?thesis
    using token_index_okD(3) [OF assms, of "hash_api_token E secret"]
    by (auto simp: token_of_request_def bind_eq_Some_conv)
qed (simp add: token_of_request_def)

text \<open>The lookup of a request's token, step by step.\<close>

lemma extract_auth_ok:
  assumes "token_index_ok E (db w)" "extract_auth E hs w = (Inr t, w')"
  shows "token_of_request E hs (db w) = Some t \<and> db w' = db w \<and> tick w' = tick w + 2"
proof -
  from assms(2) obtain secret where s: "bearer_or_basic E (header hs ''authorization'') = Inr secret"
      and g: "db_get_token_by_hash E (hash_api_token E secret) w = (Inr (Some t), w')"
    by (auto simp: extract_auth_def act_ok_iff)
  then obtain i where "tget (token_hash_table (db w)) (hash_api_token E secret) = Some i"
      "get_token_tx E i (db w) = Inr (Some t)" "db w' = db w" "tick w' = tick w + 2"
    by (auto simp: db_get_token_by_hash_def db_get_token_def act_ok_iff txn_ok_iff split: option.splits)
  with s show ?thesis
    by (simp add: token_of_request_def token_at_def)
qed

lemma extract_auth_run:
  assumes "no_faults E" "token_index_ok E (db w)" "token_of_request E hs (db w) = Some t"
  shows "extract_auth E hs w = (Inr t, w\<lparr>tick := tick w + 2\<rparr>)"
proof -
  from assms(3) obtain secret i where "bearer_or_basic E (header hs ''authorization'') = Inr secret"
      "tget (token_hash_table (db w)) (hash_api_token E secret) = Some i" "token_at E i (db w) = Some t"
    by (auto simp: token_of_request_def bind_eq_Some_conv split: sum.splits)
  with token_index_okD(1) [OF assms(2), of i] assms(1) show ?thesis
    by (simp add: extract_auth_def db_get_token_by_hash_def db_get_token_def bindE_def map_err_def
        read_txn_no_faults)
qed

lemma ensure_token_active_ok:
  "ensure_token_active E t w = (Inr u, w') \<longleftrightarrow> tok_enabled t \<and>
     (case Option.bind (tok_expires_at t) (parse_rfc3339 E) of
        None \<Rightarrow> w' = w
      | Some x \<Rightarrow> clock E (tick w) < x \<and> w' = w\<lparr>tick := Suc (tick w)\<rparr>)"
  by (auto simp: ensure_token_active_def token_expired_def bindE_def outside_defs sample_def
      split: option.split if_splits)

text \<open>What an admitted request means.\<close>

lemma authorize_ok:
  assumes "token_index_ok E (db w)"
    and "authorize_sync_request_with_permission E st hs ns p ip w = (Inr t, w')"
  shows "tget (deleted_namespace_table (db w)) ns = None"
    and "token_of_request E hs (db w) = Some t"
    and "token_admits E (clock E (tick w + 3)) ns p t"
    and "audit_only (db w) (db w')"
proof -
  from assms(2) obtain w1 w2 w3 where
      n: "ensure_namespace_active E ns w = (Inr (), w1)" and
      x: "extract_auth E hs w1 = (Inr t, w2)" and
      a: "ensure_token_active E t w2 = (Inr (), w3)" and
      m: "namespace_matches ns (tok_namespace_pattern t)" "permissions_allow (tok_permissions t) (as_str p)"
    by (auto simp: authorize_sync_request_with_permission_def act_ok_iff split: if_splits)
  from n have w1: "tget (deleted_namespace_table (db w)) ns = None" "db w1 = db w" "tick w1 = tick w + 1"
    by (auto simp: ensure_namespace_active_def db_is_namespace_deleted_def act_ok_iff txn_ok_iff
        split: if_splits)
  from extract_auth_ok [OF _ x] w1 assms(1)
  have w2: "token_of_request E hs (db w) = Some t" "tick w2 = tick w + 3"
    by simp_all
  show "tget (deleted_namespace_table (db w)) ns = None" by (rule w1)
  show "token_of_request E hs (db w) = Some t" by (rule w2)
  show "token_admits E (clock E (tick w + 3)) ns p t"
    using a m w2(2) by (auto simp: ensure_token_active_ok token_admits_def split: option.splits)
  show "audit_only (db w) (db w')"
    using movesD [OF authorize_audit_only assms(2)] by (simp add: on_db_def)
qed

lemma authorize_gate_open:
  "token_index_ok E (db w) \<Longrightarrow>
     authorize_sync_request_with_permission E st hs ns p ip w = (Inr t, w') \<Longrightarrow> gate_open E hs ns p w"
  by (simp add: gate_open_def authorize_ok)

text \<open>On a store without faults every request the gate is open for passes.\<close>

lemma record_token_usage_total:
  assumes c: "codecs_ok E" and wf: "db_wf E d"
  shows "\<exists>d'. record_token_usage_tx E i ns p ip cv now d = Inr ((), d')"
proof -
  have dev: "\<exists>x. decode_row (c_device E) (tget (device_table d) k) = Inr x" for k
    using rows_keyed_decode [OF rows_wfD(3), of E d k] wf by (auto simp: db_wf_def)
  have "\<exists>d'. touch_device_tx E i dv ip cv now (d\<lparr>token_table := s\<rparr>) = Inr ((), d')" for dv s
  proof (cases dv)
    case (Some k)
    from dev [of "device_key k"] obtain x where "decode_row (c_device E) (tget (device_table d) (device_key k)) = Inr x"
      by blast
    with Some encode_row_total [OF codecs_okD(4) [OF c]] show ?thesis
      by (cases x) (auto simp: touch_device_tx_def split: sum.splits)
  qed (simp add: touch_device_tx_def)
  moreover have "get_token_tx E i d = Inr (token_at E i d)"
    using wf by (simp add: db_wf_def token_index_okD(1))
  ultimately show ?thesis
    using encode_row_total [OF codecs_okD(3) [OF c]]
    by (cases "token_at E i d") (auto simp: record_token_usage_tx_def split: sum.splits)
qed

lemma authorize_complete:
  assumes E: "no_faults E" "codecs_ok E" and wf: "db_wf E (db w)" and g: "gate_open E hs ns p w"
  obtains t w' where "authorize_sync_request_with_permission E st hs ns p ip w = (Inr t, w')"
    "token_of_request E hs (db w) = Some t"
proof -
  from g obtain t where d: "tget (deleted_namespace_table (db w)) ns = None"
      and t: "token_of_request E hs (db w) = Some t"
      and adm: "token_admits E (clock E (tick w + 3)) ns p t"
    by (auto simp: gate_open_def split: option.splits)
  have ok: "token_index_ok E (db w)" using wf by (simp add: db_wf_def)
  let ?w1 = "w\<lparr>tick := tick w + 1\<rparr>" and ?w2 = "w\<lparr>tick := tick w + 3\<rparr>"
  have 1: "ensure_namespace_active E ns w = (Inr (), ?w1)"
    using d E(1) by (simp add: ensure_namespace_active_def db_is_namespace_deleted_def bindE_def
        map_err_def read_txn_no_faults)
  have 2: "extract_auth E hs ?w1 = (Inr t, ?w2)"
    using extract_auth_run [OF E(1), of ?w1 hs t] ok t by (simp add: numeral_3_eq_3)
  obtain w3 where 3: "ensure_token_active E t ?w2 = (Inr (), w3)" "db w3 = db w"
    using adm by (cases "Option.bind (tok_expires_at t) (parse_rfc3339 E)")
      (auto simp: ensure_token_active_ok token_admits_def)
  let ?now = "clock E (tick w3)" and ?w4 = "w3\<lparr>tick := Suc (tick w3)\<rparr>"
  let ?use = "db_record_token_usage E (tok_id t) ns (as_str p) (resolve_sync_client_ip E st hs ip)
     (sync_client_version hs) (to_rfc3339 E ?now)"
  have 4: "\<exists>w'. ?use ?w4 = (Inr (), w')"
    using record_token_usage_total [OF E(2) wf] E(1) 3(2)
    by (auto simp: db_record_token_usage_def write_txn_no_faults split: sum.splits) (metis sum.distinct(1))
  have "authorize_sync_request_with_permission E st hs ns p ip w =
     bindE (whenE (token_usage_update_due E t ?now (token_usage_write_interval_seconds st))
        (map_err (\<lambda>e. Internal (''Failed to update token audit info: '' @ redb_text e)) ?use)) (\<lambda>_. ret t) ?w4"
    using 1 2 3(1) adm
    by (simp add: authorize_sync_request_with_permission_def bindE_def handleE_def token_admits_def
        outside_defs sample_def)
  then have "\<exists>w'. authorize_sync_request_with_permission E st hs ns p ip w = (Inr t, w')"
    using 4 by (auto simp: whenE_def bindE_def map_err_def)
  then show ?thesis using that t by blast
qed

section \<open>What a passed request leaves behind\<close>

lemma record_token_usage_at:
  assumes "codec_ok (c_token E)" "token_index_ok E d" "token_at E i d = Some t"
    and "record_token_usage_tx E i ns p ip cv now d = Inr (u, d')"
  shows "token_at E i d' = Some (touch_token ns p ip cv now t)"
proof -
  from assms(4) token_index_okD(1) [OF assms(2), of i] assms(3)
  obtain v where v: "to_vec (c_token E) (touch_token ns p ip cv now t) = Inr v"
      and d: "touch_device_tx E i (tok_device_id t) ip cv now
         (d\<lparr>token_table := tput (token_key i) v (token_table d)\<rparr>) = Inr (u, d')"
    by (auto simp: record_token_usage_tx_def encode_row_ok_iff split: sum.splits)
  from touch_device_tx_tables [OF d] obtain s where "d' = d\<lparr>token_table := tput (token_key i) v (token_table d), device_table := s\<rparr>"
    by auto
  then show ?thesis
    using codec_ok_decode [OF assms(1) v] by (simp add: token_at_def get_token_put)
qed

lemma authorize_record:
  assumes ok: "token_index_ok E (db w)" and i: "token_usage_write_interval_seconds st \<le> 0"
    and run: "authorize_sync_request_with_permission E st hs ns p ip w = (Inr t, w')"
  obtains j where "record_token_usage_tx E (tok_id t) ns (as_str p) (resolve_sync_client_ip E st hs ip)
     (sync_client_version hs) (to_rfc3339 E (clock E j)) (db w) = Inr ((), db w')"
proof -
  from run i obtain w1 w2 w3 j w4 where
      n: "ensure_namespace_active E ns w = (Inr (), w1)" and
      x: "extract_auth E hs w1 = (Inr t, w2)" and
      a: "ensure_token_active E t w2 = (Inr (), w3)" and
      u: "db_record_token_usage E (tok_id t) ns (as_str p) (resolve_sync_client_ip E st hs ip)
         (sync_client_version hs) (to_rfc3339 E (clock E j)) w4 = (Inr (), w')" and
      w4: "db w4 = db w3"
    by (clarsimp simp: authorize_sync_request_with_permission_def act_ok_iff outside_defs sample_ok_iff
        token_usage_update_due_def split: if_splits)
  have "db w1 = db w"
    using n by (auto simp: ensure_namespace_active_def db_is_namespace_deleted_def act_ok_iff txn_ok_iff
        split: if_splits)
  moreover from this extract_auth_ok [OF _ x] ok have "db w2 = db w" by simp
  moreover have "db w3 = db w2"
    using a by (auto simp: ensure_token_active_ok split: option.splits)
  ultimately show ?thesis
    using that u w4 by (auto simp: db_record_token_usage_def txn_ok_iff)
qed

end
