(* ===== verification/Sync_Facts.thy ===== *)
theory Sync_Facts
  imports Gate
begin

text \<open>
  What the handlers of the sync API do, as inversion lemmas: from a run that succeeded, the
  namespace it worked on, that the gate was open, and the exact rows it read and wrote.
\<close>

section \<open>Helpers\<close>

text \<open>A database where only the usage snapshots differ.\<close>

definition usage_only :: "'j db \<Rightarrow> 'j db \<Rightarrow> bool" where
  "usage_only d d' \<longleftrightarrow> d\<lparr>namespace_usage_table := tempty\<rparr> = d'\<lparr>namespace_usage_table := tempty\<rparr>"

interpretation usage: db_frame usage_only
  by unfold_locales (simp_all add: usage_only_def)

lemma usage_only_tables:
  assumes "usage_only d d'"
  shows "metadata_table d' = metadata_table d" "blob_table d' = blob_table d"
    "object_table d' = object_table d" "object_meta_table d' = object_meta_table d"
    "token_table d' = token_table d" "token_hash_table d' = token_hash_table d"
    "login_attempt_table d' = login_attempt_table d"
    "deleted_namespace_table d' = deleted_namespace_table d" "device_table d' = device_table d"
    "sync_conflict_table d' = sync_conflict_table d" "admin_user_table d' = admin_user_table d"
  using assms by (cases d, cases d', simp add: usage_only_def)+

lemma usage_only_set: "usage_only d (d\<lparr>namespace_usage_table := t\<rparr>)"
  by (simp add: usage_only_def)

lemma refresh_usage_only: "moves (on_db usage_only) (refresh_usage E st ns now)"
  unfolding refresh_usage_def db_refresh_namespace_usage_if_stale_def db_refresh_namespace_usage_def
    db_blob_size_def db_namespace_object_stats_def db_get_namespace_usage_def Let_def
  by (auto intro!: usage.db_frame_rules usage.frame_write_txn usage_only_set
      simp: set_namespace_usage_tx_def split: sum.splits)

lemma refresh_usage_tables:
  "refresh_usage E st ns now w = (r, w') \<Longrightarrow> usage_only (db w) (db w')"
  using movesD [OF refresh_usage_only] by (fastforce simp: on_db_def)

text \<open>What is stored is what was encrypted, and decrypts to it.\<close>

lemma encrypt_if_needed_ok:
  assumes "encrypt_if_needed E st data w = (Inr c, w')"
  shows "db w' = db w" and "aead_ok E \<Longrightarrow> decrypt_if_needed E st c = Inr data"
    and "encryption_key st = None \<Longrightarrow> c = data"
proof -
  show "db w' = db w"
    using assms by (auto simp: encrypt_if_needed_def encrypt_def act_ok_iff sample_ok_iff
        split: option.splits)
  show "encryption_key st = None \<Longrightarrow> c = data"
    using assms by (simp add: encrypt_if_needed_def)
  show "decrypt_if_needed E st c = Inr data" if "aead_ok E"
  proof (cases "encryption_key st")
    case None
    with assms show ?thesis by (simp add: encrypt_if_needed_def decrypt_if_needed_def)
  next
    case (Some key)
    with assms have "encrypt E key data w = (Inr c, w')"
      by (simp add: encrypt_if_needed_def map_err_Inr_iff)
    with that obtain c' where "(Inr c :: string + bytes) = Inr c'" "decrypt E key c' = Inr data"
      by (rule encrypt_decrypt)
    with Some show ?thesis
      by (simp add: decrypt_if_needed_def)
  qed
qed

lemma encrypt_if_needed_total:
  assumes "aead_ok E"
  shows "\<exists>c w'. encrypt_if_needed E st data w = (Inr c, w')"
proof (cases "encryption_key st")
  case None
  then show ?thesis by (simp add: encrypt_if_needed_def)
next
  case (Some key)
  obtain r w' where run: "encrypt E key data w = (r, w')"
    by (cases "encrypt E key data w")
  from assms run obtain c where "r = Inr c"
    by (rule encrypt_decrypt)
  with run Some show ?thesis by (simp add: encrypt_if_needed_def map_err_def)
qed

text \<open>The metadata the database holds for a namespace.\<close>

definition meta_at :: "'j ext \<Rightarrow> string \<Rightarrow> 'j db \<Rightarrow> sync_metadata option" where
  "meta_at E ns d = Option.bind (tget (metadata_table d) (metadata_key ns)) (\<lambda>v. res_ok (from_slice (c_metadata E) v))"

lemma stored_metadata_ok:
  "stored_metadata E ns w = (Inr m, w') \<longleftrightarrow>
     store_fault E (tick w) = None \<and> m = meta_at E ns (db w) \<and> w' = w\<lparr>tick := Suc (tick w)\<rparr>"
  by (auto simp: stored_metadata_def db_get_metadata_def meta_at_def act_ok_iff txn_ok_iff)

lemma meta_at_put:
  "codec_ok (c_metadata E) \<Longrightarrow> to_vec (c_metadata E) m = Inr v \<Longrightarrow>
     tget (metadata_table d) (metadata_key ns) = Some v \<Longrightarrow> meta_at E ns d = Some m"
  by (simp add: meta_at_def codec_ok_decode)

section \<open>Blobs\<close>

text \<open>
  A blob upload that succeeds found the version it demanded, and leaves the encrypted body
  with metadata that carries the new ETag; no other row of the content changes.
\<close>

lemma put_blob_ok:
  assumes ok: "token_index_ok E (db w)" and run: "put_blob E st rns ip hs body w = (Inr r, w')"
  obtains ns blob etag now v t where "decode_namespace E rns = Inr ns" "gate_open E hs ns Write w"
    "token_of_request E hs (db w) = Some t"
    "length body \<le> max_blob_size st"
    "cond_decode (c_metadata E) (tget (metadata_table (db w)) (metadata_key ns)) = Inr (meta_at E ns (db w))"
    "blob_conflict (meta_at E ns (db w)) (header hs ''if-match'') (header hs ''if-none-match'' = Some ''*'') = None"
    "aead_ok E \<Longrightarrow> decrypt_if_needed E st blob = Inr body"
    "to_vec (c_metadata E) (metadata_of_blob E st hs body (meta_at E ns (db w)) etag now) = Inr v"
    "wr_etag r = Some etag" "wr_ok r" "wr_revision r = header hs ''x-oxideterm-revision''"
    "blob_table (db w') = tput (blob_key ns) blob (blob_table (db w))"
    "metadata_table (db w') = tput (metadata_key ns) v (metadata_table (db w))"
    "object_table (db w') = object_table (db w)" "object_meta_table (db w') = object_meta_table (db w)"
    "deleted_namespace_table (db w') = deleted_namespace_table (db w)"
    "sync_conflict_table (db w') = sync_conflict_table (db w)"
proof -
  from run obtain ns t w1 w2 existing w3 blob w4 etag now w6 v w7 observed w8 where
      ns: "decode_namespace E rns = Inr ns"
      and a: "authorize_sync_request_with_permission E st hs ns Write ip w = (Inr t, w1)"
      and len: "length body \<le> max_blob_size st"
      and disk: "ensure_disk_capacity E st (of_nat (length body)) w1 = (Inr (), w2)"
      and ex: "stored_metadata E ns w2 = (Inr existing, w3)"
      and enc: "encrypt_if_needed E st body w3 = (Inr blob, w4)"
      and v: "to_vec (c_metadata E) (metadata_of_blob E st hs body existing etag now) = Inr v"
      and put: "db_put_blob_if_matches E ns (header hs ''if-match'')
          (header hs ''if-none-match'' = Some ''*'') blob v w6 = (Inr (), w7)"
      and w6: "db w6 = db w4"
      and fin: "refresh_usage E st ns observed w8 = (Inr (), w')" "db w8 = db w7"
      and r: "wr_ok r" "wr_revision r = header hs ''x-oxideterm-revision''" "wr_etag r = Some etag"
    by (clarsimp simp: put_blob_def Let_def act_ok_iff map_sum_Inr_iff not_less outside_defs
        sample_ok_iff split: if_splits)
  have d1: "audit_only (db w) (db w1)" and g: "gate_open E hs ns Write w"
      and t: "token_of_request E hs (db w) = Some t"
    using authorize_ok [OF ok a] authorize_gate_open [OF ok a] by blast+
  have d6: "db w6 = db w1" and ex': "existing = meta_at E ns (db w)"
    using ensure_disk_capacity_db [OF disk] ex encrypt_if_needed_ok(1) [OF enc] w6
      audit_only_tables [OF d1]
    by (auto simp: stored_metadata_ok meta_at_def)
  from put have p: "cond_decode (c_metadata E) (tget (metadata_table (db w)) (metadata_key ns)) = Inr (meta_at E ns (db w))"
      "blob_conflict (meta_at E ns (db w)) (header hs ''if-match'') (header hs ''if-none-match'' = Some ''*'') = None"
      and d7: "db w7 = db w1\<lparr>blob_table := tput (blob_key ns) blob (blob_table (db w)),
         metadata_table := tput (metadata_key ns) v (metadata_table (db w))\<rparr>"
    using audit_only_tables [OF d1] d6
    by (auto simp: db_put_blob_if_matches_def txn_ok_iff put_blob_tx_ok_iff meta_at_def
        cond_decode_Inr_iff split: option.splits)
  have u: "usage_only (db w7) (db w')"
    using fin refresh_usage_tables by metis
  show ?thesis
  proof (rule that [OF ns g t len p])
    show "decrypt_if_needed E st blob = Inr body" if "aead_ok E"
      by (rule encrypt_if_needed_ok(2) [OF enc that])
  qed (use v ex' r usage_only_tables [OF u] d7 audit_only_tables [OF d1] in simp_all)
qed

lemma get_blob_ok:
  assumes ok: "token_index_ok E (db w)" and run: "get_blob E st rns ip hs w = (Inr (h, body), w')"
  obtains ns blob where "decode_namespace E rns = Inr ns" "gate_open E hs ns Read w"
    "tget (blob_table (db w)) (blob_key ns) = Some blob" "decrypt_if_needed E st blob = Inr body"
    "h = (''content-type'', oxide_type) # etag_header (Option.bind (meta_at E ns (db w)) meta_etag)"
    "audit_only (db w) (db w')"
proof -
  from run obtain ns t w1 w2 blob meta where ns: "decode_namespace E rns = Inr ns"
      and a: "authorize_sync_request_with_permission E st hs ns Read ip w = (Inr t, w1)"
      and b: "db_get_blob E ns w1 = (Inr (Some blob), w2)" "decrypt_if_needed E st blob = Inr body"
      and m: "stored_metadata E ns w2 = (Inr meta, w')"
      and h: "h = (''content-type'', oxide_type) # etag_header (Option.bind meta meta_etag)"
    by (clarsimp simp: get_blob_def act_ok_iff)
  from authorize_ok(4) [OF ok a] have d1: "audit_only (db w) (db w1)" .
  show ?thesis
    by (rule that [OF ns authorize_gate_open [OF ok a]])
      (use b m h d1 audit_only_tables [OF d1] in
        \<open>auto simp: db_get_blob_def txn_ok_iff stored_metadata_ok meta_at_def\<close>)
qed

lemma get_metadata_ok:
  assumes ok: "token_index_ok E (db w)" and run: "get_metadata E st rns ip hs w = (Inr m, w')"
  obtains ns where "decode_namespace E rns = Inr ns" "gate_open E hs ns Read w"
    "m = opt_get empty_metadata (meta_at E ns (db w))" "audit_only (db w) (db w')"
proof -
  from run obtain ns t w1 w2 row where ns: "decode_namespace E rns = Inr ns"
      and a: "authorize_sync_request_with_permission E st hs ns Read ip w = (Inr t, w1)"
      and g: "db_get_metadata E ns w1 = (Inr row, w2)"
      and m: "(case row of Some data \<Rightarrow> lift_res (map_sum app_of_serde id (from_slice (c_metadata E) data))
          | None \<Rightarrow> ret empty_metadata) w2 = (Inr m, w')"
    by (clarsimp simp: get_metadata_def act_ok_iff)
  from authorize_ok(4) [OF ok a] have d1: "audit_only (db w) (db w1)" .
  show ?thesis
    by (rule that [OF ns authorize_gate_open [OF ok a]])
      (use g m d1 audit_only_tables [OF d1] in
        \<open>auto simp: db_get_metadata_def txn_ok_iff meta_at_def map_sum_Inr_iff split: option.splits\<close>)
qed

lemma put_metadata_ok:
  assumes ok: "token_index_ok E (db w)" and run: "put_metadata E st rns ip hs body w = (Inr r, w')"
  obtains ns etag now v where "decode_namespace E rns = Inr ns" "gate_open E hs ns Write w"
    "to_vec (c_metadata E) (metadata_of_write st body (meta_at E ns (db w)) etag now) = Inr v"
    "wr_etag r = Some etag" "wr_revision r = Some (mw_revision body)"
    "metadata_table (db w') = tput (metadata_key ns) v (metadata_table (db w))"
    "blob_table (db w') = blob_table (db w)" "object_table (db w') = object_table (db w)"
    "object_meta_table (db w') = object_meta_table (db w)"
    "deleted_namespace_table (db w') = deleted_namespace_table (db w)"
proof -
  from run obtain ns t w1 w2 existing w3 etag now v w4 w5 where ns: "decode_namespace E rns = Inr ns"
      and a: "authorize_sync_request_with_permission E st hs ns Write ip w = (Inr t, w1)"
      and disk: "ensure_disk_capacity E st (256 * 1024) w1 = (Inr (), w2)"
      and ex: "stored_metadata E ns w2 = (Inr existing, w3)"
      and v: "to_vec (c_metadata E) (metadata_of_write st body existing etag now) = Inr v"
      and put: "db_set_metadata E ns v w4 = (Inr (), w5)"
      and w4: "db w4 = db w3"
      and fin: "refresh_usage E st ns now w5 = (Inr (), w')"
      and r: "wr_revision r = Some (mw_revision body)" "wr_etag r = Some etag"
    by (clarsimp simp: put_metadata_def Let_def act_ok_iff map_sum_Inr_iff outside_defs sample_ok_iff)
  from authorize_ok(4) [OF ok a] have d1: "audit_only (db w) (db w1)" .
  have d4: "db w4 = db w1" and ex': "existing = meta_at E ns (db w)"
    using ensure_disk_capacity_db [OF disk] ex w4 audit_only_tables [OF d1]
    by (auto simp: stored_metadata_ok meta_at_def)
  from put have d5: "db w5 = db w1\<lparr>metadata_table := tput (metadata_key ns) v (metadata_table (db w))\<rparr>"
    using audit_only_tables [OF d1] d4 by (auto simp: db_set_metadata_def txn_ok_iff)
  have u: "usage_only (db w5) (db w')"
    by (rule refresh_usage_tables [OF fin])
  show ?thesis
    by (rule that [OF ns authorize_gate_open [OF ok a]])
      (use v ex' r usage_only_tables [OF u] d5 audit_only_tables [OF d1] in simp_all)
qed

section \<open>Objects\<close>

lemma put_object_ok:
  assumes ok: "token_index_ok E (db w)" and run: "put_object E st rns rp ip hs body w = (Inr r, w')"
  obtains ns path data etag now v where "decode_namespace E rns = Inr ns"
    "decode_object_path E rp = Inr path" "gate_open E hs ns Write w"
    "length body \<le> max_object_size st"
    "cond_decode (c_object_meta E) (tget (object_meta_table (db w)) (object_key ns path))
       = Inr (current_object_meta E ns path (db w))"
    "object_conflict (current_object_meta E ns path (db w)) (header hs ''if-match'')
       (header hs ''if-none-match'' = Some ''*'') = None"
    "aead_ok E \<Longrightarrow> decrypt_if_needed E st data = Inr body"
    "to_vec (c_object_meta E) \<lparr>om_etag = etag, om_updated_at = now\<rparr> = Inr v" "owr_etag r = Some etag"
    "object_table (db w') = tput (object_key ns path) data (object_table (db w))"
    "object_meta_table (db w') = tput (object_key ns path) v (object_meta_table (db w))"
    "metadata_table (db w') = metadata_table (db w)" "blob_table (db w') = blob_table (db w)"
    "deleted_namespace_table (db w') = deleted_namespace_table (db w)"
proof -
  from run obtain ns t w1 path w2 data w3 etag now w4 w5 observed w6 where
      ns: "decode_namespace E rns = Inr ns"
      and a: "authorize_sync_request_with_permission E st hs ns Write ip w = (Inr t, w1)"
      and p: "decode_object_path E rp = Inr path"
      and len: "length body \<le> max_object_size st"
      and disk: "ensure_disk_capacity E st (of_nat (length body)) w1 = (Inr (), w2)"
      and enc: "encrypt_if_needed E st body w2 = (Inr data, w3)"
      and put: "db_put_object_if_matches E ns path (header hs ''if-match'')
          (header hs ''if-none-match'' = Some ''*'') data \<lparr>om_etag = etag, om_updated_at = now\<rparr> w4 = (Inr (), w5)"
      and w4: "db w4 = db w3"
      and fin: "refresh_usage E st ns observed w6 = (Inr (), w')" "db w6 = db w5"
      and r: "owr_etag r = Some etag"
    by (clarsimp simp: put_object_def Let_def act_ok_iff not_less outside_defs sample_ok_iff
        split: if_splits)
  from authorize_ok(4) [OF ok a] have d1: "audit_only (db w) (db w1)" .
  have d4: "db w4 = db w1"
    using ensure_disk_capacity_db [OF disk] encrypt_if_needed_ok(1) [OF enc] w4 by simp
  from put obtain v where
      c: "cond_decode (c_object_meta E) (tget (object_meta_table (db w)) (object_key ns path))
         = Inr (current_object_meta E ns path (db w))"
        "object_conflict (current_object_meta E ns path (db w)) (header hs ''if-match'')
         (header hs ''if-none-match'' = Some ''*'') = None"
      and v: "to_vec (c_object_meta E) \<lparr>om_etag = etag, om_updated_at = now\<rparr> = Inr v"
      and d5: "db w5 = db w1\<lparr>object_table := tput (object_key ns path) data (object_table (db w)),
         object_meta_table := tput (object_key ns path) v (object_meta_table (db w))\<rparr>"
    using audit_only_tables [OF d1] d4
    by (auto simp: db_put_object_if_matches_def txn_ok_iff put_object_tx_ok_iff current_object_meta_def)
  have u: "usage_only (db w5) (db w')"
    using fin refresh_usage_tables by metis
  show ?thesis
  proof (rule that [OF ns p authorize_gate_open [OF ok a] len c])
    show "decrypt_if_needed E st data = Inr body" if "aead_ok E"
      by (rule encrypt_if_needed_ok(2) [OF enc that])
  qed (use v r usage_only_tables [OF u] d5 audit_only_tables [OF d1] in simp_all)
qed

lemma get_object_ok:
  assumes ok: "token_index_ok E (db w)" and run: "get_object E st rns rp ip hs w = (Inr (s, h, body), w')"
  obtains ns path where "decode_namespace E rns = Inr ns" "decode_object_path E rp = Inr path"
    "gate_open E hs ns Read w" "audit_only (db w) (db w')"
    "case tget (object_table (db w)) (object_key ns path) of
       None \<Rightarrow> s = 404 \<and> h = [] \<and> body = []
     | Some data \<Rightarrow> s = 200 \<and> decrypt_if_needed E st data = Inr body
         \<and> h = (''content-type'', object_content_type path)
             # etag_header (map_option om_etag (current_object_meta E ns path (db w)))"
proof -
  from run obtain ns t w1 path row w2 where ns: "decode_namespace E rns = Inr ns"
      and a: "authorize_sync_request_with_permission E st hs ns Read ip w = (Inr t, w1)"
      and p: "decode_object_path E rp = Inr path"
      and g: "db_get_object E ns path w1 = (Inr row, w2)"
      and rest: "(case row of
       Some encrypted \<Rightarrow>
         bindE (lift_res (decrypt_if_needed E st encrypted)) (\<lambda>data.
         bindE (map_err app_of_redb (db_get_object_metadata E ns path)) (\<lambda>object_meta.
         ret (200, (''content-type'', object_content_type path)
                # etag_header (map_option om_etag object_meta), data)))
     | None \<Rightarrow> ret (404, [], [])) w2 = (Inr (s, h, body), w')"
    by (clarsimp simp: get_object_def act_ok_iff)
  from authorize_ok(4) [OF ok a] have d1: "audit_only (db w) (db w1)" .
  show ?thesis
    by (rule that [OF ns p authorize_gate_open [OF ok a]])
      (use g rest d1 audit_only_tables [OF d1] in
        \<open>auto simp: db_get_object_def db_get_object_metadata_def txn_ok_iff act_ok_iff
          current_object_meta_def object_meta_key_def decode_row_def cond_decode_def
          split: option.splits sum.splits\<close>)
qed

lemma delete_object_ok:
  assumes ok: "token_index_ok E (db w)" and run: "delete_object E st rns rp ip hs w = (Inr s, w')"
  obtains ns path where "decode_namespace E rns = Inr ns" "decode_object_path E rp = Inr path"
    "gate_open E hs ns Write w" "s = 204"
    "object_table (db w') = tdel (object_key ns path) (object_table (db w))"
    "object_meta_table (db w') = tdel (object_key ns path) (object_meta_table (db w))"
    "metadata_table (db w') = metadata_table (db w)" "blob_table (db w') = blob_table (db w)"
    "deleted_namespace_table (db w') = deleted_namespace_table (db w)"
proof -
  from run obtain ns t w1 path b w2 where ns: "decode_namespace E rns = Inr ns"
      and a: "authorize_sync_request_with_permission E st hs ns Write ip w = (Inr t, w1)"
      and p: "decode_object_path E rp = Inr path"
      and del: "db_delete_object E ns path w1 = (Inr b, w2)"
      and fin: "whenE b (bindE (now_rfc3339 E) (refresh_usage E st ns)) w2 = (Inr (), w')" and s: "s = 204"
    by (clarsimp simp: delete_object_def bindE_Inr_iff map_err_Inr_iff)
  from authorize_ok(4) [OF ok a] have d1: "audit_only (db w) (db w1)" .
  from del have d2: "db w2 = snd (delete_object_tx ns path (db w1))"
    by (auto simp: db_delete_object_def txn_ok_iff)
  have u: "usage_only (db w2) (db w')"
    using fin refresh_usage_tables
    by (auto simp: act_ok_iff outside_defs sample_ok_iff usage.Q_refl split: if_splits) force
  show ?thesis
    by (rule that [OF ns p authorize_gate_open [OF ok a] s])
      (use usage_only_tables [OF u] d2 audit_only_tables [OF d1] in
        \<open>simp_all add: delete_object_tx_def object_meta_key_def\<close>)
qed

section \<open>Listing\<close>

lemma list_paths_cong:
  "object_table d' = object_table d \<Longrightarrow>
     list_object_paths_tx ns q after limit d' = list_object_paths_tx ns q after limit d"
  by (cases after) (simp_all add: list_object_paths_tx_def)

lemma list_page_ok:
  assumes ok: "token_index_ok E (db w)" and run: "list_page E st rns ip q hs w = (Inr page, w')"
  obtains ns where "decode_namespace E rns = Inr ns" "gate_open E hs ns Read w" "list_query_ok q"
    "page = page_of (opt_get 256 (q_limit q)) (list_object_paths_tx ns (q_prefix q) (q_cursor q)
       (opt_get 256 (q_limit q) + 1) (db w))"
    "audit_only (db w) (db w')"
proof -
  from run obtain ns t w1 paths where ns: "decode_namespace E rns = Inr ns"
      and a: "authorize_sync_request_with_permission E st hs ns Read ip w = (Inr t, w1)"
      and q: "list_query_ok q"
      and g: "db_list_object_paths E ns (q_prefix q) (q_cursor q) (opt_get 256 (q_limit q) + 1) w1 = (Inr paths, w')"
      and p: "page = page_of (opt_get 256 (q_limit q)) paths"
    by (clarsimp simp: list_page_def Let_def act_ok_iff split: if_splits)
  from authorize_ok(4) [OF ok a] have d1: "audit_only (db w) (db w1)" .
  show ?thesis
    by (rule that [OF ns authorize_gate_open [OF ok a] q])
      (use g p d1 audit_only_tables [OF d1] in
        \<open>auto simp: db_list_object_paths_def txn_ok_iff list_paths_cong [OF audit_only_tables(3) [OF d1]]\<close>)
qed

section \<open>Requests that must succeed\<close>

lemma get_blob_complete:
  assumes E: "no_faults E" "codecs_ok E" and wf: "db_wf E (db w)"
    and ns: "decode_namespace E rns = Inr ns" and g: "gate_open E hs ns Read w"
    and b: "tget (blob_table (db w)) (blob_key ns) = Some c" "decrypt_if_needed E st c = Inr body"
  obtains w' where "get_blob E st rns ip hs w =
    (Inr ((''content-type'', oxide_type) # etag_header (Option.bind (meta_at E ns (db w)) meta_etag), body), w')"
proof -
  from authorize_complete [OF E wf g]
  obtain t w1 where a: "authorize_sync_request_with_permission E st hs ns Read ip w = (Inr t, w1)" .
  from wf have ok: "token_index_ok E (db w)" by (simp add: db_wf_def)
  have d1: "audit_only (db w) (db w1)" by (rule authorize_ok(4) [OF ok a])
  show ?thesis
    by (rule that, use ns a b E(1) audit_only_tables [OF d1] in
      \<open>simp add: get_blob_def bindE_def map_err_def db_get_blob_def db_get_metadata_def stored_metadata_def
        read_txn_no_faults meta_at_def\<close>)
qed

lemma get_object_complete:
  assumes E: "no_faults E" "codecs_ok E" and wf: "db_wf E (db w)"
    and ns: "decode_namespace E rns = Inr ns" and p: "decode_object_path E rp = Inr path"
    and g: "gate_open E hs ns Read w"
    and b: "tget (object_table (db w)) (object_key ns path) = Some c" "decrypt_if_needed E st c = Inr body"
  obtains w' where "get_object E st rns rp ip hs w =
    (Inr (200, (''content-type'', object_content_type path)
       # etag_header (map_option om_etag (current_object_meta E ns path (db w))), body), w')"
proof -
  from authorize_complete [OF E wf g]
  obtain t w1 where a: "authorize_sync_request_with_permission E st hs ns Read ip w = (Inr t, w1)" .
  from wf have ok: "token_index_ok E (db w)" and rows: "rows_wf E (db w)" by (simp_all add: db_wf_def)
  have d1: "audit_only (db w) (db w1)" by (rule authorize_ok(4) [OF ok a])
  obtain m where m: "decode_row (c_object_meta E) (tget (object_meta_table (db w)) (object_key ns path)) = Inr m"
    using rows_keyed_decode [OF rows_wfD(2) [OF rows]] by blast
  then have m': "m = current_object_meta E ns path (db w)"
    by (auto simp: current_object_meta_def decode_row_def cond_decode_def split: option.splits sum.splits)
  show ?thesis
    by (rule that, use ns p a b m m' E(1) audit_only_tables [OF d1] in
      \<open>simp add: get_object_def bindE_def map_err_def db_get_object_def db_get_object_metadata_def
        object_meta_key_def read_txn_no_faults\<close>)
qed

lemma list_page_complete:
  assumes E: "no_faults E" "codecs_ok E" and wf: "db_wf E (db w)"
    and ns: "decode_namespace E rns = Inr ns" and g: "gate_open E hs ns Read w" and q: "list_query_ok q"
  obtains w' where "list_page E st rns ip q hs w =
    (Inr (page_of (opt_get 256 (q_limit q)) (list_object_paths_tx ns (q_prefix q) (q_cursor q)
       (opt_get 256 (q_limit q) + 1) (db w))), w')"
proof -
  from authorize_complete [OF E wf g]
  obtain t w1 where a: "authorize_sync_request_with_permission E st hs ns Read ip w = (Inr t, w1)" .
  from wf have ok: "token_index_ok E (db w)" by (simp add: db_wf_def)
  have d1: "audit_only (db w) (db w1)" by (rule authorize_ok(4) [OF ok a])
  show ?thesis
    by (rule that, use ns a q E(1) audit_only_tables [OF d1] in
      \<open>simp add: list_page_def bindE_def map_err_def db_list_object_paths_def
        list_paths_cong [OF audit_only_tables(3) [OF d1]] read_txn_no_faults Let_def\<close>)
qed

section \<open>Refused uploads\<close>

lemma record_conflict_total:
  assumes "no_faults E" "codecs_ok E"
  shows "\<exists>w'. record_conditional_write_conflict E st ob e w = (Inr (), w') \<and> same_content (db w) (db w')"
proof (cases e)
  case (Cond_Conflict a b m)
  show ?thesis
    using encode_row_codec_ok [OF codecs_okD(7) [OF assms(2)]] encode_row_total [OF codecs_okD(7) [OF assms(2)]]
    by (auto simp: record_conditional_write_conflict_def Cond_Conflict bindE_def map_err_def outside_defs
        sample_def db_add_sync_conflict_def write_txn_no_faults [OF assms(1)] add_sync_conflict_tx_def
        Let_def same_content_def content_def split: sum.split)
qed (auto simp: record_conditional_write_conflict_def same_content_def)

text \<open>A blob upload from its conditional write on.\<close>

definition blob_write ::
  "'j ext \<Rightarrow> app_state \<Rightarrow> headers \<Rightarrow> string \<Rightarrow> bytes \<Rightarrow> 'j \<Rightarrow> string \<Rightarrow> sync_metadata
     \<Rightarrow> (app_error, 'j world, write_response) act" where
  "blob_write E st hs ns c v etag meta =
     handleE (db_put_blob_if_matches E ns (header hs ''if-match'') (header hs ''if-none-match'' = Some ''*'') c v)
       (\<lambda>error. bindE (record_conditional_write_conflict E st
           \<lparr>co_namespace = ns, co_operation = ''blob'', co_object_path = None,
            co_device_id = header hs ''x-oxideterm-device-id'',
            co_requested_revision = header hs ''x-oxideterm-revision'',
            co_requested_etag = request_etag_for_conflict (header hs ''if-match'') (header hs ''if-none-match'')\<rparr> error)
          (\<lambda>_. throw (map_conditional_write_error error)))
       (\<lambda>_. bindE (now_rfc3339 E) (\<lambda>observed_at. bindE (refresh_usage E st ns observed_at) (\<lambda>_.
          ret \<lparr>wr_ok = True, wr_revision = header hs ''x-oxideterm-revision'', wr_etag = Some etag,
            wr_section_revisions = meta_section_revisions meta, wr_error = None\<rparr>)))"

text \<open>Nothing stops it before.\<close>

lemma stored_meta_decodes:
  "rows_wf E d \<Longrightarrow> cond_decode (c_metadata E) (tget (metadata_table d) (metadata_key ns)) = Inr (meta_at E ns d)"
  using rows_keyed_decode [OF rows_wfD(1), of E d "metadata_key ns"]
  by (auto simp: cond_decode_def decode_row_def meta_at_def split: option.splits sum.splits)

lemma put_blob_started:
  assumes E: "no_faults E" "codecs_ok E" "aead_ok E" and wf: "db_wf E (db w)"
    and ns: "decode_namespace E rns = Inr ns" and g: "gate_open E hs ns Write w"
    and size: "length body \<le> max_blob_size st"
    and room: "disk_room E st (of_nat (length body)) (tick (snd (authorize_sync_request_with_permission E st hs ns Write ip w)))"
  obtains c v etag now w3 where "audit_only (db w) (db w3)" "db_wf E (db w3)"
    "to_vec (c_metadata E) (metadata_of_blob E st hs body (meta_at E ns (db w)) etag now) = Inr v"
    "put_blob E st rns ip hs body w =
       blob_write E st hs ns c v etag (metadata_of_blob E st hs body (meta_at E ns (db w)) etag now) w3"
proof -
  from authorize_complete [OF E(1,2) wf g]
  obtain t w1 where a: "authorize_sync_request_with_permission E st hs ns Write ip w = (Inr t, w1)" .
  have d1: "audit_only (db w) (db w1)" by (rule authorize_ok(4) [OF _ a]) (use wf in \<open>simp add: db_wf_def\<close>)
  have wf1: "db_wf E (db w1)"
    using movesD [OF authorize_moves a] db_wf_steps [OF _ E(2) wf] by (auto simp: on_db_def)
  have meta: "meta_at E ns (db w1) = meta_at E ns (db w)"
    using audit_only_tables(1) [OF d1] by (simp add: meta_at_def)
  have "disk_room E st (of_nat (length body)) (tick w1)" using room by (simp add: a)
  then obtain wd where disk: "ensure_disk_capacity E st (of_nat (length body)) w1 = (Inr (), wd)" "db wd = db w1"
    using disk_room_run by blast
  have ex: "stored_metadata E ns wd = (Inr (meta_at E ns (db w)), wd\<lparr>tick := Suc (tick wd)\<rparr>)"
    using E(1) meta disk(2) by (auto simp: stored_metadata_ok no_faults_def)
  obtain c w2 where enc: "encrypt_if_needed E st body (wd\<lparr>tick := Suc (tick wd)\<rparr>) = (Inr c, w2)"
    using encrypt_if_needed_total [OF E(3)] by blast
  have d2: "db w2 = db w1" using encrypt_if_needed_ok(1) [OF enc] disk(2) by simp
  let ?etag = "uuid_v4 E (tick w2)" and ?now = "to_rfc3339 E (clock E (Suc (tick w2)))"
  let ?w3 = "w2\<lparr>tick := Suc (Suc (tick w2))\<rparr>"
  obtain v where v: "to_vec (c_metadata E)
      (metadata_of_blob E st hs body (meta_at E ns (db w)) ?etag ?now) = Inr v"
    using codecs_okD(1) [OF E(2)] by (auto elim: codec_okE)
  have uuid: "new_uuid E w2 = (Inr ?etag, w2\<lparr>tick := Suc (tick w2)\<rparr>)"
    and now: "now_rfc3339 E (w2\<lparr>tick := Suc (tick w2)\<rparr>) = (Inr ?now, ?w3)"
    by (simp_all add: outside_defs sample_def bindE_def)
  have lift: "lift_res (Inr x) = ret x" for x :: 'x
    by (rule ext) simp
  show thesis
  proof (rule that [OF _ _ v])
    show "audit_only (db w) (db ?w3)" "db_wf E (db ?w3)" using d1 wf1 d2 by simp_all
    show "put_blob E st rns ip hs body w
        = blob_write E st hs ns c v ?etag (metadata_of_blob E st hs body (meta_at E ns (db w)) ?etag ?now) ?w3"
      using size
      apply (simp add: put_blob_def ns lift Let_def)
      apply (subst bindE_okD, rule a)
      apply (subst bindE_okD, rule disk(1))
      apply (subst bindE_okD, rule ex)
      apply (subst bindE_okD, rule enc)
      apply (subst bindE_okD, rule uuid)
      apply (subst bindE_okD, rule now)
      apply (simp add: v lift Let_def blob_write_def)
      done
  qed
qed

lemma put_blob_conflict:
  assumes E: "no_faults E" "codecs_ok E" "aead_ok E" and wf: "db_wf E (db w)"
    and ns: "decode_namespace E rns = Inr ns" and g: "gate_open E hs ns Write w"
    and size: "length body \<le> max_blob_size st"
    and room: "disk_room E st (of_nat (length body)) (tick (snd (authorize_sync_request_with_permission E st hs ns Write ip w)))"
    and bad: "blob_conflict (meta_at E ns (db w)) (header hs ''if-match'')
      (header hs ''if-none-match'' = Some ''*'') = Some err"
  obtains w' where "put_blob E st rns ip hs body w = (Inl (map_conditional_write_error err), w')"
    "same_content (db w) (db w')"
proof (rule put_blob_started [OF E wf ns g size room])
  fix c v etag now w3
  assume d: "audit_only (db w) (db w3)" and run: "put_blob E st rns ip hs body w =
       blob_write E st hs ns c v etag (metadata_of_blob E st hs body (meta_at E ns (db w)) etag now) w3"
  have "cond_decode (c_metadata E) (tget (metadata_table (db w3)) (metadata_key ns)) = Inr (meta_at E ns (db w))"
    using stored_meta_decodes [of E "db w" ns] wf audit_only_tables(1) [OF d] by (simp add: db_wf_def)
  with bad have put: "db_put_blob_if_matches E ns (header hs ''if-match'') (header hs ''if-none-match'' = Some ''*'') c v w3
      = (Inl err, w3\<lparr>tick := Suc (tick w3)\<rparr>)"
    by (simp add: db_put_blob_if_matches_def write_txn_no_faults [OF E(1)] put_blob_tx_def)
  let ?ob = "\<lparr>co_namespace = ns, co_operation = ''blob'', co_object_path = None,
    co_device_id = header hs ''x-oxideterm-device-id'',
    co_requested_revision = header hs ''x-oxideterm-revision'',
    co_requested_etag = request_etag_for_conflict (header hs ''if-match'') (header hs ''if-none-match'')\<rparr>"
  obtain w' where rec: "record_conditional_write_conflict E st ?ob err (w3\<lparr>tick := Suc (tick w3)\<rparr>) = (Inr (), w')"
      "same_content (db w3) (db w')"
    using record_conflict_total [OF E(1,2), of st ?ob err "w3\<lparr>tick := Suc (tick w3)\<rparr>"] by auto
  show thesis
  proof (rule that)
    show "put_blob E st rns ip hs body w = (Inl (map_conditional_write_error err), w')"
      unfolding run blob_write_def by (simp add: handleE_def put bindE_def rec(1))
    show "same_content (db w) (db w')" by (rule kept.Q_trans [OF audit_only_content [OF d] rec(2)])
  qed
qed

text \<open>Refreshing the usage does not fail, so an upload whose precondition holds succeeds.\<close>

lemma refresh_usage_total:
  assumes "no_faults E" "codecs_ok E" "rows_wf E (db w)"
  shows "\<exists>w'. refresh_usage E st ns now w = (Inr (), w')"
proof -
  obtain u where u: "decode_row (c_usage E) (tget (namespace_usage_table (db w)) (namespace_usage_key ns)) = Inr u"
    using rows_keyed_decode [OF rows_wfD(7) [OF assms(3)]] by blast
  have refresh: "\<exists>us w'. db_refresh_namespace_usage E ns now False v = (Inr us, w')" if "db v = db w" for v
  proof -
    obtain n b l where stats: "namespace_object_stats_tx E ns (db w) = (n, b, l)" by (rule prod_cases3)
    obtain r where "to_vec (c_usage E) (usage_of ns now False
        (opt_get 0 (map_option (\<lambda>v. of_nat (length v)) (tget (blob_table (db w)) (blob_key ns)))) n b u) = Inr r"
      by (rule codec_okE [OF codecs_okD(8) [OF assms(2)]])
    then show ?thesis
      using u that stats
      by (simp add: db_refresh_namespace_usage_def db_blob_size_def db_namespace_object_stats_def db_get_namespace_usage_def
          read_txn_no_faults [OF assms(1)] write_txn_no_faults [OF assms(1)] bindE_def set_namespace_usage_tx_def
          encode_row_def)
  qed
  show ?thesis
    using u refresh [of w] refresh [of "w\<lparr>tick := Suc (tick w)\<rparr>"]
    by (auto simp: refresh_usage_def db_refresh_namespace_usage_if_stale_def db_get_namespace_usage_def Let_def
        read_txn_no_faults [OF assms(1)] bindE_def map_err_def)
qed

lemma put_blob_complete:
  assumes E: "no_faults E" "codecs_ok E" "aead_ok E" and wf: "db_wf E (db w)"
    and ns: "decode_namespace E rns = Inr ns" and g: "gate_open E hs ns Write w"
    and size: "length body \<le> max_blob_size st"
    and room: "disk_room E st (of_nat (length body)) (tick (snd (authorize_sync_request_with_permission E st hs ns Write ip w)))"
    and good: "blob_conflict (meta_at E ns (db w)) (header hs ''if-match'') (header hs ''if-none-match'' = Some ''*'') = None"
  shows "\<exists>r w'. put_blob E st rns ip hs body w = (Inr r, w')"
proof (rule put_blob_started [OF E wf ns g size room])
  fix c v etag now w3
  assume d: "audit_only (db w) (db w3)" and wf3: "db_wf E (db w3)"
    and v: "to_vec (c_metadata E) (metadata_of_blob E st hs body (meta_at E ns (db w)) etag now) = Inr v"
    and run: "put_blob E st rns ip hs body w =
       blob_write E st hs ns c v etag (metadata_of_blob E st hs body (meta_at E ns (db w)) etag now) w3"
  let ?d = "(db w3)\<lparr>blob_table := tput (blob_key ns) c (blob_table (db w3)),
    metadata_table := tput (metadata_key ns) v (metadata_table (db w3))\<rparr>"
  let ?w5 = "w3\<lparr>db := ?d, tick := Suc (Suc (tick w3))\<rparr>" and ?now = "to_rfc3339 E (clock E (Suc (tick w3)))"
  have tx: "put_blob_tx E ns (header hs ''if-match'') (header hs ''if-none-match'' = Some ''*'') c v (db w3) = Inr ((), ?d)"
    using good stored_meta_decodes [of E "db w" ns] wf audit_only_tables(1) [OF d] by (simp add: put_blob_tx_def db_wf_def)
  then have put: "db_put_blob_if_matches E ns (header hs ''if-match'') (header hs ''if-none-match'' = Some ''*'') c v w3
      = (Inr (), w3\<lparr>db := ?d, tick := Suc (tick w3)\<rparr>)"
    by (simp add: db_put_blob_if_matches_def write_txn_no_faults [OF E(1)])
  have "rows_wf E (db ?w5)"
    using rows_wf_step [OF E(2) _ db_step.put_blob [OF v tx]] wf3 by (simp add: db_wf_def)
  from refresh_usage_total [OF E(1,2) this, of st ns ?now]
  obtain w' where fin: "refresh_usage E st ns ?now ?w5 = (Inr (), w')" by blast
  have now: "now_rfc3339 E (w3\<lparr>db := ?d, tick := Suc (tick w3)\<rparr>) = (Inr ?now, ?w5)"
    by (simp add: now_rfc3339_def utc_now_def sample_def bindE_def)
  show ?thesis
    unfolding run blob_write_def handleE_def put prod.case sum.case bindE_def now fin by (simp add: ret_def)
qed

text \<open>An admitted upload that leaves less than the reserve free is refused before it reads anything.\<close>

lemma put_blob_no_room:
  assumes E: "no_faults E" "codecs_ok E" and wf: "db_wf E (db w)"
    and ns: "decode_namespace E rns = Inr ns" and g: "gate_open E hs ns Write w"
    and size: "length body \<le> max_blob_size st"
    and full: "\<not> disk_room E st (of_nat (length body)) (tick (snd (authorize_sync_request_with_permission E st hs ns Write ip w)))"
  shows "\<exists>msg w'. put_blob E st rns ip hs body w = (Inl (Insufficient_Storage msg), w') \<and> same_content (db w) (db w')"
proof -
  from authorize_complete [OF E wf g]
  obtain t w1 where a: "authorize_sync_request_with_permission E st hs ns Write ip w = (Inr t, w1)" .
  have d1: "audit_only (db w) (db w1)" by (rule authorize_ok(4) [OF _ a]) (use wf in \<open>simp add: db_wf_def\<close>)
  have "\<not> disk_room E st (of_nat (length body)) (tick w1)" using full by (simp add: a)
  from no_disk_room_run [OF this] obtain msg w' where
    "ensure_disk_capacity E st (of_nat (length body)) w1 = (Inl (Insufficient_Storage msg), w')" "db w' = db w1" by blast
  with a ns size audit_only_content [OF d1] show ?thesis
    by (simp add: put_blob_def bindE_def)
qed

lemma put_object_no_room:
  assumes E: "no_faults E" "codecs_ok E" and wf: "db_wf E (db w)"
    and ns: "decode_namespace E rns = Inr ns" and path: "decode_object_path E rp = Inr path"
    and g: "gate_open E hs ns Write w" and size: "length body \<le> max_object_size st"
    and full: "\<not> disk_room E st (of_nat (length body)) (tick (snd (authorize_sync_request_with_permission E st hs ns Write ip w)))"
  shows "\<exists>msg w'. put_object E st rns rp ip hs body w = (Inl (Insufficient_Storage msg), w') \<and> same_content (db w) (db w')"
proof -
  from authorize_complete [OF E wf g]
  obtain t w1 where a: "authorize_sync_request_with_permission E st hs ns Write ip w = (Inr t, w1)" .
  have d1: "audit_only (db w) (db w1)" by (rule authorize_ok(4) [OF _ a]) (use wf in \<open>simp add: db_wf_def\<close>)
  have "\<not> disk_room E st (of_nat (length body)) (tick w1)" using full by (simp add: a)
  from no_disk_room_run [OF this] obtain msg w' where
    "ensure_disk_capacity E st (of_nat (length body)) w1 = (Inl (Insufficient_Storage msg), w')" "db w' = db w1" by blast
  with a ns path size audit_only_content [OF d1] show ?thesis
    by (simp add: put_object_def bindE_def)
qed

end
