(* ===== verification/Instance.thy ===== *)
theory Instance
  imports Sync_Facts
begin

text \<open>
  A concrete instance of the third-party parameters, on which hypotheses of the properties
  are shown to hold: documents are tagged records, times are printed in unary so that the
  print order is the time order, and ciphers and hashes are simple injective functions.
\<close>

datatype doc =
    Doc_Metadata sync_metadata
  | Doc_Object stored_object_metadata
  | Doc_Token api_token
  | Doc_Device device_record
  | Doc_Login login_attempt_record
  | Doc_Deleted deleted_namespace_record
  | Doc_Conflict sync_conflict_record
  | Doc_Usage namespace_usage_record
  | Doc_User admin_user_record

definition doc_codec :: "('a \<Rightarrow> doc) \<Rightarrow> (doc \<Rightarrow> 'a option) \<Rightarrow> ('a, doc) codec" where
  "doc_codec mk sel = \<lparr>to_vec = \<lambda>x. Inr (mk x),
     from_slice = \<lambda>v. (case sel v of None \<Rightarrow> Inl ''invalid type'' | Some x \<Rightarrow> Inr x)\<rparr>"

text \<open>Unary numerals: one digit per unit after the sign; a negative number ends in a larger letter.\<close>

definition print_int :: "int \<Rightarrow> string" where
  "print_int t = (if t < 0 then CHR ''0'' # replicate (nat (- t)) CHR ''a'' @ ''b''
     else CHR ''1'' # replicate (nat t) CHR ''a'')"

definition read_int :: "string \<Rightarrow> int option" where
  "read_int s = (case s of [] \<Rightarrow> None
     | c # r \<Rightarrow> if c = CHR ''1'' then Some (int (length r))
         else if c = CHR ''0'' then Some (1 - int (length r)) else None)"

text \<open>
  A session token is the digits of its claims and of the bytes of its name, each with a fixed
  number of places, the last place first.
\<close>

fun digits :: "nat \<Rightarrow> int \<Rightarrow> string" where
  "digits 0 n = []"
| "digits (Suc k) n = char_of (0x30 + nat (n mod 10)) # digits k (n div 10)"

fun read_digits :: "string \<Rightarrow> int" where
  "read_digits [] = 0"
| "read_digits (c # s) = int (of_char c - 0x30) + 10 * read_digits s"

fun read_name :: "string \<Rightarrow> string" where
  "read_name (a # b # c # s) = char_of (nat (read_digits [a, b, c])) # read_name s"
| "read_name _ = []"

definition demo_jwt :: "admin_claims \<Rightarrow> string" where
  "demo_jwt c = digits 20 (uint (cl_exp c)) @ digits 20 (uint (cl_iat c)) @ digits 20 (uint (cl_ver c))
     @ concat (map (\<lambda>ch. digits 3 (of_char ch)) (cl_sub c))"

definition demo_jwt_encode :: "string \<Rightarrow> admin_claims \<Rightarrow> string + string" where
  "demo_jwt_encode secret c = Inr (demo_jwt c)"

definition demo_jwt_decode :: "int \<Rightarrow> string \<Rightarrow> string \<Rightarrow> string + admin_claims" where
  "demo_jwt_decode now token secret =
     (let e = read_digits (take 20 token); i = read_digits (take 20 (drop 20 token));
          v = read_digits (take 20 (drop 40 token))
      in if e < now div 1000000000 then Inl ''ExpiredSignature''
         else Inr \<lparr>cl_sub = read_name (drop 60 token), cl_exp = word_of_int e, cl_iat = word_of_int i,
            cl_ver = word_of_int v\<rparr>)"

definition demo :: "doc ext" where
  "demo = \<lparr>clock = int, uuid_v4 = (\<lambda>i. replicate (Suc i) CHR ''u''),
     rng_nonce = (\<lambda>i. replicate 12 CHR ''n''), store_fault = (\<lambda>_. None), statvfs = (\<lambda>_. None),
     parse_rfc3339 = read_int, to_rfc3339 = print_int, url_decode = Some, parse_ip = Some,
     unicode_alphanumeric = (\<lambda>_. False), sha256 = id, hex_encode = id, hex_decode = Inr,
     base64_encode = id, base64_decode = Inr,
     aead_encrypt = (\<lambda>k n m. Inr (m @ replicate 16 CHR ''t'')),
     aead_decrypt = (\<lambda>k n c. Inr (take (length c - 16) c)),
     bcrypt_hash = (\<lambda>i p. Inr p), bcrypt_verify = (\<lambda>p h. Inr (p = h)),
     jwt_encode = demo_jwt_encode,
     jwt_decode = demo_jwt_decode,
     parse_section_revisions = (\<lambda>_. None),
     c_metadata = doc_codec Doc_Metadata (\<lambda>v. case v of Doc_Metadata x \<Rightarrow> Some x | _ \<Rightarrow> None),
     c_object_meta = doc_codec Doc_Object (\<lambda>v. case v of Doc_Object x \<Rightarrow> Some x | _ \<Rightarrow> None),
     c_token = doc_codec Doc_Token (\<lambda>v. case v of Doc_Token x \<Rightarrow> Some x | _ \<Rightarrow> None),
     c_device = doc_codec Doc_Device (\<lambda>v. case v of Doc_Device x \<Rightarrow> Some x | _ \<Rightarrow> None),
     c_login = doc_codec Doc_Login (\<lambda>v. case v of Doc_Login x \<Rightarrow> Some x | _ \<Rightarrow> None),
     c_deleted = doc_codec Doc_Deleted (\<lambda>v. case v of Doc_Deleted x \<Rightarrow> Some x | _ \<Rightarrow> None),
     c_conflict = doc_codec Doc_Conflict (\<lambda>v. case v of Doc_Conflict x \<Rightarrow> Some x | _ \<Rightarrow> None),
     c_usage = doc_codec Doc_Usage (\<lambda>v. case v of Doc_Usage x \<Rightarrow> Some x | _ \<Rightarrow> None),
     c_user = doc_codec Doc_User (\<lambda>v. case v of Doc_User x \<Rightarrow> Some x | _ \<Rightarrow> None)\<rparr>"

lemma read_print [simp]: "read_int (print_int t) = Some t"
  by (simp add: read_int_def print_int_def)

lemma demo_codecs_ok: "codecs_ok demo"
  by (simp add: codecs_ok_def codec_ok_def demo_def doc_codec_def)

lemma demo_time_ok: "time_ok demo"
  by (simp add: time_ok_def demo_def)

lemma demo_no_faults: "no_faults demo"
  by (simp add: no_faults_def demo_def)

lemma demo_aead_ok: "aead_ok demo"
  by (simp add: aead_ok_def demo_def)

lemma length_digits [simp]: "length (digits k n) = k"
  by (induction k arbitrary: n) simp_all

lemma digit_range: "0 \<le> n \<Longrightarrow> c \<in> set (digits k n) \<Longrightarrow> 0x30 \<le> (of_char c :: nat) \<and> (of_char c :: nat) \<le> 0x39"
proof (induction k arbitrary: n)
  case (Suc k)
  have "nat (n mod 10) < 10" by (simp add: nat_less_iff)
  with Suc.prems Suc.IH [of "n div 10"] show ?case
    by (auto simp: of_char_of take_bit_eq_mod pos_imp_zdiv_nonneg_iff)
qed simp

lemma read_digits: "0 \<le> n \<Longrightarrow> read_digits (digits k n) = n mod 10 ^ k"
proof (induction k arbitrary: n)
  case (Suc k)
  have d: "nat (n mod 10) < 10" "0 \<le> n mod 10" by (simp_all add: nat_less_iff)
  then have "read_digits (digits (Suc k) n) = n mod 10 + 10 * (n div 10 mod 10 ^ k)"
    using Suc by (simp add: pos_imp_zdiv_nonneg_iff of_char_of take_bit_eq_mod)
  then show ?case by (simp add: mod_mult2_eq' zmod_zmult2_eq)
qed simp

lemma read_word: "read_digits (digits 20 (uint (x :: u64))) = uint x"
proof -
  have "uint x < 2 ^ 64" using unsigned_less [of x] by simp
  then have "uint x < 10 ^ 20" by simp
  then show ?thesis by (simp add: read_digits)
qed

lemma read_name_digits: "read_name (concat (map (\<lambda>ch. digits 3 (of_char ch)) s)) = s"
proof (induction s)
  case (Cons ch s)
  have "(of_char ch :: int) < 256"
    using of_char_mod_256 [of ch] pos_mod_bound [of 256 "of_char ch"] by (metis zero_less_numeral)
  moreover have "0 \<le> (of_char ch :: int)" by (metis of_nat_of_char of_nat_0_le_iff)
  ultimately have r: "read_digits (digits 3 (of_char ch)) = of_char ch"
    by (simp add: read_digits)
  obtain a b c where d: "digits 3 (of_char ch) = [a, b, c]"
    by (simp add: eval_nat_numeral)
  have "nat (of_char ch) = of_char ch" by (metis nat_int of_nat_of_char)
  with d r Cons show ?case by simp
qed simp

lemma demo_jwt_chars: "ch \<in> set (demo_jwt c) \<Longrightarrow> \<exists>k n. 0 \<le> n \<and> ch \<in> set (digits k n)"
proof -
  assume "ch \<in> set (demo_jwt c)"
  then consider x :: u64 where "ch \<in> set (digits 20 (uint x))" | b :: char where "ch \<in> set (digits 3 (of_char b))"
    unfolding demo_jwt_def set_append set_concat set_map by blast
  then show ?thesis
  proof cases
    case (1 x)
    have "0 \<le> uint x" by simp
    with 1 show ?thesis by blast
  next
    case (2 b)
    have "0 \<le> (of_char b :: int)" by (metis of_nat_of_char of_nat_0_le_iff)
    with 2 show ?thesis by blast
  qed
qed

lemma demo_jwt_ok: "jwt_ok demo"
proof -
  have "demo_jwt_decode now (demo_jwt c) s = Inr c" if "now div 1000000000 \<le> uint (cl_exp c)" for now c s
    using that by (simp add: demo_jwt_decode_def demo_jwt_def read_word read_name_digits not_less)
  moreover have "jwt_char ch" if "ch \<in> set (demo_jwt c)" for ch c
  proof -
    from demo_jwt_chars [OF that] obtain k n where "0 \<le> n" "ch \<in> set (digits k n)" by blast
    from digit_range [OF this] show ?thesis by (simp add: jwt_char_def is_ascii_alphanumeric_def)
  qed
  moreover have "demo_jwt c \<noteq> []" for c
  proof -
    have "0 < length (demo_jwt c)" by (simp add: demo_jwt_def)
    then show ?thesis by simp
  qed
  ultimately show ?thesis by (simp add: jwt_ok_def demo_def demo_jwt_encode_def list_all_iff)
qed

text \<open>A configuration and a database with one token for every namespace.\<close>

definition demo_state :: app_state where
  "demo_state = \<lparr>encryption_key = Some (replicate 32 CHR ''k''), admin_enabled = True, jwt_secret = ''s'',
     admin_jwt_secret_persistent = True, admin_cookie_secure = True,
     token_reveal_key = replicate 32 CHR ''r'', token_reveal_persistent = True,
     trust_proxy_headers = False, sync_cors_allowed_origins = [], max_blob_size = 1000,
     max_object_size = 1000, min_free_disk_bytes = 0, login_window_seconds = 900,
     login_lockout_seconds = 900, max_login_failures = 5, token_usage_write_interval_seconds = 0,
     usage_refresh_interval_seconds = 0, max_sync_conflict_records = 10,
     default_token_ttl_seconds = None,
     metadata_retention = \<lparr>store_revision = True, store_uploaded_at = True, store_device_id = True,
       store_content_hash = True\<rparr>\<rparr>"

definition demo_token :: api_token where
  "demo_token = \<lparr>tok_id = ''t'', tok_name = ''n'', tok_token_hash = ''secret'',
     tok_encrypted_token = Some (replicate 12 CHR ''n'' @ ''secret'' @ replicate 16 CHR ''t''),
     tok_namespace_pattern = ''*'', tok_permissions = [''read'', ''write''], tok_created_at = ''1'',
     tok_enabled = True, tok_expires_at = None, tok_rotated_at = None, tok_disabled_at = None,
     tok_last_used_at = None, tok_device_id = None, tok_read_count = 0, tok_write_count = 0,
     tok_failed_count = 0, tok_last_namespace = None, tok_last_permission = None,
     tok_last_client_ip = None, tok_last_client_version = None\<rparr>"

definition demo_db :: "doc db" where
  "demo_db = open_db\<lparr>token_table := tput ''tok:t'' (Doc_Token demo_token) tempty,
     token_hash_table := tput ''secret'' ''t'' tempty\<rparr>"

definition demo_world :: "doc world" where
  "demo_world = \<lparr>db = demo_db, tick = 0\<rparr>"

definition demo_headers :: headers where
  "demo_headers = [(''authorization'', ''Bearer secret'')]"

text \<open>The starting database is reached from the empty one by storing the token.\<close>

lemma demo_set_token: "set_token_tx demo demo_token open_db = Inr ((), demo_db)"
  by (simp add: set_token_tx_def get_token_tx_def open_db_def encode_row_def demo_db_def
      demo_def doc_codec_def demo_token_def token_key_def)

lemma demo_reachable: "db_reachable demo demo_db"
  by (rule db_reachable.step [OF db_reachable.start])
    (rule db_step.set_token [OF demo_set_token], simp add: open_db_def)

lemma demo_wf: "db_wf demo demo_db"
  by (rule reachable_wf [OF demo_reachable demo_codecs_ok])

lemma demo_gate: "gate_open demo demo_headers ''ns'' p demo_world"
proof -
  have "hash_api_token demo ''secret'' = ''secret''"
    by (simp add: hash_api_token_def demo_def)
  moreover have "bearer_or_basic demo (header demo_headers ''authorization'') = Inr ''secret''"
    by code_simp
  moreover have "token_at demo ''t'' demo_db = Some demo_token"
    by (simp add: token_at_def get_token_tx_def demo_db_def token_key_def decode_row_def demo_def doc_codec_def)
  ultimately show ?thesis
    by (cases p) (simp_all add: gate_open_def token_of_request_def demo_world_def demo_db_def open_db_def
      token_admits_def demo_token_def namespace_matches_def permissions_allow_def)
qed

section \<open>Runs\<close>

lemma run_result: "res_ok (fst p) \<noteq> None \<Longrightarrow> \<exists>r w'. p = (Inr r, w')"
  by (cases p) (auto simp: res_ok_def split: sum.splits)

lemma demo_world_reachable: "db_reachable demo (db demo_world)"
  by (simp add: demo_world_def demo_reachable)

lemma demo_index: "token_index_ok demo (db demo_world)"
  using demo_wf by (simp add: demo_world_def db_wf_def)

definition demo_put_blob :: "(app_error + write_response) \<times> doc world" where
  "demo_put_blob = put_blob demo demo_state ''ns'' ''ip'' demo_headers ''body'' demo_world"

lemma demo_put_blob_runs: "res_ok (fst demo_put_blob) \<noteq> None"
  by code_simp

lemma demo_put_blob_reachable: "db_reachable demo (db (snd demo_put_blob))"
proof -
  have "steps_of demo demo_world (snd demo_put_blob)"
    unfolding demo_put_blob_def by (rule moves_snd [OF put_blob_moves])
  then show ?thesis
    using reachable_steps demo_world_reachable by (auto simp: on_db_def)
qed

definition demo_put_object :: "(app_error + object_write_response) \<times> doc world" where
  "demo_put_object = put_object demo demo_state ''ns'' ''a.json'' ''ip'' demo_headers ''body'' demo_world"

lemma demo_put_object_runs: "res_ok (fst demo_put_object) \<noteq> None"
  by code_simp

lemma demo_put_object_reachable: "db_reachable demo (db (snd demo_put_object))"
proof -
  have "steps_of demo demo_world (snd demo_put_object)"
    unfolding demo_put_object_def by (rule moves_snd [OF put_object_moves])
  then show ?thesis
    using reachable_steps demo_world_reachable by (auto simp: on_db_def)
qed

end
