(* ===== verification/Sync_Service.thy ===== *)
theory Sync_Service
  imports Sync_Facts
begin

text \<open>
  The sync API as one service (the routes of \<open>router\<close> in \<^verbatim>\<open>src/src/api.rs\<close>): a
  request on a namespace is dispatched to its handler. The lemmas are about every route at
  once: all of them move the database by committed steps, refuse a soft-deleted namespace,
  leave the other namespaces alone, and change no content when they fail before the write.
\<close>

section \<open>Routes\<close>

datatype sync_request =
    Get_Metadata
  | Put_Metadata metadata_write_request
  | Get_Blob
  | Put_Blob bytes
  | List_Objects object_list_query
  | Get_Object string
  | Put_Object string bytes
  | Delete_Object string

datatype sync_response =
    Re_Metadata sync_metadata
  | Re_Write write_response
  | Re_Blob headers bytes
  | Re_List json
  | Re_Object nat headers bytes
  | Re_Object_Write object_write_response
  | Re_Status nat

definition fmap :: "('a \<Rightarrow> 'b) \<Rightarrow> ('e, 'w, 'a) act \<Rightarrow> ('e, 'w, 'b) act" where
  "fmap f m = bindE m (\<lambda>x. ret (f x))"

fun serve ::
  "'j ext \<Rightarrow> app_state \<Rightarrow> string \<Rightarrow> string \<Rightarrow> headers \<Rightarrow> sync_request
     \<Rightarrow> (app_error, 'j world, sync_response) act" where
  "serve E st ns ip hs Get_Metadata = fmap Re_Metadata (get_metadata E st ns ip hs)"
| "serve E st ns ip hs (Put_Metadata body) = fmap Re_Write (put_metadata E st ns ip hs body)"
| "serve E st ns ip hs Get_Blob = fmap (\<lambda>(h, b). Re_Blob h b) (get_blob E st ns ip hs)"
| "serve E st ns ip hs (Put_Blob body) = fmap Re_Write (put_blob E st ns ip hs body)"
| "serve E st ns ip hs (List_Objects q) = fmap Re_List (list_objects E st ns ip q hs)"
| "serve E st ns ip hs (Get_Object path) = fmap (\<lambda>(s, h, b). Re_Object s h b) (get_object E st ns path ip hs)"
| "serve E st ns ip hs (Put_Object path body) = fmap Re_Object_Write (put_object E st ns path ip hs body)"
| "serve E st ns ip hs (Delete_Object path) = fmap Re_Status (delete_object E st ns path ip hs)"

text \<open>Which permission a route asks for.\<close>

fun needs :: "sync_request \<Rightarrow> sync_permission" where
  "needs (Put_Metadata _) = Write"
| "needs (Put_Blob _) = Write"
| "needs (Put_Object _ _) = Write"
| "needs (Delete_Object _) = Write"
| "needs _ = Read"

text \<open>Requests served one after the other; every request brings its own namespace and headers.\<close>

fun serve_all ::
  "'j ext \<Rightarrow> app_state \<Rightarrow> (string \<times> string \<times> headers \<times> sync_request) list \<Rightarrow> 'j world
     \<Rightarrow> (app_error + sync_response) list \<times> 'j world" where
  "serve_all E st [] w = ([], w)"
| "serve_all E st ((ns, ip, hs, rq) # rs) w =
     (case serve E st ns ip hs rq w of (r, w1) \<Rightarrow>
      case serve_all E st rs w1 of (out, w2) \<Rightarrow> (r # out, w2))"

section \<open>Committed steps\<close>

lemma serve_moves: "moves (steps_of E) (serve E st ns ip hs rq)"
  by (cases rq) (auto simp: fmap_def intro!: steps.frame_bindE steps.frame_ret get_metadata_moves
      put_metadata_moves get_blob_moves put_blob_moves list_objects_moves delete_object_moves
      get_object_moves put_object_moves split: prod.split)

lemma serve_all_steps: "(db_step E)\<^sup>*\<^sup>* (db w) (db (snd (serve_all E st rs w)))"
proof (induction rs arbitrary: w)
  case Nil
  then show ?case by simp
next
  case (Cons q rs)
  obtain ns ip hs rq where q: "q = (ns, ip, hs, rq)" by (cases q)
  obtain r w1 where s: "serve E st ns ip hs rq w = (r, w1)" by (cases "serve E st ns ip hs rq w")
  have "(db_step E)\<^sup>*\<^sup>* (db w) (db w1)"
    using movesD [OF serve_moves s] by (simp add: on_db_def)
  with Cons [of w1] q s show ?case
    by (auto split: prod.splits)
qed

section \<open>Every route starts at the gate\<close>

text \<open>The first two stages are the same everywhere: decode the namespace, ask the gate.\<close>

definition gated ::
  "'j ext \<Rightarrow> app_state \<Rightarrow> string \<Rightarrow> string \<Rightarrow> headers \<Rightarrow> sync_permission \<Rightarrow> (string \<Rightarrow> (app_error, 'j world, 'a) act)
     \<Rightarrow> (app_error, 'j world, 'a) act" where
  "gated E st rns ip hs p k =
     bindE (lift_res (decode_namespace E rns)) (\<lambda>ns.
     bindE (authorize_sync_request_with_permission E st hs ns p ip) (\<lambda>_. k ns))"

lemma serve_gated: "\<exists>k. serve E st rns ip hs rq = gated E st rns ip hs (needs rq) k"
  by (cases rq; simp only: serve.simps needs.simps fmap_def gated_def bindE_assoc get_metadata_def
      put_metadata_def get_blob_def put_blob_def list_objects_def list_page_def get_object_def
      put_object_def delete_object_def; rule exI, rule refl)

lemma serve_ok_gate:
  assumes "token_index_ok E (db w)" "serve E st rns ip hs rq w = (Inr r, w')"
  obtains ns where "decode_namespace E rns = Inr ns" "gate_open E hs ns (needs rq) w"
proof -
  obtain k where "serve E st rns ip hs rq = gated E st rns ip hs (needs rq) k"
    using serve_gated by blast
  with assms show ?thesis
    by (auto simp: gated_def act_ok_iff intro: that authorize_gate_open)
qed

lemma serve_soft_deleted:
  assumes "no_faults E" "decode_namespace E rns = Inr ns"
    and "tget (deleted_namespace_table (db w)) ns \<noteq> None"
  shows "serve E st rns ip hs rq w =
    (Inl (Not_Found (''Namespace '' @ quoted ns @ '' is soft-deleted'')), w\<lparr>tick := Suc (tick w)\<rparr>)"
proof -
  obtain k where "serve E st rns ip hs rq = gated E st rns ip hs (needs rq) k"
    using serve_gated by blast
  with assms show ?thesis
    by (simp add: gated_def bindE_def authorize_sync_request_with_permission_def
        ensure_namespace_active_def db_is_namespace_deleted_def map_err_def read_txn_no_faults)
qed

section \<open>Other namespaces\<close>

text \<open>Two databases that hold the same of a namespace: content, usage and deletion mark.\<close>

definition view_kept :: "string \<Rightarrow> 'j db \<Rightarrow> 'j db \<Rightarrow> bool" where
  "view_kept m d d' \<longleftrightarrow> namespace_view m d = namespace_view m d'"

interpretation view: db_frame "view_kept m" for m
  by unfold_locales (simp_all add: view_kept_def)

lemma view_kept_audit: "audit_only d d' \<Longrightarrow> view_kept m d d'"
  by (simp add: view_kept_def namespace_view_def audit_only_tables)

lemma view_kept_other_tables [simp]:
  "view_kept m d (d\<lparr>sync_conflict_table := t\<rparr>)"
  by (simp add: view_kept_def namespace_view_def)

lemma authorize_view: "moves (on_db (view_kept m)) (authorize_sync_request_with_permission E st hs ns p ip)"
  by (rule moves_mono [OF authorize_audit_only]) (simp add: on_db_def view_kept_audit)

lemma view_reads:
  "moves (on_db (view_kept m)) (db_get_metadata E ns)" "moves (on_db (view_kept m)) (db_get_blob E ns)"
  "moves (on_db (view_kept m)) (db_list_object_paths E ns p a n)" "moves (on_db (view_kept m)) (db_get_object E ns p)"
  "moves (on_db (view_kept m)) (db_get_object_metadata E ns p)" "moves (on_db (view_kept m)) (stored_metadata E ns)"
  "moves (on_db (view_kept m)) (ensure_disk_capacity E st sz)" "moves (on_db (view_kept m)) (encrypt_if_needed E st b)"
  unfolding db_get_metadata_def db_get_blob_def db_list_object_paths_def db_get_object_def
    db_get_object_metadata_def stored_metadata_def ensure_disk_capacity_def encrypt_if_needed_def
    encrypt_def Let_def
  by (auto intro!: view.db_frame_rules split: option.split)

lemma view_conflict: "moves (on_db (view_kept m)) (record_conditional_write_conflict E st ob e)"
  unfolding record_conditional_write_conflict_def db_add_sync_conflict_def
  by (auto intro!: view.db_frame_rules view.frame_write_txn simp: add_sync_conflict_tx_def Let_def
      split: conditional_write_error.split sum.splits)

lemma view_writes:
  assumes "ns \<noteq> m" "CHR ''/'' \<notin> set ns" "CHR ''/'' \<notin> set m"
  shows "moves (on_db (view_kept m)) (db_set_metadata E ns v)"
    and "moves (on_db (view_kept m)) (db_put_blob_if_matches E ns x a blob v)"
    and "moves (on_db (view_kept m)) (db_put_object_if_matches E ns path x a data om)"
    and "moves (on_db (view_kept m)) (db_delete_object E ns path)"
    and "moves (on_db (view_kept m)) (refresh_usage E st ns now)"
proof -
  have key: "metadata_key m \<noteq> metadata_key ns" "blob_key m \<noteq> blob_key ns"
      "namespace_usage_key m \<noteq> namespace_usage_key ns" "object_key m q \<noteq> object_key ns path" for q path
    using assms by (simp_all add: metadata_key_def blob_key_def namespace_usage_key_def object_key_inject)
  show "moves (on_db (view_kept m)) (db_set_metadata E ns v)"
    unfolding db_set_metadata_def
    by (auto intro!: view.frame_write_txn simp: view_kept_def namespace_view_def key)
  show "moves (on_db (view_kept m)) (db_put_blob_if_matches E ns x a blob v)"
    unfolding db_put_blob_if_matches_def
    by (auto intro!: view.frame_write_txn simp: put_blob_tx_ok_iff view_kept_def namespace_view_def key)
  show "moves (on_db (view_kept m)) (db_put_object_if_matches E ns path x a data om)"
    unfolding db_put_object_if_matches_def
    by (auto intro!: view.frame_write_txn simp: put_object_tx_ok_iff view_kept_def namespace_view_def key)
  show "moves (on_db (view_kept m)) (db_delete_object E ns path)"
    unfolding db_delete_object_def delete_object_tx_def object_meta_key_def
    by (auto intro!: view.frame_write_txn simp: view_kept_def namespace_view_def key)
  show "moves (on_db (view_kept m)) (refresh_usage E st ns now)"
    unfolding refresh_usage_def db_refresh_namespace_usage_if_stale_def db_refresh_namespace_usage_def
      db_blob_size_def db_namespace_object_stats_def db_get_namespace_usage_def Let_def
    by (auto intro!: view.db_frame_rules view.frame_write_txn
        simp: set_namespace_usage_tx_def view_kept_def namespace_view_def key split: sum.splits)
qed

lemma serve_view_kept:
  assumes "\<And>ns. decode_namespace E rns = Inr ns \<Longrightarrow> ns \<noteq> m" "CHR ''/'' \<notin> set m"
  shows "moves (on_db (view_kept m)) (serve E st rns ip hs rq)"
proof -
  note writes = view_writes [OF assms(1) decode_namespace_no_slash assms(2)]
  note rules = view.frame_bind_lift view.db_frame_rules authorize_view view_reads view_conflict
  show ?thesis
  proof (cases rq)
    case Get_Metadata
    then show ?thesis
      by (auto simp: fmap_def get_metadata_def intro!: rules split: option.split)
  next
    case (Put_Metadata body)
    then show ?thesis
      by (auto simp: fmap_def put_metadata_def Let_def intro!: rules writes)
  next
    case Get_Blob
    then show ?thesis
      by (auto simp: fmap_def get_blob_def intro!: rules)
  next
    case (Put_Blob body)
    then show ?thesis
      by (auto simp: fmap_def put_blob_def Let_def intro!: rules writes)
  next
    case (List_Objects q)
    then show ?thesis
      by (auto simp: fmap_def list_objects_def list_page_def Let_def intro!: rules)
  next
    case (Get_Object path)
    then show ?thesis
      by (auto simp: fmap_def get_object_def intro!: rules split: option.split)
  next
    case (Put_Object path body)
    then show ?thesis
      by (auto simp: fmap_def put_object_def Let_def intro!: rules writes)
  next
    case (Delete_Object path)
    then show ?thesis
      by (auto simp: fmap_def delete_object_def intro!: rules writes)
  qed
qed

section \<open>Failures\<close>

text \<open>
  An action fails cleanly when a failure either left the content alone or is reported as an
  internal error (the usage snapshot that follows a committed write can fail).
\<close>

definition server_fault :: "app_error \<Rightarrow> bool" where
  "server_fault e \<longleftrightarrow> fst (into_response e) = 500"

definition fails_clean :: "(app_error, 'j world, 'a) act \<Rightarrow> bool" where
  "fails_clean m \<longleftrightarrow> (\<forall>w e w'. m w = (Inl e, w') \<longrightarrow> same_content (db w) (db w') \<or> server_fault e)"

definition fails_500 :: "(app_error, 'j world, 'a) act \<Rightarrow> bool" where
  "fails_500 m \<longleftrightarrow> (\<forall>w e w'. m w = (Inl e, w') \<longrightarrow> server_fault e)"

lemma app_of_redb_fault [simp]: "server_fault (app_of_redb e)"
  by (simp add: server_fault_def app_of_redb_def)

lemma fails_500_bind: "fails_500 m \<Longrightarrow> (\<And>x. fails_500 (f x)) \<Longrightarrow> fails_500 (bindE m f)"
  unfolding fails_500_def act_err_iff by blast

lemma fails_500_intros:
  "fails_500 (ret x)" "fails_500 (Pair (Inr x))" "fails_500 (now_rfc3339 E)"
  "fails_500 (map_err app_of_redb m1)" "fails_500 m2 \<Longrightarrow> fails_500 (whenE b m2)"
  by (auto simp: fails_500_def act_err_iff outside_defs)

lemma refresh_usage_500: "fails_500 (refresh_usage E st ns now)"
  unfolding refresh_usage_def by (intro fails_500_bind fails_500_intros)

lemma clean_moves: "moves (on_db same_content) m \<Longrightarrow> fails_clean m"
  by (auto simp: fails_clean_def on_db_def dest: movesD)

lemma clean_bind:
  "moves (on_db same_content) m \<Longrightarrow> (\<And>x. fails_clean (f x)) \<Longrightarrow> fails_clean (bindE m f)"
  unfolding fails_clean_def act_err_iff on_db_def
  by (metis movesD same_content_def on_db_def)

lemma clean_throw: "fails_clean (throw e)"
  by (rule clean_moves) (rule kept.frame_throw)

text \<open>A write transaction that fails changed nothing, so only what follows it must not fail otherwise.\<close>

lemma clean_write:
  "(\<And>x. fails_500 (f x)) \<Longrightarrow> fails_clean (bindE (map_err h (write_txn E conv g)) f)"
  by (auto simp: fails_clean_def fails_500_def act_err_iff write_txn_err_iff same_content_def)

lemma clean_handle_write:
  assumes "\<And>e. fails_clean (f e)" "\<And>x. fails_500 (g x)"
  shows "fails_clean (handleE (write_txn E conv h) f g)"
  unfolding fails_clean_def
proof (intro allI impI)
  fix w e w'
  assume "handleE (write_txn E conv h) f g w = (Inl e, w')"
  then consider d w1 where "write_txn E conv h w = (Inl d, w1)" "f d w1 = (Inl e, w')"
    | x w1 where "g x w1 = (Inl e, w')"
    by (auto simp: handleE_iff)
  then show "same_content (db w) (db w') \<or> server_fault e"
  proof cases
    case 1
    then have "db w1 = db w" by (simp add: write_txn_err_iff)
    with 1(2) assms(1) [of d] show ?thesis
      unfolding fails_clean_def by metis
  next
    case 2
    with assms(2) show ?thesis by (auto simp: fails_500_def)
  qed
qed

lemma kept_moves:
  "moves (on_db same_content) (authorize_sync_request_with_permission E st hs ns p ip)"
  "moves (on_db same_content) (db_get_metadata E ns)" "moves (on_db same_content) (db_get_blob E ns)"
  "moves (on_db same_content) (db_list_object_paths E ns q a n)" "moves (on_db same_content) (db_get_object E ns path)"
  "moves (on_db same_content) (db_get_object_metadata E ns path)" "moves (on_db same_content) (stored_metadata E ns)"
  "moves (on_db same_content) (ensure_disk_capacity E st sz)" "moves (on_db same_content) (encrypt_if_needed E st b)"
  "moves (on_db same_content) (record_conditional_write_conflict E st ob e)"
proof -
  show "moves (on_db same_content) (authorize_sync_request_with_permission E st hs ns p ip)"
    by (rule moves_mono [OF authorize_audit_only]) (simp add: on_db_def audit_only_content)
  show "moves (on_db same_content) (record_conditional_write_conflict E st ob e)"
    unfolding record_conditional_write_conflict_def db_add_sync_conflict_def
    by (auto intro!: kept.db_frame_rules kept.frame_write_txn simp: add_sync_conflict_tx_def Let_def
        same_content_def content_def split: conditional_write_error.split sum.splits)
qed (auto simp: db_get_metadata_def db_get_blob_def db_list_object_paths_def db_get_object_def
    db_get_object_metadata_def stored_metadata_def ensure_disk_capacity_def encrypt_if_needed_def
    encrypt_def Let_def intro!: kept.db_frame_rules split: option.split)

lemma serve_fails_clean: "fails_clean (serve E st rns ip hs rq)"
proof -
  note rules = kept.db_frame_rules kept_moves
  note clean = clean_throw clean_bind clean_write clean_handle_write fails_500_bind fails_500_intros refresh_usage_500
  show ?thesis
  proof (cases rq)
    case Get_Metadata
    then show ?thesis
      by (auto simp: fmap_def get_metadata_def intro!: clean_moves rules split: option.split)
  next
    case (Put_Metadata body)
    then show ?thesis
      by (auto simp: fmap_def put_metadata_def db_set_metadata_def Let_def bindE_assoc intro!: clean rules)
  next
    case Get_Blob
    then show ?thesis
      by (auto simp: fmap_def get_blob_def intro!: clean_moves rules)
  next
    case (Put_Blob body)
    then show ?thesis
      by (auto simp: fmap_def put_blob_def db_put_blob_if_matches_def Let_def bindE_assoc bindE_handleE
          intro!: clean rules)
  next
    case (List_Objects q)
    then show ?thesis
      by (auto simp: fmap_def list_objects_def list_page_def Let_def intro!: clean_moves rules)
  next
    case (Get_Object path)
    then show ?thesis
      by (auto simp: fmap_def get_object_def intro!: clean_moves rules split: option.split)
  next
    case (Put_Object path body)
    then show ?thesis
      by (auto simp: fmap_def put_object_def db_put_object_if_matches_def Let_def bindE_assoc bindE_handleE
          intro!: clean rules)
  next
    case (Delete_Object path)
    then show ?thesis
      by (auto simp: fmap_def delete_object_def db_delete_object_def bindE_assoc intro!: clean rules)
  qed
qed

end
