(* ===== verification/Paging.thy ===== *)
theory Paging
  imports Sync_Facts
begin

text \<open>
  Listing a namespace page by page: a client that asks for pages and follows the cursor of
  each answer, and the proof that it sees every path with the prefix exactly once, in order.
\<close>

text \<open>The page the handler computes on a database (see \<open>list_page_ok\<close>).\<close>

definition page_at :: "string \<Rightarrow> string \<Rightarrow> nat \<Rightarrow> string option \<Rightarrow> 'j db \<Rightarrow> string list \<times> string option" where
  "page_at ns pre limit after d = page_of limit (list_object_paths_tx ns pre after (limit + 1) d)"

text \<open>The client; its fuel bounds the number of pages it asks for.\<close>

fun walk_pages :: "nat \<Rightarrow> string \<Rightarrow> string \<Rightarrow> nat \<Rightarrow> string option \<Rightarrow> 'j db \<Rightarrow> string list" where
  "walk_pages 0 ns pre limit after d = []"
| "walk_pages (Suc n) ns pre limit after d =
     (case page_at ns pre limit after d of (paths, next_cursor) \<Rightarrow>
        paths @ (case next_cursor of None \<Rightarrow> [] | Some c \<Rightarrow> walk_pages n ns pre limit (Some c) d))"

lemma filter_after_last:
  assumes "sorted_wrt (<) (xs :: string list)" "0 < n" "n \<le> length xs"
  shows "filter (\<lambda>p. last (take n xs) < p) xs = drop n xs"
proof -
  have ne: "take n xs \<noteq> []" using assms by auto
  have sw: "sorted_wrt (<) (take n xs @ drop n xs)" using assms(1) by simp
  have hi: "\<forall>p \<in> set (drop n xs). last (take n xs) < p"
    using sw last_in_set [OF ne] unfolding sorted_wrt_append by blast
  have lo: "\<forall>p \<in> set (take n xs). \<not> last (take n xs) < p"
  proof
    fix p assume p: "p \<in> set (take n xs)"
    have "sorted_wrt (<) (butlast (take n xs) @ [last (take n xs)])"
      using sw ne by (simp add: sorted_wrt_append)
    then have "p \<in> set (butlast (take n xs)) \<Longrightarrow> p < last (take n xs)"
      by (auto simp: sorted_wrt_append)
    moreover have "p \<in> set (butlast (take n xs)) \<or> p = last (take n xs)"
      using p ne by (metis append_butlast_last_id in_set_conv_decomp in_set_butlast_appendI
          Un_iff set_append empty_iff empty_set insert_iff list.simps(15))
    ultimately show "\<not> last (take n xs) < p" by auto
  qed
  have "filter (\<lambda>p. last (take n xs) < p) (take n xs @ drop n xs) = drop n xs"
    using hi lo by (simp only: filter_append filter_True filter_False) simp
  then show ?thesis by simp
qed

text \<open>What is left of the listing after a cursor.\<close>

definition remaining :: "string \<Rightarrow> string \<Rightarrow> string option \<Rightarrow> 'j db \<Rightarrow> string list" where
  "remaining ns pre after d = filter (\<lambda>p. starts_with p pre
     \<and> (case after of None \<Rightarrow> True | Some c \<Rightarrow> c < p)) (object_paths ns d)"

lemma remaining_strict: "sorted_wrt (<) (remaining ns pre after d)"
  unfolding remaining_def by (rule sorted_wrt_filter) (rule object_paths_strict)

lemma remaining_next:
  assumes "c \<in> set (remaining ns pre after d)"
  shows "remaining ns pre (Some c) d = filter (\<lambda>p. c < p) (remaining ns pre after d)"
  using assms by (cases after) (auto simp: remaining_def filter_filter intro!: filter_cong dest: less_trans)

lemma page_at_spec:
  assumes "case after of None \<Rightarrow> True | Some c \<Rightarrow> starts_with c pre"
  shows "page_at ns pre limit after d = page_of limit (take (limit + 1) (remaining ns pre after d))"
  using list_object_paths_spec [OF assms, of ns "limit + 1" d] by (simp add: page_at_def remaining_def)

lemma walk_pages_remaining:
  assumes "1 \<le> limit" "length (remaining ns pre after d) < n"
    and "case after of None \<Rightarrow> True | Some c \<Rightarrow> starts_with c pre"
  shows "walk_pages n ns pre limit after d = remaining ns pre after d"
  using assms
proof (induction n arbitrary: after)
  case 0
  then show ?case by simp
next
  case (Suc n)
  let ?R = "remaining ns pre after d"
  show ?case
  proof (cases "length ?R > limit")
    case False
    then show ?thesis
      using page_at_spec [OF Suc.prems(3), of ns limit d] by (simp add: page_of_def)
  next
    case True
    let ?c = "last (take limit ?R)"
    have ne: "take limit ?R \<noteq> []" using True Suc.prems(1) by auto
    then have c: "?c \<in> set ?R" by (meson in_set_takeD last_in_set)
    have rest: "remaining ns pre (Some ?c) d = drop limit ?R"
      using remaining_next [OF c] filter_after_last [OF remaining_strict, of limit ns pre after d]
        True Suc.prems(1) by simp
    have pre: "starts_with ?c pre"
      using c by (simp add: remaining_def)
    have "walk_pages n ns pre limit (Some ?c) d = drop limit ?R"
      using Suc.IH [of "Some ?c"] Suc.prems rest pre True by simp
    moreover have "page_at ns pre limit after d = (take limit ?R, Some ?c)"
      using page_at_spec [OF Suc.prems(3), of ns limit d] True ne by (simp add: page_of_def min_def)
    ultimately show ?thesis by simp
  qed
qed

end
