(* ===== verification/Sync_Props.thy ===== *)
theory Sync_Props
  imports Instance Sync_Service Paging
begin

text \<open>
  The properties of the sync API and of the store below it, each with a run on the concrete
  instance where its hypotheses hold.
\<close>

section \<open>The gate\<close>

text \<open>C1: On a store without faults and in every reachable database, a sync request passes
  the gate exactly when its namespace is not soft-deleted and its credentials name a stored
  token that is enabled, not expired at the time of the check, whose pattern matches the
  namespace and whose permissions allow the operation.\<close>

theorem gate_exact:
  assumes "no_faults E" "codecs_ok E" "db_reachable E (db w)"
  shows "(\<exists>t w'. authorize_sync_request_with_permission E st hs ns p ip w = (Inr t, w')) \<longleftrightarrow>
     tget (deleted_namespace_table (db w)) ns = None \<and>
     (\<exists>secret i t. bearer_or_basic E (header hs ''authorization'') = Inr secret
        \<and> token_at E i (db w) = Some t \<and> tok_token_hash t = hash_api_token E secret
        \<and> token_admits E (clock E (tick w + 3)) ns p t)"
proof -
  have wf: "db_wf E (db w)" by (rule reachable_wf [OF assms(3,2)])
  then have ok: "token_index_ok E (db w)" by (simp add: db_wf_def)
  have "(\<exists>t w'. authorize_sync_request_with_permission E st hs ns p ip w = (Inr t, w')) \<longleftrightarrow> gate_open E hs ns p w"
    using authorize_gate_open [OF ok] authorize_complete [OF assms(1,2) wf] by metis
  also have "gate_open E hs ns p w \<longleftrightarrow> tget (deleted_namespace_table (db w)) ns = None \<and>
     (\<exists>secret i t. bearer_or_basic E (header hs ''authorization'') = Inr secret
        \<and> token_at E i (db w) = Some t \<and> tok_token_hash t = hash_api_token E secret
        \<and> token_admits E (clock E (tick w + 3)) ns p t)"
    unfolding gate_open_iff token_of_request_iff [OF ok] by blast
  finally show ?thesis .
qed

theorem gate_exact_witness:
  "\<exists>t w'. authorize_sync_request_with_permission demo demo_state demo_headers ''ns'' Write ''ip'' demo_world = (Inr t, w')"
proof -
  have "token_at demo ''t'' (db demo_world) = Some demo_token"
    by (simp add: demo_world_def token_at_def get_token_tx_def demo_db_def token_key_def
        decode_row_def demo_def doc_codec_def)
  moreover have "bearer_or_basic demo (header demo_headers ''authorization'') = Inr ''secret''"
    "tok_token_hash demo_token = hash_api_token demo ''secret''"
    "token_admits demo (clock demo (tick demo_world + 3)) ''ns'' Write demo_token"
    "tget (deleted_namespace_table (db demo_world)) ''ns'' = None"
    by code_simp+
  ultimately show ?thesis
    by (intro gate_exact [OF demo_no_faults demo_codecs_ok demo_world_reachable, THEN iffD2] conjI exI)
qed

text \<open>C2: Whatever the gate decides, only the token and device tables (the audit trail) can
  change, and a refusal is a 401, 403 or 404, or a 500 when the store failed.\<close>

theorem gate_refusal:
  "(case authorize_sync_request_with_permission E st hs ns p ip w of
      (Inl e, w') \<Rightarrow> audit_only (db w) (db w') \<and> fst (into_response e) \<in> {401, 403, 404, 500}
    | (Inr _, w') \<Rightarrow> audit_only (db w) (db w'))"
proof -
  have err: "fst (into_response e) \<in> {401, 403, 404, 500}"
    if "authorize_sync_request_with_permission E st hs ns p ip w = (Inl e, w')" for e w'
  proof -
    have x: "fst (into_response e) \<in> {401, 500}" if "extract_auth E hs v = (Inl e, v')" for v v'
      using that by (auto simp: extract_auth_def bearer_or_basic_def act_err_iff split: option.splits)
    have n: "fst (into_response e) \<in> {404, 500}" if "ensure_namespace_active E ns v = (Inl e, v')" for v v'
      using that by (auto simp: ensure_namespace_active_def act_err_iff app_of_redb_def)
    have a: "fst (into_response e) = 401" if "ensure_token_active E t v = (Inl e, v')" for t v v'
      using that by (auto simp: ensure_token_active_def token_expired_def act_err_iff outside_defs
          split: if_splits option.splits)
    have f: "fst (into_response e) = 500" if "record_token_failure E i v = (Inl e, v')" for i v v'
      using that by (auto simp: record_token_failure_def act_err_iff)
    show ?thesis
      using that unfolding authorize_sync_request_with_permission_def act_err_iff
      by (auto simp: act_err_iff outside_defs split: if_splits dest!: x n a f)
  qed
  obtain r w' where run: "authorize_sync_request_with_permission E st hs ns p ip w = (r, w')"
    by (cases "authorize_sync_request_with_permission E st hs ns p ip w")
  then have "audit_only (db w) (db w')"
    using movesD [OF authorize_audit_only run] by (simp add: on_db_def)
  with run err show ?thesis by (cases r) auto
qed

section \<open>Blobs and objects\<close>

text \<open>C3: What was uploaded is what is downloaded: after a blob upload that succeeded, in any
  later reachable database that still holds the rows of the namespace, a download the gate
  admits succeeds with the same bytes (decrypted) and the ETag of the upload.\<close>

theorem blob_round_trip:
  assumes "no_faults E" "codecs_ok E" "aead_ok E" "db_reachable E (db w)"
    and "put_blob E st rns ip hs body w = (Inr r, w1)" "decode_namespace E rns = Inr ns"
    and "db_reachable E (db w2)" "namespace_view ns (db w2) = namespace_view ns (db w1)"
    and "gate_open E hs2 ns Read w2"
  shows "\<exists>w3. get_blob E st rns ip2 hs2 w2 =
    (Inr ((''content-type'', oxide_type) # etag_header (wr_etag r), body), w3)"
proof -
  have ok: "token_index_ok E (db w)" and wf2: "db_wf E (db w2)"
    using reachable_wf [OF _ assms(2)] assms(4,7) by (auto simp: db_wf_def)
  from put_blob_ok [OF ok assms(5)] assms(6) obtain blob etag now v m where
      b: "decrypt_if_needed E st blob = Inr body" "blob_table (db w1) = tput (blob_key ns) blob (blob_table (db w))"
      and m: "to_vec (c_metadata E) (metadata_of_blob E st hs body m etag now) = Inr v"
      "metadata_table (db w1) = tput (metadata_key ns) v (metadata_table (db w))" "wr_etag r = Some etag"
    using assms(3) by (metis sum.inject(2))
  have rows: "tget (blob_table (db w2)) (blob_key ns) = Some blob"
      "tget (metadata_table (db w2)) (metadata_key ns) = Some v"
    using assms(8) b(2) m(2) by (simp_all add: namespace_view_def)
  have "meta_at E ns (db w2) = Some (metadata_of_blob E st hs body m etag now)"
    by (rule meta_at_put [OF codecs_okD(1) [OF assms(2)] m(1) rows(2)])
  then have "Option.bind (meta_at E ns (db w2)) meta_etag = wr_etag r"
    using m(3) by (simp add: metadata_of_blob_def)
  with get_blob_complete [OF assms(1,2) wf2 assms(6) assms(9) rows(1) b(1)] show ?thesis by metis
qed

theorem blob_round_trip_witness:
  "\<exists>r w1 w3. put_blob demo demo_state ''ns'' ''ip'' demo_headers ''body'' demo_world = (Inr r, w1)
    \<and> get_blob demo demo_state ''ns'' ''ip'' demo_headers w1 =
        (Inr ((''content-type'', oxide_type) # etag_header (wr_etag r), ''body''), w3)"
proof -
  obtain r w1 where run: "put_blob demo demo_state ''ns'' ''ip'' demo_headers ''body'' demo_world = (Inr r, w1)"
    using run_result [OF demo_put_blob_runs] unfolding demo_put_blob_def by blast
  then have w1: "w1 = snd demo_put_blob" by (simp add: demo_put_blob_def)
  have "gate_open demo demo_headers ''ns'' Read w1" unfolding w1 by code_simp
  moreover have "decode_namespace demo ''ns'' = Inr ''ns''" by code_simp
  moreover have "db_reachable demo (db w1)" unfolding w1 by (rule demo_put_blob_reachable)
  ultimately have "\<exists>w3. get_blob demo demo_state ''ns'' ''ip'' demo_headers w1 =
        (Inr ((''content-type'', oxide_type) # etag_header (wr_etag r), ''body''), w3)"
    using blob_round_trip [OF demo_no_faults demo_codecs_ok demo_aead_ok demo_world_reachable run _ _ refl]
    by blast
  with run show ?thesis by blast
qed

text \<open>C4: The same for objects: after an object upload that succeeded, a download the gate
  admits of the same path returns 200, the uploaded bytes and the ETag of the upload, in any
  later reachable database that still holds the rows of the namespace.\<close>

theorem object_round_trip:
  assumes "no_faults E" "codecs_ok E" "aead_ok E" "db_reachable E (db w)"
    and "put_object E st rns rp ip hs body w = (Inr r, w1)" "decode_namespace E rns = Inr ns"
    and "db_reachable E (db w2)" "namespace_view ns (db w2) = namespace_view ns (db w1)"
    and "gate_open E hs2 ns Read w2"
  shows "\<exists>path w3. decode_object_path E rp = Inr path \<and> get_object E st rns rp ip2 hs2 w2 =
    (Inr (200, (''content-type'', object_content_type path) # etag_header (owr_etag r), body), w3)"
proof -
  have ok: "token_index_ok E (db w)" and wf2: "db_wf E (db w2)"
    using reachable_wf [OF _ assms(2)] assms(4,7) by (auto simp: db_wf_def)
  from put_object_ok [OF ok assms(5)] assms(6) obtain path data etag now v where
      p: "decode_object_path E rp = Inr path"
      and d: "decrypt_if_needed E st data = Inr body"
        "object_table (db w1) = tput (object_key ns path) data (object_table (db w))"
      and m: "to_vec (c_object_meta E) \<lparr>om_etag = etag, om_updated_at = now\<rparr> = Inr v"
        "object_meta_table (db w1) = tput (object_key ns path) v (object_meta_table (db w))"
        "owr_etag r = Some etag"
    using assms(3) by (metis sum.inject(2))
  have rows: "tget (object_table (db w2)) (object_key ns path) = Some data"
      "tget (object_meta_table (db w2)) (object_key ns path) = Some v"
    using assms(8) d(2) m(2) by (simp_all add: namespace_view_def fun_eq_iff)
  have "current_object_meta E ns path (db w2) = Some \<lparr>om_etag = etag, om_updated_at = now\<rparr>"
    using rows(2) codec_ok_decode [OF codecs_okD(2) [OF assms(2)] m(1)]
    by (simp add: current_object_meta_def)
  then have "map_option om_etag (current_object_meta E ns path (db w2)) = owr_etag r"
    using m(3) by simp
  with get_object_complete [OF assms(1,2) wf2 assms(6) p assms(9) rows(1) d(1)] p show ?thesis by metis
qed

theorem object_round_trip_witness:
  "\<exists>r w1 path w3. put_object demo demo_state ''ns'' ''a.json'' ''ip'' demo_headers ''body'' demo_world = (Inr r, w1)
    \<and> get_object demo demo_state ''ns'' ''a.json'' ''ip'' demo_headers w1 =
        (Inr (200, (''content-type'', object_content_type path) # etag_header (owr_etag r), ''body''), w3)"
proof -
  obtain r w1 where run: "put_object demo demo_state ''ns'' ''a.json'' ''ip'' demo_headers ''body'' demo_world = (Inr r, w1)"
    using run_result [OF demo_put_object_runs] unfolding demo_put_object_def by blast
  then have w1: "w1 = snd demo_put_object" by (simp add: demo_put_object_def)
  have "gate_open demo demo_headers ''ns'' Read w1" unfolding w1 by code_simp
  moreover have "decode_namespace demo ''ns'' = Inr ''ns''" by code_simp
  moreover have "db_reachable demo (db w1)" unfolding w1 by (rule demo_put_object_reachable)
  ultimately show ?thesis
    using object_round_trip [OF demo_no_faults demo_codecs_ok demo_aead_ok demo_world_reachable run _ _ refl] run
    by blast
qed

text \<open>C5: A blob upload that succeeded found the version it demanded: with If-Match, the
  stored ETag was the demanded one; with If-None-Match: * and no If-Match, no snapshot
  existed. Its new metadata carries the ETag of the response and is what is stored.\<close>

theorem blob_upload_precondition:
  assumes "codecs_ok E" "db_reachable E (db w)"
    and "put_blob E st rns ip hs body w = (Inr r, w')" "decode_namespace E rns = Inr ns"
  shows "(\<forall>e. header hs ''if-match'' = Some e \<longrightarrow>
        opt_get '''' (Option.bind (meta_at E ns (db w)) meta_etag) = e)
    \<and> (header hs ''if-match'' = None \<and> header hs ''if-none-match'' = Some ''*'' \<longrightarrow>
        \<not> opt_get False (map_option meta_exists (meta_at E ns (db w))))
    \<and> length body \<le> max_blob_size st
    \<and> (\<exists>etag now. wr_etag r = Some etag \<and>
        meta_at E ns (db w') = Some (metadata_of_blob E st hs body (meta_at E ns (db w)) etag now))"
proof -
  have ok: "token_index_ok E (db w)"
    using reachable_wf [OF assms(2,1)] by (simp add: db_wf_def)
  from put_blob_ok [OF ok assms(3)] assms(4) obtain etag now v where
      c: "blob_conflict (meta_at E ns (db w)) (header hs ''if-match'') (header hs ''if-none-match'' = Some ''*'') = None"
      and len: "length body \<le> max_blob_size st"
      and m: "to_vec (c_metadata E) (metadata_of_blob E st hs body (meta_at E ns (db w)) etag now) = Inr v"
        "metadata_table (db w') = tput (metadata_key ns) v (metadata_table (db w))" "wr_etag r = Some etag"
    by (metis sum.inject(2))
  have "meta_at E ns (db w') = Some (metadata_of_blob E st hs body (meta_at E ns (db w)) etag now)"
    by (rule meta_at_put [OF codecs_okD(1) [OF assms(1)] m(1)]) (simp add: m(2))
  with c len m(3) show ?thesis
    by (auto simp: blob_conflict_None_iff split: option.splits)
qed

definition match_headers :: "string \<Rightarrow> headers" where
  "match_headers e = (''if-match'', e) # demo_headers"

definition demo_put_again :: "(app_error + write_response) \<times> doc world" where
  "demo_put_again = put_blob demo demo_state ''ns'' ''ip'' (match_headers ''uuuuuuuu'') ''new'' (snd demo_put_blob)"

lemma demo_put_again_runs: "res_ok (fst demo_put_again) \<noteq> None"
  by code_simp

theorem blob_upload_precondition_witness:
  "\<exists>r w'. put_blob demo demo_state ''ns'' ''ip'' (match_headers ''uuuuuuuu'') ''new'' (snd demo_put_blob) = (Inr r, w')
    \<and> (\<exists>etag now. wr_etag r = Some etag \<and> meta_at demo ''ns'' (db w') = Some (metadata_of_blob demo demo_state
        (match_headers ''uuuuuuuu'') ''new'' (meta_at demo ''ns'' (db (snd demo_put_blob))) etag now))"
proof -
  obtain r w' where run: "put_blob demo demo_state ''ns'' ''ip'' (match_headers ''uuuuuuuu'') ''new'' (snd demo_put_blob) = (Inr r, w')"
    using run_result [OF demo_put_again_runs] unfolding demo_put_again_def by blast
  have "decode_namespace demo ''ns'' = Inr ''ns''" by code_simp
  from blob_upload_precondition [OF demo_codecs_ok demo_put_blob_reachable run this] run show ?thesis by blast
qed

text \<open>C6: A blob upload that is admitted, within the size limit and within what the disk reserve
  leaves free, and whose precondition does not hold (If-Match names another version than the
  stored one, or If-None-Match: * meets an existing snapshot), is refused with the 412 conflict
  of the check, which carries the stored revision and ETag, and leaves metadata, blobs and
  objects as they were, when the store has no faults.\<close>

theorem blob_upload_conflict:
  assumes "no_faults E" "codecs_ok E" "aead_ok E" "db_reachable E (db w)"
    and "decode_namespace E rns = Inr ns" "gate_open E hs ns Write w" "length body \<le> max_blob_size st"
    and "disk_room E st (of_nat (length body)) (tick (snd (authorize_sync_request_with_permission E st hs ns Write ip w)))"
    and "case header hs ''if-match'' of
           Some e \<Rightarrow> opt_get '''' (Option.bind (meta_at E ns (db w)) meta_etag) \<noteq> e
         | None \<Rightarrow> header hs ''if-none-match'' = Some ''*'' \<and> opt_get False (map_option meta_exists (meta_at E ns (db w)))"
  shows "\<exists>err w'. put_blob E st rns ip hs body w = (Inl err, w') \<and> fst (into_response err) = 412
      \<and> err = Conflict ''etag_conflict_detected''
        (if header hs ''if-match'' = None then ''Remote snapshot already exists''
         else ''Remote snapshot changed before upload completed'')
        (Option.bind (meta_at E ns (db w)) meta_revision) (Option.bind (meta_at E ns (db w)) meta_etag)
      \<and> same_content (db w) (db w')"
proof -
  have "blob_conflict (meta_at E ns (db w)) (header hs ''if-match'') (header hs ''if-none-match'' = Some ''*'')
      = Some (Cond_Conflict (Option.bind (meta_at E ns (db w)) meta_revision)
          (Option.bind (meta_at E ns (db w)) meta_etag)
          (if header hs ''if-match'' = None then ''Remote snapshot already exists''
           else ''Remote snapshot changed before upload completed''))"
    using assms(9) by (auto simp: blob_conflict_def split: option.splits)
  then obtain w' where "put_blob E st rns ip hs body w = (Inl (map_conditional_write_error
      (Cond_Conflict (Option.bind (meta_at E ns (db w)) meta_revision)
          (Option.bind (meta_at E ns (db w)) meta_etag)
          (if header hs ''if-match'' = None then ''Remote snapshot already exists''
           else ''Remote snapshot changed before upload completed''))), w')" "same_content (db w) (db w')"
    by (rule put_blob_conflict [OF assms(1-3) reachable_wf [OF assms(4,2)] assms(5-8)])
  then show ?thesis by simp
qed

text \<open>The same configuration with a reserve; the file system of the demonstration does not answer.\<close>

definition reserve_state :: app_state where
  "reserve_state = demo_state\<lparr>min_free_disk_bytes := 104857600\<rparr>"

lemma reserve_room: "disk_room demo reserve_state n i"
  by (simp add: disk_room_def disk_free_bytes_def demo_def)

theorem blob_upload_conflict_witness:
  "\<exists>err w'. put_blob demo reserve_state ''ns'' ''ip'' (match_headers ''stale'') ''body'' demo_world = (Inl err, w')
      \<and> fst (into_response err) = 412 \<and> same_content (db demo_world) (db w')"
proof -
  have run: "decode_namespace demo ''ns'' = Inr ''ns''" "gate_open demo (match_headers ''stale'') ''ns'' Write demo_world"
    "length ''body'' \<le> max_blob_size reserve_state"
    by code_simp+
  have "header (match_headers ''stale'') ''if-match'' = Some ''stale''"
    "opt_get '''' (Option.bind (meta_at demo ''ns'' (db demo_world)) meta_etag) \<noteq> ''stale''"
    by code_simp+
  then have "case header (match_headers ''stale'') ''if-match'' of
      Some e \<Rightarrow> opt_get '''' (Option.bind (meta_at demo ''ns'' (db demo_world)) meta_etag) \<noteq> e
    | None \<Rightarrow> header (match_headers ''stale'') ''if-none-match'' = Some ''*''
        \<and> opt_get False (map_option meta_exists (meta_at demo ''ns'' (db demo_world)))"
    by simp
  from blob_upload_conflict [OF demo_no_faults demo_codecs_ok demo_aead_ok demo_world_reachable run reserve_room this]
  show ?thesis by blast
qed

text \<open>C7: On a store without faults, a blob upload succeeds exactly when the gate admits it, its
  body is within the size limit, the disk reserve stays free (at the reading taken right
  after the gate) and its precondition holds of the stored metadata: a client that sends back
  the ETag it read is let through as long as nobody else wrote.\<close>

theorem blob_upload_succeeds:
  assumes "no_faults E" "codecs_ok E" "aead_ok E" "db_reachable E (db w)" "decode_namespace E rns = Inr ns"
  shows "(\<exists>r w'. put_blob E st rns ip hs body w = (Inr r, w')) \<longleftrightarrow>
    gate_open E hs ns Write w \<and> length body \<le> max_blob_size st
    \<and> disk_room E st (of_nat (length body)) (tick (snd (authorize_sync_request_with_permission E st hs ns Write ip w)))
    \<and> (case header hs ''if-match'' of
       Some e \<Rightarrow> opt_get '''' (Option.bind (meta_at E ns (db w)) meta_etag) = e
     | None \<Rightarrow> \<not> (header hs ''if-none-match'' = Some ''*'' \<and> opt_get False (map_option meta_exists (meta_at E ns (db w)))))"
    (is "?ok \<longleftrightarrow> ?open \<and> ?size \<and> ?room \<and> ?pre")
proof -
  have wf: "db_wf E (db w)" by (rule reachable_wf [OF assms(4,2)])
  then have ok: "token_index_ok E (db w)" by (simp add: db_wf_def)
  have pre: "?pre \<longleftrightarrow> blob_conflict (meta_at E ns (db w)) (header hs ''if-match'')
      (header hs ''if-none-match'' = Some ''*'') = None"
    by (simp only: blob_conflict_None_iff)
  have "?open \<and> ?size \<and> ?pre" if run: "put_blob E st rns ip hs body w = (Inr r, w')" for r w'
    unfolding pre by (rule put_blob_ok [OF ok run]) (use assms(5) in simp)
  moreover have "?room" if "?ok" "?open" "?size"
    using put_blob_no_room [OF assms(1,2) wf assms(5) that(2,3)] that(1) by fastforce
  moreover have "?ok" if "?open" "?size" "?room" "?pre"
    by (rule put_blob_complete [OF assms(1-3) wf assms(5) that(1-3)]) (use that(4) pre in simp)
  ultimately show ?thesis by blast
qed

theorem blob_upload_succeeds_witness:
  "\<exists>r w'. put_blob demo reserve_state ''ns'' ''ip'' (match_headers ''uuuuuuuu'') ''new'' (snd demo_put_blob) = (Inr r, w')"
proof -
  have "decode_namespace demo ''ns'' = Inr ''ns''" "gate_open demo (match_headers ''uuuuuuuu'') ''ns'' Write (snd demo_put_blob)"
    "length ''new'' \<le> max_blob_size reserve_state"
    "header (match_headers ''uuuuuuuu'') ''if-match'' = Some ''uuuuuuuu''"
    "opt_get '''' (Option.bind (meta_at demo ''ns'' (db (snd demo_put_blob))) meta_etag) = ''uuuuuuuu''"
    by code_simp+
  with reserve_room show ?thesis
    by (simp add: blob_upload_succeeds [OF demo_no_faults demo_codecs_ok demo_aead_ok demo_put_blob_reachable])
qed

text \<open>C8: On a store without faults, an upload of a blob or an object that is admitted and within
  its size limit, but would leave less than the configured reserve free on the disk, is
  refused with a 507 and leaves metadata, blobs and objects as they were.\<close>

theorem disk_reserve_kept:
  assumes "no_faults E" "codecs_ok E" "db_reachable E (db w)"
    and "decode_namespace E rns = Inr ns" "gate_open E hs ns Write w" "min_free_disk_bytes st \<noteq> 0"
    and "disk_free_bytes E (tick (snd (authorize_sync_request_with_permission E st hs ns Write ip w))) = Some free"
    and "free < sat_add (min_free_disk_bytes st) (of_nat (length body))"
  shows "(length body \<le> max_blob_size st \<longrightarrow> (\<exists>err w'. put_blob E st rns ip hs body w = (Inl err, w')
        \<and> fst (into_response err) = 507 \<and> same_content (db w) (db w')))
    \<and> (length body \<le> max_object_size st \<and> decode_object_path E rp = Inr path \<longrightarrow>
      (\<exists>err w'. put_object E st rns rp ip hs body w = (Inl err, w')
        \<and> fst (into_response err) = 507 \<and> same_content (db w) (db w')))"
proof -
  have wf: "db_wf E (db w)" by (rule reachable_wf [OF assms(3,2)])
  have full: "\<not> disk_room E st (of_nat (length body)) (tick (snd (authorize_sync_request_with_permission E st hs ns Write ip w)))"
    using assms(6-8) by (simp add: disk_room_def not_le)
  show ?thesis
    using put_blob_no_room [OF assms(1,2) wf assms(4,5) _ full]
      put_object_no_room [OF assms(1,2) wf assms(4) _ assms(5) _ full]
    by fastforce
qed

text \<open>A disk with one free byte.\<close>

definition full_disk :: "doc ext" where
  "full_disk = demo\<lparr>statvfs := \<lambda>_. Some (1, 1)\<rparr>"

lemma full_disk_ok: "no_faults full_disk" "codecs_ok full_disk" "db_reachable full_disk (db demo_world)"
proof -
  show "no_faults full_disk"
    using demo_no_faults by (simp add: full_disk_def no_faults_def)
  show "codecs_ok full_disk"
    using demo_codecs_ok by (simp add: full_disk_def codecs_ok_def)
  have c: "c_token full_disk = c_token demo" by (simp add: full_disk_def)
  have "set_token_tx full_disk demo_token open_db = Inr ((), demo_db)"
    using demo_set_token unfolding set_token_tx_def get_token_tx_def c .
  then show "db_reachable full_disk (db demo_world)"
    using db_reachable.step [OF db_reachable.start db_step.set_token]
    by (fastforce simp: demo_world_def open_db_def)
qed

lemma full_disk_free: "disk_free_bytes full_disk i = Some 1"
proof -
  have "statvfs full_disk i = Some (1, 1)" by (simp add: full_disk_def)
  then obtain n where n: "disk_free_bytes full_disk i = Some n" "unat n = 1"
    by (rule disk_free_bytes_exact) simp
  then have "n = 1" by (metis unsigned_1 word_unat_eq_iff)
  with n show ?thesis by simp
qed

theorem disk_reserve_kept_witness:
  "\<exists>err w'. put_object full_disk reserve_state ''ns'' ''a.json'' ''ip'' demo_headers ''body'' demo_world = (Inl err, w')
    \<and> fst (into_response err) = 507 \<and> same_content (db demo_world) (db w')"
proof -
  have run: "decode_namespace full_disk ''ns'' = Inr ''ns''" "gate_open full_disk demo_headers ''ns'' Write demo_world"
    "min_free_disk_bytes reserve_state \<noteq> 0"
    "(1 :: u64) < sat_add (min_free_disk_bytes reserve_state) (of_nat (length ''body''))"
    "length ''body'' \<le> max_object_size reserve_state" "decode_object_path full_disk ''a.json'' = Inr ''a.json''"
    by code_simp+
  show ?thesis
    using disk_reserve_kept [OF full_disk_ok run(1-3) full_disk_free run(4)] run(5,6) by blast
qed

section \<open>Concurrent writers\<close>

text \<open>Of any sequence of conditional blob uploads to a namespace, each with an ETag of its
  own, at most one that demands the same version (If-Match) succeeds: no update is lost.\<close>

theorem blob_one_winner:
  assumes "codecs_ok E"
    and "\<forall>(x, a, p) \<in> set rs. meta_exists (snd p) \<and> meta_etag (snd p) \<noteq> None
      \<and> opt_get '''' (meta_etag (snd p)) \<noteq> e"
  shows "successes (\<lambda>r. fst r = Some e) rs (fst (run_cas (blob_cas E ns) rs d)) \<le> 1"
  by (rule blob.at_most_one_match)
    (use assms in \<open>auto simp: blob_good_def blob_tag_def codec_keeps codecs_okD\<close>)

definition demo_meta :: "string \<Rightarrow> sync_metadata" where
  "demo_meta etag = empty_metadata\<lparr>meta_exists := True, meta_etag := Some etag\<rparr>"

definition demo_writers :: "(string option \<times> bool \<times> bytes \<times> sync_metadata) list" where
  "demo_writers = [(Some ''uuuuuuuu'', False, ''b1'', demo_meta ''v1''), (Some ''uuuuuuuu'', False, ''b2'', demo_meta ''v2'')]"

theorem blob_one_winner_witness:
  "successes (\<lambda>r. fst r = Some ''uuuuuuuu'') demo_writers
     (fst (run_cas (blob_cas demo ''ns'') demo_writers (db (snd demo_put_blob)))) \<le> 1"
  by (rule blob_one_winner [OF demo_codecs_ok])
    (simp add: demo_writers_def demo_meta_def empty_metadata_def)

text \<open>Of any sequence of conditional object uploads to a path, at most one that demands
  absence (If-None-Match: * without If-Match) succeeds: an object is created once.\<close>

theorem object_one_creator:
  assumes "codecs_ok E"
  shows "successes (\<lambda>r. fst r = None \<and> fst (snd r)) rs (fst (run_cas (object_cas E ns path) rs d)) \<le> 1"
  by (rule object.at_most_one_create)
    (use assms in \<open>auto simp: object_good_def codec_keeps codecs_okD\<close>)

definition demo_creators :: "(string option \<times> bool \<times> bytes \<times> stored_object_metadata) list" where
  "demo_creators = [(None, True, ''x'', \<lparr>om_etag = ''e1'', om_updated_at = ''1''\<rparr>),
     (None, True, ''y'', \<lparr>om_etag = ''e2'', om_updated_at = ''1''\<rparr>)]"

theorem object_one_creator_witness:
  "successes (\<lambda>r. fst r = None \<and> fst (snd r)) demo_creators
     (fst (run_cas (object_cas demo ''ns'' ''p'') demo_creators demo_db)) \<le> 1"
  by (rule object_one_creator [OF demo_codecs_ok, of demo_creators])

section \<open>Listing\<close>

text \<open>C9: A client that follows the cursors of the listing, with any page size from 1, sees
  every object path of the namespace with the prefix exactly once and in ascending order;
  one page more than there are paths is enough fuel.\<close>

theorem listing_complete:
  assumes "1 \<le> limit" "length (object_paths ns d) < n"
  shows "sorted_wrt (<) (walk_pages n ns pre limit None d)
    \<and> set (walk_pages n ns pre limit None d)
        = {p. starts_with p pre \<and> tget (object_table d) (object_key ns p) \<noteq> None}"
proof -
  have "length (remaining ns pre None d) \<le> length (object_paths ns d)"
    by (simp add: remaining_def)
  then have "walk_pages n ns pre limit None d = remaining ns pre None d"
    using walk_pages_remaining [of limit ns pre None d n] assms by simp
  then show ?thesis
    using remaining_strict [of ns pre None d] set_object_paths [of _ ns d] by (auto simp: remaining_def)
qed

definition demo_objects :: "doc db" where
  "demo_objects = open_db\<lparr>object_table := tput ''ns:a/obj:x'' ''1'' (tput ''ns:a/obj:y'' ''2'' (tput ''ns:b/obj:z'' ''3'' tempty))\<rparr>"

theorem listing_complete_witness:
  "sorted_wrt (<) (walk_pages 3 ''a'' '''' 1 None demo_objects)
    \<and> set (walk_pages 3 ''a'' '''' 1 None demo_objects)
        = {p. starts_with p '''' \<and> tget (object_table demo_objects) (object_key ''a'' p) \<noteq> None}
    \<and> walk_pages 3 ''a'' '''' 1 None demo_objects = [''x'', ''y'']"
proof -
  have "length (object_paths ''a'' demo_objects) < 3" by code_simp
  moreover have "walk_pages 3 ''a'' '''' 1 None demo_objects = [''x'', ''y'']" by code_simp
  ultimately show ?thesis
    using listing_complete [of 1 "''a''" demo_objects 3 "''''"] by simp
qed

text \<open>On a store without faults a listing request that passes the gate, with parameters in
  range, is answered with the page of its prefix, cursor and limit, and the cursor of the next
  page exactly when there is one.\<close>

theorem list_objects_answers:
  assumes "no_faults E" "codecs_ok E" "db_reachable E (db w)"
    and "decode_namespace E rns = Inr ns" "gate_open E hs ns Read w" "list_query_ok q"
  shows "\<exists>w'. list_objects E st rns ip q hs w =
    (Inr (JObj [(''objects'', JArr (map (\<lambda>path. JObj [(''path'', JStr path)])
            (fst (page_at ns (q_prefix q) (opt_get 256 (q_limit q)) (q_cursor q) (db w))))),
         (''nextCursor'', json_opt_str
            (snd (page_at ns (q_prefix q) (opt_get 256 (q_limit q)) (q_cursor q) (db w))))]), w')"
proof -
  let ?page = "page_at ns (q_prefix q) (opt_get 256 (q_limit q)) (q_cursor q) (db w)"
  from list_page_complete [OF assms(1,2) reachable_wf [OF assms(3,2)] assms(4-6)]
  obtain w' where "list_page E st rns ip q hs w = (Inr ?page, w')"
    unfolding page_at_def by blast
  then show ?thesis
    by (simp add: list_objects_def bindE_def split: prod.split)
qed

definition demo_query :: object_list_query where
  "demo_query = \<lparr>q_prefix = '''', q_cursor = None, q_limit = Some 10\<rparr>"

theorem list_objects_answers_witness:
  "\<exists>w'. list_objects demo demo_state ''ns'' ''ip'' demo_query demo_headers demo_world =
    (Inr (JObj [(''objects'', JArr (map (\<lambda>path. JObj [(''path'', JStr path)])
            (fst (page_at ''ns'' (q_prefix demo_query) (opt_get 256 (q_limit demo_query)) (q_cursor demo_query) (db demo_world))))),
         (''nextCursor'', json_opt_str
            (snd (page_at ''ns'' (q_prefix demo_query) (opt_get 256 (q_limit demo_query)) (q_cursor demo_query) (db demo_world))))]), w')"
proof (rule list_objects_answers [OF demo_no_faults demo_codecs_ok demo_world_reachable])
  show "decode_namespace demo ''ns'' = Inr ''ns''" by code_simp
  show "gate_open demo demo_headers ''ns'' Read demo_world" by (rule demo_gate)
  show "list_query_ok demo_query" by code_simp
qed

section \<open>The service as a whole\<close>

text \<open>C10: A sync request, whatever it is and however it ends, leaves everything the store
  holds of any other namespace (metadata, blob, objects, usage, deletion mark) unchanged.\<close>

theorem namespaces_isolated:
  assumes "decode_namespace E rns = Inr ns" "m \<noteq> ns" "CHR ''/'' \<notin> set m"
  shows "namespace_view m (db (snd (serve E st rns ip hs rq w))) = namespace_view m (db w)"
  using moves_snd [OF serve_view_kept [OF _ assms(3), of E rns st ip hs rq], of w] assms(1,2)
  by (simp add: on_db_def view_kept_def)

theorem namespaces_isolated_witness:
  "namespace_view ''m'' (db (snd (serve demo demo_state ''ns'' ''ip'' demo_headers (Put_Blob ''b'') demo_world)))
     = namespace_view ''m'' (db demo_world)"
proof -
  have "decode_namespace demo ''ns'' = Inr ''ns''" by code_simp
  then show ?thesis by (rule namespaces_isolated) simp_all
qed

text \<open>While a namespace is soft-deleted, every sync request on it is answered with a 404
  and changes nothing, its credentials not even read.\<close>

theorem soft_deleted_refused:
  assumes "no_faults E" "decode_namespace E rns = Inr ns"
    and "tget (deleted_namespace_table (db w)) ns \<noteq> None"
  shows "\<exists>msg. serve E st rns ip hs rq w = (Inl (Not_Found msg), w\<lparr>tick := Suc (tick w)\<rparr>)"
  using serve_soft_deleted [OF assms] by blast

definition demo_deleted :: "doc world" where
  "demo_deleted = demo_world\<lparr>db := demo_db\<lparr>deleted_namespace_table :=
     tput ''ns'' (Doc_Deleted \<lparr>dn_deleted_at = ''1''\<rparr>) tempty\<rparr>\<rparr>"

theorem soft_deleted_refused_witness:
  "\<exists>msg. serve demo demo_state ''ns'' ''ip'' demo_headers Get_Blob demo_deleted
     = (Inl (Not_Found msg), demo_deleted\<lparr>tick := Suc (tick demo_deleted)\<rparr>)"
proof -
  have "decode_namespace demo ''ns'' = Inr ''ns''" by code_simp
  then show ?thesis
    by (rule soft_deleted_refused [OF demo_no_faults]) (simp add: demo_deleted_def)
qed

text \<open>C11: A sync request that is answered with an error other than 500 has not changed any
  metadata, blob or object.\<close>

theorem errors_change_nothing:
  assumes "serve E st rns ip hs rq w = (Inl e, w')" "fst (into_response e) \<noteq> 500"
  shows "content (db w') = content (db w)"
  using serve_fails_clean [of E st rns ip hs rq] assms
  unfolding fails_clean_def server_fault_def same_content_def by metis

theorem errors_change_nothing_witness:
  "\<exists>e w'. serve demo demo_state ''ns'' ''ip'' [] (Put_Blob ''b'') demo_world = (Inl e, w')
     \<and> content (db w') = content (db demo_world)"
proof -
  obtain r w' where run: "serve demo demo_state ''ns'' ''ip'' [] (Put_Blob ''b'') demo_world = (r, w')"
    by (cases "serve demo demo_state ''ns'' ''ip'' [] (Put_Blob ''b'') demo_world")
  have "fst (serve demo demo_state ''ns'' ''ip'' [] (Put_Blob ''b'') demo_world)
      = Inl (Unauthorized ''Missing Authorization header'')" by code_simp
  with run have "serve demo demo_state ''ns'' ''ip'' [] (Put_Blob ''b'') demo_world
      = (Inl (Unauthorized ''Missing Authorization header''), w')" by simp
  with errors_change_nothing [OF this] show ?thesis by auto
qed

text \<open>Whatever sequence of sync requests is served, a reachable database stays reachable
  and well-formed: every row decodes and sits under its own key, every object has a metadata
  row and the reverse, and the hash index names exactly the stored tokens.\<close>

lemma service_keeps_invariant:
  assumes "codecs_ok E" "db_reachable E (db w)"
  shows "db_reachable E (db (snd (serve_all E st rs w))) \<and> rows_wf E (db (snd (serve_all E st rs w)))
    \<and> objects_paired (db (snd (serve_all E st rs w))) \<and> token_index_ok E (db (snd (serve_all E st rs w)))"
  using reachable_steps [OF serve_all_steps assms(2)] reachable_wf [OF _ assms(1)]
  unfolding db_wf_def by blast

end
