(* ===== verification/Abstract_Store.thy ===== *)
theory Abstract_Store
  imports Sync_Service Paging
begin

text \<open>
  What the sync API promises its clients, as a store of plain values: no tables, keys, tokens
  or ciphers. The theorem of this theory's section on refinement is that the service, for
  every request and answer, is a step of this store.
\<close>

section \<open>The abstract store\<close>

text \<open>
  A namespace has a snapshot and what is known about it; a namespace and a path have an entry
  with its ETag. A value that cannot be decrypted is kept as its error.
\<close>

record store =
  snapshot :: "string \<Rightarrow> (app_error + bytes) option"
  about :: "string \<Rightarrow> sync_metadata option"
  entry :: "string \<times> string \<Rightarrow> ((app_error + bytes) \<times> string option) option"

text \<open>The precondition of a conditional write.\<close>

definition precondition :: "headers \<Rightarrow> string option \<Rightarrow> bool \<Rightarrow> bool" where
  "precondition hs etag exists \<longleftrightarrow> (case header hs ''if-match'' of
       Some e \<Rightarrow> opt_get '''' etag = e
     | None \<Rightarrow> \<not> (header hs ''if-none-match'' = Some ''*'' \<and> exists))"

definition listing :: "string list \<times> string option \<Rightarrow> json" where
  "listing page = JObj [(''objects'', JArr (map (\<lambda>path. JObj [(''path'', JStr path)]) (fst page))),
     (''nextCursor'', json_opt_str (snd page))]"

text \<open>The answers to a request on a namespace, and the store after it.\<close>

fun spec ::
  "'j ext \<Rightarrow> app_state \<Rightarrow> string \<Rightarrow> headers \<Rightarrow> sync_request \<Rightarrow> sync_response \<Rightarrow> store \<Rightarrow> store \<Rightarrow> bool" where
  "spec E st ns hs Get_Metadata re s s' \<longleftrightarrow> re = Re_Metadata (opt_get empty_metadata (about s ns)) \<and> s' = s"
| "spec E st ns hs (Put_Metadata body) re s s' \<longleftrightarrow> (\<exists>r etag now. re = Re_Write r \<and> wr_etag r = Some etag
     \<and> s' = s\<lparr>about := (about s)(ns \<mapsto> metadata_of_write st body (about s ns) etag now)\<rparr>)"
| "spec E st ns hs Get_Blob re s s' \<longleftrightarrow> (\<exists>body. snapshot s ns = Some (Inr body)
     \<and> re = Re_Blob ((''content-type'', oxide_type) # etag_header (Option.bind (about s ns) meta_etag)) body \<and> s' = s)"
| "spec E st ns hs (Put_Blob body) re s s' \<longleftrightarrow> (\<exists>r etag now. re = Re_Write r \<and> wr_etag r = Some etag
     \<and> precondition hs (Option.bind (about s ns) meta_etag) (opt_get False (map_option meta_exists (about s ns)))
     \<and> s' = s\<lparr>snapshot := (snapshot s)(ns \<mapsto> Inr body),
          about := (about s)(ns \<mapsto> metadata_of_blob E st hs body (about s ns) etag now)\<rparr>)"
| "spec E st ns hs (List_Objects q) re s s' \<longleftrightarrow> (\<exists>paths. sorted_wrt (<) paths
     \<and> set paths = {p. entry s (ns, p) \<noteq> None \<and> starts_with p (q_prefix q)
         \<and> (case q_cursor q of None \<Rightarrow> True | Some c \<Rightarrow> c < p)}
     \<and> re = Re_List (listing (page_of (opt_get 256 (q_limit q)) (take (opt_get 256 (q_limit q) + 1) paths))) \<and> s' = s)"
| "spec E st ns hs (Get_Object raw_path) re s s' \<longleftrightarrow> (\<exists>path. decode_object_path E raw_path = Inr path
     \<and> (case entry s (ns, path) of
          None \<Rightarrow> re = Re_Object 404 [] []
        | Some (found, etag) \<Rightarrow> \<exists>body. found = Inr body
            \<and> re = Re_Object 200 ((''content-type'', object_content_type path) # etag_header etag) body) \<and> s' = s)"
| "spec E st ns hs (Put_Object raw_path body) re s s' \<longleftrightarrow> (\<exists>path r etag. decode_object_path E raw_path = Inr path
     \<and> re = Re_Object_Write r \<and> owr_etag r = Some etag
     \<and> precondition hs (Option.bind (entry s (ns, path)) snd) (entry s (ns, path) \<noteq> None)
     \<and> s' = s\<lparr>entry := (entry s)((ns, path) \<mapsto> (Inr body, Some etag))\<rparr>)"
| "spec E st ns hs (Delete_Object raw_path) re s s' \<longleftrightarrow> (\<exists>path. decode_object_path E raw_path = Inr path
     \<and> re = Re_Status 204 \<and> s' = s\<lparr>entry := (entry s)((ns, path) := None)\<rparr>)"

text \<open>A run of the store: every answer is one of the specification, an error changes nothing.\<close>

fun spec_run ::
  "'j ext \<Rightarrow> app_state \<Rightarrow> (string \<times> string \<times> headers \<times> sync_request) list \<Rightarrow> (app_error + sync_response) list
     \<Rightarrow> store \<Rightarrow> store \<Rightarrow> bool" where
  "spec_run E st [] outs s s' \<longleftrightarrow> outs = [] \<and> s' = s"
| "spec_run E st ((rns, ip, hs, rq) # qs) outs s s' \<longleftrightarrow> (case outs of
       [] \<Rightarrow> False
     | Inl e # rest \<Rightarrow> spec_run E st qs rest s s'
     | Inr re # rest \<Rightarrow> (\<exists>ns s1. decode_namespace E rns = Inr ns \<and> spec E st ns hs rq re s s1 \<and> spec_run E st qs rest s1 s'))"

section \<open>Abstraction\<close>

definition abs_store :: "'j ext \<Rightarrow> app_state \<Rightarrow> 'j db \<Rightarrow> store" where
  "abs_store E st d =
     \<lparr>snapshot = (\<lambda>ns. map_option (decrypt_if_needed E st) (tget (blob_table d) (blob_key ns))),
      about = (\<lambda>ns. meta_at E ns d),
      entry = (\<lambda>(ns, path). if CHR ''/'' \<in> set ns then None
        else map_option (\<lambda>c. (decrypt_if_needed E st c, map_option om_etag (current_object_meta E ns path d)))
          (tget (object_table d) (object_key ns path)))\<rparr>"

lemma abs_store_content: "content d' = content d \<Longrightarrow> abs_store E st d' = abs_store E st d"
  by (auto simp: abs_store_def content_def meta_at_def current_object_meta_def fun_eq_iff)

lemma abs_store_audit: "audit_only d d' \<Longrightarrow> abs_store E st d' = abs_store E st d"
  by (rule abs_store_content, drule audit_only_content) (simp add: same_content_def)

lemma abs_store_simps:
  "snapshot (abs_store E st d) ns = map_option (decrypt_if_needed E st) (tget (blob_table d) (blob_key ns))"
  "about (abs_store E st d) ns = meta_at E ns d"
  "CHR ''/'' \<notin> set ns \<Longrightarrow> entry (abs_store E st d) (ns, path) =
     map_option (\<lambda>c. (decrypt_if_needed E st c, map_option om_etag (current_object_meta E ns path d)))
       (tget (object_table d) (object_key ns path))"
  by (simp_all add: abs_store_def)

lemma entry_etag:
  assumes "db_wf E d" "CHR ''/'' \<notin> set ns"
  shows "Option.bind (entry (abs_store E st d) (ns, path)) snd = map_option om_etag (current_object_meta E ns path d)"
    and "entry (abs_store E st d) (ns, path) \<noteq> None \<longleftrightarrow> current_object_meta E ns path d \<noteq> None"
proof -
  have paired: "tget (object_table d) (object_key ns path) = None \<longleftrightarrow> tget (object_meta_table d) (object_key ns path) = None"
    using assms(1) by (intro objects_pairedD) (simp add: db_wf_def)
  have rows: "rows_keyed (c_object_meta E) any_key (object_meta_table d)"
    using assms(1) by (simp add: db_wf_def rows_wf_def)
  have meta: "current_object_meta E ns path d = None \<longleftrightarrow> tget (object_meta_table d) (object_key ns path) = None"
    using rows by (cases "tget (object_meta_table d) (object_key ns path)")
      (auto simp: current_object_meta_def cond_decode_def rows_keyed_def dest!: spec)
  show "Option.bind (entry (abs_store E st d) (ns, path)) snd = map_option om_etag (current_object_meta E ns path d)"
    "entry (abs_store E st d) (ns, path) \<noteq> None \<longleftrightarrow> current_object_meta E ns path d \<noteq> None"
    using paired meta by (cases "tget (object_table d) (object_key ns path)"; simp add: abs_store_simps(3) [OF assms(2)])+
qed

section \<open>Refinement\<close>

lemma abs_put_blob:
  assumes "codecs_ok E" "decrypt_if_needed E st blob = Inr body" "to_vec (c_metadata E) m = Inr v"
    and "blob_table d' = tput (blob_key ns) blob (blob_table d)"
    and "metadata_table d' = tput (metadata_key ns) v (metadata_table d)"
    and "object_table d' = object_table d" "object_meta_table d' = object_meta_table d"
  shows "abs_store E st d' = (abs_store E st d)\<lparr>snapshot := (snapshot (abs_store E st d))(ns \<mapsto> Inr body),
    about := (about (abs_store E st d))(ns \<mapsto> m)\<rparr>"
  using assms codec_ok_decode [OF codecs_okD(1) [OF assms(1)] assms(3)]
  by (auto simp: abs_store_def fun_eq_iff meta_at_def current_object_meta_def blob_key_def metadata_key_def)

lemma abs_put_metadata:
  assumes "codecs_ok E" "to_vec (c_metadata E) m = Inr v"
    and "metadata_table d' = tput (metadata_key ns) v (metadata_table d)"
    and "blob_table d' = blob_table d" "object_table d' = object_table d" "object_meta_table d' = object_meta_table d"
  shows "abs_store E st d' = (abs_store E st d)\<lparr>about := (about (abs_store E st d))(ns \<mapsto> m)\<rparr>"
  using assms codec_ok_decode [OF codecs_okD(1) [OF assms(1)] assms(2)]
  by (auto simp: abs_store_def fun_eq_iff meta_at_def current_object_meta_def metadata_key_def)

lemma abs_put_object:
  assumes "codecs_ok E" "CHR ''/'' \<notin> set ns" "decrypt_if_needed E st data = Inr body" "to_vec (c_object_meta E) m = Inr v"
    and "object_table d' = tput (object_key ns path) data (object_table d)"
    and "object_meta_table d' = tput (object_key ns path) v (object_meta_table d)"
    and "metadata_table d' = metadata_table d" "blob_table d' = blob_table d"
  shows "abs_store E st d' = (abs_store E st d)\<lparr>entry := (entry (abs_store E st d))((ns, path) \<mapsto> (Inr body, Some (om_etag m)))\<rparr>"
  using assms codec_ok_decode [OF codecs_okD(2) [OF assms(1)] assms(4)]
  by (auto simp: abs_store_def fun_eq_iff meta_at_def current_object_meta_def cond_decode_def object_key_inject)

lemma abs_delete_object:
  assumes "CHR ''/'' \<notin> set ns"
    and "object_table d' = tdel (object_key ns path) (object_table d)"
    and "object_meta_table d' = tdel (object_key ns path) (object_meta_table d)"
    and "metadata_table d' = metadata_table d" "blob_table d' = blob_table d"
  shows "abs_store E st d' = (abs_store E st d)\<lparr>entry := (entry (abs_store E st d))((ns, path) := None)\<rparr>"
  using assms
  by (auto simp: abs_store_def fun_eq_iff meta_at_def current_object_meta_def object_key_inject)

text \<open>What a route does to the database is a step of the store.\<close>

definition refined :: "'j ext \<Rightarrow> app_state \<Rightarrow> string \<Rightarrow> headers \<Rightarrow> sync_request \<Rightarrow> sync_response \<Rightarrow> 'j db \<Rightarrow> 'j db \<Rightarrow> bool" where
  "refined E st rns hs rq re d d' \<longleftrightarrow>
     (\<exists>ns. decode_namespace E rns = Inr ns \<and> spec E st ns hs rq re (abs_store E st d) (abs_store E st d'))"

lemma refinedI:
  "decode_namespace E rns = Inr ns \<Longrightarrow> spec E st ns hs rq re (abs_store E st d) (abs_store E st d') \<Longrightarrow> refined E st rns hs rq re d d'"
  unfolding refined_def by blast

lemma refined_reads:
  assumes "token_index_ok E (db w)"
  shows "get_metadata E st rns ip hs w = (Inr m, w') \<Longrightarrow> refined E st rns hs Get_Metadata (Re_Metadata m) (db w) (db w')"
    and "get_blob E st rns ip hs w = (Inr (h, b), w') \<Longrightarrow> refined E st rns hs Get_Blob (Re_Blob h b) (db w) (db w')"
  by (erule get_metadata_ok [OF assms], rule refinedI, assumption, simp add: abs_store_simps abs_store_audit)
    (erule get_blob_ok [OF assms], rule refinedI, assumption, simp add: abs_store_simps abs_store_audit)

lemma refined_put_metadata:
  assumes "codecs_ok E" "token_index_ok E (db w)" "put_metadata E st rns ip hs body w = (Inr r, w')"
  shows "refined E st rns hs (Put_Metadata body) (Re_Write r) (db w) (db w')"
  by (rule put_metadata_ok [OF assms(2,3)], rule refinedI, assumption)
    (auto simp: abs_store_simps dest!: abs_put_metadata [OF assms(1)])

lemma refined_put_blob:
  assumes "codecs_ok E" "aead_ok E" "token_index_ok E (db w)" "put_blob E st rns ip hs body w = (Inr r, w')"
  shows "refined E st rns hs (Put_Blob body) (Re_Write r) (db w) (db w')"
proof (rule put_blob_ok [OF assms(3,4)])
  fix ns blob etag now v
  assume ns: "decode_namespace E rns = Inr ns" "wr_etag r = Some etag"
    and c: "blob_conflict (meta_at E ns (db w)) (header hs ''if-match'') (header hs ''if-none-match'' = Some ''*'') = None"
    and b: "aead_ok E \<Longrightarrow> decrypt_if_needed E st blob = Inr body"
      "to_vec (c_metadata E) (metadata_of_blob E st hs body (meta_at E ns (db w)) etag now) = Inr v"
      "blob_table (db w') = tput (blob_key ns) blob (blob_table (db w))"
      "metadata_table (db w') = tput (metadata_key ns) v (metadata_table (db w))"
      "object_table (db w') = object_table (db w)" "object_meta_table (db w') = object_meta_table (db w)"
  from abs_put_blob [OF assms(1) b(1) [OF assms(2)] b(2-6)] ns c show ?thesis
    by (intro refinedI) (auto simp: abs_store_simps precondition_def blob_conflict_None_iff split: option.splits)
qed

lemma spec_list:
  assumes ns: "decode_namespace E rns = Inr ns" and q: "list_query_ok q"
  shows "spec E st ns hs (List_Objects q) (Re_List (listing (page_of (opt_get 256 (q_limit q))
    (list_object_paths_tx ns (q_prefix q) (q_cursor q) (opt_get 256 (q_limit q) + 1) d)))) (abs_store E st d) (abs_store E st d)"
proof -
  let ?n = "opt_get 256 (q_limit q)" and ?R = "remaining ns (q_prefix q) (q_cursor q) d"
  have "case q_cursor q of None \<Rightarrow> True | Some c \<Rightarrow> starts_with c (q_prefix q)"
    using q by (auto simp: list_query_ok_def Let_def split: option.splits)
  from list_object_paths_spec [OF this, of ns "?n + 1" d]
  have "list_object_paths_tx ns (q_prefix q) (q_cursor q) (?n + 1) d = take (?n + 1) ?R" by (simp add: remaining_def)
  moreover have "set ?R = {p. entry (abs_store E st d) (ns, p) \<noteq> None \<and> starts_with p (q_prefix q)
      \<and> (case q_cursor q of None \<Rightarrow> True | Some c \<Rightarrow> c < p)}"
    by (auto simp: remaining_def set_object_paths abs_store_simps(3) [OF decode_namespace_no_slash [OF ns]])
  ultimately show ?thesis
    using remaining_strict [of ns "q_prefix q" "q_cursor q" d] by (auto simp only: spec.simps)
qed

lemma refined_list:
  assumes "token_index_ok E (db w)" "list_page E st rns ip q hs w = (Inr page, w')"
  shows "refined E st rns hs (List_Objects q) (Re_List (listing page)) (db w) (db w')"
proof (rule list_page_ok [OF assms])
  fix ns
  assume ns: "decode_namespace E rns = Inr ns" and q: "list_query_ok q" and a: "audit_only (db w) (db w')"
    and page: "page = page_of (opt_get 256 (q_limit q))
      (list_object_paths_tx ns (q_prefix q) (q_cursor q) (opt_get 256 (q_limit q) + 1) (db w))"
  show ?thesis
    unfolding page by (rule refinedI [OF ns], unfold abs_store_audit [OF a], rule spec_list [OF ns q])
qed

lemma refined_get_object:
  assumes "token_index_ok E (db w)" "get_object E st rns rp ip hs w = (Inr (s, h, b), w')"
  shows "refined E st rns hs (Get_Object rp) (Re_Object s h b) (db w) (db w')"
proof (rule get_object_ok [OF assms])
  fix ns path
  assume ns: "decode_namespace E rns = Inr ns" "decode_object_path E rp = Inr path" and a: "audit_only (db w) (db w')"
    and c: "case tget (object_table (db w)) (object_key ns path) of
       None \<Rightarrow> s = 404 \<and> h = [] \<and> b = []
     | Some data \<Rightarrow> s = 200 \<and> decrypt_if_needed E st data = Inr b
         \<and> h = (''content-type'', object_content_type path)
             # etag_header (map_option om_etag (current_object_meta E ns path (db w)))"
  show ?thesis
    using c ns(2) abs_store_audit [OF a, of E st]
    by (intro refinedI [OF ns(1)])
      (auto simp: abs_store_simps(3) [OF decode_namespace_no_slash [OF ns(1)]] split: option.splits)
qed

lemma refined_put_object:
  assumes "codecs_ok E" "aead_ok E" "db_wf E (db w)" "put_object E st rns rp ip hs body w = (Inr r, w')"
  shows "refined E st rns hs (Put_Object rp body) (Re_Object_Write r) (db w) (db w')"
proof (rule put_object_ok [OF _ assms(4)])
  show "token_index_ok E (db w)" using assms(3) by (simp add: db_wf_def)
  fix ns path data etag now v
  assume ns: "decode_namespace E rns = Inr ns" "decode_object_path E rp = Inr path" "owr_etag r = Some etag"
    and c: "object_conflict (current_object_meta E ns path (db w)) (header hs ''if-match'')
      (header hs ''if-none-match'' = Some ''*'') = None"
    and b: "aead_ok E \<Longrightarrow> decrypt_if_needed E st data = Inr body"
      "to_vec (c_object_meta E) \<lparr>om_etag = etag, om_updated_at = now\<rparr> = Inr v"
      "object_table (db w') = tput (object_key ns path) data (object_table (db w))"
      "object_meta_table (db w') = tput (object_key ns path) v (object_meta_table (db w))"
      "metadata_table (db w') = metadata_table (db w)" "blob_table (db w') = blob_table (db w)"
  have slash: "CHR ''/'' \<notin> set ns" by (rule decode_namespace_no_slash [OF ns(1)])
  have pre: "precondition hs (Option.bind (entry (abs_store E st (db w)) (ns, path)) snd)
      (entry (abs_store E st (db w)) (ns, path) \<noteq> None)"
    unfolding entry_etag [OF assms(3) slash] using c
    by (auto simp: precondition_def object_conflict_None_iff split: option.splits)
  from abs_put_object [OF assms(1) slash b(1) [OF assms(2)] b(2-6)] ns pre show ?thesis
    by (intro refinedI [OF ns(1)]) (auto simp only: spec.simps stored_object_metadata.simps)
qed

lemma refined_delete_object:
  assumes "token_index_ok E (db w)" "delete_object E st rns rp ip hs w = (Inr s, w')"
  shows "refined E st rns hs (Delete_Object rp) (Re_Status s) (db w) (db w')"
proof (rule delete_object_ok [OF assms])
  fix ns path
  assume ns: "decode_namespace E rns = Inr ns" "decode_object_path E rp = Inr path" "s = 204"
    and t: "object_table (db w') = tdel (object_key ns path) (object_table (db w))"
      "object_meta_table (db w') = tdel (object_key ns path) (object_meta_table (db w))"
      "metadata_table (db w') = metadata_table (db w)" "blob_table (db w') = blob_table (db w)"
  from abs_delete_object [OF decode_namespace_no_slash [OF ns(1)] t] ns show ?thesis
    by (intro refinedI [OF ns(1)]) auto
qed

lemma serve_refines:
  assumes "codecs_ok E" "aead_ok E" "db_wf E (db w)" "serve E st rns ip hs rq w = (Inr re, w')"
  shows "refined E st rns hs rq re (db w) (db w')"
proof -
  have "token_index_ok E (db w)" using assms(3) by (simp add: db_wf_def)
  note routes = refined_reads [OF this] refined_put_metadata [OF assms(1) this] refined_put_blob [OF assms(1,2) this]
    refined_list [OF this] refined_get_object [OF this] refined_put_object [OF assms(1-3)] refined_delete_object [OF this]
  show ?thesis
    using assms(4) by (cases rq) (auto simp: fmap_def act_ok_iff list_objects_def listing_def [symmetric]
        intro: routes routes(5) [where page = "(p, c)" for p c, simplified listing_def fst_conv snd_conv])
qed

text \<open>And so for every run without a server error.\<close>

lemma serve_all_refines:
  assumes "codecs_ok E" "aead_ok E" "db_wf E (db w)" "serve_all E st qs w = (outs, w')"
    and "\<forall>r \<in> set outs. case r of Inl e \<Rightarrow> fst (into_response e) \<noteq> 500 | Inr _ \<Rightarrow> True"
  shows "spec_run E st qs outs (abs_store E st (db w)) (abs_store E st (db w'))"
  using assms(3-)
proof (induction qs arbitrary: w outs)
  case (Cons q qs)
  obtain rns ip hs rq where q: "q = (rns, ip, hs, rq)" by (cases q)
  obtain r w1 where r: "serve E st rns ip hs rq w = (r, w1)" by (cases "serve E st rns ip hs rq w")
  obtain rest w2 where rest: "serve_all E st qs w1 = (rest, w2)" by (cases "serve_all E st qs w1")
  have outs: "outs = r # rest" "w2 = w'" using Cons.prems(2) by (simp_all add: q r rest)
  have "steps_of E w w1" by (rule movesD [OF serve_moves r])
  then have wf1: "db_wf E (db w1)" using db_wf_steps assms(1) Cons.prems(1) by (auto simp: on_db_def)
  have later: "spec_run E st qs rest (abs_store E st (db w1)) (abs_store E st (db w'))"
    by (rule Cons.IH [OF wf1]) (use rest outs Cons.prems(3) in auto)
  show ?case
  proof (cases r)
    case (Inl e)
    then have "fst (into_response e) \<noteq> 500" using Cons.prems(3) outs by simp
    then have "content (db w1) = content (db w)"
      using serve_fails_clean [of E st rns ip hs rq] r Inl
      unfolding fails_clean_def server_fault_def same_content_def by metis
    from abs_store_content [OF this] later show ?thesis by (simp add: q outs Inl)
  next
    case (Inr re)
    from serve_refines [OF assms(1,2) Cons.prems(1) r [unfolded Inr]] later show ?thesis
      by (auto simp: q outs Inr refined_def)
  qed
qed simp

end
