(* ===== verification/Store_Props.thy ===== *)
theory Store_Props
  imports Instance Abstract_Store
begin

text \<open>
  Properties of the store: what deleting and listing namespaces mean, what the usage
  snapshots count, what the audit trail records, and the bound of the conflict log.
\<close>

section \<open>Namespaces\<close>

text \<open>C17: In a reachable database a hard deletion of a namespace removes everything the store
  holds of it (metadata, blob, all objects and their metadata, usage snapshot, deletion mark).
  Whatever the names, the only other rows it removes are those of object keys that start with
  ns:<name>/obj: (a name with a slash can be read into such a key), and no other table
  changes; so between names without a slash nothing of any other namespace is touched.\<close>

theorem hard_delete_exact:
  assumes "codecs_ok E" "db_reachable E d" "d' = hard_delete_namespace_tx ns d"
  shows "namespace_view ns d' = no_namespace
    \<and> (\<forall>m. m \<noteq> ns \<longrightarrow> tget (metadata_table d') (metadata_key m) = tget (metadata_table d) (metadata_key m)
        \<and> tget (blob_table d') (blob_key m) = tget (blob_table d) (blob_key m)
        \<and> tget (namespace_usage_table d') (namespace_usage_key m) = tget (namespace_usage_table d) (namespace_usage_key m)
        \<and> tget (deleted_namespace_table d') m = tget (deleted_namespace_table d) m)
    \<and> (\<forall>k. tget (object_table d') k
          = (if starts_with k (''ns:'' @ ns @ ''/obj:'') then None else tget (object_table d) k)
        \<and> tget (object_meta_table d') k
          = (if starts_with k (''ns:'' @ ns @ ''/obj:'') then None else tget (object_meta_table d) k))
    \<and> d'\<lparr>metadata_table := metadata_table d, blob_table := blob_table d, object_table := object_table d,
        object_meta_table := object_meta_table d, namespace_usage_table := namespace_usage_table d,
        deleted_namespace_table := deleted_namespace_table d\<rparr> = d
    \<and> (\<forall>m. m \<noteq> ns \<and> CHR ''/'' \<notin> set ns \<and> CHR ''/'' \<notin> set m \<longrightarrow> namespace_view m d' = namespace_view m d)"
proof -
  have paired: "objects_paired d"
    using reachable_wf [OF assms(2,1)] by (simp add: db_wf_def)
  have "namespace_view m d' = namespace_view m d" if "m \<noteq> ns" "CHR ''/'' \<notin> set ns" "CHR ''/'' \<notin> set m" for m
    unfolding assms(3) by (rule hard_delete_view_other [OF paired that(2,3,1)])
  with hard_delete_view_same [OF paired, of ns] hard_delete_only [where ns = ns and d = d] show ?thesis
    by (simp add: assms(3) hard_delete_rows hard_delete_objects hard_delete_object_metas [OF paired] object_key_def)
qed

theorem hard_delete_exact_witness:
  "namespace_view ''b'' (hard_delete_namespace_tx ''a'' demo_db) = namespace_view ''b'' demo_db
    \<and> namespace_view ''a/obj:c'' (hard_delete_namespace_tx ''a/obj:c'' demo_db) = no_namespace"
  using hard_delete_exact [OF demo_codecs_ok demo_reachable refl, of "''a''"]
    hard_delete_exact [OF demo_codecs_ok demo_reachable refl, of "''a/obj:c''"] by simp

text \<open>C18: The namespaces listed are, in strictly ascending order, those with a metadata row or an
  object that are not soft-deleted (for names without a slash, which are the names the sync
  API accepts).\<close>

theorem namespaces_listed:
  "sorted_wrt (<) (list_namespaces_tx d) \<and>
     {ns \<in> set (list_namespaces_tx d). CHR ''/'' \<notin> set ns}
       = {ns. CHR ''/'' \<notin> set ns \<and> tget (deleted_namespace_table d) ns = None
            \<and> ((\<exists>v. tget (metadata_table d) (metadata_key ns) = Some v)
               \<or> (\<exists>path v. tget (object_table d) (object_key ns path) = Some v))}"
  by (auto simp: list_namespaces_strict list_namespaces_iff namespace_live_def)

text \<open>C19: A soft deletion hides exactly its namespace from the listing and keeps its content;
  restoring it brings the listing and the content back (for names without a slash).\<close>

theorem soft_delete_restore:
  assumes "soft_delete_namespace_tx E ns at d = Inr (u, d')" "CHR ''/'' \<notin> set ns" "CHR ''/'' \<notin> set m"
    and "tget (deleted_namespace_table d) ns = None"
  shows "(m \<in> set (list_namespaces_tx d') \<longleftrightarrow> m \<in> set (list_namespaces_tx d) \<and> m \<noteq> ns)
    \<and> content d' = content d \<and> restore_namespace_tx ns d' = d"
proof -
  from assms(1) obtain v where d': "d' = d\<lparr>deleted_namespace_table := tput ns v (deleted_namespace_table d)\<rparr>"
    by (auto simp: soft_delete_namespace_tx_def split: sum.splits)
  have "restore_namespace_tx ns d' = d"
    by (simp add: d' restore_namespace_tx_def tbl.del_absent assms(4))
  moreover have "content d' = content d"
    by (simp add: d' content_def)
  moreover have "m \<in> set (list_namespaces_tx d') \<longleftrightarrow> m \<in> set (list_namespaces_tx d) \<and> m \<noteq> ns"
    by (auto simp: list_namespaces_iff [OF assms(3)] namespace_live_def d')
  ultimately show ?thesis by blast
qed

theorem soft_delete_restore_witness:
  "\<exists>d'. soft_delete_namespace_tx demo ''ns'' ''1'' demo_db = Inr ((), d') \<and> restore_namespace_tx ''ns'' d' = demo_db"
proof -
  obtain d' where run: "soft_delete_namespace_tx demo ''ns'' ''1'' demo_db = Inr ((), d')"
    by (simp add: soft_delete_namespace_tx_def encode_row_def demo_def doc_codec_def)
  have "tget (deleted_namespace_table demo_db) ''ns'' = None" by code_simp
  with soft_delete_restore [OF run, of "''ns''"] run show ?thesis by simp
qed

section \<open>Usage\<close>

text \<open>C20: A usage snapshot counts the objects of the namespace and adds up the sizes of its blob
  and objects, saturating at 64 bits, and its growth is the difference to the previous
  snapshot clamped to 64 bits; it is the snapshot that is stored.\<close>

theorem usage_snapshot:
  assumes "db_refresh_namespace_usage E ns now del w = (Inr us, w')" "codecs_ok E"
    and "\<forall>e \<in> set (namespace_rows ns (object_table (db w))). length (snd e) < 2 ^ 64"
  shows "us_object_count us = of_nat (length (object_paths ns (db w)))
    \<and> unat (us_object_bytes us) = min (\<Sum>e \<leftarrow> namespace_rows ns (object_table (db w)). length (snd e)) (2 ^ 64 - 1)
    \<and> unat (us_total_bytes us) = min (unat (us_blob_bytes us) + unat (us_object_bytes us)) (2 ^ 64 - 1)
    \<and> (\<exists>previous. decode_row (c_usage E) (tget (namespace_usage_table (db w)) (namespace_usage_key ns)) = Inr previous
        \<and> us_growth_bytes us = clamp_i64 (uint (us_total_bytes us)
             - uint (opt_get (us_total_bytes us) (map_option us_total_bytes previous))))
    \<and> decode_row (c_usage E) (tget (namespace_usage_table (db w')) (namespace_usage_key ns)) = Inr (Some us)"
proof -
  let ?rows = "namespace_rows ns (object_table (db w))"
  from db_refresh_namespace_usage_ok [OF assms(1) codecs_okD(8) [OF assms(2)]]
  obtain previous where
    p: "decode_row (c_usage E) (tget (namespace_usage_table (db w)) (namespace_usage_key ns)) = Inr previous"
      "us_growth_bytes us = clamp_i64 (uint (us_total_bytes us)
         - uint (opt_get (us_total_bytes us) (map_option us_total_bytes previous)))" and
    c: "us_object_count us = fst (namespace_object_stats_tx E ns (db w))" and
    b: "us_object_bytes us = fst (snd (namespace_object_stats_tx E ns (db w)))" and
    t: "us_total_bytes us = sat_add (us_blob_bytes us) (us_object_bytes us)" and
    s: "decode_row (c_usage E) (tget (namespace_usage_table (db w')) (namespace_usage_key ns)) = Inr (Some us)" .
  have "unat (us_object_bytes us) = min (\<Sum>e \<leftarrow> ?rows. length (snd e)) (2 ^ 64 - 1)"
    using object_totals_bytes [OF assms(3)] by (simp add: b namespace_object_stats_rows)
  moreover have "unat (us_total_bytes us) = min (unat (us_blob_bytes us) + unat (us_object_bytes us)) (2 ^ 64 - 1)"
    by (simp add: t unat_sat_add)
  ultimately show ?thesis
    using p s by (simp add: c namespace_object_stats_count)
qed

definition demo_usage :: "(redb_error + namespace_usage_record) \<times> doc world" where
  "demo_usage = db_refresh_namespace_usage demo ''ns'' ''1'' False (snd demo_put_object)"

lemma demo_usage_runs: "res_ok (fst demo_usage) \<noteq> None"
  by code_simp

theorem usage_snapshot_witness:
  "\<exists>us w'. db_refresh_namespace_usage demo ''ns'' ''1'' False (snd demo_put_object) = (Inr us, w')
     \<and> us_object_count us = of_nat (length (object_paths ''ns'' (db (snd demo_put_object))))"
proof -
  obtain us w' where run: "db_refresh_namespace_usage demo ''ns'' ''1'' False (snd demo_put_object) = (Inr us, w')"
    using run_result [OF demo_usage_runs] unfolding demo_usage_def by blast
  have "list_all (\<lambda>e. length (snd e) < 100) (namespace_rows ''ns'' (object_table (db (snd demo_put_object))))"
    by code_simp
  then have "\<forall>e \<in> set (namespace_rows ''ns'' (object_table (db (snd demo_put_object)))). length (snd e) < 2 ^ 64"
    by (auto simp: list_all_iff intro: less_trans [of _ 100])
  from usage_snapshot [OF run demo_codecs_ok this] run show ?thesis by blast
qed

section \<open>The conflict log\<close>

text \<open>C21: Adding a conflict keeps the log within its bound: it then holds the new record and
  the old ones, less the first in key order (the oldest) that are too many.\<close>

theorem conflict_log_bounded:
  assumes "add_sync_conflict_tx E c m d = Inr (u, d')"
  shows "size (sync_conflict_table d') \<le> m
    \<and> (\<exists>v all. to_vec (c_conflict E) c = Inr v
        \<and> all = titems (tput (sync_conflict_key (sc_occurred_at c) (sc_id c)) v (sync_conflict_table d))
        \<and> titems (sync_conflict_table d') = drop (length all - m) all
        \<and> sorted_wrt (<) (map fst all))"
proof -
  from assms obtain v where v: "to_vec (c_conflict E) c = Inr v"
    by (auto simp: add_sync_conflict_tx_def encode_row_def split: sum.splits)
  show ?thesis
    using add_sync_conflict_bound [OF assms] add_sync_conflict_items [OF assms v] v titems_sorted
    by (auto simp: Let_def)
qed

definition demo_conflict :: sync_conflict_record where
  "demo_conflict = \<lparr>sc_id = ''i'', sc_occurred_at = ''1'', sc_namespace = ''ns'', sc_operation = ''blob'',
     sc_object_path = None, sc_device_id = None, sc_requested_revision = None, sc_requested_etag = None,
     sc_remote_revision = None, sc_remote_etag = None, sc_message = ''m''\<rparr>"

theorem conflict_log_bounded_witness:
  "\<exists>d'. add_sync_conflict_tx demo demo_conflict 1 demo_db = Inr ((), d') \<and> size (sync_conflict_table d') \<le> 1"
proof -
  obtain d' where run: "add_sync_conflict_tx demo demo_conflict 1 demo_db = Inr ((), d')"
    by (simp add: add_sync_conflict_tx_def encode_row_def demo_def doc_codec_def Let_def)
  from conflict_log_bounded [OF run] run show ?thesis by blast
qed

section \<open>The audit trail\<close>

text \<open>C22: When the audit interval is zero, a request that passes the gate is recorded in its
  token: the time, the namespace, the permission and the client, and one more read or write
  (saturating), everything else of the token unchanged.\<close>

theorem accesses_recorded:
  assumes "codecs_ok E" "db_reachable E (db w)" "token_usage_write_interval_seconds st \<le> 0"
    and "authorize_sync_request_with_permission E st hs ns p ip w = (Inr t, w')"
  shows "\<exists>i. token_at E (tok_id t) (db w') = Some (touch_token ns (as_str p)
    (resolve_sync_client_ip E st hs ip) (sync_client_version hs) (to_rfc3339 E (clock E i)) t)"
proof -
  have ok: "token_index_ok E (db w)"
    using reachable_wf [OF assms(2,1)] by (simp add: db_wf_def)
  have t: "token_of_request E hs (db w) = Some t"
    by (rule authorize_ok(2) [OF ok assms(4)])
  then obtain i where "token_at E i (db w) = Some t"
    unfolding token_of_request_iff [OF ok] by blast
  with token_index_okD(2) [OF ok this] have "token_at E (tok_id t) (db w) = Some t" by simp
  then show ?thesis
    using authorize_record [OF ok assms(3,4)] record_token_usage_at [OF codecs_okD(3) [OF assms(1)] ok]
    by metis
qed

definition demo_access :: "(app_error + api_token) \<times> doc world" where
  "demo_access = authorize_sync_request_with_permission demo demo_state demo_headers ''ns'' Read ''ip'' demo_world"

lemma demo_access_runs: "res_ok (fst demo_access) \<noteq> None"
  by code_simp

theorem accesses_recorded_witness:
  "\<exists>t w' i. authorize_sync_request_with_permission demo demo_state demo_headers ''ns'' Read ''ip'' demo_world = (Inr t, w')
    \<and> token_at demo (tok_id t) (db w') = Some (touch_token ''ns'' (as_str Read)
        (resolve_sync_client_ip demo demo_state demo_headers ''ip'') (sync_client_version demo_headers)
        (to_rfc3339 demo (clock demo i)) t)"
proof -
  obtain t w' where run: "authorize_sync_request_with_permission demo demo_state demo_headers ''ns'' Read ''ip'' demo_world = (Inr t, w')"
    using run_result [OF demo_access_runs] unfolding demo_access_def by blast
  have "token_usage_write_interval_seconds demo_state \<le> 0" by code_simp
  from accesses_recorded [OF demo_codecs_ok demo_world_reachable this run] run show ?thesis by blast
qed

section \<open>The abstract store\<close>

text \<open>C12: Any sequence of sync requests none of which is answered with a server error is, request by
  request, a run of the abstract store: the answers are those of the specification on the
  abstraction of the database, an error leaves the abstraction as it was, and encryption,
  keys, tokens and audit rows do not show.\<close>

theorem refines_abstract_store:
  assumes "codecs_ok E" "aead_ok E" "db_reachable E (db w)" "serve_all E st qs w = (outs, w')"
    and "\<forall>r \<in> set outs. case r of Inl e \<Rightarrow> fst (into_response e) \<noteq> 500 | Inr _ \<Rightarrow> True"
  shows "spec_run E st qs outs (abs_store E st (db w)) (abs_store E st (db w'))"
  by (rule serve_all_refines [OF assms(1,2) reachable_wf [OF assms(3,1)] assms(4,5)])

definition demo_session :: "(string \<times> string \<times> headers \<times> sync_request) list" where
  "demo_session = [(''ns'', ''ip'', demo_headers, Put_Blob ''body''), (''ns'', ''ip'', demo_headers, Get_Blob),
     (''ns'', ''ip'', demo_headers, Get_Object ''a'')]"

theorem refines_abstract_store_witness:
  "\<exists>outs w'. serve_all demo demo_state demo_session demo_world = (outs, w')
     \<and> spec_run demo demo_state demo_session outs (abs_store demo demo_state (db demo_world)) (abs_store demo demo_state (db w'))"
proof -
  obtain outs w' where run: "serve_all demo demo_state demo_session demo_world = (outs, w')"
    by (cases "serve_all demo demo_state demo_session demo_world")
  have "list_all (\<lambda>r. case r of Inl e \<Rightarrow> fst (into_response e) \<noteq> 500 | Inr _ \<Rightarrow> True)
      (fst (serve_all demo demo_state demo_session demo_world))"
    by code_simp
  then have "\<forall>r \<in> set outs. case r of Inl e \<Rightarrow> fst (into_response e) \<noteq> 500 | Inr _ \<Rightarrow> True"
    by (simp add: run list_all_iff)
  from refines_abstract_store [OF demo_codecs_ok demo_aead_ok demo_world_reachable run this] run show ?thesis by blast
qed

end
