(* ===== verification/Panel_Session.thy ===== *)
theory Panel_Session
  imports Api_Sync
begin

text \<open>
  The administrator panel of \<^verbatim>\<open>src/src/panel.rs\<close>, first part: cookies and sessions,
  the CSRF check, the login throttle, and the handlers for login, logout and the own
  account. Audit log lines are not modelled; they do not feed back into the state.
\<close>

section \<open>Cookies and credentials\<close>

fun find_map :: "('a \<Rightarrow> 'b option) \<Rightarrow> 'a list \<Rightarrow> 'b option" where
  "find_map f [] = None"
| "find_map f (x # xs) = (case f x of None \<Rightarrow> find_map f xs | Some y \<Rightarrow> Some y)"

definition cookie_value :: "string \<Rightarrow> string \<Rightarrow> string option" where
  "cookie_value name part = (case split_once (trim part) ''='' of
       None \<Rightarrow> None
     | Some (cookie_name, cookie_value) \<Rightarrow> if cookie_name = name then Some cookie_value else None)"

definition extract_cookie :: "headers \<Rightarrow> string \<Rightarrow> string option" where
  "extract_cookie headers name = Option.bind (header headers ''cookie'')
     (\<lambda>v. find_map (cookie_value name) (split_on CHR '';'' v))"

definition extract_admin_token :: "headers \<Rightarrow> string option" where
  "extract_admin_token headers = opt_or (extract_cookie headers ''admin_session'')
     (map_option trim (Option.bind (header headers ''authorization'') (\<lambda>v. strip_prefix v ''Bearer '')))"

definition secure_suffix :: "bool \<Rightarrow> string" where
  "secure_suffix secure = (if secure then ''; Secure'' else '''')"

definition build_admin_session_cookie :: "string \<Rightarrow> bool \<Rightarrow> string" where
  "build_admin_session_cookie token secure = ''admin_session='' @ token
     @ ''; HttpOnly; Max-Age=86400; Path=/admin; SameSite=Strict'' @ secure_suffix secure"

definition build_csrf_cookie :: "string \<Rightarrow> bool \<Rightarrow> string" where
  "build_csrf_cookie token secure = ''admin_csrf='' @ token
     @ ''; Max-Age=86400; Path=/admin; SameSite=Strict'' @ secure_suffix secure"

definition clear_admin_session_cookie :: "bool \<Rightarrow> string" where
  "clear_admin_session_cookie secure =
     ''admin_session=; HttpOnly; Max-Age=0; Path=/admin; SameSite=Strict; Expires=Thu, 01 Jan 1970 00:00:00 GMT''
     @ secure_suffix secure"

definition clear_csrf_cookie :: "bool \<Rightarrow> string" where
  "clear_csrf_cookie secure =
     ''admin_csrf=; Max-Age=0; Path=/admin; SameSite=Strict; Expires=Thu, 01 Jan 1970 00:00:00 GMT''
     @ secure_suffix secure"

text \<open>\<open>HeaderValue::from_str\<close>, its failure named after the cookie.\<close>

definition header_value :: "string \<Rightarrow> string \<Rightarrow> app_error + string" where
  "header_value what v = (if header_text v then Inr v
     else Inl (Internal (''Invalid '' @ what @ '': failed to parse header value'')))"

section \<open>Sessions\<close>

definition validate_admin_session ::
  "'j ext \<Rightarrow> app_state \<Rightarrow> headers \<Rightarrow> (app_error, 'j world, string) act" where
  "validate_admin_session E st headers =
     bindE (whenE (\<not> admin_enabled st) (throw (Not_Found ''Admin panel disabled''))) (\<lambda>_.
     bindE (ok_or (Unauthorized ''Missing admin session'') (extract_admin_token headers)) (\<lambda>token.
     bindE (map_err (\<lambda>_. Unauthorized ''Invalid or expired admin session'')
         (validate_admin_jwt E (trim token) (jwt_secret st))) (\<lambda>claims.
     bindE (map_err app_of_redb (db_get_admin_user E (cl_sub claims))) (\<lambda>found.
     bindE (ok_or (Unauthorized ''Admin user no longer exists'') found) (\<lambda>user.
     if \<not> usr_enabled user then throw (Unauthorized ''Admin user is disabled'')
     else if cl_ver claims \<noteq> usr_session_version user
     then throw (Unauthorized ''Admin session was invalidated'')
     else ret (usr_username user))))))"

definition verify_admin :: "'j ext \<Rightarrow> app_state \<Rightarrow> headers \<Rightarrow> (app_error, 'j world, unit) act" where
  "verify_admin E st headers = bindE (validate_admin_session E st headers) (\<lambda>_. ret ())"

definition verify_csrf :: "headers \<Rightarrow> app_error + unit" where
  "verify_csrf headers = (case extract_cookie headers ''admin_csrf'' of
       None \<Rightarrow> Inl (Forbidden ''Missing CSRF cookie'')
     | Some cookie_token \<Rightarrow> (case header headers ''x-csrf-token'' of
           None \<Rightarrow> Inl (Forbidden ''Missing CSRF token'')
         | Some header_token \<Rightarrow>
             if cookie_token = [] \<or> cookie_token \<noteq> header_token
             then Inl (Forbidden ''Invalid CSRF token'') else Inr ()))"

definition verify_admin_mutation :: "'j ext \<Rightarrow> app_state \<Rightarrow> headers \<Rightarrow> (app_error, 'j world, unit) act" where
  "verify_admin_mutation E st headers =
     bindE (verify_admin E st headers) (\<lambda>_. lift_res (verify_csrf headers))"

definition request_uses_https :: "headers \<Rightarrow> app_state \<Rightarrow> bool" where
  "request_uses_https headers st \<longleftrightarrow> trust_proxy_headers st
     \<and> opt_get False (map_option (\<lambda>v. trim (first_field CHR '','' v) = ''https'')
         (header headers ''x-forwarded-proto''))"

definition effective_admin_cookie_secure :: "headers \<Rightarrow> app_state \<Rightarrow> bool" where
  "effective_admin_cookie_secure headers st \<longleftrightarrow> admin_cookie_secure st \<and> request_uses_https headers st"

section \<open>The login throttle\<close>

text \<open>Addresses are kept as the text they print as.\<close>

definition resolve_client_ip :: "'j ext \<Rightarrow> headers \<Rightarrow> string \<Rightarrow> app_state \<Rightarrow> string" where
  "resolve_client_ip E headers peer_ip st =
     (if \<not> trust_proxy_headers st then peer_ip
      else opt_get peer_ip (Option.bind
        (map_option trim (opt_or (map_option (first_field CHR '','') (header headers ''x-forwarded-for''))
           (header headers ''x-real-ip'')))
        (parse_ip E)))"

definition ensure_login_allowed ::
  "'j ext \<Rightarrow> app_state \<Rightarrow> string \<Rightarrow> (app_error, 'j world, unit) act" where
  "ensure_login_allowed E st ip =
     bindE (utc_now E) (\<lambda>now.
     bindE (map_err app_of_redb (db_cleanup_login_attempts E now (login_window_seconds st))) (\<lambda>_.
     bindE (map_err app_of_redb (db_get_login_attempt E ip)) (\<lambda>found.
     case Option.bind (Option.bind found la_blocked_until) (parse_rfc3339 E) of
       None \<Rightarrow> ret ()
     | Some blocked_until \<Rightarrow>
         if blocked_until > now
         then throw (Too_Many_Requests (''Too many login attempts. Retry in ''
           @ show_int (max (num_seconds (blocked_until - now)) 1) @ '' seconds''))
         else ret ())))"

text \<open>
  The record of one more failure at a time. The counter is a \<open>u32\<close> that wraps in a release
  build. The end of a block is an exact sum; chrono panics instead when it is out of its range.
\<close>

definition next_attempt ::
  "'j ext \<Rightarrow> app_state \<Rightarrow> int \<Rightarrow> login_attempt_record option \<Rightarrow> login_attempt_record" where
  "next_attempt E st now found =
     (let now_text = to_rfc3339 E now;
          fresh = \<lparr>la_first_failure_at = now_text, la_failures = 0, la_blocked_until = None\<rparr>;
          attempt0 = opt_get fresh found;
          attempt1 = (case parse_rfc3339 E (la_first_failure_at attempt0) of
              None \<Rightarrow> fresh
            | Some first \<Rightarrow> if num_seconds (now - first) > login_window_seconds st then fresh else attempt0);
          attempt2 = attempt1\<lparr>la_failures := la_failures attempt1 + 1\<rparr>
      in if la_failures attempt2 \<ge> max_login_failures st
         then attempt2\<lparr>la_blocked_until := Some (to_rfc3339 E (now + seconds (login_lockout_seconds st)))\<rparr>
         else attempt2)"

definition record_login_failure ::
  "'j ext \<Rightarrow> app_state \<Rightarrow> string \<Rightarrow> (app_error, 'j world, login_attempt_record) act" where
  "record_login_failure E st ip =
     bindE (utc_now E) (\<lambda>now.
     bindE (map_err app_of_redb (db_get_login_attempt E ip)) (\<lambda>found.
     let attempt_rec = next_attempt E st now found in
     bindE (map_err app_of_redb (db_set_login_attempt E ip attempt_rec)) (\<lambda>_.
     ret attempt_rec)))"

definition clear_login_failures :: "'j ext \<Rightarrow> string \<Rightarrow> (app_error, 'j world, unit) act" where
  "clear_login_failures E ip = map_err app_of_redb (db_delete_login_attempt E ip)"

definition record_user_login_failure ::
  "'j ext \<Rightarrow> admin_user_record \<Rightarrow> (app_error, 'j world, unit) act" where
  "record_user_login_failure E user =
     bindE (now_rfc3339 E) (\<lambda>failed_at.
     bindE (now_rfc3339 E) (\<lambda>updated_at.
     map_err app_of_redb (db_set_admin_user E
       (user\<lparr>usr_failed_login_count := sat_add (usr_failed_login_count user) 1,
             usr_last_failed_login_at := Some failed_at, usr_updated_at := updated_at\<rparr>))))"

section \<open>Login and logout\<close>

record login_request =
  lr_username :: "string option"
  lr_password :: string

definition login_name :: "login_request \<Rightarrow> string" where
  "login_name body = opt_get ''admin'' (opt_filter (\<lambda>u. u \<noteq> []) (map_option trim (lr_username body)))"

definition admin_login ::
  "'j ext \<Rightarrow> app_state \<Rightarrow> headers \<Rightarrow> string \<Rightarrow> login_request \<Rightarrow> (app_error, 'j world, headers \<times> json) act" where
  "admin_login E st headers peer_ip body =
     (let client_ip = resolve_client_ip E headers peer_ip st; username = login_name body in
     bindE (ensure_login_allowed E st client_ip) (\<lambda>_.
     bindE (whenE (\<not> admin_enabled st) (throw (Not_Found ''Admin panel disabled''))) (\<lambda>_.
     bindE (map_err app_of_redb (db_get_admin_user E username)) (\<lambda>found.
     case found of
       None \<Rightarrow> bindE (record_login_failure E st client_ip) (\<lambda>_.
         throw (Unauthorized ''Invalid username or password''))
     | Some user \<Rightarrow>
         if \<not> usr_enabled user \<or> \<not> verify_admin_password E (lr_password body) (usr_password_hash user)
         then bindE (record_user_login_failure E user) (\<lambda>_.
           bindE (record_login_failure E st client_ip) (\<lambda>_.
           throw (Unauthorized ''Invalid username or password'')))
         else
           bindE (clear_login_failures E client_ip) (\<lambda>_.
           bindE (now_rfc3339 E) (\<lambda>login_at.
           bindE (now_rfc3339 E) (\<lambda>updated_at.
           bindE (map_err app_of_redb (db_set_admin_user E
             (user\<lparr>usr_last_login_at := Some login_at, usr_last_login_ip := Some client_ip,
                usr_failed_login_count := 0, usr_last_failed_login_at := None,
                usr_updated_at := updated_at\<rparr>))) (\<lambda>_.
           bindE (map_err (\<lambda>e. Internal (''JWT creation failed: '' @ e))
             (create_admin_jwt_for_user E (jwt_secret st) username (usr_session_version user))) (\<lambda>jwt.
           bindE (new_uuid E) (\<lambda>csrf.
           let secure_cookie = effective_admin_cookie_secure headers st in
           bindE (lift_res (header_value ''session cookie'' (build_admin_session_cookie jwt secure_cookie))) (\<lambda>cookie.
           bindE (lift_res (header_value ''CSRF cookie'' (build_csrf_cookie csrf secure_cookie))) (\<lambda>csrf_cookie.
           ret ([(''set-cookie'', cookie), (''set-cookie'', csrf_cookie)],
                JObj [(''ok'', JBool True), (''csrfToken'', JStr csrf)])))))))))))))"

definition admin_logout ::
  "'j ext \<Rightarrow> app_state \<Rightarrow> headers \<Rightarrow> (app_error, 'j world, headers \<times> json) act" where
  "admin_logout E st headers =
     bindE (verify_admin_mutation E st headers) (\<lambda>_.
     let secure_cookie = effective_admin_cookie_secure headers st in
     bindE (lift_res (header_value ''clear cookie'' (clear_admin_session_cookie secure_cookie))) (\<lambda>cookie.
     bindE (lift_res (header_value ''clear CSRF cookie'' (clear_csrf_cookie secure_cookie))) (\<lambda>csrf_cookie.
     ret ([(''set-cookie'', cookie), (''set-cookie'', csrf_cookie)], JObj [(''ok'', JBool True)]))))"

section \<open>The own account\<close>

definition serialize_admin_user :: "admin_user_record \<Rightarrow> json" where
  "serialize_admin_user user = JObj
     [(''username'', JStr (usr_username user)),
      (''role'', JStr (usr_role user)),
      (''enabled'', JBool (usr_enabled user)),
      (''createdAt'', JStr (usr_created_at user)),
      (''updatedAt'', JStr (usr_updated_at user)),
      (''lastLoginAt'', json_opt_str (usr_last_login_at user)),
      (''lastLoginIp'', json_opt_str (usr_last_login_ip user)),
      (''failedLoginCount'', json_u64 (usr_failed_login_count user)),
      (''lastFailedLoginAt'', json_opt_str (usr_last_failed_login_at user)),
      (''passwordUpdatedAt'', json_opt_str (usr_password_updated_at user)),
      (''disabledAt'', json_opt_str (usr_disabled_at user))]"

definition admin_current_user :: "'j ext \<Rightarrow> app_state \<Rightarrow> headers \<Rightarrow> (app_error, 'j world, json) act" where
  "admin_current_user E st headers =
     bindE (validate_admin_session E st headers) (\<lambda>username.
     bindE (map_err app_of_redb (db_get_admin_user E username)) (\<lambda>found.
     bindE (ok_or (Unauthorized ''Admin user no longer exists'') found) (\<lambda>user.
     ret (serialize_admin_user user))))"

record change_password_request =
  cp_current_password :: string
  cp_new_password :: string

definition hash_new_password :: "'j ext \<Rightarrow> string \<Rightarrow> (app_error, 'j world, string) act" where
  "hash_new_password E password =
     map_err (\<lambda>e. Internal (''Password hashing failed: '' @ e)) (hash_admin_password E password)"

definition admin_change_own_password ::
  "'j ext \<Rightarrow> app_state \<Rightarrow> headers \<Rightarrow> change_password_request \<Rightarrow> (app_error, 'j world, headers \<times> json) act" where
  "admin_change_own_password E st headers body =
     bindE (verify_admin_mutation E st headers) (\<lambda>_.
     bindE (ensure_disk_capacity E st (256 * 1024)) (\<lambda>_.
     bindE (validate_admin_session E st headers) (\<lambda>username.
     bindE (whenE (length (cp_new_password body) < 8)
       (throw (Bad_Request ''Password must be at least 8 characters''))) (\<lambda>_.
     bindE (map_err app_of_redb (db_get_admin_user E username)) (\<lambda>found.
     bindE (ok_or (Unauthorized ''Admin user no longer exists'') found) (\<lambda>user.
     if \<not> verify_admin_password E (cp_current_password body) (usr_password_hash user)
     then bindE (record_user_login_failure E user) (\<lambda>_.
       throw (Unauthorized ''Current password is incorrect''))
     else
       bindE (now_rfc3339 E) (\<lambda>now.
       bindE (hash_new_password E (cp_new_password body)) (\<lambda>hash.
       let user' = user\<lparr>usr_password_hash := hash,
             usr_session_version := sat_add (usr_session_version user) 1,
             usr_password_updated_at := Some now, usr_updated_at := now\<rparr> in
       bindE (map_err app_of_redb (db_set_admin_user E user')) (\<lambda>_.
       bindE (map_err (\<lambda>e. Internal (''JWT creation failed: '' @ e))
         (create_admin_jwt_for_user E (jwt_secret st) username (usr_session_version user'))) (\<lambda>jwt.
       bindE (lift_res (header_value ''session cookie'' (build_admin_session_cookie jwt
         (effective_admin_cookie_secure headers st)))) (\<lambda>cookie.
       ret ([(''set-cookie'', cookie)], serialize_admin_user user'))))))))))))"

section \<open>The page\<close>

text \<open>The embedded page is a constant of the code; here its text is an argument.\<close>

definition admin_page :: "app_state \<Rightarrow> string \<Rightarrow> nat \<times> headers \<times> string" where
  "admin_page st admin_html =
     (if admin_enabled st then 200 else 404,
      [(''content-security-policy'', ''default-src '' @ quoted ''none'' @ ''; style-src '' @ quoted ''unsafe-inline''
          @ ''; script-src '' @ quoted ''unsafe-inline'' @ ''; connect-src '' @ quoted ''self''
          @ ''; form-action '' @ quoted ''self'' @ ''; base-uri '' @ quoted ''none''
          @ ''; frame-ancestors '' @ quoted ''none''),
       (''x-content-type-options'', ''nosniff''), (''x-frame-options'', ''DENY''),
       (''referrer-policy'', ''no-referrer''), (''cache-control'', ''no-store'')],
      if admin_enabled st then admin_html else ''Admin panel disabled'')"

end
