(* ===== verification/Panel_Admin.thy ===== *)
theory Panel_Admin
  imports Panel_Session
begin

text \<open>
  The administrator panel of \<^verbatim>\<open>src/src/panel.rs\<close>, second part: the handlers for
  administrator accounts and for namespaces.
\<close>

section \<open>Accounts\<close>

definition validate_admin_username :: "string \<Rightarrow> app_error + unit" where
  "validate_admin_username username =
     (if username = [] \<or> length username > 64 then Inl (Bad_Request ''Username must be 1-64 characters'')
      else if \<not> list_all (\<lambda>ch. is_ascii_alphanumeric ch \<or> ch = ''-'' \<or> ch = ''_'' \<or> ch = ''.'') (utf8_chars username)
      then Inl (Bad_Request ''Username may only contain ASCII letters, numbers, dash, underscore, and dot'')
      else Inr ())"

definition enabled_admin_user_count :: "'j ext \<Rightarrow> (app_error, 'j world, nat) act" where
  "enabled_admin_user_count E = bindE (map_err app_of_redb (db_list_admin_users E)) (\<lambda>users.
     ret (length (filter usr_enabled users)))"

definition admin_list_users :: "'j ext \<Rightarrow> app_state \<Rightarrow> headers \<Rightarrow> (app_error, 'j world, json) act" where
  "admin_list_users E st headers =
     bindE (verify_admin E st headers) (\<lambda>_.
     bindE (map_err app_of_redb (db_list_admin_users E)) (\<lambda>users.
     ret (JArr (map serialize_admin_user (sort_key usr_username users)))))"

record create_user_request =
  cu_username :: string
  cu_password :: string
  cu_enabled :: "bool option"

definition password_too_short :: "string \<Rightarrow> (app_error, 'w, unit) act" where
  "password_too_short password =
     whenE (length password < 8) (throw (Bad_Request ''Password must be at least 8 characters''))"

definition admin_create_user ::
  "'j ext \<Rightarrow> app_state \<Rightarrow> headers \<Rightarrow> create_user_request \<Rightarrow> (app_error, 'j world, json) act" where
  "admin_create_user E st headers body =
     bindE (verify_admin_mutation E st headers) (\<lambda>_.
     bindE (ensure_disk_capacity E st (256 * 1024)) (\<lambda>_.
     bindE (validate_admin_session E st headers) (\<lambda>actor.
     let username = trim (cu_username body) in
     bindE (lift_res (validate_admin_username username)) (\<lambda>_.
     bindE (password_too_short (cu_password body)) (\<lambda>_.
     bindE (map_err app_of_redb (db_get_admin_user E username)) (\<lambda>found.
     bindE (whenE (found \<noteq> None)
       (throw (Bad_Request (''Admin user '' @ quoted username @ '' already exists'')))) (\<lambda>_.
     bindE (now_rfc3339 E) (\<lambda>now.
     bindE (hash_new_password E (cu_password body)) (\<lambda>hash.
     bindE (now_rfc3339 E) (\<lambda>password_at.
     let user = \<lparr>usr_username = username, usr_password_hash = hash, usr_role = ''admin'',
           usr_session_version = 0, usr_enabled = opt_get True (cu_enabled body),
           usr_created_at = now, usr_updated_at = now, usr_last_login_at = None,
           usr_last_login_ip = None, usr_failed_login_count = 0, usr_last_failed_login_at = None,
           usr_password_updated_at = Some password_at, usr_disabled_at = None\<rparr> in
     bindE (map_err app_of_redb (db_set_admin_user E user)) (\<lambda>_.
     ret (serialize_admin_user user))))))))))))"

record update_user_request =
  uu_password :: "string option"
  uu_enabled :: "bool option"

text \<open>The two optional parts of an update: a new password, and a new enabled flag.\<close>

definition update_password ::
  "'j ext \<Rightarrow> string option \<Rightarrow> admin_user_record \<Rightarrow> (app_error, 'j world, admin_user_record) act" where
  "update_password E new_password user = (case new_password of
       None \<Rightarrow> ret user
     | Some password \<Rightarrow>
         bindE (password_too_short password) (\<lambda>_.
         bindE (hash_new_password E password) (\<lambda>hash.
         bindE (now_rfc3339 E) (\<lambda>now.
         ret (user\<lparr>usr_password_hash := hash, usr_password_updated_at := Some now\<rparr>)))))"

definition update_enabled ::
  "'j ext \<Rightarrow> bool option \<Rightarrow> admin_user_record \<Rightarrow> (app_error, 'j world, admin_user_record) act" where
  "update_enabled E new_enabled user = (case new_enabled of
       None \<Rightarrow> ret user
     | Some enabled \<Rightarrow>
         bindE (whenE (\<not> enabled \<and> usr_enabled user)
           (bindE (enabled_admin_user_count E) (\<lambda>n.
             whenE (n \<le> 1) (throw (Bad_Request ''Cannot disable the last enabled admin user''))))) (\<lambda>_.
         if enabled then ret (user\<lparr>usr_enabled := True, usr_disabled_at := None\<rparr>)
         else bindE (now_rfc3339 E) (\<lambda>now.
           ret (user\<lparr>usr_enabled := False, usr_disabled_at := Some now\<rparr>))))"

definition admin_update_user ::
  "'j ext \<Rightarrow> app_state \<Rightarrow> string \<Rightarrow> headers \<Rightarrow> update_user_request \<Rightarrow> (app_error, 'j world, json) act" where
  "admin_update_user E st username headers body =
     bindE (verify_admin_mutation E st headers) (\<lambda>_.
     bindE (ensure_disk_capacity E st (256 * 1024)) (\<lambda>_.
     bindE (validate_admin_session E st headers) (\<lambda>actor.
     bindE (lift_res (validate_admin_username username)) (\<lambda>_.
     bindE (map_err app_of_redb (db_get_admin_user E username)) (\<lambda>found.
     bindE (ok_or (Not_Found (''Admin user '' @ quoted username @ '' not found'')) found) (\<lambda>user.
     let password_changed = (uu_password body \<noteq> None);
         enabled_changed = opt_get False (map_option (\<lambda>e. e \<noteq> usr_enabled user) (uu_enabled body)) in
     bindE (update_password E (uu_password body) user) (\<lambda>user1.
     bindE (update_enabled E (uu_enabled body) user1) (\<lambda>user2.
     let user3 = (if password_changed \<or> enabled_changed
           then user2\<lparr>usr_session_version := sat_add (usr_session_version user2) 1\<rparr> else user2) in
     bindE (now_rfc3339 E) (\<lambda>now.
     let user4 = user3\<lparr>usr_updated_at := now\<rparr> in
     bindE (map_err app_of_redb (db_set_admin_user E user4)) (\<lambda>_.
     ret (serialize_admin_user user4)))))))))))"

definition ok_body :: json where
  "ok_body = JObj [(''ok'', JBool True)]"

definition admin_delete_user ::
  "'j ext \<Rightarrow> app_state \<Rightarrow> string \<Rightarrow> headers \<Rightarrow> (app_error, 'j world, json) act" where
  "admin_delete_user E st username headers =
     bindE (verify_admin_mutation E st headers) (\<lambda>_.
     bindE (validate_admin_session E st headers) (\<lambda>actor.
     bindE (lift_res (validate_admin_username username)) (\<lambda>_.
     bindE (map_err app_of_redb (db_get_admin_user E username)) (\<lambda>found.
     bindE (ok_or (Not_Found (''Admin user '' @ quoted username @ '' not found'')) found) (\<lambda>user.
     bindE (whenE (usr_enabled user) (bindE (enabled_admin_user_count E) (\<lambda>n.
       whenE (n \<le> 1) (throw (Bad_Request ''Cannot delete the last enabled admin user''))))) (\<lambda>_.
     bindE (map_err app_of_redb (db_delete_admin_user E username)) (\<lambda>_.
     ret ok_body)))))))"

section \<open>Namespaces\<close>

text \<open>The later of two times; the left one when they cannot be compared.\<close>

definition timestamp_max :: "'j ext \<Rightarrow> string option \<Rightarrow> string option \<Rightarrow> string option" where
  "timestamp_max E left right = (case (left, right) of
       (Some l, Some r) \<Rightarrow> (case (parse_rfc3339 E r, parse_rfc3339 E l) of
           (Some rt, Some lt) \<Rightarrow> if rt > lt then Some r else Some l
         | _ \<Rightarrow> Some l)
     | (Some l, None) \<Rightarrow> Some l
     | (None, r) \<Rightarrow> r)"

text \<open>The entry of one namespace; the loops over live and deleted namespaces share it.\<close>

definition namespace_entry ::
  "'j ext \<Rightarrow> string \<Rightarrow> string option \<Rightarrow> (app_error, 'j world, namespace_info) act" where
  "namespace_entry E ns deleted_at =
     bindE (stored_metadata E ns) (\<lambda>meta.
     bindE (map_err app_of_redb (db_namespace_object_stats E ns)) (\<lambda>(object_count, object_bytes, object_last_write_at).
     bindE (map_err app_of_redb (db_blob_size E ns)) (\<lambda>blob_size.
     let total_bytes = sat_add blob_size object_bytes in
     bindE (map_err app_of_redb (db_get_namespace_usage E ns)) (\<lambda>usage.
     ret \<lparr>ni_namespace = ns,
          ni_revision = Option.bind meta meta_revision,
          ni_uploaded_at = Option.bind meta meta_uploaded_at,
          ni_device_id = Option.bind meta meta_device_id,
          ni_blob_size = blob_size,
          ni_object_count = object_count,
          ni_object_bytes = object_bytes,
          ni_total_bytes = total_bytes,
          ni_growth_bytes = opt_get 0 (map_option us_growth_bytes usage),
          ni_last_write_at = timestamp_max E (Option.bind meta meta_uploaded_at) object_last_write_at,
          ni_storage_observed_at = map_option us_observed_at usage,
          ni_deleted_bytes = (if deleted_at = None then 0 else total_bytes),
          ni_format = Option.bind meta meta_format,
          ni_deleted_at = deleted_at\<rparr>))))"

definition admin_list_namespaces ::
  "'j ext \<Rightarrow> app_state \<Rightarrow> headers \<Rightarrow> (app_error, 'j world, namespace_info list) act" where
  "admin_list_namespaces E st headers =
     bindE (verify_admin E st headers) (\<lambda>_.
     bindE (map_err app_of_redb (db_list_namespaces E)) (\<lambda>live.
     bindE (mapE (\<lambda>ns. namespace_entry E ns None) live) (\<lambda>live_infos.
     bindE (map_err app_of_redb (db_list_deleted_namespaces E)) (\<lambda>deleted.
     bindE (mapE (\<lambda>(ns, d). namespace_entry E ns (Some (dn_deleted_at d))) deleted) (\<lambda>deleted_infos.
     ret (sort_key ni_namespace (live_infos @ deleted_infos)))))))"

text \<open>
  Whether the namespace has a metadata row or an object; the object listing is only asked
  for when there is no metadata row.
\<close>

definition namespace_exists :: "'j ext \<Rightarrow> string \<Rightarrow> (app_error, 'j world, bool) act" where
  "namespace_exists E namespace =
     bindE (map_err app_of_redb (db_get_metadata E namespace)) (\<lambda>row.
     if row \<noteq> None then ret True
     else bindE (map_err app_of_redb (db_list_object_paths E namespace '''' None 1)) (\<lambda>paths.
       ret (paths \<noteq> [])))"

definition admin_create_namespace ::
  "'j ext \<Rightarrow> app_state \<Rightarrow> headers \<Rightarrow> string \<Rightarrow> (app_error, 'j world, json) act" where
  "admin_create_namespace E st headers body_namespace =
     bindE (verify_admin_mutation E st headers) (\<lambda>_.
     bindE (ensure_disk_capacity E st (256 * 1024)) (\<lambda>_.
     let namespace = trim body_namespace in
     bindE (lift_res (validate_namespace E namespace)) (\<lambda>_.
     bindE (map_err app_of_redb (db_is_namespace_deleted E namespace)) (\<lambda>deleted.
     bindE (whenE deleted (throw (Bad_Request (''Namespace '' @ quoted namespace
       @ '' is soft-deleted. Restore or purge it first.'')))) (\<lambda>_.
     bindE (namespace_exists E namespace) (\<lambda>found.
     bindE (whenE found (throw (Bad_Request (''Namespace '' @ quoted namespace @ '' already exists'')))) (\<lambda>_.
     bindE (map_err (\<lambda>e. Internal (''Failed to serialize metadata: '' @ e))
       (lift_res (to_vec (c_metadata E) empty_metadata))) (\<lambda>serialized.
     bindE (map_err app_of_redb (db_set_metadata E namespace serialized)) (\<lambda>_.
     ret (JObj [(''ok'', JBool True), (''namespace'', JStr namespace)]))))))))))"

text \<open>The name of the path is used as it is.\<close>

definition admin_delete_namespace ::
  "'j ext \<Rightarrow> app_state \<Rightarrow> string \<Rightarrow> bool option \<Rightarrow> headers \<Rightarrow> (app_error, 'j world, json) act" where
  "admin_delete_namespace E st namespace query_hard headers =
     bindE (verify_admin_mutation E st headers) (\<lambda>_.
     if opt_get False query_hard
     then bindE (map_err app_of_redb (db_hard_delete_namespace E namespace)) (\<lambda>_.
       ret (JObj [(''ok'', JBool True), (''mode'', JStr ''hard'')]))
     else
       bindE (map_err app_of_redb (db_is_namespace_deleted E namespace)) (\<lambda>deleted.
       bindE (whenE deleted (throw (Bad_Request (''Namespace '' @ quoted namespace
         @ '' is already soft-deleted'')))) (\<lambda>_.
       bindE (namespace_exists E namespace) (\<lambda>found.
       bindE (whenE (\<not> found) (throw (Not_Found (''Namespace '' @ quoted namespace @ '' not found'')))) (\<lambda>_.
       bindE (ensure_disk_capacity E st (256 * 1024)) (\<lambda>_.
       bindE (now_rfc3339 E) (\<lambda>deleted_at.
       bindE (map_err app_of_redb (db_soft_delete_namespace E namespace deleted_at)) (\<lambda>_.
       bindE (now_rfc3339 E) (\<lambda>observed_at.
       bindE (map_err app_of_redb (db_refresh_namespace_usage E namespace observed_at True)) (\<lambda>_.
       ret (JObj [(''ok'', JBool True), (''mode'', JStr ''soft'')])))))))))))"

definition admin_restore_namespace ::
  "'j ext \<Rightarrow> app_state \<Rightarrow> string \<Rightarrow> headers \<Rightarrow> (app_error, 'j world, json) act" where
  "admin_restore_namespace E st namespace headers =
     bindE (verify_admin_mutation E st headers) (\<lambda>_.
     bindE (ensure_disk_capacity E st (256 * 1024)) (\<lambda>_.
     bindE (map_err app_of_redb (db_is_namespace_deleted E namespace)) (\<lambda>deleted.
     bindE (whenE (\<not> deleted) (throw (Not_Found (''Namespace '' @ quoted namespace
       @ '' is not soft-deleted'')))) (\<lambda>_.
     bindE (map_err app_of_redb (db_restore_namespace E namespace)) (\<lambda>_.
     bindE (now_rfc3339 E) (\<lambda>observed_at.
     bindE (map_err app_of_redb (db_refresh_namespace_usage E namespace observed_at False)) (\<lambda>_.
     ret ok_body)))))))"

end
