(* ===== verification/Panel_Tokens.thy ===== *)
theory Panel_Tokens
  imports Panel_Admin
begin

text \<open>
  The administrator panel of \<^verbatim>\<open>src/src/panel.rs\<close>, third part: the handlers for API
  tokens, devices, conflicts and statistics.
\<close>

section \<open>Helpers\<close>

definition normalize_optional_timestamp :: "'j ext \<Rightarrow> string option \<Rightarrow> app_error + string option" where
  "normalize_optional_timestamp E v = (case v of
       None \<Rightarrow> Inr None
     | Some s \<Rightarrow> (case parse_rfc3339 E (trim s) of
           None \<Rightarrow> Inl (Bad_Request ''Timestamp must be valid RFC3339 / ISO-8601'')
         | Some t \<Rightarrow> Inr (Some (to_rfc3339 E t))))"

definition normalize_optional_text :: "string option \<Rightarrow> string option" where
  "normalize_optional_text v = Option.bind v (\<lambda>s. let trimmed = trim s in
     if trimmed = [] then None else Some trimmed)"

text \<open>The default expiry is an exact sum, too.\<close>

definition effective_token_expiry ::
  "'j ext \<Rightarrow> app_state \<Rightarrow> string option \<Rightarrow> (app_error, 'j world, string option) act" where
  "effective_token_expiry E st requested =
     bindE (lift_res (normalize_optional_timestamp E requested)) (\<lambda>normalized.
     case normalized of
       Some expires_at \<Rightarrow> ret (Some expires_at)
     | None \<Rightarrow> (case default_token_ttl_seconds st of
           None \<Rightarrow> ret None
         | Some ttl \<Rightarrow> bindE (utc_now E) (\<lambda>now. ret (Some (to_rfc3339 E (now + seconds ttl))))))"

definition panel_token_expired :: "'j ext \<Rightarrow> api_token \<Rightarrow> (app_error, 'j world, bool) act" where
  "panel_token_expired E token = (case tok_expires_at token of
       None \<Rightarrow> ret False
     | Some expires_at \<Rightarrow> (case parse_rfc3339 E expires_at of
           None \<Rightarrow> ret False
         | Some t \<Rightarrow> bindE (utc_now E) (\<lambda>now. ret (t \<le> now))))"

definition serialize_token_summary :: "'j ext \<Rightarrow> api_token \<Rightarrow> (app_error, 'j world, json) act" where
  "serialize_token_summary E token = bindE (panel_token_expired E token) (\<lambda>expired. ret (JObj
     [(''id'', JStr (tok_id token)),
      (''name'', JStr (tok_name token)),
      (''canReveal'', JBool (tok_encrypted_token token \<noteq> None)),
      (''namespacePattern'', JStr (tok_namespace_pattern token)),
      (''permissions'', JArr (map JStr (tok_permissions token))),
      (''createdAt'', JStr (tok_created_at token)),
      (''lastUsedAt'', json_opt_str (tok_last_used_at token)),
      (''enabled'', JBool (tok_enabled token)),
      (''expiresAt'', json_opt_str (tok_expires_at token)),
      (''rotatedAt'', json_opt_str (tok_rotated_at token)),
      (''disabledAt'', json_opt_str (tok_disabled_at token)),
      (''deviceId'', json_opt_str (tok_device_id token)),
      (''readCount'', json_u64 (tok_read_count token)),
      (''writeCount'', json_u64 (tok_write_count token)),
      (''failedCount'', json_u64 (tok_failed_count token)),
      (''lastNamespace'', json_opt_str (tok_last_namespace token)),
      (''lastPermission'', json_opt_str (tok_last_permission token)),
      (''lastClientIp'', json_opt_str (tok_last_client_ip token)),
      (''lastClientVersion'', json_opt_str (tok_last_client_version token)),
      (''expired'', JBool expired)]))"

definition serialize_device :: "device_record \<Rightarrow> json" where
  "serialize_device device = JObj
     [(''id'', JStr (dev_id device)),
      (''name'', JStr (dev_name device)),
      (''namespacePattern'', json_opt_str (dev_namespace_pattern device)),
      (''tokenId'', json_opt_str (dev_token_id device)),
      (''enabled'', JBool (dev_enabled device)),
      (''createdAt'', JStr (dev_created_at device)),
      (''updatedAt'', JStr (dev_updated_at device)),
      (''lastSeenAt'', json_opt_str (dev_last_seen_at device)),
      (''lastClientIp'', json_opt_str (dev_last_client_ip device)),
      (''lastClientVersion'', json_opt_str (dev_last_client_version device)),
      (''notes'', json_opt_str (dev_notes device))]"

text \<open>Unlink a device from its old token and link it to its new one.\<close>

definition unlink_token :: "'j ext \<Rightarrow> string option \<Rightarrow> string \<Rightarrow> (app_error, 'j world, unit) act" where
  "unlink_token E old_token_id device_id = (case old_token_id of
       None \<Rightarrow> ret ()
     | Some i \<Rightarrow>
         bindE (map_err app_of_redb (db_get_token E i)) (\<lambda>found. case found of
           None \<Rightarrow> ret ()
         | Some token \<Rightarrow> whenE (tok_device_id token = Some device_id)
             (map_err app_of_redb (db_set_token E (token\<lparr>tok_device_id := None\<rparr>)))))"

definition link_token :: "'j ext \<Rightarrow> string option \<Rightarrow> string \<Rightarrow> (app_error, 'j world, unit) act" where
  "link_token E new_token_id device_id = (case new_token_id of
       None \<Rightarrow> ret ()
     | Some i \<Rightarrow>
         bindE (map_err app_of_redb (db_get_token E i)) (\<lambda>found.
         bindE (ok_or (Bad_Request (''Token '' @ quoted i @ '' not found'')) found) (\<lambda>token.
         map_err app_of_redb (db_set_token E (token\<lparr>tok_device_id := Some device_id\<rparr>)))))"

definition set_token_device_link ::
  "'j ext \<Rightarrow> string option \<Rightarrow> string option \<Rightarrow> string \<Rightarrow> (app_error, 'j world, unit) act" where
  "set_token_device_link E old_token_id new_token_id device_id =
     (if old_token_id = new_token_id then ret ()
      else bindE (unlink_token E old_token_id device_id) (\<lambda>_. link_token E new_token_id device_id))"

section \<open>Tokens\<close>

definition admin_list_tokens :: "'j ext \<Rightarrow> app_state \<Rightarrow> headers \<Rightarrow> (app_error, 'j world, json list) act" where
  "admin_list_tokens E st headers =
     bindE (verify_admin E st headers) (\<lambda>_.
     bindE (map_err app_of_redb (db_get_all_tokens E)) (\<lambda>tokens.
     mapE (serialize_token_summary E) tokens))"

definition bad_pattern :: app_error where
  "bad_pattern = Bad_Request (''Namespace pattern must be '' @ quoted ''*''
     @ '' , an exact namespace, or a prefix ending with '' @ quoted ''*'')"

definition seal_token :: "'j ext \<Rightarrow> app_state \<Rightarrow> string \<Rightarrow> (app_error, 'j world, string) act" where
  "seal_token E st raw_token =
     bindE (map_err (\<lambda>e. Internal (''Token encryption failed: '' @ e))
       (encrypt E (token_reveal_key st) raw_token)) (\<lambda>bytes.
     ret (base64_encode E bytes))"

definition require_device :: "'j ext \<Rightarrow> string option \<Rightarrow> (app_error, 'j world, unit) act" where
  "require_device E device_id = (case device_id of
       None \<Rightarrow> ret ()
     | Some i \<Rightarrow> bindE (map_err app_of_redb (db_get_device E i)) (\<lambda>found.
         whenE (found = None) (throw (Bad_Request (''Device '' @ quoted i @ '' not found'')))))"

text \<open>Point a device, when it is given and still there, at a token.\<close>

definition link_device :: "'j ext \<Rightarrow> string option \<Rightarrow> string \<Rightarrow> (app_error, 'j world, unit) act" where
  "link_device E device_id token_id = (case device_id of
       None \<Rightarrow> ret ()
     | Some i \<Rightarrow> bindE (map_err app_of_redb (db_get_device E i)) (\<lambda>found. case found of
         None \<Rightarrow> ret ()
       | Some device \<Rightarrow> bindE (now_rfc3339 E) (\<lambda>now.
           map_err app_of_redb (db_set_device E
             (device\<lparr>dev_token_id := Some token_id, dev_updated_at := now\<rparr>)))))"

record create_token_request =
  ct_name :: string
  ct_namespace_pattern :: string
  ct_permissions :: "string list option"
  ct_expires_at :: "string option"
  ct_device_id :: "string option"

definition admin_create_token ::
  "'j ext \<Rightarrow> app_state \<Rightarrow> headers \<Rightarrow> create_token_request \<Rightarrow> (app_error, 'j world, json) act" where
  "admin_create_token E st headers body =
     bindE (verify_admin_mutation E st headers) (\<lambda>_.
     bindE (ensure_disk_capacity E st (256 * 1024)) (\<lambda>_.
     bindE (whenE (\<not> validate_namespace_pattern E (ct_namespace_pattern body)) (throw bad_pattern)) (\<lambda>_.
     let permissions = normalize_permissions (opt_get [''read'', ''write''] (ct_permissions body)) in
     bindE (whenE (\<not> validate_permissions permissions)
       (throw (Bad_Request (''Permissions must be a non-empty subset of ['' @ quoted ''read'' @ '', ''
          @ quoted ''write'' @ '']'')))) (\<lambda>_.
     bindE (new_uuid E) (\<lambda>raw_token.
     bindE (seal_token E st raw_token) (\<lambda>encrypted_token.
     bindE (new_uuid E) (\<lambda>i.
     bindE (effective_token_expiry E st (ct_expires_at body)) (\<lambda>expires_at.
     let device_id = normalize_optional_text (ct_device_id body) in
     bindE (require_device E device_id) (\<lambda>_.
     bindE (now_rfc3339 E) (\<lambda>created_at.
     let token = \<lparr>tok_id = i, tok_name = ct_name body, tok_token_hash = hash_api_token E raw_token,
           tok_encrypted_token = Some encrypted_token,
           tok_namespace_pattern = ct_namespace_pattern body, tok_permissions = permissions,
           tok_created_at = created_at, tok_enabled = True, tok_expires_at = expires_at,
           tok_rotated_at = None, tok_disabled_at = None, tok_last_used_at = None,
           tok_device_id = device_id, tok_read_count = 0, tok_write_count = 0, tok_failed_count = 0,
           tok_last_namespace = None, tok_last_permission = None, tok_last_client_ip = None,
           tok_last_client_version = None\<rparr> in
     bindE (map_err app_of_redb (db_set_token E token)) (\<lambda>_.
     bindE (link_device E device_id i) (\<lambda>_.
     ret (JObj [(''id'', JStr i), (''token'', JStr raw_token), (''name'', JStr (tok_name token)),
       (''namespacePattern'', JStr (tok_namespace_pattern token)),
       (''permissions'', JArr (map JStr (tok_permissions token))),
       (''createdAt'', JStr (tok_created_at token)),
       (''expiresAt'', json_opt_str (tok_expires_at token)),
       (''deviceId'', json_opt_str (tok_device_id token))])))))))))))))"

record update_token_request =
  ut_enabled :: "bool option"
  ut_expires_at :: "string option option"
  ut_device_id :: "string option option"

definition update_token_enabled ::
  "'j ext \<Rightarrow> bool option \<Rightarrow> api_token \<Rightarrow> (app_error, 'j world, api_token) act" where
  "update_token_enabled E new_enabled token = (case new_enabled of
       None \<Rightarrow> ret token
     | Some enabled \<Rightarrow>
         if enabled then ret (token\<lparr>tok_enabled := True, tok_disabled_at := None\<rparr>)
         else bindE (now_rfc3339 E) (\<lambda>now.
           ret (token\<lparr>tok_enabled := False, tok_disabled_at := Some now\<rparr>)))"

definition update_token_expiry ::
  "'j ext \<Rightarrow> string option option \<Rightarrow> api_token \<Rightarrow> (app_error, 'j world, api_token) act" where
  "update_token_expiry E new_expiry token = (case new_expiry of
       None \<Rightarrow> ret token
     | Some e \<Rightarrow> bindE (lift_res (normalize_optional_timestamp E e)) (\<lambda>v.
         ret (token\<lparr>tok_expires_at := v\<rparr>)))"

text \<open>Clear the link of the old device, when it still names the token.\<close>

definition unlink_device :: "'j ext \<Rightarrow> string option \<Rightarrow> string \<Rightarrow> (app_error, 'j world, unit) act" where
  "unlink_device E device_id token_id = (case device_id of
       None \<Rightarrow> ret ()
     | Some i \<Rightarrow> bindE (map_err app_of_redb (db_get_device E i)) (\<lambda>found. case found of
         None \<Rightarrow> ret ()
       | Some device \<Rightarrow> whenE (dev_token_id device = Some token_id)
           (bindE (now_rfc3339 E) (\<lambda>now.
            map_err app_of_redb (db_set_device E
              (device\<lparr>dev_token_id := None, dev_updated_at := now\<rparr>))))))"

definition update_token_device ::
  "'j ext \<Rightarrow> string option option \<Rightarrow> api_token \<Rightarrow> (app_error, 'j world, api_token) act" where
  "update_token_device E new_device token = (case new_device of
       None \<Rightarrow> ret token
     | Some dev \<Rightarrow>
         let old_device_id = tok_device_id token; next_device_id = normalize_optional_text dev in
         bindE (require_device E next_device_id) (\<lambda>_.
         bindE (whenE (old_device_id \<noteq> next_device_id)
           (bindE (unlink_device E old_device_id (tok_id token)) (\<lambda>_.
            link_device E next_device_id (tok_id token)))) (\<lambda>_.
         ret (token\<lparr>tok_device_id := next_device_id\<rparr>))))"

definition require_token :: "'j ext \<Rightarrow> string \<Rightarrow> (app_error, 'j world, api_token) act" where
  "require_token E i = bindE (map_err app_of_redb (db_get_token E i))
     (ok_or (Not_Found (''Token '' @ quoted i @ '' not found'')))"

definition admin_update_token ::
  "'j ext \<Rightarrow> app_state \<Rightarrow> string \<Rightarrow> headers \<Rightarrow> update_token_request \<Rightarrow> (app_error, 'j world, json) act" where
  "admin_update_token E st i headers body =
     bindE (verify_admin_mutation E st headers) (\<lambda>_.
     bindE (ensure_disk_capacity E st (256 * 1024)) (\<lambda>_.
     bindE (require_token E i) (\<lambda>token0.
     bindE (update_token_enabled E (ut_enabled body) token0) (\<lambda>token1.
     bindE (update_token_expiry E (ut_expires_at body) token1) (\<lambda>token2.
     bindE (update_token_device E (ut_device_id body) token2) (\<lambda>token.
     bindE (map_err app_of_redb (db_set_token E token)) (\<lambda>_.
     serialize_token_summary E token)))))))"

definition admin_rotate_token ::
  "'j ext \<Rightarrow> app_state \<Rightarrow> string \<Rightarrow> headers \<Rightarrow> (app_error, 'j world, json) act" where
  "admin_rotate_token E st i headers =
     bindE (verify_admin_mutation E st headers) (\<lambda>_.
     bindE (ensure_disk_capacity E st (256 * 1024)) (\<lambda>_.
     bindE (require_token E i) (\<lambda>token.
     bindE (new_uuid E) (\<lambda>raw_token.
     bindE (seal_token E st raw_token) (\<lambda>encrypted_token.
     bindE (now_rfc3339 E) (\<lambda>rotated_at.
     bindE (map_err app_of_redb (db_set_token E (token\<lparr>tok_token_hash := hash_api_token E raw_token,
       tok_encrypted_token := Some encrypted_token, tok_rotated_at := Some rotated_at\<rparr>))) (\<lambda>_.
     ret (JObj [(''id'', JStr (tok_id token)), (''token'', JStr raw_token),
       (''rotatedAt'', JStr rotated_at)]))))))))"

definition open_token :: "'j ext \<Rightarrow> app_state \<Rightarrow> string \<Rightarrow> app_error + string" where
  "open_token E st encrypted_token = (case base64_decode E encrypted_token of
       Inl e \<Rightarrow> Inl (Internal (''Stored token decode failed: '' @ e))
     | Inr encrypted_bytes \<Rightarrow> (case decrypt E (token_reveal_key st) encrypted_bytes of
           Inl _ \<Rightarrow> Inl (Bad_Request ''This token can no longer be revealed because the server secret changed. Re-create it to recover access.'')
         | Inr bytes \<Rightarrow> (case from_utf8 bytes of
               None \<Rightarrow> Inl (Internal ''Stored token is not valid UTF-8: invalid utf-8 sequence'')
             | Some raw_token \<Rightarrow> Inr raw_token)))"

definition admin_reveal_token ::
  "'j ext \<Rightarrow> app_state \<Rightarrow> string \<Rightarrow> headers \<Rightarrow> (app_error, 'j world, json) act" where
  "admin_reveal_token E st i headers =
     bindE (verify_admin_mutation E st headers) (\<lambda>_.
     bindE (require_token E i) (\<lambda>token.
     bindE (ok_or (Bad_Request ''This token was created before reveal support and cannot be recovered. Create a new token to enable reveal.'')
       (tok_encrypted_token token)) (\<lambda>encrypted_token.
     bindE (lift_res (open_token E st encrypted_token)) (\<lambda>raw_token.
     ret (JObj [(''id'', JStr (tok_id token)), (''token'', JStr raw_token),
       (''persistent'', JBool (token_reveal_persistent st))])))))"

definition admin_delete_token ::
  "'j ext \<Rightarrow> app_state \<Rightarrow> string \<Rightarrow> headers \<Rightarrow> (app_error, 'j world, json) act" where
  "admin_delete_token E st i headers =
     bindE (verify_admin_mutation E st headers) (\<lambda>_.
     bindE (map_err app_of_redb (db_list_devices E)) (\<lambda>devices.
     bindE (forE devices (\<lambda>device. whenE (dev_token_id device = Some i)
       (bindE (now_rfc3339 E) (\<lambda>now. map_err app_of_redb (db_set_device E
          (device\<lparr>dev_token_id := None, dev_updated_at := now\<rparr>)))))) (\<lambda>_.
     bindE (map_err app_of_redb (db_delete_token E i)) (\<lambda>_.
     ret ok_body))))"

section \<open>Devices\<close>

definition admin_list_devices :: "'j ext \<Rightarrow> app_state \<Rightarrow> headers \<Rightarrow> (app_error, 'j world, json) act" where
  "admin_list_devices E st headers =
     bindE (verify_admin E st headers) (\<lambda>_.
     bindE (map_err app_of_redb (db_list_devices E)) (\<lambda>devices.
     ret (JArr (map serialize_device (sort_key dev_name (sort_key dev_id devices))))))"

definition check_pattern :: "'j ext \<Rightarrow> string option \<Rightarrow> (app_error, 'j world, unit) act" where
  "check_pattern E pattern = (case pattern of
       None \<Rightarrow> ret ()
     | Some p \<Rightarrow> whenE (\<not> validate_namespace_pattern E p) (throw bad_pattern))"

definition check_token :: "'j ext \<Rightarrow> string option \<Rightarrow> (app_error, 'j world, unit) act" where
  "check_token E token_id = (case token_id of
       None \<Rightarrow> ret ()
     | Some i \<Rightarrow> bindE (map_err app_of_redb (db_get_token E i)) (\<lambda>found.
         whenE (found = None) (throw (Bad_Request (''Token '' @ quoted i @ '' not found'')))))"

definition device_name :: "string \<Rightarrow> app_error + string" where
  "device_name name = (if trim name = [] then Inl (Bad_Request ''Device name must not be empty'')
     else Inr (trim name))"

record create_device_request =
  cd_name :: string
  cd_namespace_pattern :: "string option"
  cd_token_id :: "string option"
  cd_enabled :: "bool option"
  cd_last_client_version :: "string option"
  cd_notes :: "string option"

definition admin_create_device ::
  "'j ext \<Rightarrow> app_state \<Rightarrow> headers \<Rightarrow> create_device_request \<Rightarrow> (app_error, 'j world, json) act" where
  "admin_create_device E st headers body =
     bindE (verify_admin_mutation E st headers) (\<lambda>_.
     bindE (ensure_disk_capacity E st (256 * 1024)) (\<lambda>_.
     bindE (lift_res (device_name (cd_name body))) (\<lambda>name.
     let namespace_pattern = normalize_optional_text (cd_namespace_pattern body) in
     bindE (check_pattern E namespace_pattern) (\<lambda>_.
     let token_id = normalize_optional_text (cd_token_id body) in
     bindE (check_token E token_id) (\<lambda>_.
     bindE (now_rfc3339 E) (\<lambda>now.
     bindE (new_uuid E) (\<lambda>i.
     let device = \<lparr>dev_id = i, dev_name = name, dev_namespace_pattern = namespace_pattern,
           dev_token_id = token_id, dev_enabled = opt_get True (cd_enabled body),
           dev_created_at = now, dev_updated_at = now, dev_last_seen_at = None,
           dev_last_client_ip = None,
           dev_last_client_version = normalize_optional_text (cd_last_client_version body),
           dev_notes = normalize_optional_text (cd_notes body)\<rparr> in
     bindE (map_err app_of_redb (db_set_device E device)) (\<lambda>_.
     bindE (set_token_device_link E None token_id (dev_id device)) (\<lambda>_.
     ret (serialize_device device))))))))))"

record update_device_request =
  ud_name :: "string option"
  ud_namespace_pattern :: "string option option"
  ud_token_id :: "string option option"
  ud_enabled :: "bool option"
  ud_notes :: "string option option"

text \<open>The fields of an update, in the order of the handler.\<close>

definition update_device_fields ::
  "'j ext \<Rightarrow> update_device_request \<Rightarrow> device_record \<Rightarrow> (app_error, 'j world, device_record) act" where
  "update_device_fields E body device0 =
     bindE (case ud_name body of
         None \<Rightarrow> ret device0
       | Some n \<Rightarrow> bindE (lift_res (device_name n)) (\<lambda>name. ret (device0\<lparr>dev_name := name\<rparr>))) (\<lambda>device1.
     bindE (case ud_namespace_pattern body of
         None \<Rightarrow> ret device1
       | Some p \<Rightarrow> let pat = normalize_optional_text p in
           bindE (check_pattern E pat) (\<lambda>_. ret (device1\<lparr>dev_namespace_pattern := pat\<rparr>))) (\<lambda>device2.
     bindE (case ud_token_id body of
         None \<Rightarrow> ret device2
       | Some t \<Rightarrow> let token_id = normalize_optional_text t in
           bindE (check_token E token_id) (\<lambda>_. ret (device2\<lparr>dev_token_id := token_id\<rparr>))) (\<lambda>device3.
     let device4 = (case ud_enabled body of None \<Rightarrow> device3 | Some e \<Rightarrow> device3\<lparr>dev_enabled := e\<rparr>);
         device5 = (case ud_notes body of None \<Rightarrow> device4
            | Some n \<Rightarrow> device4\<lparr>dev_notes := normalize_optional_text n\<rparr>) in
     bindE (now_rfc3339 E) (\<lambda>now. ret (device5\<lparr>dev_updated_at := now\<rparr>)))))"

definition admin_update_device ::
  "'j ext \<Rightarrow> app_state \<Rightarrow> string \<Rightarrow> headers \<Rightarrow> update_device_request \<Rightarrow> (app_error, 'j world, json) act" where
  "admin_update_device E st i headers body =
     bindE (verify_admin_mutation E st headers) (\<lambda>_.
     bindE (ensure_disk_capacity E st (256 * 1024)) (\<lambda>_.
     bindE (map_err app_of_redb (db_get_device E i)) (\<lambda>found.
     bindE (ok_or (Not_Found (''Device '' @ quoted i @ '' not found'')) found) (\<lambda>old.
     bindE (update_device_fields E body old) (\<lambda>device.
     bindE (map_err app_of_redb (db_set_device E device)) (\<lambda>_.
     bindE (set_token_device_link E (dev_token_id old) (dev_token_id device) (dev_id device)) (\<lambda>_.
     ret (serialize_device device))))))))"

definition admin_delete_device ::
  "'j ext \<Rightarrow> app_state \<Rightarrow> string \<Rightarrow> headers \<Rightarrow> (app_error, 'j world, json) act" where
  "admin_delete_device E st i headers =
     bindE (verify_admin_mutation E st headers) (\<lambda>_.
     bindE (map_err app_of_redb (db_get_device E i)) (\<lambda>found.
     bindE (ok_or (Not_Found (''Device '' @ quoted i @ '' not found'')) found) (\<lambda>device.
     bindE (set_token_device_link E (dev_token_id device) None (dev_id device)) (\<lambda>_.
     bindE (map_err app_of_redb (db_delete_device E i)) (\<lambda>_.
     ret ok_body)))))"

section \<open>Conflicts and statistics\<close>

definition admin_list_conflicts ::
  "'j ext \<Rightarrow> app_state \<Rightarrow> headers \<Rightarrow> (app_error, 'j world, sync_conflict_record list) act" where
  "admin_list_conflicts E st headers =
     bindE (verify_admin E st headers) (\<lambda>_. map_err app_of_redb (db_list_sync_conflicts E 50))"

text \<open>
  The stored total of a namespace, or the current one where there is no snapshot yet, added
  to the sum so far.
\<close>

definition namespace_total :: "'j ext \<Rightarrow> string \<Rightarrow> (app_error, 'j world, u64) act" where
  "namespace_total E namespace =
     bindE (map_err app_of_redb (db_get_namespace_usage E namespace)) (\<lambda>usage.
     case usage of
       Some u \<Rightarrow> ret (us_total_bytes u)
     | None \<Rightarrow>
         bindE (map_err app_of_redb (db_blob_size E namespace)) (\<lambda>blob_size.
         bindE (map_err app_of_redb (db_namespace_object_stats E namespace)) (\<lambda>(_, object_bytes, _).
         ret (sat_add blob_size object_bytes))))"

definition json_opt_int :: "int option \<Rightarrow> json" where
  "json_opt_int x = (case x of None \<Rightarrow> JNull | Some n \<Rightarrow> JNum n)"

definition json_len :: "'a list \<Rightarrow> json" where
  "json_len xs = JNum (int (length xs))"

text \<open>The size of the database file and the version are facts of the outside.\<close>

definition admin_stats ::
  "'j ext \<Rightarrow> app_state \<Rightarrow> headers \<Rightarrow> u64 \<Rightarrow> string \<Rightarrow> (app_error, 'j world, json) act" where
  "admin_stats E st headers db_size_bytes version =
     bindE (verify_admin E st headers) (\<lambda>_.
     bindE (map_err app_of_redb (db_list_namespaces E)) (\<lambda>namespaces.
     bindE (map_err app_of_redb (db_list_deleted_namespaces E)) (\<lambda>deleted_namespaces.
     bindE (map_err app_of_redb (db_get_all_tokens E)) (\<lambda>tokens.
     bindE (map_err app_of_redb (db_list_devices E)) (\<lambda>devices.
     bindE (map_err app_of_redb (db_list_sync_conflicts E 50)) (\<lambda>conflicts.
     bindE (map_err app_of_redb (db_list_admin_users E)) (\<lambda>admin_users.
     bindE (attempt (db_check_writable E)) (\<lambda>checked.
     bindE (sample (disk_free_bytes E)) (\<lambda>free_bytes.
     bindE (mapE (panel_token_expired E) tokens) (\<lambda>expired.
     bindE (mapE (namespace_total E) (namespaces @ map fst deleted_namespaces)) (\<lambda>totals.
     ret (JObj
       [(''namespaceCount'', json_len namespaces),
        (''deletedNamespaceCount'', json_len deleted_namespaces),
        (''tokenCount'', json_len tokens),
        (''disabledTokenCount'', json_len (filter (\<lambda>t. \<not> tok_enabled t) tokens)),
        (''expiredTokenCount'', json_len (filter id expired)),
        (''deviceCount'', json_len devices),
        (''disabledDeviceCount'', json_len (filter (\<lambda>d. \<not> dev_enabled d) devices)),
        (''adminUserCount'', json_len admin_users),
        (''recentConflictCount'', json_len conflicts),
        (''namespaceStorageBytes'', json_u64 (fold (\<lambda>n acc. sat_add acc n) totals 0)),
        (''encryptionEnabled'', JBool (encryption_key st \<noteq> None)),
        (''tokenRevealPersistent'', JBool (token_reveal_persistent st)),
        (''jwtSecretPersistent'', JBool (admin_jwt_secret_persistent st)),
        (''adminCookieSecure'', JBool (effective_admin_cookie_secure headers st)),
        (''dbWritable'', JBool (res_ok checked \<noteq> None)),
        (''dbSizeBytes'', json_u64 db_size_bytes),
        (''diskFreeBytes'', case free_bytes of None \<Rightarrow> JNull | Some n \<Rightarrow> json_u64 n),
        (''minFreeDiskBytes'', json_u64 (min_free_disk_bytes st)),
        (''diskAboveMinimum'', JBool (opt_get True (map_option (\<lambda>free. free \<ge> min_free_disk_bytes st) free_bytes))),
        (''syncCorsOrigins'', JArr (map JStr (sync_cors_allowed_origins st))),
        (''defaultTokenTtlSeconds'', json_opt_int (default_token_ttl_seconds st)),
        (''loginWindowSeconds'', JNum (login_window_seconds st)),
        (''loginLockoutSeconds'', JNum (login_lockout_seconds st)),
        (''maxLoginFailures'', JNum (uint (max_login_failures st))),
        (''metadataRetention'', JObj
          [(''storeRevision'', JBool (store_revision (metadata_retention st))),
           (''storeUploadedAt'', JBool (store_uploaded_at (metadata_retention st))),
           (''storeDeviceId'', JBool (store_device_id (metadata_retention st))),
           (''storeContentHash'', JBool (store_content_hash (metadata_retention st)))]),
        (''version'', JStr version)]))))))))))))"

end
