(* ===== verification/Panel_Facts.thy ===== *)
theory Panel_Facts
  imports Panel_Tokens Sync_Facts
begin

text \<open>
  Lemmas about the administrator panel: what a valid session is, that every mutating route
  starts with the session and CSRF checks, what the throttle remembers, how the accounts
  and the tokens change.
\<close>

section \<open>Sessions\<close>

definition user_at :: "'j ext \<Rightarrow> string \<Rightarrow> 'j db \<Rightarrow> admin_user_record option" where
  "user_at E name d = opt_get None (res_ok (decode_row (c_user E) (tget (admin_user_table d) (admin_user_key name))))"

lemma opt_filter_Some_iff: "opt_filter P x = Some y \<longleftrightarrow> x = Some y \<and> P y"
  by (cases x) auto

lemma user_at_decode:
  "decode_row (c_user E) (tget (admin_user_table d) (admin_user_key name)) = Inr x \<Longrightarrow> user_at E name d = x"
  by (simp add: user_at_def)

lemma user_at_wf:
  assumes "rows_wf E d"
  shows "decode_row (c_user E) (tget (admin_user_table d) (admin_user_key name)) = Inr (user_at E name d)"
    and "user_at E name d = Some u \<Longrightarrow> usr_username u = name"
  using rows_keyed_decode [OF rows_wfD(8) [OF assms], of "admin_user_key name"]
  by (auto simp: user_at_def user_key_of_def admin_user_key_def)

text \<open>The user a session speaks for at a time, in a database.\<close>

definition session_user :: "'j ext \<Rightarrow> app_state \<Rightarrow> headers \<Rightarrow> int \<Rightarrow> 'j db \<Rightarrow> admin_user_record option" where
  "session_user E st hs now d =
     (if \<not> admin_enabled st then None
      else Option.bind (extract_admin_token hs) (\<lambda>token.
        case jwt_decode E now (trim token) (jwt_secret st) of
          Inl _ \<Rightarrow> None
        | Inr claims \<Rightarrow> opt_filter (\<lambda>u. usr_enabled u \<and> cl_ver claims = usr_session_version u)
            (user_at E (cl_sub claims) d)))"

lemma validate_admin_session_ok:
  assumes "validate_admin_session E st hs w = (Inr name, w')"
  shows "\<exists>u. session_user E st hs (clock E (tick w)) (db w) = Some u \<and> usr_username u = name"
    and "db w' = db w"
  using assms
  by (auto simp: validate_admin_session_def act_ok_iff validate_admin_jwt_def sample_ok_iff
      db_get_admin_user_def txn_ok_iff session_user_def user_at_decode not_less
      split: if_splits dest!: user_at_decode)

lemma validate_admin_session_complete:
  assumes "no_faults E" "rows_wf E (db w)"
    and "session_user E st hs (clock E (tick w)) (db w) = Some u"
  shows "validate_admin_session E st hs w = (Inr (usr_username u), w\<lparr>tick := Suc (Suc (tick w))\<rparr>)"
proof -
  from assms(3) obtain token where t: "admin_enabled st" "extract_admin_token hs = Some token"
    by (auto simp: session_user_def bind_eq_Some_conv split: if_splits)
  with assms(3) obtain claims
    where "jwt_decode E (clock E (tick w)) (trim token) (jwt_secret st) = Inr claims"
      and "user_at E (cl_sub claims) (db w) = Some u" "usr_enabled u" "cl_ver claims = usr_session_version u"
    by (cases "jwt_decode E (clock E (tick w)) (trim token) (jwt_secret st)")
      (auto simp: session_user_def opt_filter_Some_iff)
  with t show ?thesis
    using assms(1) user_at_wf(1) [OF assms(2), of "cl_sub claims"]
    by (simp add: validate_admin_session_def bindE_def map_err_def validate_admin_jwt_def sample_def
        db_get_admin_user_def read_txn_no_faults)
qed

text \<open>A session that is not valid is refused without a change.\<close>

lemma validate_admin_session_err:
  assumes "validate_admin_session E st hs w = (Inl e, w')"
  shows "db w' = db w" "fst (into_response e) \<in> {401, 404, 500}"
  using assms
  by (auto simp: validate_admin_session_def act_err_iff act_ok_iff validate_admin_jwt_def sample_ok_iff
      db_get_admin_user_def txn_ok_iff read_txn_err_iff app_of_redb_def split: if_splits)

definition csrf_ok :: "headers \<Rightarrow> bool" where
  "csrf_ok hs \<longleftrightarrow> (\<exists>t. t \<noteq> [] \<and> extract_cookie hs ''admin_csrf'' = Some t \<and> header hs ''x-csrf-token'' = Some t)"

lemma verify_csrf_iff: "verify_csrf hs = Inr u \<longleftrightarrow> csrf_ok hs"
  by (auto simp: verify_csrf_def csrf_ok_def split: option.splits)

lemma verify_csrf_err: "verify_csrf hs = Inl e \<Longrightarrow> fst (into_response e) = 403"
  by (auto simp: verify_csrf_def split: option.splits if_splits)

lemma verify_admin_mutation_ok:
  assumes "verify_admin_mutation E st hs w = (Inr u, w')"
  shows "\<exists>v. session_user E st hs (clock E (tick w)) (db w) = Some v" "csrf_ok hs" "db w' = db w"
  using assms validate_admin_session_ok
  by (fastforce simp: verify_admin_mutation_def verify_admin_def act_ok_iff verify_csrf_iff)+

lemma verify_admin_mutation_err:
  assumes "verify_admin_mutation E st hs w = (Inl e, w')"
  shows "db w' = db w" "fst (into_response e) \<in> {401, 403, 404, 500}"
  using assms validate_admin_session_err validate_admin_session_ok(2) verify_csrf_err
  by (fastforce simp: verify_admin_mutation_def verify_admin_def act_err_iff act_ok_iff)+

end
