(* ===== verification/Panel_Service.thy ===== *)
theory Panel_Service
  imports Panel_Facts Sync_Service
begin

text \<open>
  The panel as one service (the routes of \<open>admin_router\<close> in \<^verbatim>\<open>src/src/panel.rs\<close>): a
  request is dispatched to its handler. The lemmas are about every route at once: which
  routes ask for a session and for the CSRF token, that a refused request changes nothing,
  and that the routes that only read leave the database alone.
\<close>

section \<open>Routes\<close>

datatype panel_request =
    Login login_request
  | Logout
  | Me
  | Change_Password change_password_request
  | List_Users
  | Create_User create_user_request
  | Update_User string update_user_request
  | Delete_User string
  | List_Namespaces
  | Create_Namespace string
  | Delete_Namespace string "bool option"
  | Restore_Namespace string
  | List_Tokens
  | Create_Token create_token_request
  | Update_Token string update_token_request
  | Rotate_Token string
  | Reveal_Token string
  | Delete_Token string
  | List_Devices
  | Create_Device create_device_request
  | Update_Device string update_device_request
  | Delete_Device string
  | List_Conflicts
  | Stats u64 string

datatype panel_response =
    Pr_Json json
  | Pr_Cookies headers json
  | Pr_Namespaces "namespace_info list"
  | Pr_Tokens "json list"
  | Pr_Conflicts "sync_conflict_record list"

fun serve_panel ::
  "'j ext \<Rightarrow> app_state \<Rightarrow> string \<Rightarrow> headers \<Rightarrow> panel_request \<Rightarrow> (app_error, 'j world, panel_response) act" where
  "serve_panel E st ip hs (Login body) = fmap (\<lambda>(h, b). Pr_Cookies h b) (admin_login E st hs ip body)"
| "serve_panel E st ip hs Logout = fmap (\<lambda>(h, b). Pr_Cookies h b) (admin_logout E st hs)"
| "serve_panel E st ip hs Me = fmap Pr_Json (admin_current_user E st hs)"
| "serve_panel E st ip hs (Change_Password body) = fmap (\<lambda>(h, b). Pr_Cookies h b) (admin_change_own_password E st hs body)"
| "serve_panel E st ip hs List_Users = fmap Pr_Json (admin_list_users E st hs)"
| "serve_panel E st ip hs (Create_User body) = fmap Pr_Json (admin_create_user E st hs body)"
| "serve_panel E st ip hs (Update_User name body) = fmap Pr_Json (admin_update_user E st name hs body)"
| "serve_panel E st ip hs (Delete_User name) = fmap Pr_Json (admin_delete_user E st name hs)"
| "serve_panel E st ip hs List_Namespaces = fmap Pr_Namespaces (admin_list_namespaces E st hs)"
| "serve_panel E st ip hs (Create_Namespace ns) = fmap Pr_Json (admin_create_namespace E st hs ns)"
| "serve_panel E st ip hs (Delete_Namespace ns hard) = fmap Pr_Json (admin_delete_namespace E st ns hard hs)"
| "serve_panel E st ip hs (Restore_Namespace ns) = fmap Pr_Json (admin_restore_namespace E st ns hs)"
| "serve_panel E st ip hs List_Tokens = fmap Pr_Tokens (admin_list_tokens E st hs)"
| "serve_panel E st ip hs (Create_Token body) = fmap Pr_Json (admin_create_token E st hs body)"
| "serve_panel E st ip hs (Update_Token i body) = fmap Pr_Json (admin_update_token E st i hs body)"
| "serve_panel E st ip hs (Rotate_Token i) = fmap Pr_Json (admin_rotate_token E st i hs)"
| "serve_panel E st ip hs (Reveal_Token i) = fmap Pr_Json (admin_reveal_token E st i hs)"
| "serve_panel E st ip hs (Delete_Token i) = fmap Pr_Json (admin_delete_token E st i hs)"
| "serve_panel E st ip hs List_Devices = fmap Pr_Json (admin_list_devices E st hs)"
| "serve_panel E st ip hs (Create_Device body) = fmap Pr_Json (admin_create_device E st hs body)"
| "serve_panel E st ip hs (Update_Device i body) = fmap Pr_Json (admin_update_device E st i hs body)"
| "serve_panel E st ip hs (Delete_Device i) = fmap Pr_Json (admin_delete_device E st i hs)"
| "serve_panel E st ip hs List_Conflicts = fmap Pr_Conflicts (admin_list_conflicts E st hs)"
| "serve_panel E st ip hs (Stats bytes version) = fmap Pr_Json (admin_stats E st hs bytes version)"

text \<open>The routes with method GET; the others, except the login, change something.\<close>

fun is_get :: "panel_request \<Rightarrow> bool" where
  "is_get Me = True"
| "is_get List_Users = True"
| "is_get List_Namespaces = True"
| "is_get List_Tokens = True"
| "is_get List_Devices = True"
| "is_get List_Conflicts = True"
| "is_get (Stats _ _) = True"
| "is_get _ = False"

fun is_login :: "panel_request \<Rightarrow> bool" where
  "is_login (Login _) = True"
| "is_login _ = False"

section \<open>Every route starts with the session check\<close>

lemma verify_admin_bind: "bindE (verify_admin E st hs) f = bindE (validate_admin_session E st hs) (\<lambda>_. f ())"
  by (simp add: verify_admin_def bindE_assoc)

lemma serve_panel_get:
  "is_get rq \<Longrightarrow> \<exists>k. serve_panel E st ip hs rq = bindE (validate_admin_session E st hs) k"
  by (cases rq; simp only: is_get.simps serve_panel.simps fmap_def admin_current_user_def
      admin_list_users_def admin_list_namespaces_def admin_list_tokens_def admin_list_devices_def
      admin_list_conflicts_def admin_stats_def bindE_assoc verify_admin_bind; (rule exI, rule refl)?)

lemma serve_panel_mutation:
  "\<not> is_get rq \<Longrightarrow> \<not> is_login rq \<Longrightarrow> \<exists>k. serve_panel E st ip hs rq = bindE (verify_admin_mutation E st hs) k"
  by (cases rq; simp only: is_get.simps is_login.simps serve_panel.simps fmap_def admin_logout_def
      admin_change_own_password_def admin_create_user_def admin_update_user_def admin_delete_user_def
      admin_create_namespace_def admin_delete_namespace_def admin_restore_namespace_def
      admin_create_token_def admin_update_token_def admin_rotate_token_def admin_reveal_token_def
      admin_delete_token_def admin_create_device_def admin_update_device_def admin_delete_device_def
      bindE_assoc not_True_eq_False; (rule exI, rule refl)?)

text \<open>A request that is answered had a session, and a mutating one the CSRF token.\<close>

lemma serve_panel_ok_session:
  assumes "serve_panel E st ip hs rq w = (Inr r, w')" "\<not> is_login rq"
  shows "\<exists>u. session_user E st hs (clock E (tick w)) (db w) = Some u" "is_get rq \<or> csrf_ok hs"
proof -
  have "(\<exists>u. session_user E st hs (clock E (tick w)) (db w) = Some u) \<and> (is_get rq \<or> csrf_ok hs)"
  proof (cases "is_get rq")
    case True
    then show ?thesis
      using serve_panel_get [OF True, of E st ip hs] assms(1) validate_admin_session_ok(1) [of E st hs w]
      by (auto simp: act_ok_iff)
  next
    case False
    then show ?thesis
      using serve_panel_mutation [OF False assms(2), of E st ip hs] assms(1)
        verify_admin_mutation_ok(1,2) [of E st hs w]
      by (auto simp: act_ok_iff)
  qed
  then show "\<exists>u. session_user E st hs (clock E (tick w)) (db w) = Some u" "is_get rq \<or> csrf_ok hs"
    by auto
qed

text \<open>Without them it is refused and changes nothing.\<close>

lemma serve_panel_refused:
  assumes "\<not> is_login rq"
    and "session_user E st hs (clock E (tick w)) (db w) = None \<or> \<not> is_get rq \<and> \<not> csrf_ok hs"
  shows "\<exists>e w'. serve_panel E st ip hs rq w = (Inl e, w') \<and> db w' = db w
    \<and> fst (into_response e) \<in> {401, 403, 404, 500}"
proof (cases "is_get rq")
  case True
  with assms(2) have none: "session_user E st hs (clock E (tick w)) (db w) = None" by simp
  obtain k where k: "serve_panel E st ip hs rq = bindE (validate_admin_session E st hs) k"
    using serve_panel_get [OF True] by blast
  obtain r w1 where run: "validate_admin_session E st hs w = (r, w1)"
    by (cases "validate_admin_session E st hs w")
  with none validate_admin_session_ok(1) obtain e where e: "r = Inl e" by (cases r) fastforce+
  with run have "db w1 = db w" "fst (into_response e) \<in> {401, 404, 500}"
    using validate_admin_session_err by blast+
  with run e k show ?thesis by (auto simp: bindE_def)
next
  case False
  obtain k where k: "serve_panel E st ip hs rq = bindE (verify_admin_mutation E st hs) k"
    using serve_panel_mutation [OF False assms(1)] by blast
  obtain r w1 where run: "verify_admin_mutation E st hs w = (r, w1)"
    by (cases "verify_admin_mutation E st hs w")
  with assms(2) verify_admin_mutation_ok(1,2) obtain e where e: "r = Inl e" by (cases r) fastforce+
  with run have "db w1 = db w" "fst (into_response e) \<in> {401, 403, 404, 500}"
    using verify_admin_mutation_err by blast+
  with run e k show ?thesis by (auto simp: bindE_def)
qed

section \<open>Routes that only read\<close>

definition unchanged :: "'j db \<Rightarrow> 'j db \<Rightarrow> bool" where
  "unchanged d d' \<longleftrightarrow> d' = d"

interpretation still: db_frame unchanged
  by unfold_locales (simp_all add: unchanged_def)

lemmas db_reads = db_get_metadata_def db_namespace_object_stats_def db_blob_size_def
  db_get_namespace_usage_def db_list_namespaces_def db_list_deleted_namespaces_def
  db_get_all_tokens_def db_list_devices_def db_list_sync_conflicts_def db_list_admin_users_def
  db_get_admin_user_def db_get_token_def db_get_device_def

lemma still_write: "moves (on_db unchanged) (db_check_writable E)"
  by (auto simp: db_check_writable_def unchanged_def intro!: still.frame_write_txn)

lemma still_session: "moves (on_db unchanged) (validate_admin_session E st hs)"
  by (auto simp: validate_admin_session_def validate_admin_jwt_def db_reads Let_def
      intro!: still.db_frame_rules)

lemma still_entry: "moves (on_db unchanged) (namespace_entry E ns at)"
  by (auto simp: namespace_entry_def stored_metadata_def db_reads Let_def
      intro!: still.db_frame_rules split: prod.split option.split sum.split)

lemma still_total: "moves (on_db unchanged) (namespace_total E ns)"
  by (auto simp: namespace_total_def db_reads Let_def
      intro!: still.db_frame_rules split: prod.split option.split)

lemma still_expired: "moves (on_db unchanged) (panel_token_expired E t)"
  by (auto simp: panel_token_expired_def intro!: still.db_frame_rules split: option.split)

lemma serve_panel_get_still: "is_get rq \<Longrightarrow> moves (on_db unchanged) (serve_panel E st ip hs rq)"
  by (cases rq) (auto simp: fmap_def admin_current_user_def verify_admin_def
      admin_list_users_def admin_list_namespaces_def admin_list_tokens_def admin_list_devices_def
      admin_list_conflicts_def admin_stats_def serialize_token_summary_def db_reads
      intro!: still.db_frame_rules still_session still_entry still_total still_expired
        still_write split: prod.split)

end
