(* ===== verification/Panel_Frames.thy ===== *)
theory Panel_Frames
  imports Panel_Service
begin

text \<open>
  Every route of the panel moves the database by committed steps, like the sync routes. A
  step that stores a token needs its hash to be free or its own, so the frames here carry
  what that depends on: the new secrets still to be minted are not in the index yet.
\<close>

section \<open>Secrets not yet minted\<close>

text \<open>
  The random source gives a new token at every use, and hashes of different tokens differ.
\<close>

definition secret_hash :: "'j ext \<Rightarrow> nat \<Rightarrow> string" where
  "secret_hash E i = hash_api_token E (uuid_v4 E i)"

definition secrets_distinct :: "'j ext \<Rightarrow> bool" where
  "secrets_distinct E \<longleftrightarrow> (\<forall>i j. secret_hash E i = secret_hash E j \<longrightarrow> i = j)"

definition secrets_fresh :: "'j ext \<Rightarrow> 'j world \<Rightarrow> bool" where
  "secrets_fresh E w \<longleftrightarrow> (\<forall>i \<ge> tick w. tget (token_hash_table (db w)) (secret_hash E i) = None)"

definition world_ok :: "'j ext \<Rightarrow> 'j world \<Rightarrow> bool" where
  "world_ok E w \<longleftrightarrow> db_wf E (db w) \<and> secrets_fresh E w"

definition ext_ok :: "'j ext \<Rightarrow> bool" where
  "ext_ok E \<longleftrightarrow> codecs_ok E \<and> secrets_distinct E"

text \<open>
  Two frames: a part of a handler is served when it keeps a good world good and moves it by
  steps; it stays aside when it also leaves the token tables alone.
\<close>

definition serves :: "'j ext \<Rightarrow> 'j world \<Rightarrow> 'j world \<Rightarrow> bool" where
  "serves E w w' \<longleftrightarrow> (ext_ok E \<and> world_ok E w \<longrightarrow> steps_of E w w' \<and> world_ok E w')"

definition aside :: "'j ext \<Rightarrow> 'j world \<Rightarrow> 'j world \<Rightarrow> bool" where
  "aside E w w' \<longleftrightarrow> tick w \<le> tick w' \<and> steps_of E w w'
     \<and> token_table (db w') = token_table (db w) \<and> token_hash_table (db w') = token_hash_table (db w)"

lemma steps_wf: "steps_of E w w' \<Longrightarrow> ext_ok E \<Longrightarrow> world_ok E w \<Longrightarrow> db_wf E (db w')"
  using db_wf_steps by (auto simp: on_db_def ext_ok_def world_ok_def)

interpretation served: frame "serves E" for E :: "'j ext"
proof
  show "serves E w w" for w by (simp add: serves_def on_db_def)
  show "serves E u v \<Longrightarrow> serves E v w \<Longrightarrow> serves E u w" for u v w
    unfolding serves_def on_db_def by (meson rtranclp_trans)
qed

interpretation beside: frame "aside E" for E :: "'j ext"
proof
  show "aside E w w" for w by (simp add: aside_def on_db_def)
  show "aside E u v \<Longrightarrow> aside E v w \<Longrightarrow> aside E u w" for u v w
    unfolding aside_def on_db_def by (metis le_trans rtranclp_trans)
qed

lemma aside_serves: "aside E w w' \<Longrightarrow> serves E w w'"
  using steps_wf [of E w w'] by (auto simp: aside_def serves_def world_ok_def secrets_fresh_def)

lemma moves_aside: "moves (aside E) m \<Longrightarrow> moves (serves E) m"
  by (rule moves_mono [OF _ aside_serves])

section \<open>Single transactions\<close>

lemma aside_sample: "moves (aside E) (sample f)"
  by (simp add: moves_def sample_def aside_def on_db_def)

lemma aside_outside: "moves (aside E) (utc_now E')" "moves (aside E) (now_rfc3339 E')" "moves (aside E) (new_uuid E')"
  by (simp_all add: outside_defs aside_sample)

lemma aside_read_txn: "moves (aside E) (read_txn E' conv f)"
  by (auto simp: moves_def read_txn_def aside_def on_db_def split: option.splits)

lemma aside_write_txn:
  "(\<And>d x d'. f d = Inr (x, d') \<Longrightarrow> (db_step E)\<^sup>*\<^sup>* d d' \<and> token_table d' = token_table d
      \<and> token_hash_table d' = token_hash_table d) \<Longrightarrow> moves (aside E) (write_txn E' conv f)"
  by (auto simp: moves_def write_txn_def aside_def on_db_def split: option.splits sum.splits)

lemmas aside_rules = beside.frame_rules aside_sample aside_outside aside_read_txn

lemma aside_writes:
  "to_vec (c_metadata E) m = Inr v \<Longrightarrow> moves (aside E) (db_set_metadata E ns v)"
  "moves (aside E) (db_set_admin_user E user)"
  "moves (aside E) (db_delete_admin_user E name)"
  "moves (aside E) (db_set_login_attempt E ip la)"
  "moves (aside E) (db_delete_login_attempt E ip)"
  "moves (aside E) (db_set_device E dev)"
  "moves (aside E) (db_delete_device E i)"
  "moves (aside E) (db_soft_delete_namespace E ns at)"
  by (unfold db_set_metadata_def db_set_admin_user_def db_delete_admin_user_def db_set_login_attempt_def
      db_delete_login_attempt_def db_set_device_def db_delete_device_def db_soft_delete_namespace_def)
    (rule aside_write_txn, (frule db_step.set_user | frule db_step.set_login
        | frule db_step.set_device | frule db_step.soft_delete)?,
     auto simp: set_admin_user_tx_def set_login_attempt_tx_def set_device_tx_def soft_delete_namespace_tx_def
      split: sum.splits intro!: r_into_rtranclp intro: db_step.intros)+

lemma aside_cleanup: "moves (aside E) (db_cleanup_login_attempts E now win)"
  unfolding db_cleanup_login_attempts_def
  by (rule aside_write_txn)
    (auto simp: cleanup_login_attempts_tx_def Let_def
      intro!: r_into_rtranclp db_step.cleanup_login [unfolded cleanup_login_attempts_tx_def Let_def])

lemma aside_restore: "moves (aside E) (db_restore_namespace E ns)"
  unfolding db_restore_namespace_def
  by (rule aside_write_txn)
    (auto simp: restore_namespace_tx_def intro!: r_into_rtranclp db_step.restore [unfolded restore_namespace_tx_def])

lemma aside_hard_delete: "moves (aside E) (db_hard_delete_namespace E ns)"
proof -
  have "db_step E d (hard_delete_namespace_tx ns d)" "token_table (hard_delete_namespace_tx ns d) = token_table d"
    "token_hash_table (hard_delete_namespace_tx ns d) = token_hash_table d" for d :: "'a db"
    by (rule db_step.hard_delete) (simp_all add: hard_delete_namespace_tx_def Let_def)
  then show ?thesis
    unfolding db_hard_delete_namespace_def by (intro aside_write_txn) auto
qed

lemma aside_check_writable: "moves (aside E) (db_check_writable E')"
  unfolding db_check_writable_def by (rule aside_write_txn) auto

lemma aside_refresh_usage: "moves (aside E) (db_refresh_namespace_usage E ns now s)"
proof -
  have "moves (aside E) (write_txn E conv (set_namespace_usage_tx E ns us))" if "us_namespace us = ns" for conv us
  proof (rule aside_write_txn)
    show "(db_step E)\<^sup>*\<^sup>* d d' \<and> token_table d' = token_table d \<and> token_hash_table d' = token_hash_table d"
      if "set_namespace_usage_tx E ns us d = Inr (x, d')" for d x d'
      using db_step.set_usage [OF \<open>us_namespace us = ns\<close> that] that
      by (auto simp: set_namespace_usage_tx_def split: sum.splits)
  qed
  then show ?thesis
    unfolding db_refresh_namespace_usage_def
    by (auto simp: db_reads intro!: aside_rules split: prod.split)
qed

section \<open>Handlers that store no token\<close>

lemma aside_checks:
  "moves (aside E) (validate_admin_session E' st hs)" "moves (aside E) (verify_admin E' st hs)"
  "moves (aside E) (verify_admin_mutation E' st hs)" "moves (aside E) (ensure_disk_capacity E' st n)"
  "moves (aside E) (hash_new_password E' p)" "moves (aside E) (password_too_short p)"
  "moves (aside E) (enabled_admin_user_count E')" "moves (aside E) (create_admin_jwt_for_user E' s u v)"
  by (auto simp: verify_admin_mutation_def verify_admin_def validate_admin_session_def validate_admin_jwt_def
      ensure_disk_capacity_def hash_new_password_def hash_admin_password_def password_too_short_def
      enabled_admin_user_count_def create_admin_jwt_for_user_def db_reads Let_def
      intro!: aside_rules split: option.split)

lemma aside_login: "moves (aside E) (admin_login E st hs ip body)"
  by (auto simp: admin_login_def ensure_login_allowed_def record_login_failure_def clear_login_failures_def
      record_user_login_failure_def db_get_login_attempt_def db_reads Let_def
      intro!: aside_rules aside_checks aside_writes aside_cleanup split: option.split)

lemma aside_account:
  "moves (aside E) (admin_logout E st hs)" "moves (aside E) (admin_current_user E st hs)"
  "moves (aside E) (admin_change_own_password E st hs b)" "moves (aside E) (admin_list_users E st hs)"
  by (auto simp: admin_logout_def admin_current_user_def admin_change_own_password_def admin_list_users_def
      record_user_login_failure_def db_reads Let_def
      intro!: aside_rules aside_checks aside_writes split: option.split)

lemma aside_users:
  "moves (aside E) (admin_create_user E st hs cb)"
  "moves (aside E) (admin_update_user E st name hs ub)" "moves (aside E) (admin_delete_user E st name hs)"
  by (auto simp: admin_create_user_def admin_update_user_def admin_delete_user_def
      update_password_def update_enabled_def db_reads Let_def
      intro!: aside_rules aside_checks aside_writes split: option.split)

lemma aside_namespace_exists: "moves (aside E) (namespace_exists E' ns)"
  by (auto simp: namespace_exists_def db_list_object_paths_def db_reads intro!: aside_rules)

lemma aside_bind_serialized:
  "(\<And>x. r = Inr x \<Longrightarrow> moves (aside E) (f x)) \<Longrightarrow> moves (aside E) (bindE (map_err c (lift_res r)) f)"
  by (rule movesI) (auto simp: bindE_def map_err_def beside.frame_refl split: prod.splits sum.splits dest: movesD)

lemma aside_create_namespace: "moves (aside E) (admin_create_namespace E st hs ns)"
  by (auto simp: admin_create_namespace_def db_is_namespace_deleted_def Let_def
      intro!: aside_bind_serialized aside_rules aside_checks aside_namespace_exists aside_writes)

lemma aside_namespaces:
  "moves (aside E) (admin_delete_namespace E st ns h hs)" "moves (aside E) (admin_restore_namespace E st ns hs)"
  by (auto simp: admin_delete_namespace_def admin_restore_namespace_def db_is_namespace_deleted_def
      intro!: aside_rules aside_checks aside_writes aside_namespace_exists aside_restore aside_hard_delete
        aside_refresh_usage)

lemma aside_entry: "moves (aside E) (namespace_entry E' ns at)"
  by (auto simp: namespace_entry_def stored_metadata_def db_reads Let_def
      intro!: aside_rules split: prod.split option.split sum.split)

lemma aside_total: "moves (aside E) (namespace_total E' ns)"
  by (auto simp: namespace_total_def db_reads Let_def intro!: aside_rules split: prod.split option.split)

lemma aside_summary: "moves (aside E) (panel_token_expired E' t)" "moves (aside E) (serialize_token_summary E' t)"
  by (auto simp: serialize_token_summary_def panel_token_expired_def intro!: aside_rules split: option.split)

lemma aside_lists:
  "moves (aside E) (admin_list_namespaces E st hs)" "moves (aside E) (admin_list_tokens E st hs)"
  "moves (aside E) (admin_list_devices E st hs)" "moves (aside E) (admin_list_conflicts E st hs)"
  "moves (aside E) (admin_stats E st hs n v)"
  by (auto simp: admin_list_namespaces_def admin_list_tokens_def admin_list_devices_def
      admin_list_conflicts_def admin_stats_def db_reads
      intro!: aside_rules aside_checks aside_entry aside_total aside_summary aside_check_writable
      split: prod.split)

section \<open>Handlers that store a token\<close>

text \<open>
  A part of a handler that is served when a condition on the world holds. A condition is
  stable when what stays aside keeps it.
\<close>

definition serves_if :: "'j ext \<Rightarrow> ('j world \<Rightarrow> bool) \<Rightarrow> (app_error, 'j world, 'a) act \<Rightarrow> bool" where
  "serves_if E P m \<longleftrightarrow> (\<forall>w r w'. ext_ok E \<longrightarrow> world_ok E w \<longrightarrow> P w \<longrightarrow> m w = (r, w') \<longrightarrow> serves E w w')"

definition stable :: "'j ext \<Rightarrow> ('j world \<Rightarrow> bool) \<Rightarrow> bool" where
  "stable E P \<longleftrightarrow> (\<forall>w w'. aside E w w' \<longrightarrow> P w \<longrightarrow> P w')"

text \<open>A secret has been minted and is not stored yet; a token is stored with its hash.\<close>

definition minted :: "'j ext \<Rightarrow> string \<Rightarrow> 'j world \<Rightarrow> bool" where
  "minted E raw w \<longleftrightarrow> (\<exists>i < tick w. raw = uuid_v4 E i)
     \<and> tget (token_hash_table (db w)) (hash_api_token E raw) = None"

definition holds :: "'j ext \<Rightarrow> api_token \<Rightarrow> 'j world \<Rightarrow> bool" where
  "holds E t w \<longleftrightarrow> (\<exists>s. token_at E (tok_id t) (db w) = Some s \<and> tok_token_hash s = tok_token_hash t)"

lemma stable_minted: "stable E (minted E raw)"
  by (auto simp: stable_def minted_def aside_def intro: less_le_trans)

lemma stable_holds: "stable E (holds E t)"
  by (auto simp: stable_def holds_def aside_def token_at_def get_token_tx_def)

lemma serves_ifI: "moves (serves E) m \<Longrightarrow> serves_if E P m"
  by (auto simp: serves_if_def dest: movesD)

lemma serves_if_moves: "serves_if E (\<lambda>_. True) m \<Longrightarrow> moves (serves E) m"
  by (rule movesI) (auto simp: serves_if_def serves_def)

lemma serves_if_bind:
  "serves_if E P m \<Longrightarrow> (\<And>x. moves (serves E) (f x)) \<Longrightarrow> serves_if E P (bindE m f)"
  unfolding serves_if_def
  by (auto simp: bindE_def split: prod.splits sum.splits)
    (metis movesD served.frame_trans)+

lemma serves_if_aside:
  assumes "moves (aside E) m" "stable E P" "\<And>w x w'. m w = (Inr x, w') \<Longrightarrow> serves_if E P (f x)"
  shows "serves_if E P (bindE m f)"
  unfolding serves_if_def
proof (intro allI impI)
  fix w r w'
  assume ok: "ext_ok E" "world_ok E w" "P w" and run: "bindE m f w = (r, w')"
  obtain s w1 where m: "m w = (s, w1)" by (cases "m w")
  have a: "aside E w w1" by (rule movesD [OF assms(1) m])
  then have s: "serves E w w1" by (rule aside_serves)
  show "serves E w w'"
  proof (cases s)
    case (Inl e)
    with m run s show ?thesis by (simp add: bindE_def)
  next
    case (Inr x)
    with m run have f: "f x w1 = (r, w')" by (simp add: bindE_def)
    have "world_ok E w1" "P w1"
      using s ok a assms(2) by (auto simp: serves_def stable_def)
    then have "serves E w1 w'"
      using assms(3) [of w x w1] m Inr f ok(1) by (auto simp: serves_if_def)
    with s show ?thesis by (rule served.frame_trans)
  qed
qed

lemma serves_if_mint:
  assumes "\<And>raw. serves_if E (minted E raw) (f raw)"
  shows "serves_if E P (bindE (new_uuid E) f)"
  unfolding serves_if_def
proof (intro allI impI)
  fix w r w'
  assume ok: "ext_ok E" "world_ok E w" and run: "bindE (new_uuid E) f w = (r, w')"
  let ?raw = "uuid_v4 E (tick w)" and ?w1 = "w\<lparr>tick := Suc (tick w)\<rparr>"
  have f: "f ?raw ?w1 = (r, w')"
    using run by (simp add: bindE_def new_uuid_def sample_def)
  have a: "serves E w ?w1"
    by (rule aside_serves) (simp add: aside_def on_db_def)
  have "minted E ?raw ?w1"
    using ok(2) by (auto simp: minted_def world_ok_def secrets_fresh_def secret_hash_def)
  with a ok f assms have "serves E ?w1 w'"
    by (auto simp: serves_if_def serves_def)
  with a show "serves E w w'" by (rule served.frame_trans)
qed

lemma serves_if_get:
  assumes "\<And>found. serves_if E (\<lambda>w. \<forall>t. found = Some t \<longrightarrow> holds E t w) (f found)"
  shows "serves_if E P (bindE (map_err c (db_get_token E i)) f)"
  unfolding serves_if_def
proof (intro allI impI)
  fix w r w'
  assume ok: "ext_ok E" "world_ok E w" and run: "bindE (map_err c (db_get_token E i)) f w = (r, w')"
  obtain s w1 where m: "map_err c (db_get_token E i) w = (s, w1)" by (cases "map_err c (db_get_token E i) w")
  have a: "serves E w w1"
    using movesD [where m = "map_err c (db_get_token E i)" and R = "serves E", OF _ m]
    by (auto simp: db_get_token_def intro!: moves_aside aside_rules)
  show "serves E w w'"
  proof (cases s)
    case (Inl e)
    with m run a show ?thesis by (simp add: bindE_def)
  next
    case (Inr found)
    with m run have f: "f found w1 = (r, w')" by (simp add: bindE_def)
    have "holds E t w1" if "found = Some t" for t
    proof -
      have "token_at E i (db w) = Some t" "db w1 = db w"
        using m Inr that by (auto simp: map_err_Inr_iff db_get_token_def txn_ok_iff token_at_def)
      then show ?thesis
        using token_index_okD(2) [of E "db w" i t] ok(2) by (auto simp: holds_def world_ok_def db_wf_def)
    qed
    with f a ok assms [of found] have "serves E w1 w'"
      by (auto simp: serves_if_def serves_def)
    with a show ?thesis by (rule served.frame_trans)
  qed
qed

lemma set_token_serves:
  assumes ok: "ext_ok E" "world_ok E w" and set: "set_token_tx E t (db w) = Inr (u, d')"
    and own: "holds E t w \<or> tok_token_hash t = hash_api_token E raw \<and> minted E raw w"
  shows "db_step E (db w) d'" "tick w \<le> n \<Longrightarrow> secrets_fresh E \<lparr>db = d', tick = n\<rparr>"
proof -
  have idx: "token_index_ok E (db w)" and c: "codec_ok (c_token E)"
    using ok by (auto simp: world_ok_def db_wf_def ext_ok_def codecs_okD)
  have "\<forall>i. tget (token_hash_table (db w)) (tok_token_hash t) = Some i \<longrightarrow> i = tok_id t"
    using own token_index_okD(3) [OF idx, of "tok_token_hash t" "tok_id t"]
    by (auto simp: holds_def minted_def)
  with set show "db_step E (db w) d'" by (rule db_step.set_token)
  assume n: "tick w \<le> n"
  have old: "tget (token_hash_table (db w)) (secret_hash E i) = None" if "n \<le> i" for i
    using ok(2) that n by (auto simp: world_ok_def secrets_fresh_def)
  have new: "secret_hash E i \<noteq> tok_token_hash t" if i: "n \<le> i" for i
  proof
    assume "secret_hash E i = tok_token_hash t"
    then have eq: "tok_token_hash t = secret_hash E i" ..
    from own show False
    proof
      assume "holds E t w"
      then have "tget (token_hash_table (db w)) (tok_token_hash t) = Some (tok_id t)"
        using token_index_okD(3) [OF idx] by (auto simp: holds_def)
      with old [OF i] eq show False by simp
    next
      assume "tok_token_hash t = hash_api_token E raw \<and> minted E raw w"
      then obtain j where "j < tick w" "tok_token_hash t = secret_hash E j"
        by (auto simp: minted_def secret_hash_def)
      with eq ok(1) n i have "j = i" by (auto simp: ext_ok_def secrets_distinct_def)
      with \<open>j < tick w\<close> n i show False by simp
    qed
  qed
  show "secrets_fresh E \<lparr>db = d', tick = n\<rparr>"
    by (auto simp: secrets_fresh_def token_at_put(2) [OF idx set c] old new split: option.split)
qed

lemma serves_if_set:
  assumes "\<And>w. P w \<Longrightarrow> holds E t w \<or> tok_token_hash t = hash_api_token E raw \<and> minted E raw w"
  shows "serves_if E P (map_err c (db_set_token E t))"
  unfolding serves_if_def
proof (intro allI impI)
  fix w r w'
  assume ok: "ext_ok E" "world_ok E w" "P w" and run: "map_err c (db_set_token E t) w = (r, w')"
  note own = assms [OF ok(3)]
  show "serves E w w'"
  proof (cases "db w' = db w \<and> tick w \<le> tick w'")
    case True
    then show ?thesis by (intro aside_serves) (simp add: aside_def on_db_def)
  next
    case False
    with run obtain u d' where set: "set_token_tx E t (db w) = Inr (u, d')"
        and w': "w' = \<lparr>db = d', tick = Suc (tick w)\<rparr>"
      by (cases w) (auto simp: map_err_def db_set_token_def write_txn_def split: option.splits sum.splits prod.splits)
    have "db_step E (db w) d'" "secrets_fresh E w'"
      using set_token_serves [OF ok(1,2) set own] w' by simp_all
    then show ?thesis
      using db_wf_step [of E "db w" d'] ok(1,2) w'
      by (auto simp: serves_def on_db_def world_ok_def ext_ok_def)
  qed
qed

lemma set_token_kept:
  "tok_id t = tok_id s \<Longrightarrow> tok_token_hash t = tok_token_hash s \<Longrightarrow>
     serves_if E (holds E s) (map_err c (db_set_token E t))"
  by (rule serves_if_set) (simp add: holds_def)

lemma set_token_minted:
  "tok_token_hash t = hash_api_token E raw \<Longrightarrow> serves_if E (minted E raw) (map_err c (db_set_token E t))"
  by (rule serves_if_set [where raw = raw]) simp

text \<open>The device links of a token.\<close>

lemma serves_if_found:
  "(\<And>t. found = Some t \<Longrightarrow> serves_if E (holds E t) m) \<Longrightarrow> (found = None \<Longrightarrow> moves (serves E) m) \<Longrightarrow>
     serves_if E (\<lambda>w. \<forall>t. found = Some t \<longrightarrow> holds E t w) m"
  by (cases found) (auto simp: serves_if_def dest: movesD)

lemma unlink_token_served: "moves (serves E) (unlink_token E old dev)"
proof (cases old)
  case (Some i)
  have "serves_if E (\<lambda>_. True) (unlink_token E old dev)"
    unfolding unlink_token_def Some option.case
    by (rule serves_if_get, rule serves_if_found)
      (auto simp: whenE_def intro: set_token_kept serves_ifI served.frame_ret split: option.split)
  then show ?thesis by (rule serves_if_moves)
qed (simp add: unlink_token_def served.frame_ret)

lemma link_token_served: "moves (serves E) (link_token E new dev)"
proof (cases new)
  case (Some i)
  have "serves_if E (\<lambda>_. True) (link_token E new dev)"
    unfolding link_token_def Some option.case
    by (rule serves_if_get, rule serves_if_found)
      (auto intro: set_token_kept serves_ifI served.frame_throw)
  then show ?thesis by (rule serves_if_moves)
qed (simp add: link_token_def served.frame_ret)

lemma device_link_served: "moves (serves E) (set_token_device_link E old new dev)"
  unfolding set_token_device_link_def
  by (auto intro: served.frame_ret served.frame_bindE unlink_token_served link_token_served)

lemma served_checks:
  "moves (serves E) (verify_admin_mutation E' st hs)" "moves (serves E) (ensure_disk_capacity E' st n)"
  by (rule moves_aside, rule aside_checks)+

lemma aside_devices:
  "moves (aside E) (require_device E' i)" "moves (aside E) (link_device E i t)"
  "moves (aside E) (unlink_device E i t)" "moves (aside E) (check_pattern E' p)"
  "moves (aside E) (check_token E' i)" "moves (aside E) (update_device_fields E' ub dv)"
  by (auto simp: require_device_def link_device_def unlink_device_def check_pattern_def check_token_def
      update_device_fields_def db_reads Let_def intro!: aside_rules aside_writes split: option.split)

lemma device_handlers_served:
  "moves (serves E) (admin_create_device E st hs cd)" "moves (serves E) (admin_update_device E st i hs ud)"
  "moves (serves E) (admin_delete_device E st i hs)"
  by (auto simp: admin_create_device_def admin_update_device_def admin_delete_device_def db_reads Let_def
      intro!: served.frame_rules served_checks device_link_served aside_devices [THEN moves_aside]
        aside_writes [THEN moves_aside] aside_outside [THEN moves_aside] aside_read_txn [THEN moves_aside])

section \<open>Creating, updating and rotating tokens\<close>

lemma aside_token_parts:
  "moves (aside E) (seal_token E' st raw)" "moves (aside E) (effective_token_expiry E' st e)"
  "moves (aside E) (update_token_enabled E' b t)" "moves (aside E) (update_token_expiry E' x t)"
  "moves (aside E) (update_token_device E dv t)"
  by (auto simp: seal_token_def encrypt_def effective_token_expiry_def update_token_enabled_def
      update_token_expiry_def update_token_device_def Let_def
      intro!: aside_rules aside_devices split: option.split)

lemma update_token_same:
  "update_token_enabled E b t w = (Inr t', w') \<Longrightarrow> tok_id t' = tok_id t \<and> tok_token_hash t' = tok_token_hash t"
  "update_token_expiry E x t w = (Inr t', w') \<Longrightarrow> tok_id t' = tok_id t \<and> tok_token_hash t' = tok_token_hash t"
  "update_token_device E dv t w = (Inr t', w') \<Longrightarrow> tok_id t' = tok_id t \<and> tok_token_hash t' = tok_token_hash t"
  by (auto simp: update_token_enabled_def update_token_expiry_def update_token_device_def act_ok_iff Let_def
      split: option.splits if_splits)

lemma serves_if_require:
  assumes "\<And>t. serves_if E (holds E t) (f t)"
  shows "moves (serves E) (bindE (require_token E i) f)"
proof (rule serves_if_moves)
  show "serves_if E (\<lambda>_. True) (bindE (require_token E i) f)"
    unfolding require_token_def bindE_assoc
  proof (rule serves_if_get, rule serves_if_found)
    show "serves_if E (holds E t) (bindE (ok_or e found) f)" if "found = Some t" for found t e
      using assms that by simp
    show "moves (serves E) (bindE (ok_or e found) f)" if "found = None" for found e
      using that by (simp add: served.frame_throw)
  qed
qed

lemma create_token_served: "moves (serves E) (admin_create_token E st hs ct)"
  unfolding admin_create_token_def Let_def
  by (rule served.frame_bindE [OF served_checks(1)], rule served.frame_bindE [OF served_checks(2)],
      rule served.frame_bindE [OF served.frame_whenE [OF served.frame_throw]],
      rule served.frame_bindE [OF served.frame_whenE [OF served.frame_throw]],
      rule serves_if_moves, rule serves_if_mint,
      rule serves_if_aside [OF aside_token_parts(1) stable_minted],
      rule serves_if_aside [OF aside_outside(3) stable_minted],
      rule serves_if_aside [OF aside_token_parts(2) stable_minted],
      rule serves_if_aside [OF aside_devices(1) stable_minted],
      rule serves_if_aside [OF aside_outside(2) stable_minted])
    (auto intro!: serves_if_bind set_token_minted aside_rules aside_devices moves_aside)

lemma update_token_served: "moves (serves E) (admin_update_token E st i hs ut)"
  unfolding admin_update_token_def
  by (rule served.frame_bindE [OF served_checks(1)], rule served.frame_bindE [OF served_checks(2)],
      rule serves_if_require, rule serves_if_aside [OF aside_token_parts(3) stable_holds],
      rule serves_if_aside [OF aside_token_parts(4) stable_holds],
      rule serves_if_aside [OF aside_token_parts(5) stable_holds])
    (auto intro!: serves_if_bind set_token_kept moves_aside aside_summary dest!: update_token_same)

lemma rotate_token_served: "moves (serves E) (admin_rotate_token E st i hs)"
  unfolding admin_rotate_token_def
  by (rule served.frame_bindE [OF served_checks(1)], rule served.frame_bindE [OF served_checks(2)],
      rule serves_if_require, rule serves_if_mint,
      rule serves_if_aside [OF aside_token_parts(1) stable_minted],
      rule serves_if_aside [OF aside_outside(2) stable_minted])
    (auto intro!: serves_if_bind set_token_minted aside_rules moves_aside)

lemma delete_token_hashes:
  assumes "token_index_ok E d" "delete_token_tx E i d = Inr (u, d')" "tget (token_hash_table d) h = None"
  shows "tget (token_hash_table d') h = None"
  using assms by (auto simp: delete_token_tx_def split: sum.splits option.splits)

lemma db_delete_token_served: "moves (serves E) (map_err c (db_delete_token E i))"
proof (rule movesI)
  fix w r w'
  assume run: "map_err c (db_delete_token E i) w = (r, w')"
  show "serves E w w'"
  proof (cases "db w' = db w \<and> tick w \<le> tick w'")
    case True
    then show ?thesis by (intro aside_serves) (simp add: aside_def on_db_def)
  next
    case False
    with run obtain u d' where del: "delete_token_tx E i (db w) = Inr (u, d')"
        and w': "w' = \<lparr>db = d', tick = Suc (tick w)\<rparr>"
      by (cases w) (auto simp: map_err_def db_delete_token_def write_txn_def split: option.splits sum.splits prod.splits)
    have step: "db_step E (db w) (db w')" using db_step.delete_token [OF del] w' by simp
    moreover have "db_wf E (db w')" if "ext_ok E" "world_ok E w"
      using db_wf_step [OF _ _ step] that by (auto simp: ext_ok_def world_ok_def)
    moreover have "secrets_fresh E w'" if "world_ok E w"
      using that delete_token_hashes [OF _ del] w' by (auto simp: world_ok_def secrets_fresh_def db_wf_def)
    ultimately show ?thesis
      by (auto simp: serves_def world_ok_def on_db_def)
  qed
qed

lemma delete_reveal_served:
  "moves (serves E) (admin_delete_token E st i hs)" "moves (serves E) (admin_reveal_token E st i hs)"
  by (auto simp: admin_delete_token_def admin_reveal_token_def require_token_def db_reads
      intro!: served.frame_rules served_checks db_delete_token_served aside_writes [THEN moves_aside]
        aside_outside [THEN moves_aside] aside_read_txn [THEN moves_aside])

lemma serve_panel_served: "moves (serves E) (serve_panel E st ip hs rq)"
proof (cases rq)
  case (Login b)
  then show ?thesis
    by (auto simp: fmap_def intro!: served.frame_bindE served.frame_ret moves_aside [OF aside_login])
next
  case (Change_Password b)
  then show ?thesis
    by (auto simp: fmap_def intro!: served.frame_bindE served.frame_ret moves_aside [OF aside_account(3)])
next
  case Logout
  then show ?thesis
    by (auto simp: fmap_def intro!: served.frame_bindE served.frame_ret moves_aside [OF aside_account(1)])
next
  case (Delete_Namespace ns h)
  then show ?thesis
    by (auto simp: fmap_def intro!: served.frame_bindE served.frame_ret moves_aside [OF aside_namespaces(1)])
qed (auto simp: fmap_def intro!: served.frame_bindE served.frame_ret moves_aside [OF aside_account(2)]
      moves_aside [OF aside_account(4)] moves_aside [OF aside_users(1)] moves_aside [OF aside_users(2)]
      moves_aside [OF aside_users(3)] moves_aside [OF aside_create_namespace] moves_aside [OF aside_namespaces(2)]
      aside_lists [THEN moves_aside] create_token_served update_token_served rotate_token_served
      delete_reveal_served device_handlers_served)

end
