(* ===== verification/Server.thy ===== *)
theory Server
  imports Panel_Frames
begin

text \<open>
  The whole server: sync and panel requests, served one after the other. Every request
  keeps a good world good and moves the database by committed steps.
\<close>

section \<open>The sync routes\<close>

text \<open>The sync API never touches the index of the tokens, the accounts or the login attempts.\<close>

definition index_kept :: "'j world \<Rightarrow> 'j world \<Rightarrow> bool" where
  "index_kept w w' \<longleftrightarrow> tick w \<le> tick w' \<and> token_hash_table (db w') = token_hash_table (db w)
     \<and> admin_user_table (db w') = admin_user_table (db w)
     \<and> login_attempt_table (db w') = login_attempt_table (db w)"

interpretation indexed: frame index_kept
  by unfold_locales (auto simp: index_kept_def)

lemma index_sample: "moves index_kept (sample f)"
  by (simp add: moves_def sample_def index_kept_def)

lemma index_read: "moves index_kept (read_txn E conv f)"
  by (auto simp: moves_def read_txn_def index_kept_def split: option.splits)

lemma index_write:
  "(\<And>d x d'. f d = Inr (x, d') \<Longrightarrow> token_hash_table d' = token_hash_table d
      \<and> admin_user_table d' = admin_user_table d \<and> login_attempt_table d' = login_attempt_table d) \<Longrightarrow> moves index_kept (write_txn E conv f)"
  by (auto simp: moves_def write_txn_def index_kept_def split: option.splits sum.splits)

lemmas index_rules = indexed.frame_rules index_sample index_read

lemma index_writes:
  "moves index_kept (db_set_metadata E ns v)" "moves index_kept (db_put_blob_if_matches E ns x a blob v)"
  "moves index_kept (db_put_object_if_matches E ns p x a data om)" "moves index_kept (db_delete_object E ns p)"
  "moves index_kept (db_add_sync_conflict E c n)"
  by (auto simp: db_set_metadata_def db_put_blob_if_matches_def db_put_object_if_matches_def
      db_delete_object_def db_add_sync_conflict_def put_blob_tx_def put_object_tx_def delete_object_tx_def
      add_sync_conflict_tx_def Let_def intro!: index_write split: sum.splits option.splits)

lemma index_refresh: "moves index_kept (db_refresh_namespace_usage E ns now s)"
  by (auto simp: db_refresh_namespace_usage_def db_reads set_namespace_usage_tx_def
      intro!: index_rules index_write split: prod.split sum.splits)

lemma index_audit:
  assumes "moves (on_db audit_only) m" "\<And>w r w'. m w = (r, w') \<Longrightarrow> tick w \<le> tick w'"
  shows "moves index_kept m"
proof (rule movesI)
  fix w r w'
  assume run: "m w = (r, w')"
  from movesD [OF assms(1) run] have "audit_only (db w) (db w')" by (simp add: on_db_def)
  from audit_only_tables(5,6,10) [OF this] assms(2) [OF run] show "index_kept w w'" by (simp add: index_kept_def)
qed

definition ticks :: "'j world \<Rightarrow> 'j world \<Rightarrow> bool" where
  "ticks w w' \<longleftrightarrow> tick w \<le> tick w'"

interpretation ticking: frame ticks
  by unfold_locales (auto simp: ticks_def)

lemma ticks_prims:
  "moves ticks (sample f)" "moves ticks (read_txn E conv g)" "moves ticks (write_txn E conv k)"
  by (auto simp: moves_def sample_def read_txn_def write_txn_def ticks_def split: option.splits sum.splits)

lemma authorize_ticks: "moves ticks (authorize_sync_request_with_permission E st hs ns p ip)"
  by (auto simp: authorize_sync_request_with_permission_def ensure_namespace_active_def extract_auth_def
      ensure_token_active_def token_expired_def record_token_failure_def db_get_token_by_hash_def
      db_get_token_def db_is_namespace_deleted_def db_record_token_usage_def db_record_token_failure_def
      outside_defs intro!: ticking.frame_rules ticks_prims split: option.split)

lemma authorize_index: "moves index_kept (authorize_sync_request_with_permission E st hs ns p ip)"
  by (rule index_audit [OF authorize_audit_only]) (use movesD [OF authorize_ticks] in \<open>auto simp: ticks_def\<close>)

lemma index_parts:
  "moves index_kept (ensure_disk_capacity E st n)" "moves index_kept (encrypt_if_needed E st bs)"
  "moves index_kept (stored_metadata E ns)" "moves index_kept (refresh_usage E st ns now)"
  "moves index_kept (record_conditional_write_conflict E st ob e)"
  by (auto simp: ensure_disk_capacity_def encrypt_if_needed_def encrypt_def stored_metadata_def refresh_usage_def
      record_conditional_write_conflict_def db_refresh_namespace_usage_if_stale_def db_reads outside_defs Let_def
      intro!: index_rules index_writes index_refresh split: option.split conditional_write_error.split)

lemma serve_index: "moves index_kept (serve E st rns ip hs rq)"
  by (cases rq) (auto simp: fmap_def get_metadata_def put_metadata_def get_blob_def put_blob_def list_objects_def
      list_page_def delete_object_def get_object_def put_object_def db_get_metadata_def db_get_blob_def db_get_object_def
      db_get_object_metadata_def db_list_object_paths_def outside_defs Let_def
      intro!: index_rules index_parts index_writes authorize_index split: option.split sum.split prod.split)

lemma serve_served: "moves (serves E) (serve E st rns ip hs rq)"
proof (rule movesI)
  fix w r w'
  assume run: "serve E st rns ip hs rq w = (r, w')"
  have "steps_of E w w'" "index_kept w w'"
    by (rule movesD [OF serve_moves run], rule movesD [OF serve_index run])
  then show "serves E w w'"
    using steps_wf [of E w w'] by (auto simp: serves_def index_kept_def world_ok_def secrets_fresh_def)
qed

section \<open>The whole server\<close>

datatype request = Sync string sync_request | Panel panel_request

text \<open>A request with its client address and headers, and requests served one after the other.\<close>

fun respond ::
  "'j ext \<Rightarrow> app_state \<Rightarrow> string \<times> headers \<times> request \<Rightarrow> (app_error, 'j world, sync_response + panel_response) act" where
  "respond E st (ip, hs, Sync ns rq) = fmap Inl (serve E st ns ip hs rq)"
| "respond E st (ip, hs, Panel rq) = fmap Inr (serve_panel E st ip hs rq)"

fun run_server :: "'j ext \<Rightarrow> app_state \<Rightarrow> (string \<times> headers \<times> request) list \<Rightarrow> 'j world \<Rightarrow> 'j world" where
  "run_server E st [] w = w"
| "run_server E st (q # qs) w = run_server E st qs (snd (respond E st q w))"

lemma respond_served: "moves (serves E) (respond E st q)"
  by (cases "(E, st, q)" rule: respond.cases)
    (auto simp: fmap_def intro!: served.frame_bindE served.frame_ret serve_served serve_panel_served)

lemma run_server_serves: "serves E w (run_server E st qs w)"
proof (induction qs arbitrary: w)
  case (Cons q qs)
  have "serves E w (snd (respond E st q w))" by (rule moves_snd [OF respond_served])
  then show ?case using Cons served.frame_trans by (metis run_server.simps(2))
qed (simp add: served.frame_refl)

end
