(* ===== verification/Panel_Users.thy ===== *)
theory Panel_Users
  imports Server
begin

text \<open>
  The administrator accounts under the panel: which account a row holds, what each handler
  does to the accounts, that the last enabled administrator stays, and which sessions end.
\<close>

section \<open>The accounts as a map\<close>

abbreviation accounts :: "'j world \<Rightarrow> 'j table" where
  "accounts w \<equiv> admin_user_table (db w)"

definition user_in :: "'j ext \<Rightarrow> 'j table \<Rightarrow> string \<Rightarrow> admin_user_record option" where
  "user_in E t name = opt_get None (res_ok (decode_row (c_user E) (tget t (admin_user_key name))))"

lemma user_at_in: "user_at E name d = user_in E (admin_user_table d) name"
  by (simp add: user_at_def user_in_def)

lemma admin_user_key_eq [simp]: "admin_user_key a = admin_user_key b \<longleftrightarrow> a = b"
  by (simp add: admin_user_key_def)

lemma user_in_put:
  "codec_ok (c_user E) \<Longrightarrow> to_vec (c_user E) u = Inr v \<Longrightarrow>
     user_in E (tput (admin_user_key (usr_username u)) v t) name
       = (if name = usr_username u then Some u else user_in E t name)"
  using codec_ok_decode [of "c_user E" u v] by (auto simp: user_in_def decode_row_def)

lemma user_in_del: "user_in E (tdel (admin_user_key m) t) name = (if name = m then None else user_in E t name)"
  by (simp add: user_in_def)

definition enabled_names :: "'j ext \<Rightarrow> 'j table \<Rightarrow> string set" where
  "enabled_names E t = {name. \<exists>u. user_in E t name = Some u \<and> usr_enabled u}"

text \<open>In a well-formed table the count of the handler is the number of enabled names.\<close>

lemma user_rows:
  assumes "rows_keyed (c_user E) user_key_of t"
  shows "u \<in> set (decode_all (c_user E) t) \<longleftrightarrow> user_in E t (usr_username u) = Some u"
    and "user_in E t name = Some u \<Longrightarrow> usr_username u = name"
proof -
  show "user_in E t name = Some u \<Longrightarrow> usr_username u = name" for name u
    using rows_keyed_decode [OF assms, of "admin_user_key name"] by (auto simp: user_in_def user_key_of_def)
  have "\<exists>k v. tget t k = Some v \<and> from_slice (c_user E) v = Inr u \<Longrightarrow> user_in E t (usr_username u) = Some u"
    using assms by (fastforce simp: rows_keyed_def user_key_of_def user_in_def decode_row_def)
  moreover have "user_in E t (usr_username u) = Some u \<Longrightarrow> \<exists>k v. tget t k = Some v \<and> from_slice (c_user E) v = Inr u"
    by (auto simp: user_in_def decode_row_def res_ok_def split: option.splits sum.splits)
  ultimately show "u \<in> set (decode_all (c_user E) t) \<longleftrightarrow> user_in E t (usr_username u) = Some u"
    unfolding set_decode_all by blast
qed

lemma distinct_users:
  assumes "rows_keyed (c_user E) user_key_of t"
  shows "distinct (map usr_username (decode_all (c_user E) t))"
proof -
  let ?f = "\<lambda>e. res_ok (from_slice (c_user E) (snd e))"
  have key: "admin_user_key (usr_username u) = k" if "(k, v) \<in> set (titems t)" "from_slice (c_user E) v = Inr u" for k v u
    using that assms by (fastforce simp: rows_keyed_def user_key_of_def titems_get)
  have "map (\<lambda>u. admin_user_key (usr_username u)) (List.map_filter ?f es)
      = map fst (filter (\<lambda>e. ?f e \<noteq> None) es)" if "set es \<subseteq> set (titems t)" for es
    using that
  proof (induction es)
    case (Cons e es)
    obtain k v where e: "e = (k, v)" by (cases e)
    with Cons key [of k v] show ?case
      by (cases "from_slice (c_user E) v") (auto simp: map_filter_simps)
  qed (simp add: map_filter_simps)
  moreover have "distinct (map fst (titems t))"
    using titems_sorted strict_sorted_iff by blast
  ultimately have "distinct (map (\<lambda>u. admin_user_key (usr_username u)) (decode_all (c_user E) t))"
    by (simp add: decode_all_def distinct_map_filter)
  then have "distinct (map admin_user_key (map usr_username (decode_all (c_user E) t)))"
    by (simp only: map_map comp_def)
  then show ?thesis
    by (simp only: distinct_map)
qed

lemma enabled_count:
  assumes "rows_keyed (c_user E) user_key_of t"
  shows "length (filter usr_enabled (decode_all (c_user E) t)) = card (enabled_names E t)"
    and "finite (enabled_names E t)"
proof -
  let ?us = "filter usr_enabled (decode_all (c_user E) t)"
  have set: "set (map usr_username ?us) = enabled_names E t"
  proof (rule set_eqI)
    fix name
    have "name \<in> set (map usr_username ?us) \<longleftrightarrow>
        (\<exists>u. user_in E t (usr_username u) = Some u \<and> usr_enabled u \<and> name = usr_username u)"
      by (auto simp: user_rows(1) [OF assms])
    also have "\<dots> \<longleftrightarrow> name \<in> enabled_names E t"
      using user_rows(2) [OF assms] by (auto simp: enabled_names_def)
    finally show "name \<in> set (map usr_username ?us) \<longleftrightarrow> name \<in> enabled_names E t" .
  qed
  moreover have "distinct (map usr_username ?us)"
    using distinct_users [OF assms] by (rule distinct_map_filter)
  ultimately show "length ?us = card (enabled_names E t)"
    using distinct_card [of "map usr_username ?us"] by simp
  show "finite (enabled_names E t)"
    unfolding set [symmetric] by (rule finite_set)
qed

section \<open>What leaves the accounts alone\<close>

lemma keep_accounts:
  "moves (keeps accounts) (db_set_metadata E ns m)" "moves (keeps accounts) (db_set_token E tok)"
  "moves (keeps accounts) (db_delete_token E i)" "moves (keeps accounts) (db_set_device E dev)"
  "moves (keeps accounts) (db_delete_device E i)" "moves (keeps accounts) (db_set_login_attempt E ip la)"
  "moves (keeps accounts) (db_delete_login_attempt E ip)" "moves (keeps accounts) (db_cleanup_login_attempts E now win)"
  "moves (keeps accounts) (db_soft_delete_namespace E ns at)" "moves (keeps accounts) (db_restore_namespace E ns)"
  "moves (keeps accounts) (db_hard_delete_namespace E ns)" "moves (keeps accounts) (db_check_writable E)"
  by (auto simp: db_set_metadata_def db_set_token_def set_token_tx_def db_delete_token_def delete_token_tx_def
      db_set_device_def set_device_tx_def db_delete_device_def db_set_login_attempt_def set_login_attempt_tx_def
      db_delete_login_attempt_def db_cleanup_login_attempts_def cleanup_login_attempts_tx_def
      db_soft_delete_namespace_def soft_delete_namespace_tx_def db_restore_namespace_def restore_namespace_tx_def
      db_hard_delete_namespace_def hard_delete_namespace_tx_def db_check_writable_def Let_def
      intro!: keep_write_txn split: sum.splits)

lemma keep_accounts_refresh: "moves (keeps accounts) (db_refresh_namespace_usage E ns now s)"
  by (auto simp: db_refresh_namespace_usage_def db_reads set_namespace_usage_tx_def
      intro!: keep_rules keep_write_txn split: prod.split sum.splits)

lemma keep_session: "moves (keeps accounts) (validate_admin_session E st hs)"
  by (auto simp: validate_admin_session_def validate_admin_jwt_def db_reads Let_def intro!: keep_rules)

lemma keep_checks:
  "moves (keeps accounts) (verify_admin E st hs)" "moves (keeps accounts) (verify_admin_mutation E st hs)"
  "moves (keeps accounts) (ensure_disk_capacity E st n)" "moves (keeps accounts) (hash_new_password E p)"
  "moves (keeps accounts) (password_too_short p)" "moves (keeps accounts) (enabled_admin_user_count E)"
  "moves (keeps accounts) (create_admin_jwt_for_user E s u v)"
  "moves (keeps accounts) (ensure_login_allowed E st ip)" "moves (keeps accounts) (record_login_failure E st ip)"
  "moves (keeps accounts) (clear_login_failures E ip)"
  by (auto simp: verify_admin_mutation_def verify_admin_def ensure_disk_capacity_def hash_new_password_def
      hash_admin_password_def password_too_short_def enabled_admin_user_count_def create_admin_jwt_for_user_def
      ensure_login_allowed_def record_login_failure_def clear_login_failures_def db_get_login_attempt_def
      db_reads Let_def intro!: keep_rules keep_session keep_accounts split: option.split)

lemma keep_token_parts:
  "moves (keeps accounts) (require_token E i)" "moves (keeps accounts) (seal_token E st raw)"
  "moves (keeps accounts) (effective_token_expiry E st x)" "moves (keeps accounts) (require_device E a)"
  "moves (keeps accounts) (link_device E a t)" "moves (keeps accounts) (unlink_device E a t)"
  "moves (keeps accounts) (update_token_enabled E b tok)" "moves (keeps accounts) (update_token_expiry E e tok)"
  "moves (keeps accounts) (panel_token_expired E tok)" "moves (keeps accounts) (serialize_token_summary E tok)"
  "moves (keeps accounts) (unlink_token E a d)" "moves (keeps accounts) (link_token E a d)"
  "moves (keeps accounts) (check_pattern E p)" "moves (keeps accounts) (check_token E a)"
  "moves (keeps accounts) (namespace_exists E ns)" "moves (keeps accounts) (namespace_entry E ns del)"
  "moves (keeps accounts) (namespace_total E ns)"
  by (auto simp: require_token_def seal_token_def encrypt_def effective_token_expiry_def require_device_def
      link_device_def unlink_device_def update_token_enabled_def update_token_expiry_def panel_token_expired_def
      serialize_token_summary_def unlink_token_def link_token_def check_pattern_def check_token_def
      namespace_exists_def db_list_object_paths_def namespace_entry_def stored_metadata_def namespace_total_def
      db_reads Let_def intro!: keep_rules keep_accounts split: option.split prod.split)

lemma keep_update_parts:
  "moves (keeps accounts) (update_token_device E dv tok)" "moves (keeps accounts) (update_device_fields E ub dev)"
  "moves (keeps accounts) (set_token_device_link E a b i)"
  by (auto simp: update_token_device_def update_device_fields_def set_token_device_link_def Let_def
      intro!: keep_rules keep_token_parts split: option.split)

text \<open>The requests that may change an account; all others leave the accounts alone.\<close>

fun on_accounts :: "panel_request \<Rightarrow> bool" where
  "on_accounts (Login _) = True"
| "on_accounts (Change_Password _) = True"
| "on_accounts (Create_User _) = True"
| "on_accounts (Update_User _ _) = True"
| "on_accounts (Delete_User _) = True"
| "on_accounts _ = False"

lemma keep_handlers:
  "moves (keeps accounts) (admin_logout E st hs)" "moves (keeps accounts) (admin_current_user E st hs)"
  "moves (keeps accounts) (admin_list_users E st hs)" "moves (keeps accounts) (admin_list_namespaces E st hs)"
  "moves (keeps accounts) (admin_create_namespace E st hs ns)" "moves (keeps accounts) (admin_delete_namespace E st ns h hs)"
  "moves (keeps accounts) (admin_restore_namespace E st ns hs)" "moves (keeps accounts) (admin_list_tokens E st hs)"
  by (auto simp: admin_logout_def admin_current_user_def admin_list_users_def admin_list_namespaces_def
      admin_create_namespace_def admin_delete_namespace_def admin_restore_namespace_def admin_list_tokens_def
      db_is_namespace_deleted_def db_reads Let_def
      intro!: keep_rules keep_checks keep_session keep_token_parts keep_accounts keep_accounts_refresh split: prod.split)

lemma keep_more_handlers:
  "moves (keeps accounts) (admin_create_token E st hs ct)" "moves (keeps accounts) (admin_update_token E st i hs ut)"
  "moves (keeps accounts) (admin_rotate_token E st i hs)" "moves (keeps accounts) (admin_reveal_token E st i hs)"
  "moves (keeps accounts) (admin_delete_token E st i hs)" "moves (keeps accounts) (admin_list_devices E st hs)"
  "moves (keeps accounts) (admin_create_device E st hs cd)" "moves (keeps accounts) (admin_update_device E st i hs ud)"
  "moves (keeps accounts) (admin_delete_device E st i hs)" "moves (keeps accounts) (admin_list_conflicts E st hs)"
  "moves (keeps accounts) (admin_stats E st hs n v)"
  by (auto simp: admin_create_token_def admin_update_token_def admin_rotate_token_def admin_reveal_token_def
      admin_delete_token_def admin_list_devices_def admin_create_device_def admin_update_device_def
      admin_delete_device_def admin_list_conflicts_def admin_stats_def db_reads Let_def
      intro!: keep_rules keep_checks keep_token_parts keep_update_parts keep_accounts)

lemma serve_panel_keep: "\<not> on_accounts rq \<Longrightarrow> moves (keeps accounts) (serve_panel E st ip hs rq)"
  by (cases rq) (auto simp: fmap_def intro!: keeping.frame_bindE keeping.frame_ret keep_handlers keep_more_handlers)

lemma serve_keep: "moves (keeps accounts) (serve E st rns ip hs rq)"
  by (rule moves_mono [OF serve_index]) (simp add: index_kept_def keeps_def)

section \<open>What the account handlers do\<close>

definition stored :: "'j ext \<Rightarrow> 'j table \<Rightarrow> admin_user_record \<Rightarrow> 'j table \<Rightarrow> bool" where
  "stored E t u t' \<longleftrightarrow> (\<exists>v. to_vec (c_user E) u = Inr v \<and> t' = tput (admin_user_key (usr_username u)) v t)"

lemma stored_user_in:
  "codec_ok (c_user E) \<Longrightarrow> stored E t u t' \<Longrightarrow>
     user_in E t' name = (if name = usr_username u then Some u else user_in E t name)"
  by (auto simp: stored_def user_in_put)

lemma runs_get_user:
  assumes "\<And>e. R (Inl e) t" "runs_from accounts t (f (user_in E t name)) R"
  shows "runs_from accounts t (bindE (map_err c (db_get_admin_user E name)) f) R"
proof (rule runs_skip)
  fix w x w'
  assume "accounts w = t" "map_err c (db_get_admin_user E name) w = (Inr x, w')"
  then have "x = user_in E t name"
    by (auto simp: map_err_Inr_iff db_get_admin_user_def txn_ok_iff user_in_def)
  then show "runs_from accounts t (f x) R" using assms(2) by simp
qed (use assms(1) in \<open>auto simp: db_get_admin_user_def intro!: keep_rules\<close>)

lemma runs_ok_or:
  "R (Inl e) t \<Longrightarrow> (\<And>x. y = Some x \<Longrightarrow> runs_from p t (f x) R) \<Longrightarrow> runs_from p t (bindE (ok_or e y) f) R"
  by (cases y) (auto intro: runs_throw)

lemma runs_set_user_end:
  "(\<And>e. R (Inl e) t) \<Longrightarrow> (\<And>t'. stored E t u t' \<Longrightarrow> R (Inr ()) t') \<Longrightarrow>
     runs_from accounts t (map_err c (db_set_admin_user E u)) R"
  unfolding db_set_admin_user_def
  by (rule runs_write_txn)
    (auto simp: set_admin_user_tx_def stored_def encode_row_ok_iff split: sum.splits)

lemma runs_set_user:
  "(\<And>e. R (Inl e) t) \<Longrightarrow> (\<And>t'. stored E t u t' \<Longrightarrow> runs_from accounts t' (f ()) R) \<Longrightarrow>
     runs_from accounts t (bindE (map_err c (db_set_admin_user E u)) f) R"
  by (rule runs_bind, rule runs_set_user_end) auto

lemma count_result:
  "enabled_admin_user_count E w = (Inr n, w') \<Longrightarrow> n = length (filter usr_enabled (decode_all (c_user E) (accounts w)))"
  by (auto simp: enabled_admin_user_count_def db_list_admin_users_def act_ok_iff txn_ok_iff)

lemma update_password_result:
  "update_password E p u w = (Inr u', w') \<Longrightarrow> usr_username u' = usr_username u \<and> usr_enabled u' = usr_enabled u
     \<and> usr_session_version u' = usr_session_version u"
  by (auto simp: update_password_def act_ok_iff split: option.splits)

lemma update_enabled_result:
  assumes "update_enabled E b u w = (Inr u', w')"
  shows "usr_username u' = usr_username u" "usr_session_version u' = usr_session_version u"
    "usr_enabled u' = opt_get (usr_enabled u) b"
    "usr_enabled u \<Longrightarrow> \<not> usr_enabled u' \<Longrightarrow> 1 < length (filter usr_enabled (decode_all (c_user E) (accounts w)))"
  using assms
  by (auto simp: update_enabled_def act_ok_iff not_le dest!: count_result split: option.splits if_splits)

lemma keep_updates: "moves (keeps accounts) (update_password E p u)" "moves (keeps accounts) (update_enabled E b u)"
  by (auto simp: update_password_def update_enabled_def intro!: keep_rules keep_checks split: option.split)

text \<open>
  An update changes at most the one account. It disables an enabled account only when there
  are more, and the session version grows with every new password and every switch.
\<close>

definition user_updated :: "'j ext \<Rightarrow> string \<Rightarrow> update_user_request \<Rightarrow> 'j table \<Rightarrow> 'j table \<Rightarrow> bool" where
  "user_updated E name body t t' \<longleftrightarrow> (\<exists>u v. user_in E t name = Some u \<and> stored E t v t'
     \<and> usr_username v = usr_username u \<and> usr_enabled v = opt_get (usr_enabled u) (uu_enabled body)
     \<and> (usr_enabled u \<and> \<not> usr_enabled v \<longrightarrow> 1 < length (filter usr_enabled (decode_all (c_user E) t)))
     \<and> usr_session_version v = (if uu_password body \<noteq> None \<or> usr_enabled v \<noteq> usr_enabled u
          then sat_add (usr_session_version u) 1 else usr_session_version u))"

lemma updated_account:
  assumes u: "user_in E t name = Some u"
    and p: "update_password E (uu_password body) u w1 = (Inr u1, w1')"
    and e: "accounts w2 = t" "update_enabled E (uu_enabled body) u1 w2 = (Inr u2, w2')"
    and s: "stored E t ((if uu_password body \<noteq> None \<or> opt_get False (map_option (\<lambda>e. e \<noteq> usr_enabled u) (uu_enabled body))
        then u2\<lparr>usr_session_version := sat_add (usr_session_version u2) 1\<rparr> else u2)\<lparr>usr_updated_at := now\<rparr>) t'"
      (is "stored E t ?v t'")
  shows "user_updated E name body t t'"
proof -
  note p = update_password_result [OF p] and e' = update_enabled_result [OF e(2)]
  have "opt_get False (map_option (\<lambda>e. e \<noteq> usr_enabled u) (uu_enabled body)) \<longleftrightarrow> usr_enabled u2 \<noteq> usr_enabled u"
    using p e'(3) by (cases "uu_enabled body") auto
  then have "usr_username ?v = usr_username u" "usr_enabled ?v = opt_get (usr_enabled u) (uu_enabled body)"
      "usr_session_version ?v = (if uu_password body \<noteq> None \<or> usr_enabled ?v \<noteq> usr_enabled u
          then sat_add (usr_session_version u) 1 else usr_session_version u)"
    using p e'(1-3) by simp_all
  moreover have "1 < length (filter usr_enabled (decode_all (c_user E) t))" if "usr_enabled u" "\<not> usr_enabled ?v"
    using that p e'(4) e(1) by (simp split: if_splits)
  ultimately show ?thesis
    using u s unfolding user_updated_def by blast
qed

lemma update_user_effect:
  "runs_from accounts t (admin_update_user E st name hs body)
     (\<lambda>r t'. case r of Inl _ \<Rightarrow> t' = t | Inr _ \<Rightarrow> user_updated E name body t t')"
  unfolding admin_update_user_def Let_def
  apply (rule runs_skip [OF keep_checks(2)], simp)
  apply (rule runs_skip [OF keep_checks(3)], simp)
  apply (rule runs_skip [OF keep_session], simp)
  apply (rule runs_skip [OF keeping.frame_lift_res], simp)
  apply (rule runs_get_user, simp)
  apply (rule runs_ok_or, simp)
  apply (rule runs_skip [OF keep_updates(1)], simp)
  apply (rule runs_skip [OF keep_updates(2)], simp)
  apply (rule runs_skip [OF keep_outside(2)], simp)
  apply (rule runs_set_user, simp)
  apply (rule runs_ret, simp only: sum.case)
  apply (rule updated_account; assumption)
  done

text \<open>Creating, deleting, and the changes that keep an account as enabled as it was.\<close>

definition user_created :: "'j ext \<Rightarrow> create_user_request \<Rightarrow> 'j table \<Rightarrow> 'j table \<Rightarrow> bool" where
  "user_created E body t t' \<longleftrightarrow> (\<exists>v. user_in E t (usr_username v) = None \<and> stored E t v t'
     \<and> usr_username v = trim (cu_username body) \<and> usr_enabled v = opt_get True (cu_enabled body)
     \<and> usr_session_version v = 0)"

definition user_deleted :: "'j ext \<Rightarrow> string \<Rightarrow> 'j table \<Rightarrow> 'j table \<Rightarrow> bool" where
  "user_deleted E name t t' \<longleftrightarrow> (\<exists>u. user_in E t name = Some u \<and> t' = tdel (admin_user_key name) t
     \<and> (usr_enabled u \<longrightarrow> 1 < length (filter usr_enabled (decode_all (c_user E) t))))"

definition user_touched :: "'j ext \<Rightarrow> string \<Rightarrow> u64 \<Rightarrow> 'j table \<Rightarrow> 'j table \<Rightarrow> bool" where
  "user_touched E name k t t' \<longleftrightarrow> (\<exists>u v. user_in E t name = Some u \<and> stored E t v t'
     \<and> usr_username v = usr_username u \<and> usr_enabled v = usr_enabled u
     \<and> usr_session_version v = sat_add (usr_session_version u) k)"

lemma sat_add_0 [simp]: "sat_add a 0 = a"
  by (simp add: sat_add_def)

lemma user_created_intro:
  "stored E t v t' \<Longrightarrow> user_in E t (usr_username v) = None \<Longrightarrow> usr_username v = trim (cu_username body) \<Longrightarrow>
     usr_enabled v = opt_get True (cu_enabled body) \<Longrightarrow> usr_session_version v = 0 \<Longrightarrow> user_created E body t t'"
  unfolding user_created_def by blast

lemma create_user_effect:
  "runs_from accounts t (admin_create_user E st hs body)
     (\<lambda>r t'. case r of Inl _ \<Rightarrow> t' = t | Inr _ \<Rightarrow> user_created E body t t')"
  unfolding admin_create_user_def Let_def
  apply (rule runs_skip [OF keep_checks(2)], simp)
  apply (rule runs_skip [OF keep_checks(3)], simp)
  apply (rule runs_skip [OF keep_session], simp)
  apply (rule runs_skip [OF keeping.frame_lift_res], simp)
  apply (rule runs_skip [OF keep_checks(5)], simp)
  apply (rule runs_get_user, simp)
  apply (rule runs_skip [OF keeping.frame_whenE [OF keeping.frame_throw]], simp)
  apply (rule runs_skip [OF keep_outside(2)], simp)
  apply (rule runs_skip [OF keep_checks(4)], simp)
  apply (rule runs_skip [OF keep_outside(2)], simp)
  apply (rule runs_set_user, simp)
  apply (rule runs_ret, simp only: sum.case)
  apply (rule user_created_intro, assumption)
     apply (simp_all add: whenE_Inr_iff split: if_splits)
  done

lemma delete_guard:
  assumes "whenE (usr_enabled u) (bindE (enabled_admin_user_count E) (\<lambda>n. whenE (n \<le> 1) (throw e))) w = (Inr x, w')"
    and "usr_enabled u"
  shows "1 < length (filter usr_enabled (decode_all (c_user E) (accounts w)))"
  using assms by (auto simp: act_ok_iff not_le dest!: count_result split: if_splits)

lemma delete_user_effect:
  "runs_from accounts t (admin_delete_user E st name hs)
     (\<lambda>r t'. case r of Inl _ \<Rightarrow> t' = t | Inr _ \<Rightarrow> user_deleted E name t t')"
  unfolding admin_delete_user_def
  apply (rule runs_skip [OF keep_checks(2)], simp)
  apply (rule runs_skip [OF keep_session], simp)
  apply (rule runs_skip [OF keeping.frame_lift_res], simp)
  apply (rule runs_get_user, simp)
  apply (rule runs_ok_or, simp)
  apply (rule runs_skip)
    apply (intro keeping.frame_whenE keeping.frame_bindE keep_checks(6) keeping.frame_throw)
   apply simp
  apply (rule runs_bind, unfold db_delete_admin_user_def, rule runs_write_txn, simp)
  subgoal for _ _ _ _ _ _ _ _ _ u w x w' d y d'
    using delete_guard [of u E _ w x w'] by (auto simp: user_deleted_def intro!: runs_ret)
  done

lemma user_touched_intro:
  "user_in E t name = Some u \<Longrightarrow> stored E t v t' \<Longrightarrow> usr_username v = usr_username u \<Longrightarrow>
     usr_enabled v = usr_enabled u \<Longrightarrow> usr_session_version v = sat_add (usr_session_version u) k \<Longrightarrow>
     user_touched E name k t t'"
  unfolding user_touched_def by blast

lemma runs_if:
  "(b \<Longrightarrow> runs_from p s m R) \<Longrightarrow> (\<not> b \<Longrightarrow> runs_from p s n R) \<Longrightarrow> runs_from p s (if b then m else n) R"
  by simp

lemma user_failure_effect:
  "user_in E t name = Some u \<Longrightarrow> runs_from accounts t (record_user_login_failure E u)
     (\<lambda>r t'. t' = t \<or> user_touched E name 0 t t')"
  unfolding record_user_login_failure_def
  apply (rule runs_skip [OF keep_outside(2)], simp)
  apply (rule runs_skip [OF keep_outside(2)], simp)
  by (rule runs_set_user_end, simp, rule disjI2, rule user_touched_intro, assumption, assumption) simp_all

lemma login_effect:
  "runs_from accounts t (admin_login E st hs ip body)
     (\<lambda>r t'. t' = t \<or> user_touched E (login_name body) 0 t t')"
  unfolding admin_login_def Let_def
  apply (rule runs_skip [OF keep_checks(8)], simp)
  apply (rule runs_skip [OF keeping.frame_whenE [OF keeping.frame_throw]], simp)
  apply (rule runs_get_user, simp)
  apply (cases "user_in E t (login_name body)", simp_all only: option.case)
   apply (rule runs_keep, intro keeping.frame_bindE keep_checks(9) keeping.frame_throw, simp)
  apply (rule runs_if)
   apply (rule runs_bind, rule runs_mono [OF user_failure_effect], assumption)
   apply (auto split: sum.splits intro!: runs_keep keeping.frame_bindE keep_checks(9) keeping.frame_throw) [1]
  apply (rule runs_skip [OF keep_checks(10)], simp)
  apply (rule runs_skip [OF keep_outside(2)], simp)
  apply (rule runs_skip [OF keep_outside(2)], simp)
  apply (rule runs_set_user, simp)
  apply (rule runs_keep, intro keeping.frame_bindE keeping.frame_map_err keep_checks(7) keep_outside(3)
      keeping.frame_lift_res keeping.frame_ret)
  apply (rule disjI2, rule user_touched_intro, assumption, assumption)
    apply simp_all
  done

text \<open>The account of a session depends on nothing but the accounts.\<close>

definition own_session :: "'j ext \<Rightarrow> app_state \<Rightarrow> headers \<Rightarrow> 'j table \<Rightarrow> string \<Rightarrow> bool" where
  "own_session E st hs t name \<longleftrightarrow> (\<exists>now u. usr_username u = name
     \<and> (\<forall>d. admin_user_table d = t \<longrightarrow> session_user E st hs now d = Some u))"

lemma session_user_accounts:
  "admin_user_table d = admin_user_table d' \<Longrightarrow> session_user E st hs now d = session_user E st hs now d'"
  by (simp only: session_user_def user_at_in)

lemma validated_own:
  assumes "validate_admin_session E st hs w = (Inr name, w')" "accounts w = t"
  shows "own_session E st hs t name"
  using validate_admin_session_ok(1) [OF assms(1)] assms(2) session_user_accounts [of _ "db w" E st hs]
  unfolding own_session_def by metis

text \<open>A change of one's own password touches the account of the session it came with.\<close>

lemma change_password_effect:
  "runs_from accounts t (admin_change_own_password E st hs body)
     (\<lambda>r t'. case r of Inl _ \<Rightarrow> t' = t \<or> (\<exists>name k. user_touched E name k t t')
       | Inr _ \<Rightarrow> \<exists>name. own_session E st hs t name \<and> user_touched E name 1 t t')"
  unfolding admin_change_own_password_def Let_def
  apply (rule runs_skip [OF keep_checks(2)], simp)
  apply (rule runs_skip [OF keep_checks(3)], simp)
  apply (rule runs_skip [OF keep_session], simp)
  apply (rule runs_skip [OF keeping.frame_whenE [OF keeping.frame_throw]], simp)
  apply (rule runs_get_user, simp)
  apply (rule runs_ok_or, simp)
  apply (rule runs_if)
   apply (rule runs_bind, rule runs_mono [OF user_failure_effect], assumption)
   apply (auto split: sum.splits intro!: runs_throw) [1]
  apply (rule runs_skip [OF keep_outside(2)], simp)
  apply (rule runs_skip [OF keep_checks(4)], simp)
  apply (rule runs_set_user, simp)
  subgoal premises prems for w1 x1 w1' w2 x2 w2' w3 name w3' w4 x4 w4' u w5 now w5' w6 hash w6' t'
  proof -
    have "user_touched E name 1 t t'"
      by (rule user_touched_intro [where u = u]) (use prems in \<open>assumption | simp\<close>)+
    moreover have "own_session E st hs t name"
      by (rule validated_own) (rule prems)+
    ultimately show ?thesis
      by (intro runs_keep keeping.frame_bindE keeping.frame_map_err keep_checks(7)
          keeping.frame_lift_res keeping.frame_ret) (auto split: sum.split)
  qed
  done

lemma change_password_touched:
  "runs_from accounts t (admin_change_own_password E st hs body)
     (\<lambda>r t'. case r of Inl _ \<Rightarrow> t' = t \<or> (\<exists>name k. user_touched E name k t t')
       | Inr _ \<Rightarrow> \<exists>name. user_touched E name 1 t t')"
  by (rule runs_mono [OF change_password_effect]) (auto split: sum.splits)

section \<open>The last administrator\<close>

lemma enabled_stored:
  "codec_ok (c_user E) \<Longrightarrow> stored E t v t' \<Longrightarrow> name \<in> enabled_names E t' \<longleftrightarrow>
     (if name = usr_username v then usr_enabled v else name \<in> enabled_names E t)"
  by (simp add: enabled_names_def stored_user_in)

lemma another_enabled:
  assumes "rows_keyed (c_user E) user_key_of t" "1 < length (filter usr_enabled (decode_all (c_user E) t))"
  shows "enabled_names E t - {name} \<noteq> {}"
proof -
  have "1 < card (enabled_names E t)" using assms enabled_count(1) [OF assms(1)] by simp
  then have "\<not> enabled_names E t \<subseteq> {name}"
    using card_mono [of "{name}" "enabled_names E t"] by auto
  then show ?thesis by blast
qed

lemma enabled_kept:
  assumes c: "codec_ok (c_user E)" and n: "enabled_names E t \<noteq> {}" and s: "stored E t v t'"
    and e: "usr_enabled v \<or> usr_username v \<notin> enabled_names E t"
  shows "enabled_names E t' \<noteq> {}"
proof (cases "usr_enabled v")
  case True
  then have "usr_username v \<in> enabled_names E t'" using enabled_stored [OF c s] by simp
  then show ?thesis by blast
next
  case False
  with e obtain m where "m \<in> enabled_names E t" "m \<noteq> usr_username v" using n by blast
  then have "m \<in> enabled_names E t'" using enabled_stored [OF c s] by simp
  then show ?thesis by blast
qed

lemma enabled_dropped:
  assumes k: "rows_keyed (c_user E) user_key_of t" and "\<And>m. m \<noteq> name \<Longrightarrow> user_in E t' m = user_in E t m"
    and "1 < length (filter usr_enabled (decode_all (c_user E) t))"
  shows "enabled_names E t' \<noteq> {}"
  using another_enabled [OF k assms(3), of name] assms(2) by (fastforce simp: enabled_names_def)

lemma admins_updated:
  assumes c: "codec_ok (c_user E)" and k: "rows_keyed (c_user E) user_key_of t" and n: "enabled_names E t \<noteq> {}"
    and up: "user_updated E name body t t'"
  shows "enabled_names E t' \<noteq> {}"
proof -
  from up obtain u v where u: "user_in E t name = Some u" "stored E t v t'" "usr_username v = usr_username u"
      "usr_enabled u \<Longrightarrow> \<not> usr_enabled v \<Longrightarrow> 1 < length (filter usr_enabled (decode_all (c_user E) t))"
    unfolding user_updated_def by blast
  have name: "usr_username u = name" by (rule user_rows(2) [OF k u(1)])
  show ?thesis
  proof (cases "usr_enabled u \<and> \<not> usr_enabled v")
    case True
    then show ?thesis
      using enabled_dropped [OF k, of "usr_username v" t'] u(4) stored_user_in [OF c u(2)] by simp
  next
    case False
    then show ?thesis using enabled_kept [OF c n u(2)] u(1,3) name by (auto simp: enabled_names_def)
  qed
qed

lemma admins_created:
  assumes "codec_ok (c_user E)" and "rows_keyed (c_user E) user_key_of t" and "enabled_names E t \<noteq> {}"
    and "user_created E cb t t'"
  shows "enabled_names E t' \<noteq> {}"
  using assms(4) enabled_kept [OF assms(1,3)] by (auto simp: user_created_def enabled_names_def)

lemma admins_deleted:
  assumes "codec_ok (c_user E)" and k: "rows_keyed (c_user E) user_key_of t" and n: "enabled_names E t \<noteq> {}"
    and del: "user_deleted E name t t'"
  shows "enabled_names E t' \<noteq> {}"
proof -
  from del obtain u where u: "user_in E t name = Some u" "t' = tdel (admin_user_key name) t"
      "usr_enabled u \<Longrightarrow> 1 < length (filter usr_enabled (decode_all (c_user E) t))"
    unfolding user_deleted_def by blast
  show ?thesis
  proof (cases "usr_enabled u")
    case True
    then show ?thesis using enabled_dropped [OF k, of name t'] u(2,3) by (simp add: user_in_del)
  next
    case False
    obtain m where m: "m \<in> enabled_names E t" using n by blast
    with u(1) False have "m \<noteq> name" by (auto simp: enabled_names_def)
    with m u(2) show ?thesis by (auto simp: enabled_names_def user_in_del)
  qed
qed

lemma admins_touched:
  assumes c: "codec_ok (c_user E)" and k: "rows_keyed (c_user E) user_key_of t" and n: "enabled_names E t \<noteq> {}"
    and up: "user_touched E name v t t'"
  shows "enabled_names E t' \<noteq> {}"
proof -
  from up obtain u u' where u: "user_in E t name = Some u" "stored E t u' t'" "usr_username u' = usr_username u"
      "usr_enabled u' = usr_enabled u"
    unfolding user_touched_def by blast
  with enabled_kept [OF c n u(2)] user_rows(2) [OF k u(1)] show ?thesis by (auto simp: enabled_names_def)
qed

lemmas admins_stay = admins_updated admins_created admins_deleted admins_touched

lemma fmap_run: "fmap f m w = (r, w') \<Longrightarrow> \<exists>r0. m w = (r0, w') \<and> r = map_sum id f r0"
  by (auto simp: fmap_def bindE_def split: prod.splits sum.splits)

text \<open>The effect of a request on the accounts.\<close>

fun account_effect :: "'j ext \<Rightarrow> panel_request \<Rightarrow> bool \<Rightarrow> 'j table \<Rightarrow> 'j table \<Rightarrow> bool" where
  "account_effect E (Login b) ok t t' \<longleftrightarrow> t' = t \<or> user_touched E (login_name b) 0 t t'"
| "account_effect E (Change_Password b) ok t t' \<longleftrightarrow>
     (if ok then \<exists>name. user_touched E name 1 t t' else t' = t \<or> (\<exists>name k. user_touched E name k t t'))"
| "account_effect E (Create_User b) ok t t' \<longleftrightarrow> (if ok then user_created E b t t' else t' = t)"
| "account_effect E (Update_User name b) ok t t' \<longleftrightarrow> (if ok then user_updated E name b t t' else t' = t)"
| "account_effect E (Delete_User name) ok t t' \<longleftrightarrow> (if ok then user_deleted E name t t' else t' = t)"
| "account_effect E _ ok t t' \<longleftrightarrow> t' = t"

lemma account_effect_other: "\<not> on_accounts rq \<Longrightarrow> account_effect E rq ok t t' \<longleftrightarrow> t' = t"
  by (cases rq) simp_all

lemma serve_panel_account:
  assumes "serve_panel E st ip hs rq w = (r, w')"
  shows "account_effect E rq (res_ok r \<noteq> None) (accounts w) (accounts w')"
proof (cases "on_accounts rq")
  case False
  then show ?thesis
    using movesD [OF serve_panel_keep assms] by (simp add: account_effect_other keeps_def)
next
  case True
  with assms show ?thesis
    by (cases rq) (auto simp: res_ok_def dest!: fmap_run split: sum.splits
      dest: runs_fromD [OF login_effect] runs_fromD [OF change_password_touched]
        runs_fromD [OF create_user_effect] runs_fromD [OF update_user_effect] runs_fromD [OF delete_user_effect])
qed

lemma serve_change_password:
  assumes "serve_panel E st ip hs (Change_Password body) w = (Inr r, w')"
  shows "\<exists>name. own_session E st hs (accounts w) name \<and> user_touched E name 1 (accounts w) (accounts w')"
proof -
  obtain r0 where r0: "admin_change_own_password E st hs body w = (r0, w')" "Inr r = map_sum id (\<lambda>(h, b). Pr_Cookies h b) r0"
    using assms by (auto dest!: fmap_run)
  from runs_fromD [OF change_password_effect r0(1)] r0(2) show ?thesis by (cases r0) simp_all
qed

lemma account_effect_admins:
  assumes "codec_ok (c_user E)" "rows_keyed (c_user E) user_key_of t" "enabled_names E t \<noteq> {}"
    and "account_effect E rq ok t t'"
  shows "enabled_names E t' \<noteq> {}"
  using assms(4) admins_stay [OF assms(1-3)] assms(3) by (cases rq) (auto split: if_splits)

lemma respond_admins:
  assumes "ext_ok E" "world_ok E w" "enabled_names E (accounts w) \<noteq> {}" "respond E st q w = (r, w')"
  shows "enabled_names E (accounts w') \<noteq> {}"
proof -
  obtain ip hs q' where q: "q = (ip, hs, q')" by (cases q)
  show ?thesis
  proof (cases q')
    case (Sync ns rq)
    with assms(4) q obtain r0 where "serve E st ns ip hs rq w = (r0, w')" by (auto dest: fmap_run)
    from movesD [OF serve_keep this] assms(3) show ?thesis by (simp add: keeps_def)
  next
    case (Panel rq)
    with assms(4) q obtain r0 where "serve_panel E st ip hs rq w = (r0, w')" by (auto dest: fmap_run)
    from serve_panel_account [OF this] show ?thesis
      by (rule account_effect_admins [rotated 3])
        (use assms in \<open>auto simp: ext_ok_def world_ok_def db_wf_def codecs_okD dest: rows_wfD\<close>)
  qed
qed

lemma run_server_admins:
  "ext_ok E \<Longrightarrow> world_ok E w \<Longrightarrow> enabled_names E (accounts w) \<noteq> {} \<Longrightarrow>
     enabled_names E (accounts (run_server E st qs w)) \<noteq> {}"
proof (induction qs arbitrary: w)
  case (Cons q qs)
  obtain r w1 where run: "respond E st q w = (r, w1)" by (cases "respond E st q w")
  have "world_ok E w1"
    using movesD [OF respond_served run] Cons.prems by (simp add: serves_def)
  with Cons run respond_admins [OF Cons.prems(1-3) run] show ?case by simp
qed simp

end
