(* ===== verification/Panel_Login.thy ===== *)
theory Panel_Login
  imports Panel_Users
begin

text \<open>
  Logging in: what ends a session, when a login succeeds and what it gives, and how the
  throttle counts failures and blocks an address.
\<close>

section \<open>Sessions that end\<close>

lemma session_user_iff:
  "session_user E st hs now d = Some u \<longleftrightarrow> admin_enabled st \<and>
     (\<exists>token claims. extract_admin_token hs = Some token
       \<and> jwt_decode E now (trim token) (jwt_secret st) = Inr claims
       \<and> user_at E (cl_sub claims) d = Some u \<and> usr_enabled u \<and> cl_ver claims = usr_session_version u)"
proof (cases "extract_admin_token hs")
  case None
  then show ?thesis by (simp add: session_user_def)
next
  case (Some token)
  then show ?thesis
    by (cases "jwt_decode E now (trim token) (jwt_secret st)")
      (auto simp: session_user_def opt_filter_Some_iff)
qed

lemma session_ended:
  assumes "session_user E st hs now d = Some u" "rows_wf E d"
    and "\<And>v. user_at E (usr_username u) d' = Some v \<Longrightarrow> usr_session_version v \<noteq> usr_session_version u \<or> \<not> usr_enabled v"
  shows "session_user E st hs now d' = None"
proof (rule ccontr)
  assume "session_user E st hs now d' \<noteq> None"
  then obtain v where "session_user E st hs now d' = Some v" by blast
  then obtain token claims where v: "extract_admin_token hs = Some token"
      "jwt_decode E now (trim token) (jwt_secret st) = Inr claims"
      "user_at E (cl_sub claims) d' = Some v" "usr_enabled v" "cl_ver claims = usr_session_version v"
    unfolding session_user_iff by blast
  from assms(1) v(1,2) have u: "user_at E (cl_sub claims) d = Some u" "cl_ver claims = usr_session_version u"
    by (auto simp: session_user_iff)
  then have "usr_username u = cl_sub claims" using user_at_wf(2) [OF assms(2)] by blast
  with assms(3) v u show False by metis
qed

lemma sat_add_one_neq: "v \<noteq> - 1 \<Longrightarrow> sat_add v 1 \<noteq> (v :: u64)"
  using sat_add_one_greater [of v] by auto

text \<open>
  A request that ends the sessions of an account: its update with a new password or with
  the account disabled, its deletion, and the change of their own password by an
  administrator whose session, whenever it is valid, is one of the account.
\<close>

fun ends_sessions :: "'j ext \<Rightarrow> app_state \<Rightarrow> headers \<Rightarrow> 'j db \<Rightarrow> panel_request \<Rightarrow> admin_user_record \<Rightarrow> bool" where
  "ends_sessions E st hs d (Update_User name b) u \<longleftrightarrow> name = usr_username u \<and>
     (uu_password b \<noteq> None \<or> uu_enabled b = Some False)"
| "ends_sessions E st hs d (Delete_User name) u \<longleftrightarrow> name = usr_username u"
| "ends_sessions E st hs d (Change_Password b) u \<longleftrightarrow>
     (\<forall>now v. session_user E st hs now d = Some v \<longrightarrow> usr_username v = usr_username u)"
| "ends_sessions E st hs d _ u \<longleftrightarrow> False"

text \<open>What such a request leaves of the account: nothing, or a later version, or it disabled.\<close>

definition outdated :: "'j ext \<Rightarrow> admin_user_record \<Rightarrow> 'j table \<Rightarrow> bool" where
  "outdated E u t \<longleftrightarrow> (\<forall>v. user_in E t (usr_username u) = Some v \<longrightarrow>
     usr_session_version v \<noteq> usr_session_version u \<or> \<not> usr_enabled v)"

lemma updated_outdated:
  assumes "codec_ok (c_user E)" "user_in E t (usr_username u) = Some u" "usr_enabled u" "usr_session_version u \<noteq> - 1"
    and "user_updated E (usr_username u) b t t'" "uu_password b \<noteq> None \<or> uu_enabled b = Some False"
  shows "outdated E u t'"
proof -
  from assms(5) obtain u0 v where "user_in E t (usr_username u) = Some u0" "stored E t v t'"
      "usr_username v = usr_username u0" "usr_enabled v = opt_get (usr_enabled u0) (uu_enabled b)"
      "usr_session_version v = (if uu_password b \<noteq> None \<or> usr_enabled v \<noteq> usr_enabled u0
         then sat_add (usr_session_version u0) 1 else usr_session_version u0)"
    unfolding user_updated_def by blast
  with assms(2) have v: "stored E t v t'" "usr_username v = usr_username u"
      "usr_enabled v = opt_get (usr_enabled u) (uu_enabled b)"
      "usr_session_version v = (if uu_password b \<noteq> None \<or> usr_enabled v \<noteq> usr_enabled u
         then sat_add (usr_session_version u) 1 else usr_session_version u)"
    by simp_all
  have "user_in E t' (usr_username u) = Some v" using stored_user_in [OF assms(1) v(1)] v(2) by simp
  with v(3,4) assms(3,6) sat_add_one_neq [OF assms(4)] show ?thesis
    by (auto simp: outdated_def)
qed

lemma touched_outdated:
  assumes "codec_ok (c_user E)" "user_in E t (usr_username u) = Some u" "usr_session_version u \<noteq> - 1"
    and "user_touched E (usr_username u) 1 t t'"
  shows "outdated E u t'"
proof -
  from assms(4) obtain u0 v where "user_in E t (usr_username u) = Some u0" "stored E t v t'"
      "usr_username v = usr_username u0" "usr_session_version v = sat_add (usr_session_version u0) 1"
    unfolding user_touched_def by blast
  with assms(2) have v: "stored E t v t'" "usr_username v = usr_username u"
      "usr_session_version v = sat_add (usr_session_version u) 1"
    by simp_all
  have "user_in E t' (usr_username u) = Some v" using stored_user_in [OF assms(1) v(1)] v(2) by simp
  with v(3) sat_add_one_neq [OF assms(3)] show ?thesis by (simp add: outdated_def)
qed

lemma ends_sessions_ok:
  assumes "codec_ok (c_user E)" "rows_wf E (db w)" "serve_panel E st ip hs rq w = (Inr r, w')"
    and "session_user E st' hs2 now (db w) = Some u" "ends_sessions E st hs (db w) rq u" "usr_session_version u \<noteq> - 1"
  shows "session_user E st' hs2 now (db w') = None"
proof -
  have eff: "account_effect E rq True (accounts w) (accounts w')"
    using serve_panel_account [OF assms(3)] by simp
  have u: "user_in E (accounts w) (usr_username u) = Some u" "usr_enabled u"
    using assms(4) user_at_wf(2) [OF assms(2)] unfolding session_user_iff user_at_in by metis+
  have "outdated E u (accounts w')"
  proof (cases rq)
    case (Update_User name b)
    with eff assms(5) have "user_updated E (usr_username u) b (accounts w) (accounts w')"
      "uu_password b \<noteq> None \<or> uu_enabled b = Some False" by simp_all
    then show ?thesis by (rule updated_outdated [OF assms(1) u assms(6)])
  next
    case (Delete_User name)
    with eff assms(5) show ?thesis by (auto simp: outdated_def user_deleted_def user_in_del)
  next
    case (Change_Password b)
    from serve_change_password assms(3) obtain name where
        "own_session E st hs (accounts w) name" and t: "user_touched E name 1 (accounts w) (accounts w')"
      unfolding Change_Password by blast
    then have "name = usr_username u"
      using assms(5) unfolding Change_Password ends_sessions.simps own_session_def by metis
    with t show ?thesis by (intro touched_outdated [OF assms(1) u(1) assms(6)]) simp
  qed (use assms(5) in auto)
  then show ?thesis
    by (intro session_ended [OF assms(4,2)]) (auto simp: outdated_def user_at_in)
qed

section \<open>The throttle\<close>

abbreviation attempts :: "'j world \<Rightarrow> 'j table" where
  "attempts w \<equiv> login_attempt_table (db w)"

definition attempt_in :: "'j ext \<Rightarrow> 'j table \<Rightarrow> string \<Rightarrow> login_attempt_record option" where
  "attempt_in E t ip = opt_get None (res_ok (decode_row (c_login E) (tget t ip)))"

definition blocked_until :: "'j ext \<Rightarrow> login_attempt_record option \<Rightarrow> int option" where
  "blocked_until E found = Option.bind (Option.bind found la_blocked_until) (parse_rfc3339 E)"

definition login_blocked :: "'j ext \<Rightarrow> string \<Rightarrow> int \<Rightarrow> 'j table \<Rightarrow> bool" where
  "login_blocked E ip now t \<longleftrightarrow> (\<exists>b. blocked_until E (attempt_in E t ip) = Some b \<and> now < b)"

lemma attempt_in_decode:
  "rows_keyed (c_login E) any_key t \<Longrightarrow> decode_row (c_login E) (tget t ip) = Inr (attempt_in E t ip)"
  using rows_keyed_decode [of "c_login E" any_key t ip] by (auto simp: attempt_in_def)

text \<open>What the cleanup leaves of an attempt.\<close>

lemma attempt_in_cleanup:
  assumes "rows_keyed (c_login E) any_key (login_attempt_table d)"
  shows "attempt_in E (login_attempt_table (cleanup_login_attempts_tx E now win d)) ip
    = opt_filter (keep_attempt E now win) (attempt_in E (login_attempt_table d) ip)"
  using attempt_in_decode [OF assms, of ip]
  by (cases "tget (login_attempt_table d) ip")
    (auto simp: attempt_in_def cleanup_login_attempts_get decode_row_def split: sum.splits option.splits)

lemma blocked_cleanup:
  assumes "rows_keyed (c_login E) any_key (login_attempt_table d)"
  shows "login_blocked E ip now (login_attempt_table (cleanup_login_attempts_tx E now win d))
    \<longleftrightarrow> login_blocked E ip now (login_attempt_table d)"
  by (cases "attempt_in E (login_attempt_table d) ip")
    (auto simp: login_blocked_def attempt_in_cleanup [OF assms] blocked_until_def keep_attempt_def Let_def
      split: option.splits if_splits)

lemma cleanup_rows:
  "rows_wf E d \<Longrightarrow> codecs_ok E \<Longrightarrow> rows_wf E (cleanup_login_attempts_tx E now win d)"
  using rows_wf_step db_step.cleanup_login by blast

lemma cleanup_accounts [simp]:
  "admin_user_table (cleanup_login_attempts_tx E now win d) = admin_user_table d"
  by (simp add: cleanup_login_attempts_tx_def Let_def)

lemma ensure_login_allowed_run:
  assumes "no_faults E" "codecs_ok E" "rows_wf E (db w)"
  shows "ensure_login_allowed E st ip w =
    (let now = clock E (tick w); w' = \<lparr>db = cleanup_login_attempts_tx E now (login_window_seconds st) (db w), tick = tick w + 3\<rparr>
     in case blocked_until E (attempt_in E (attempts w') ip) of
          None \<Rightarrow> (Inr (), w')
        | Some b \<Rightarrow> if b > now then (Inl (Too_Many_Requests (''Too many login attempts. Retry in ''
            @ show_int (max (num_seconds (b - now)) 1) @ '' seconds'')), w') else (Inr (), w'))"
proof -
  let ?d = "cleanup_login_attempts_tx E (clock E (tick w)) (login_window_seconds st) (db w)"
  have "decode_row (c_login E) (tget (login_attempt_table ?d) ip) = Inr (attempt_in E (login_attempt_table ?d) ip)"
    by (rule attempt_in_decode) (rule rows_wfD(4) [OF cleanup_rows [OF assms(3,2)]])
  then show ?thesis
    using assms(1)
    by (cases w) (auto simp: ensure_login_allowed_def bindE_def map_err_def outside_defs sample_def
        db_cleanup_login_attempts_def db_get_login_attempt_def read_txn_no_faults write_txn_no_faults
        blocked_until_def Let_def split: option.split)
qed

lemma login_while_blocked:
  assumes "no_faults E" "codecs_ok E" "rows_wf E (db w)"
    and "login_blocked E (resolve_client_ip E hs ip st) (clock E (tick w)) (attempts w)"
  shows "\<exists>msg w'. admin_login E st hs ip body w = (Inl (Too_Many_Requests msg), w')
    \<and> accounts w' = accounts w \<and> tick w' = tick w + 3
    \<and> attempt_in E (attempts w') (resolve_client_ip E hs ip st) = attempt_in E (attempts w) (resolve_client_ip E hs ip st)"
proof -
  let ?ip = "resolve_client_ip E hs ip st" and ?now = "clock E (tick w)"
  let ?d = "cleanup_login_attempts_tx E ?now (login_window_seconds st) (db w)"
  note keyed = rows_wfD(4) [OF assms(3)]
  have "login_blocked E ?ip ?now (login_attempt_table ?d)"
    using assms(4) blocked_cleanup [OF keyed] by simp
  then obtain b where b: "blocked_until E (attempt_in E (login_attempt_table ?d) ?ip) = Some b" "?now < b"
    by (auto simp: login_blocked_def)
  then have "attempt_in E (login_attempt_table ?d) ?ip \<noteq> None"
    by (cases "attempt_in E (login_attempt_table ?d) ?ip") (auto simp: blocked_until_def)
  then have "attempt_in E (login_attempt_table ?d) ?ip = attempt_in E (attempts w) ?ip"
    by (cases "attempt_in E (attempts w) ?ip") (auto simp: attempt_in_cleanup [OF keyed] split: if_splits)
  with b show ?thesis
    by (auto simp: admin_login_def Let_def bindE_def ensure_login_allowed_run [OF assms(1-3)])
qed

text \<open>A failure is recorded from what the cleanup left.\<close>

lemma record_login_failure_run:
  assumes "no_faults E" "codecs_ok E" "rows_wf E (db w)"
  shows "\<exists>d'. record_login_failure E st ip w =
      (Inr (next_attempt E st (clock E (tick w)) (attempt_in E (attempts w) ip)), \<lparr>db = d', tick = tick w + 3\<rparr>)
    \<and> rows_wf E d' \<and> admin_user_table d' = accounts w
    \<and> attempt_in E (login_attempt_table d') ip
        = Some (next_attempt E st (clock E (tick w)) (attempt_in E (attempts w) ip))"
proof -
  let ?r = "next_attempt E st (clock E (tick w)) (attempt_in E (attempts w) ip)"
  obtain v where v: "encode_row (c_login E) ?r = Inr v" "from_slice (c_login E) v = Inr ?r"
    using encode_row_codec_ok [OF codecs_okD(5) [OF assms(2)]] by blast
  let ?d = "(db w)\<lparr>login_attempt_table := tput ip v (attempts w)\<rparr>"
  have set: "set_login_attempt_tx E ip ?r (db w) = Inr ((), ?d)"
    using v(1) by (simp add: set_login_attempt_tx_def)
  have "rows_wf E ?d" by (rule rows_wf_step [OF assms(2,3) db_step.set_login [OF set]])
  moreover have "record_login_failure E st ip w = (Inr ?r, \<lparr>db = ?d, tick = tick w + 3\<rparr>)"
    using assms(1) set attempt_in_decode [OF rows_wfD(4) [OF assms(3)], of ip]
    by (simp add: record_login_failure_def bindE_def map_err_def outside_defs sample_def Let_def
        db_get_login_attempt_def db_set_login_attempt_def read_txn_no_faults write_txn_no_faults)
  moreover have "attempt_in E (login_attempt_table ?d) ip = Some ?r"
    using v(2) by (simp add: attempt_in_def decode_row_def)
  ultimately show ?thesis by (intro exI [of _ ?d]) simp
qed

lemma set_admin_user_run:
  assumes "no_faults E" "codecs_ok E" "rows_wf E (db w)"
  shows "\<exists>d'. map_err c (db_set_admin_user E u) w = (Inr (), \<lparr>db = d', tick = Suc (tick w)\<rparr>)
    \<and> rows_wf E d' \<and> login_attempt_table d' = attempts w \<and> stored E (accounts w) u (admin_user_table d')"
proof -
  obtain v where v: "encode_row (c_user E) u = Inr v"
    using encode_row_codec_ok [OF codecs_okD(9) [OF assms(2)]] by blast
  let ?d = "(db w)\<lparr>admin_user_table := tput (admin_user_key (usr_username u)) v (accounts w)\<rparr>"
  have set: "set_admin_user_tx E u (db w) = Inr ((), ?d)"
    using v by (simp add: set_admin_user_tx_def)
  have "rows_wf E ?d" by (rule rows_wf_step [OF assms(2,3) db_step.set_user [OF set]])
  with set v assms(1) show ?thesis
    by (intro exI [of _ ?d])
      (auto simp: map_err_def db_set_admin_user_def write_txn_no_faults stored_def encode_row_ok_iff)
qed

lemma user_failure_run:
  assumes "no_faults E" "codecs_ok E" "rows_wf E (db w)"
  shows "\<exists>d'. record_user_login_failure E u w = (Inr (), \<lparr>db = d', tick = tick w + 3\<rparr>)
    \<and> rows_wf E d' \<and> login_attempt_table d' = attempts w
    \<and> stored E (accounts w) (u\<lparr>usr_failed_login_count := sat_add (usr_failed_login_count u) 1,
        usr_last_failed_login_at := Some (to_rfc3339 E (clock E (tick w))),
        usr_updated_at := to_rfc3339 E (clock E (Suc (tick w)))\<rparr>) (admin_user_table d')"
proof -
  let ?u = "u\<lparr>usr_failed_login_count := sat_add (usr_failed_login_count u) 1,
    usr_last_failed_login_at := Some (to_rfc3339 E (clock E (tick w))),
    usr_updated_at := to_rfc3339 E (clock E (Suc (tick w)))\<rparr>"
  obtain d' where "map_err app_of_redb (db_set_admin_user E ?u) (w\<lparr>tick := tick w + 2\<rparr>) = (Inr (), \<lparr>db = d', tick = tick w + 3\<rparr>)"
      "rows_wf E d'" "login_attempt_table d' = attempts w" "stored E (accounts w) ?u (admin_user_table d')"
    using set_admin_user_run [OF assms(1,2), of "w\<lparr>tick := tick w + 2\<rparr>" app_of_redb ?u] assms(3) by auto
  then show ?thesis
    by (auto simp: record_user_login_failure_def bindE_def outside_defs sample_def)
qed

text \<open>The name and password of an enabled account.\<close>

definition credentials_ok :: "'j ext \<Rightarrow> login_request \<Rightarrow> 'j table \<Rightarrow> bool" where
  "credentials_ok E body t \<longleftrightarrow> (\<exists>u. user_in E t (login_name body) = Some u \<and> usr_enabled u
     \<and> verify_admin_password E (lr_password body) (usr_password_hash u))"

lemma credentials_stored:
  assumes "codec_ok (c_user E)" "user_in E t name = Some u" "stored E t v t'"
    and "usr_username u = name" "usr_username v = usr_username u" "usr_enabled v = usr_enabled u"
    and "usr_password_hash v = usr_password_hash u"
  shows "\<forall>b. credentials_ok E b t' \<longleftrightarrow> credentials_ok E b t"
  using assms by (auto simp: credentials_ok_def stored_user_in)

text \<open>
  How a login that the throttle lets through starts: it removes the attempts that are over,
  admits the address, and looks the account up, at the fourth reading of the clock.
\<close>

lemma login_starts:
  fixes E st hs ip body w
  defines "d \<equiv> cleanup_login_attempts_tx E (clock E (tick w)) (login_window_seconds st) (db w)"
  assumes ok: "no_faults E" "codecs_ok E" "rows_wf E (db w)"
    and free: "\<not> login_blocked E (resolve_client_ip E hs ip st) (clock E (tick w)) (attempts w)"
  shows "rows_wf E d"
    and "ensure_login_allowed E st (resolve_client_ip E hs ip st) w = (Inr (), \<lparr>db = d, tick = tick w + 3\<rparr>)"
    and "map_err app_of_redb (db_get_admin_user E (login_name body)) \<lparr>db = d, tick = tick w + 3\<rparr>
      = (Inr (user_in E (accounts w) (login_name body)), \<lparr>db = d, tick = tick w + 4\<rparr>)"
    and "attempt_in E (login_attempt_table d) (resolve_client_ip E hs ip st) = opt_filter
      (keep_attempt E (clock E (tick w)) (login_window_seconds st)) (attempt_in E (attempts w) (resolve_client_ip E hs ip st))"
proof -
  note keyed = rows_wfD(4) [OF ok(3)]
  show wf: "rows_wf E d" unfolding d_def by (rule cleanup_rows [OF ok(3,2)])
  have "\<not> login_blocked E (resolve_client_ip E hs ip st) (clock E (tick w)) (login_attempt_table d)"
    using free blocked_cleanup [OF keyed] by (simp add: d_def)
  then show "ensure_login_allowed E st (resolve_client_ip E hs ip st) w = (Inr (), \<lparr>db = d, tick = tick w + 3\<rparr>)"
    by (auto simp: d_def ensure_login_allowed_run [OF ok] login_blocked_def Let_def split: option.split)
  have "admin_user_table d = accounts w" by (simp add: d_def)
  then show "map_err app_of_redb (db_get_admin_user E (login_name body)) \<lparr>db = d, tick = tick w + 3\<rparr>
      = (Inr (user_in E (accounts w) (login_name body)), \<lparr>db = d, tick = tick w + 4\<rparr>)"
    using user_at_wf(1) [OF wf] ok(1)
    by (simp add: map_err_def db_get_admin_user_def read_txn_no_faults user_at_in)
  show "attempt_in E (login_attempt_table d) (resolve_client_ip E hs ip st) = opt_filter
      (keep_attempt E (clock E (tick w)) (login_window_seconds st)) (attempt_in E (attempts w) (resolve_client_ip E hs ip st))"
    unfolding d_def by (rule attempt_in_cleanup [OF keyed])
qed

text \<open>The attempt a failed login leaves, counted at the \<open>i\<close>th reading of the clock.\<close>

definition counted_attempt :: "'j ext \<Rightarrow> app_state \<Rightarrow> string \<Rightarrow> 'j world \<Rightarrow> nat \<Rightarrow> login_attempt_record" where
  "counted_attempt E st ip w i = next_attempt E st (clock E i)
     (opt_filter (keep_attempt E (clock E (tick w)) (login_window_seconds st)) (attempt_in E (attempts w) ip))"

lemma login_unknown_name:
  assumes ok: "no_faults E" "codecs_ok E" "rows_wf E (db w)" and st: "admin_enabled st"
    and free: "\<not> login_blocked E (resolve_client_ip E hs ip st) (clock E (tick w)) (attempts w)"
    and none: "user_in E (accounts w) (login_name body) = None"
  shows "\<exists>d'. admin_login E st hs ip body w
      = (Inl (Unauthorized ''Invalid username or password''), \<lparr>db = d', tick = tick w + 7\<rparr>)
    \<and> rows_wf E d' \<and> admin_user_table d' = accounts w
    \<and> attempt_in E (login_attempt_table d') (resolve_client_ip E hs ip st)
      = Some (counted_attempt E st (resolve_client_ip E hs ip st) w (tick w + 4))"
proof -
  let ?ip = "resolve_client_ip E hs ip st"
  let ?d = "cleanup_login_attempts_tx E (clock E (tick w)) (login_window_seconds st) (db w)"
  note start = login_starts [OF ok free]
  obtain d' where d': "record_login_failure E st ?ip \<lparr>db = ?d, tick = tick w + 4\<rparr>
      = (Inr (next_attempt E st (clock E (tick w + 4)) (attempt_in E (login_attempt_table ?d) ?ip)), \<lparr>db = d', tick = tick w + 7\<rparr>)"
    "rows_wf E d'" "attempt_in E (login_attempt_table d') ?ip = Some (next_attempt E st (clock E (tick w + 4))
      (attempt_in E (login_attempt_table ?d) ?ip))" "admin_user_table d' = accounts w"
    using record_login_failure_run [OF ok(1,2), of "\<lparr>db = ?d, tick = tick w + 4\<rparr>" st ?ip] start(1) by auto
  have "admin_login E st hs ip body w = (Inl (Unauthorized ''Invalid username or password''), \<lparr>db = d', tick = tick w + 7\<rparr>)"
    using st none by (simp add: admin_login_def Let_def bindE_def start(2,3) d'(1))
  with d'(2-4) start(4) show ?thesis by (intro exI [of _ d']) (simp add: counted_attempt_def)
qed

lemma login_refused_name:
  assumes ok: "no_faults E" "codecs_ok E" "rows_wf E (db w)" and st: "admin_enabled st"
    and free: "\<not> login_blocked E (resolve_client_ip E hs ip st) (clock E (tick w)) (attempts w)"
    and user: "user_in E (accounts w) (login_name body) = Some u"
    and no: "\<not> usr_enabled u \<or> \<not> verify_admin_password E (lr_password body) (usr_password_hash u)"
  shows "\<exists>d'. admin_login E st hs ip body w
      = (Inl (Unauthorized ''Invalid username or password''), \<lparr>db = d', tick = tick w + 10\<rparr>)
    \<and> rows_wf E d' \<and> (\<forall>b. credentials_ok E b (admin_user_table d') \<longleftrightarrow> credentials_ok E b (accounts w))
    \<and> attempt_in E (login_attempt_table d') (resolve_client_ip E hs ip st)
      = Some (counted_attempt E st (resolve_client_ip E hs ip st) w (tick w + 7))"
proof -
  let ?ip = "resolve_client_ip E hs ip st"
  let ?d = "cleanup_login_attempts_tx E (clock E (tick w)) (login_window_seconds st) (db w)"
  note start = login_starts [OF ok free]
  have name: "usr_username u = login_name body"
    by (rule user_rows(2) [OF rows_wfD(8) [OF ok(3)] user])
  obtain d2 where d2: "record_user_login_failure E u \<lparr>db = ?d, tick = tick w + 4\<rparr> = (Inr (), \<lparr>db = d2, tick = tick w + 7\<rparr>)"
      "rows_wf E d2" "login_attempt_table d2 = login_attempt_table ?d"
      "stored E (accounts w) (u\<lparr>usr_failed_login_count := sat_add (usr_failed_login_count u) 1,
         usr_last_failed_login_at := Some (to_rfc3339 E (clock E (tick w + 4))),
         usr_updated_at := to_rfc3339 E (clock E (Suc (tick w + 4)))\<rparr>) (admin_user_table d2)"
    using user_failure_run [OF ok(1,2), of "\<lparr>db = ?d, tick = tick w + 4\<rparr>" u] start(1) by auto
  obtain d' where d': "record_login_failure E st ?ip \<lparr>db = d2, tick = tick w + 7\<rparr> = (Inr (next_attempt E st (clock E (tick w + 7))
      (attempt_in E (login_attempt_table ?d) ?ip)), \<lparr>db = d', tick = tick w + 10\<rparr>)"
    "rows_wf E d'" "attempt_in E (login_attempt_table d') ?ip = Some (next_attempt E st (clock E (tick w + 7))
      (attempt_in E (login_attempt_table ?d) ?ip))" "admin_user_table d' = admin_user_table d2"
    using record_login_failure_run [OF ok(1,2), of "\<lparr>db = d2, tick = tick w + 7\<rparr>" st ?ip] d2(2,3) by auto
  have "admin_login E st hs ip body w = (Inl (Unauthorized ''Invalid username or password''), \<lparr>db = d', tick = tick w + 10\<rparr>)"
    using st user no by (simp add: admin_login_def Let_def bindE_def start(2,3) d2(1) d'(1))
  moreover have "\<forall>b. credentials_ok E b (admin_user_table d') \<longleftrightarrow> credentials_ok E b (accounts w)"
    by (simp add: d'(4)) (rule credentials_stored [OF codecs_okD(9) [OF ok(2)] user d2(4)]; simp add: name)
  ultimately show ?thesis
    using d'(2,3) start(4) by (intro exI [of _ d']) (simp add: counted_attempt_def)
qed

lemma login_fails:
  assumes ok: "no_faults E" "codecs_ok E" "rows_wf E (db w)" and st: "admin_enabled st"
    and free: "\<not> login_blocked E (resolve_client_ip E hs ip st) (clock E (tick w)) (attempts w)"
    and bad: "\<not> credentials_ok E body (accounts w)"
  shows "\<exists>w' i. admin_login E st hs ip body w = (Inl (Unauthorized ''Invalid username or password''), w')
    \<and> tick w < i \<and> i < tick w' \<and> tick w' \<le> tick w + 10 \<and> rows_wf E (db w')
    \<and> (\<forall>b. credentials_ok E b (accounts w') \<longleftrightarrow> credentials_ok E b (accounts w))
    \<and> attempt_in E (attempts w') (resolve_client_ip E hs ip st)
      = Some (counted_attempt E st (resolve_client_ip E hs ip st) w i)"
proof (cases "user_in E (accounts w) (login_name body)")
  case None
  from login_unknown_name [OF ok st free this] obtain d' where
    d': "admin_login E st hs ip body w
        = (Inl (Unauthorized ''Invalid username or password''), \<lparr>db = d', tick = tick w + 7\<rparr>)"
      "rows_wf E d'" "admin_user_table d' = accounts w"
      "attempt_in E (login_attempt_table d') (resolve_client_ip E hs ip st)
        = Some (counted_attempt E st (resolve_client_ip E hs ip st) w (tick w + 4))" by blast
  then show ?thesis
    by (intro exI [of _ "\<lparr>db = d', tick = tick w + 7\<rparr>"] exI [of _ "tick w + 4"]) simp
next
  case (Some u)
  with bad have "\<not> usr_enabled u \<or> \<not> verify_admin_password E (lr_password body) (usr_password_hash u)"
    by (simp add: credentials_ok_def)
  from login_refused_name [OF ok st free Some this] obtain d' where
    d': "admin_login E st hs ip body w
        = (Inl (Unauthorized ''Invalid username or password''), \<lparr>db = d', tick = tick w + 10\<rparr>)"
      "rows_wf E d'" "\<forall>b. credentials_ok E b (admin_user_table d') \<longleftrightarrow> credentials_ok E b (accounts w)"
      "attempt_in E (login_attempt_table d') (resolve_client_ip E hs ip st)
        = Some (counted_attempt E st (resolve_client_ip E hs ip st) w (tick w + 7))" by blast
  then show ?thesis
    by (intro exI [of _ "\<lparr>db = d', tick = tick w + 10\<rparr>"] exI [of _ "tick w + 7"]) simp
qed

text \<open>
  Counting failures. After \<open>k\<close> failures in a row within the window the attempt of the
  address counts \<open>k\<close>; at the maximum it is blocked for the lockout time.
\<close>

definition tried :: "'j ext \<Rightarrow> app_state \<Rightarrow> int \<Rightarrow> int \<Rightarrow> nat \<Rightarrow> login_attempt_record option \<Rightarrow> bool" where
  "tried E st t0 t1 k found \<longleftrightarrow>
     (if k = 0 then found = None
      else \<exists>r f. found = Some r \<and> la_failures r = of_nat k
        \<and> parse_rfc3339 E (la_first_failure_at r) = Some f \<and> t0 \<le> f \<and> f \<le> t1
        \<and> (if k < unat (max_login_failures st) then la_blocked_until r = None
           else \<exists>c. t0 \<le> c \<and> c \<le> t1
             \<and> la_blocked_until r = Some (to_rfc3339 E (c + seconds (login_lockout_seconds st)))))"

lemma failures_word:
  assumes "k \<le> unat (m :: u32)"
  shows "unat (of_nat k :: u32) = k" "m \<le> of_nat k \<longleftrightarrow> \<not> k < unat m"
proof -
  have "unat m < 2 ^ 32" using unsigned_less [of m, where 'a = nat] by simp
  then have "k < 2 ^ 32" using assms by simp
  then show k: "unat (of_nat k :: u32) = k" by (simp add: unsigned_of_nat take_bit_eq_mod)
  show "m \<le> of_nat k \<longleftrightarrow> \<not> k < unat m" by (simp add: word_le_nat_alt k not_less)
qed

lemma tried_next:
  assumes t: "time_ok E" "printable_time t0" "printable_time t1" and k: "tried E st t0 t1 k found" "k < unat (max_login_failures st)"
    and now: "t0 \<le> now" "now \<le> t1" and win: "num_seconds (t1 - t0) \<le> login_window_seconds st"
  shows "tried E st t0 t1 (Suc k) (Some (next_attempt E st now found))"
proof -
  have next_k: "la_failures a + 1 = of_nat (Suc k)" if "la_failures a = of_nat k" for a :: login_attempt_record
    using that by simp
  have cmp: "max_login_failures st \<le> of_nat (Suc k) \<longleftrightarrow> \<not> Suc k < unat (max_login_failures st)"
    by (rule failures_word(2)) (use k(2) in simp)
  then have cmp': "max_login_failures st \<le> of_nat k + 1 \<longleftrightarrow> \<not> Suc k < unat (max_login_failures st)"
    by (simp add: add.commute)
  have "printable_time now" using t(2,3) now by (auto simp: printable_time_def)
  then have pn: "parse_rfc3339 E (to_rfc3339 E now) = Some now" using t(1) by (simp add: time_ok_def)
  show ?thesis
  proof (cases "k = 0")
    case True
    with k(1) pn now cmp show ?thesis
      by (auto simp: tried_def next_attempt_def num_seconds_def Let_def intro: exI [of _ now])
  next
    case False
    with k(1,2) obtain r f where r: "found = Some r" "la_failures r = of_nat k"
        "parse_rfc3339 E (la_first_failure_at r) = Some f" "t0 \<le> f" "f \<le> t1" "la_blocked_until r = None"
      by (auto simp: tried_def)
    have "\<not> num_seconds (now - f) > login_window_seconds st"
    proof (cases "f \<le> now")
      case True
      then have "num_seconds (now - f) \<le> num_seconds (t1 - t0)"
        using r(4) now by (intro num_seconds_mono) auto
      with win show ?thesis by simp
    next
      case False
      have "num_seconds (now - f) \<le> 0" using False by (simp add: num_seconds_def sgn_if)
      moreover have "0 \<le> num_seconds (t1 - t0)" using now by (simp add: num_seconds_def sgn_if)
      ultimately show ?thesis using win by simp
    qed
    with r now cmp cmp' next_k [OF r(2)] show ?thesis
      by (auto simp: tried_def next_attempt_def Let_def intro: exI [of _ now])
  qed
qed

lemma tried_free:
  assumes "tried E st t0 t1 k found" "k < unat (max_login_failures st)"
  shows "blocked_until E found = None"
  using assms by (auto simp: tried_def blocked_until_def split: if_splits)

lemma tried_kept:
  assumes "tried E st t0 t1 k found" "k < unat (max_login_failures st)"
    and now: "t0 \<le> now" "now \<le> t1" and win: "num_seconds (t1 - t0) \<le> login_window_seconds st"
  shows "opt_filter (keep_attempt E now (login_window_seconds st)) found = found"
proof (cases "k = 0")
  case False
  with assms(1,2) obtain r f where r: "found = Some r" "parse_rfc3339 E (la_first_failure_at r) = Some f"
      "t0 \<le> f" "f \<le> t1" "la_blocked_until r = None"
    by (auto simp: tried_def)
  have "num_seconds (now - f) \<le> login_window_seconds st"
  proof (cases "f \<le> now")
    case True
    then have "num_seconds (now - f) \<le> num_seconds (t1 - t0)"
      using r(3) now by (intro num_seconds_mono) auto
    with win show ?thesis by simp
  next
    case False
    then have "num_seconds (now - f) \<le> 0" by (simp add: num_seconds_def sgn_if)
    moreover have "0 \<le> num_seconds (t1 - t0)" using now by (simp add: num_seconds_def sgn_if)
    ultimately show ?thesis using win by simp
  qed
  with r show ?thesis by (simp add: keep_attempt_def Let_def)
qed (use assms(1) in \<open>simp add: tried_def\<close>)

lemma login_ticks: "tick w \<le> tick (snd (admin_login E st hs ip b w))"
  using moves_snd [OF aside_login [of E st hs ip b], where w = w] by (simp add: aside_def)

text \<open>At the maximum the address is blocked until the lockout time has passed.\<close>

lemma tried_blocked:
  assumes "time_ok E" "printable_time t0" "printable_time (t1 + seconds (login_lockout_seconds st))"
    and "0 \<le> seconds (login_lockout_seconds st)" "max_login_failures st \<noteq> 0"
    and "tried E st t0 t1 (unat (max_login_failures st)) found"
  shows "\<exists>b. blocked_until E found = Some b \<and> t0 + seconds (login_lockout_seconds st) \<le> b"
proof -
  have "unat (max_login_failures st) \<noteq> 0" using assms(5) by (simp add: unat_eq_0)
  with assms(6) obtain r c where r: "found = Some r" "t0 \<le> c" "c \<le> t1"
      "la_blocked_until r = Some (to_rfc3339 E (c + seconds (login_lockout_seconds st)))"
    by (auto simp: tried_def)
  have "printable_time (c + seconds (login_lockout_seconds st))"
    using assms(2-4) r(2,3) by (simp add: printable_time_def)
  with assms(1) r show ?thesis by (simp add: blocked_until_def time_ok_def)
qed

end
