(* ===== verification/Panel_Cookies.thy ===== *)
theory Panel_Cookies
  imports Panel_Login
begin

text \<open>
  Cookies from the answer to the next request: what a browser keeps of a \<^verbatim>\<open>set-cookie\<close> header,
  what it sends back, and that the panel reads the session token and the CSRF token out of it.
\<close>

section \<open>Text that passes through headers unchanged\<close>

definition plain :: "char \<Rightarrow> bool" where
  "plain c \<longleftrightarrow> 0x20 < (of_char c :: nat) \<and> (of_char c :: nat) < 0x7F \<and> c \<noteq> CHR '';''"

lemma plain_jwt: "jwt_char c \<Longrightarrow> plain c \<and> c \<noteq> CHR ''=''"
  by (auto simp: jwt_char_def plain_def is_ascii_alphanumeric_def)

lemma plain_not_space: "plain c \<Longrightarrow> \<not> is_whitespace [c]"
  by (simp add: plain_def is_whitespace_def)

lemma plain_ascii: "plain c \<Longrightarrow> (of_char c :: nat) < 0x80"
  by (simp add: plain_def)

lemma trim_plain:
  assumes "list_all plain s"
  shows "trim s = s"
proof -
  have u: "utf8_chars s = map (\<lambda>c. [c]) s"
    using assms by (intro utf8_chars_ascii ballI plain_ascii) (simp add: list_all_iff)
  have drop: "dropWhile is_whitespace (map (\<lambda>c. [c]) t) = map (\<lambda>c. [c]) t" if "list_all plain t" for t
    using that by (cases t) (auto simp: plain_not_space)
  have "list_all plain (rev s)" using assms by (simp add: list_all_rev)
  then show ?thesis
    by (simp only: trim_def u drop [OF assms] rev_map drop rev_rev_ident concat_map_singleton list.map_ident)
qed

lemma trim_space: "trim (CHR '' '' # s) = trim s"
  by (simp add: trim_def utf8_len_def is_whitespace_def)

lemma trim_spaced: "list_all plain s \<Longrightarrow> trim (CHR '' '' # s) = s"
  by (simp add: trim_space trim_plain)

lemma split_on_none: "c \<notin> set a \<Longrightarrow> split_on c a = [a]"
  by (induction a) auto

lemma split_on_append: "c \<notin> set a \<Longrightarrow> split_on c (a @ c # b) = a # split_on c b"
  by (induction a) auto

lemma plain_no_semicolon: "list_all plain s \<Longrightarrow> CHR '';'' \<notin> set s"
  by (auto simp: list_all_iff plain_def)

lemma header_text_append [simp]: "header_text (a @ b) \<longleftrightarrow> header_text a \<and> header_text b"
  by (simp add: header_text_def)

lemma header_text_plain: "list_all plain s \<Longrightarrow> header_text s"
  unfolding header_text_def by (erule list.pred_mono_strong) (simp add: plain_def Let_def)

lemma first_field_append: "c \<notin> set a \<Longrightarrow> first_field c (a @ c # b) = a"
  unfolding first_field_def by (subst takeWhile_append2) auto

section \<open>The browser\<close>

text \<open>Of a \<^verbatim>\<open>set-cookie\<close> value a browser keeps the pair before the attributes.\<close>

definition kept_pair :: "string \<Rightarrow> string" where
  "kept_pair set_cookie = first_field CHR '';'' set_cookie"

fun cookie_line :: "string list \<Rightarrow> string" where
  "cookie_line [] = []"
| "cookie_line [p] = p"
| "cookie_line (p # ps) = p @ CHR '';'' # CHR '' '' # cookie_line ps"

text \<open>The page keeps the CSRF token of the answer and sends it in a header of its own.\<close>

definition browser :: "headers \<Rightarrow> string \<Rightarrow> headers" where
  "browser answer csrf =
     [(''cookie'', cookie_line (map (\<lambda>h. kept_pair (snd h)) (filter (\<lambda>h. fst h = ''set-cookie'') answer))),
      (''x-csrf-token'', csrf)]"

lemma kept_session: "list_all plain token \<Longrightarrow> kept_pair (build_admin_session_cookie token b) = ''admin_session='' @ token"
  using first_field_append [of "CHR '';''" "''admin_session='' @ token"] plain_no_semicolon
  by (simp add: kept_pair_def build_admin_session_cookie_def)

lemma kept_csrf: "list_all plain csrf \<Longrightarrow> kept_pair (build_csrf_cookie csrf b) = ''admin_csrf='' @ csrf"
  using first_field_append [of "CHR '';''" "''admin_csrf='' @ csrf"] plain_no_semicolon
  by (simp add: kept_pair_def build_csrf_cookie_def)

lemma cookie_value_pair:
  assumes "list_all plain name" "list_all plain v" "CHR ''='' \<notin> set name"
  shows "cookie_value n (name @ ''='' @ v) = (if n = name then Some v else None)"
    and "cookie_value n (CHR '' '' # name @ ''='' @ v) = (if n = name then Some v else None)"
proof -
  have p: "list_all plain (name @ ''='' @ v)" using assms(1,2) by (simp add: plain_def)
  have "split_once (name @ ''='' @ v) ''='' = Some (name, v)"
    by (rule split_once_append) (simp_all add: assms(3))
  with trim_plain [OF p] trim_spaced [OF p]
  show "cookie_value n (name @ ''='' @ v) = (if n = name then Some v else None)"
    "cookie_value n (CHR '' '' # name @ ''='' @ v) = (if n = name then Some v else None)"
    by (simp_all add: cookie_value_def)
qed

lemma session_value:
  assumes "list_all plain v"
  shows "cookie_value ''admin_session'' (''admin_session='' @ v) = Some v"
    "cookie_value ''admin_session'' (CHR '' '' # ''admin_session='' @ v) = Some v"
    "cookie_value ''admin_csrf'' (''admin_session='' @ v) = None"
    "cookie_value ''admin_csrf'' (CHR '' '' # ''admin_session='' @ v) = None"
  using cookie_value_pair [of "''admin_session''" v] assms by (simp_all add: plain_def)

lemma csrf_value:
  assumes "list_all plain v"
  shows "cookie_value ''admin_csrf'' (''admin_csrf='' @ v) = Some v"
    "cookie_value ''admin_csrf'' (CHR '' '' # ''admin_csrf='' @ v) = Some v"
    "cookie_value ''admin_session'' (''admin_csrf='' @ v) = None"
    "cookie_value ''admin_session'' (CHR '' '' # ''admin_csrf='' @ v) = None"
  using cookie_value_pair [of "''admin_csrf''" v] assms by (simp_all add: plain_def)

lemma browser_reads:
  assumes t: "list_all plain token" and c: "list_all plain csrf" "csrf \<noteq> []"
  shows "extract_admin_token (browser [(''set-cookie'', build_admin_session_cookie token b),
        (''set-cookie'', build_csrf_cookie csrf b)] csrf) = Some token" (is "extract_admin_token ?hs = _")
    and "verify_csrf (browser [(''set-cookie'', build_admin_session_cookie token b),
        (''set-cookie'', build_csrf_cookie csrf b)] csrf) = Inr ()"
proof -
  let ?a = "''admin_session='' @ token" and ?b = "''admin_csrf='' @ csrf"
  have line: "header ?hs ''cookie'' = Some (?a @ CHR '';'' # CHR '' '' # ?b)"
    using header_text_plain [OF t] header_text_plain [OF c(1)]
    by (simp add: header_def browser_def kept_session [OF t] kept_csrf [OF c(1)] header_text_def)
  have tok: "header ?hs ''x-csrf-token'' = Some csrf"
    using header_text_plain [OF c(1)] by (simp add: header_def browser_def)
  have parts: "split_on CHR '';'' (?a @ CHR '';'' # CHR '' '' # ?b) = [?a, CHR '' '' # ?b]"
    using split_on_append [of "CHR '';''" ?a] split_on_none [of "CHR '';''" "CHR '' '' # ?b"]
      plain_no_semicolon [OF t] plain_no_semicolon [OF c(1)] by simp
  have "extract_cookie ?hs n = find_map (cookie_value n) [?a, CHR '' '' # ?b]" for n
    unfolding extract_cookie_def line bind.bind_lunit parts ..
  then have "extract_cookie ?hs ''admin_session'' = Some token" "extract_cookie ?hs ''admin_csrf'' = Some csrf"
    by (simp_all add: session_value(1,3) [OF t, simplified] csrf_value(2) [OF c(1), simplified])
  then show "extract_admin_token ?hs = Some token" "verify_csrf ?hs = Inr ()"
    using tok c(2) by (simp_all add: extract_admin_token_def verify_csrf_def)
qed

end
