(* ===== verification/Panel_Access.thy ===== *)
theory Panel_Access
  imports Panel_Cookies
begin

text \<open>
  Successful logins: what they store and answer, and that the browser that keeps the answer
  passes the checks of the panel.
\<close>

section \<open>Identifiers\<close>

text \<open>A random identifier is a text of hexadecimal digits and dashes.\<close>

definition uuid_text :: "'j ext \<Rightarrow> bool" where
  "uuid_text E \<longleftrightarrow> (\<forall>i. uuid_v4 E i \<noteq> [] \<and> list_all jwt_char (uuid_v4 E i))"

lemma jwt_plain: "list_all jwt_char s \<Longrightarrow> list_all plain s"
  by (erule list.pred_mono_strong) (simp add: plain_jwt)

lemma secure_suffix_text: "header_text (secure_suffix b)"
  by (simp add: secure_suffix_def header_text_def)

lemma cookies_valid:
  assumes "list_all plain v"
  shows "header_value what (build_admin_session_cookie v b) = Inr (build_admin_session_cookie v b)"
    and "header_value what (build_csrf_cookie v b) = Inr (build_csrf_cookie v b)"
proof -
  have "header_text ''admin_session=''" "header_text ''admin_csrf=''"
    "header_text ''; HttpOnly; Max-Age=86400; Path=/admin; SameSite=Strict''"
    "header_text ''; Max-Age=86400; Path=/admin; SameSite=Strict''"
    by (simp_all add: header_text_def)
  with header_text_plain [OF assms] secure_suffix_text [of b]
  show "header_value what (build_admin_session_cookie v b) = Inr (build_admin_session_cookie v b)"
    "header_value what (build_csrf_cookie v b) = Inr (build_csrf_cookie v b)"
    unfolding header_value_def build_admin_session_cookie_def build_csrf_cookie_def header_text_append
    by simp_all
qed

section \<open>The steps of a login that succeeds\<close>

lemma clear_failures_run:
  assumes "no_faults E" "codecs_ok E" "rows_wf E (db w)"
  shows "\<exists>d'. clear_login_failures E ip w = (Inr (), \<lparr>db = d', tick = Suc (tick w)\<rparr>)
    \<and> rows_wf E d' \<and> admin_user_table d' = accounts w \<and> attempt_in E (login_attempt_table d') ip = None"
proof -
  let ?d = "(db w)\<lparr>login_attempt_table := tdel ip (attempts w)\<rparr>"
  have "rows_wf E ?d" by (rule rows_wf_step [OF assms(2,3) db_step.delete_login])
  with assms(1) show ?thesis
    by (intro exI [of _ ?d])
      (simp add: clear_login_failures_def map_err_def db_delete_login_attempt_def write_txn_no_faults
        attempt_in_def decode_row_def)
qed

text \<open>The claims of a session that starts at a time.\<close>

definition session_claims :: "string \<Rightarrow> u64 \<Rightarrow> int \<Rightarrow> admin_claims" where
  "session_claims name version t = \<lparr>cl_sub = name, cl_exp = word_of_int (t div 1000000000) + 86400,
     cl_iat = word_of_int (t div 1000000000), cl_ver = version\<rparr>"

lemma create_jwt_run:
  assumes "jwt_encode E secret (session_claims name version (clock E (tick w))) = Inr jwt"
  shows "map_err c (create_admin_jwt_for_user E secret name version) w = (Inr jwt, w\<lparr>tick := Suc (tick w)\<rparr>)"
  using assms by (simp add: map_err_def create_admin_jwt_for_user_def bindE_def utc_now_def sample_def
      session_claims_def lift_res_def Let_def)

text \<open>The account after a login.\<close>

definition logged_in :: "'j ext \<Rightarrow> string \<Rightarrow> int \<Rightarrow> int \<Rightarrow> admin_user_record \<Rightarrow> admin_user_record" where
  "logged_in E ip t t' u = u\<lparr>usr_last_login_at := Some (to_rfc3339 E t), usr_last_login_ip := Some ip,
     usr_failed_login_count := 0, usr_last_failed_login_at := None, usr_updated_at := to_rfc3339 E t'\<rparr>"

lemma logged_in_simps [simp]:
  "usr_username (logged_in E ip t t' u) = usr_username u"
  "usr_enabled (logged_in E ip t t' u) = usr_enabled u"
  "usr_session_version (logged_in E ip t t' u) = usr_session_version u"
  "usr_password_hash (logged_in E ip t t' u) = usr_password_hash u"
  by (simp_all add: logged_in_def)

definition answer_cookies :: "string \<Rightarrow> string \<Rightarrow> bool \<Rightarrow> headers" where
  "answer_cookies jwt csrf secure = [(''set-cookie'', build_admin_session_cookie jwt secure),
     (''set-cookie'', build_csrf_cookie csrf secure)]"

lemma login_allowed:
  assumes "no_faults E" "codecs_ok E" "rows_wf E (db w)"
    and "\<not> login_blocked E ip (clock E (tick w)) (attempts w)"
  shows "\<exists>d. ensure_login_allowed E st ip w = (Inr (), \<lparr>db = d, tick = tick w + 3\<rparr>)
    \<and> rows_wf E d \<and> admin_user_table d = accounts w
    \<and> map_err app_of_redb (db_get_admin_user E name) \<lparr>db = d, tick = tick w + 3\<rparr>
        = (Inr (user_in E (accounts w) name), \<lparr>db = d, tick = tick w + 4\<rparr>)"
proof -
  let ?d = "cleanup_login_attempts_tx E (clock E (tick w)) (login_window_seconds st) (db w)"
  have wf: "rows_wf E ?d" by (rule cleanup_rows [OF assms(3,2)])
  have "\<not> login_blocked E ip (clock E (tick w)) (login_attempt_table ?d)"
    using assms(4) blocked_cleanup [OF rows_wfD(4) [OF assms(3)]] by simp
  then have "ensure_login_allowed E st ip w = (Inr (), \<lparr>db = ?d, tick = tick w + 3\<rparr>)"
    by (auto simp: ensure_login_allowed_run [OF assms(1-3)] login_blocked_def Let_def split: option.split)
  moreover have "map_err app_of_redb (db_get_admin_user E name) \<lparr>db = ?d, tick = tick w + 3\<rparr>
      = (Inr (user_in E (accounts w) name), \<lparr>db = ?d, tick = tick w + 4\<rparr>)"
    using user_at_wf(1) [OF wf] assms(1)
    by (simp add: map_err_def db_get_admin_user_def read_txn_no_faults user_at_in)
  ultimately show ?thesis using wf by (intro exI [of _ ?d]) simp
qed

lemma login_succeeds:
  assumes ok: "no_faults E" "codecs_ok E" "rows_wf E (db w)" and jwt: "jwt_ok E" "uuid_text E"
    and st: "admin_enabled st"
    and free: "\<not> login_blocked E (resolve_client_ip E hs ip st) (clock E (tick w)) (attempts w)"
    and user: "user_in E (accounts w) (login_name body) = Some u" "usr_enabled u"
      "verify_admin_password E (lr_password body) (usr_password_hash u)"
  shows "\<exists>jwt csrf w' i t t'. admin_login E st hs ip body w
      = (Inr (answer_cookies jwt csrf (effective_admin_cookie_secure hs st),
          JObj [(''ok'', JBool True), (''csrfToken'', JStr csrf)]), w')
    \<and> tick w < i \<and> i < tick w' \<and> tick w' = tick w + 10
    \<and> jwt_encode E (jwt_secret st) (session_claims (login_name body) (usr_session_version u) (clock E i)) = Inr jwt
    \<and> list_all jwt_char jwt \<and> list_all jwt_char csrf \<and> csrf \<noteq> []
    \<and> rows_wf E (db w') \<and> stored E (accounts w) (logged_in E (resolve_client_ip E hs ip st) t t' u) (accounts w')
    \<and> attempt_in E (attempts w') (resolve_client_ip E hs ip st) = None"
proof -
  let ?ip = "resolve_client_ip E hs ip st" and ?i = "tick w + 8"
  obtain d where d: "ensure_login_allowed E st ?ip w = (Inr (), \<lparr>db = d, tick = tick w + 3\<rparr>)" "rows_wf E d"
      "admin_user_table d = accounts w"
      "map_err app_of_redb (db_get_admin_user E (login_name body)) \<lparr>db = d, tick = tick w + 3\<rparr>
        = (Inr (Some u), \<lparr>db = d, tick = tick w + 4\<rparr>)"
    using login_allowed [OF ok free, of st "login_name body"] user(1) by auto
  obtain d2 where d2: "clear_login_failures E ?ip \<lparr>db = d, tick = tick w + 4\<rparr> = (Inr (), \<lparr>db = d2, tick = tick w + 5\<rparr>)"
      "rows_wf E d2" "admin_user_table d2 = accounts w" "attempt_in E (login_attempt_table d2) ?ip = None"
    using clear_failures_run [OF ok(1,2), of "\<lparr>db = d, tick = tick w + 4\<rparr>" ?ip] d(2,3) by auto
  let ?u = "logged_in E ?ip (clock E (tick w + 5)) (clock E (tick w + 6)) u"
  obtain d3 where d3: "map_err app_of_redb (db_set_admin_user E ?u) \<lparr>db = d2, tick = tick w + 7\<rparr> = (Inr (), \<lparr>db = d3, tick = ?i\<rparr>)"
      "rows_wf E d3" "login_attempt_table d3 = login_attempt_table d2" "stored E (accounts w) ?u (admin_user_table d3)"
    using set_admin_user_run [OF ok(1,2), of "\<lparr>db = d2, tick = tick w + 7\<rparr>" app_of_redb ?u] d2(2,3) by auto
  obtain jwt where j: "jwt_encode E (jwt_secret st) (session_claims (login_name body) (usr_session_version u) (clock E ?i)) = Inr jwt"
      "list_all jwt_char jwt"
    using jwt(1) unfolding jwt_ok_def by blast
  let ?csrf = "uuid_v4 E (tick w + 9)"
  have c: "list_all jwt_char ?csrf" "?csrf \<noteq> []" using jwt(2) by (simp_all add: uuid_text_def)
  have mk: "map_err c
      (create_admin_jwt_for_user E (jwt_secret st) (login_name body) (usr_session_version u)) \<lparr>db = d3, tick = ?i\<rparr>
      = (Inr jwt, \<lparr>db = d3, tick = tick w + 9\<rparr>)" for c :: "string \<Rightarrow> app_error"
    by (subst create_jwt_run) (use j(1) in simp_all)
  have ticks: "Suc (tick w + 5) = tick w + 6" "Suc (tick w + 6) = tick w + 7" "Suc (tick w + 9) = tick w + 10" by simp_all
  have "admin_login E st hs ip body w = (Inr (answer_cookies jwt ?csrf (effective_admin_cookie_secure hs st),
      JObj [(''ok'', JBool True), (''csrfToken'', JStr ?csrf)]), \<lparr>db = d3, tick = tick w + 10\<rparr>)"
    using st user(2,3) d3(1) cookies_valid [OF jwt_plain [OF j(2)]] cookies_valid [OF jwt_plain [OF c(1)]]
    by (simp add: admin_login_def Let_def bindE_def d(1,4) d2(1) mk ticks outside_defs sample_def logged_in_def
        new_uuid_def lift_res_def whenE_def ret_def answer_cookies_def)
  then show ?thesis
    using j c d3(2-4) d2(4) by (intro exI [of _ jwt] exI [of _ ?csrf] exI [of _ "\<lparr>db = d3, tick = tick w + 10\<rparr>"]
      exI [of _ ?i] exI [of _ "clock E (tick w + 5)"] exI [of _ "clock E (tick w + 6)"]) simp
qed

section \<open>When a login succeeds, and what its session is good for\<close>

lemma login_disabled:
  assumes "no_faults E" "codecs_ok E" "rows_wf E (db w)" "\<not> admin_enabled st"
  shows "\<exists>e w'. admin_login E st hs ip body w = (Inl e, w')"
  by (auto simp: admin_login_def Let_def bindE_def whenE_def throw_def ensure_login_allowed_run [OF assms(1-3)] assms(4)
      split: option.split)

lemma login_iff:
  assumes "no_faults E" "codecs_ok E" "rows_wf E (db w)" "jwt_ok E" "uuid_text E"
  shows "(\<exists>r w'. admin_login E st hs ip body w = (Inr r, w')) \<longleftrightarrow> admin_enabled st
    \<and> \<not> login_blocked E (resolve_client_ip E hs ip st) (clock E (tick w)) (attempts w)
    \<and> credentials_ok E body (accounts w)"
    (is "?ok \<longleftrightarrow> ?en \<and> ?free \<and> ?cred")
proof
  assume ?ok
  then obtain r w' where run: "admin_login E st hs ip body w = (Inr r, w')" by blast
  show "?en \<and> ?free \<and> ?cred"
  proof (intro conjI)
    show en: ?en using login_disabled [OF assms(1-3), of st hs ip body] run by (metis Pair_inject sum.distinct(1))
    show free: ?free using login_while_blocked [OF assms(1-3), of hs ip st body] run by (metis Pair_inject sum.distinct(1))
    show ?cred using login_fails [OF assms(1-3) en free, of body] run by (metis Pair_inject sum.distinct(1))
  qed
next
  assume r: "?en \<and> ?free \<and> ?cred"
  then obtain u where u: "user_in E (accounts w) (login_name body) = Some u" "usr_enabled u"
      "verify_admin_password E (lr_password body) (usr_password_hash u)"
    by (auto simp: credentials_ok_def)
  from r have "?en" "?free" by auto
  from login_succeeds [OF assms this u] show ?ok by blast
qed

lemma login_session:
  assumes jwt: "jwt_ok E" "jwt_encode E (jwt_secret st) (session_claims name (usr_session_version v) t) = Inr jwt"
      "list_all jwt_char jwt" and csrf: "list_all jwt_char csrf" "csrf \<noteq> []"
    and t: "0 \<le> t" "t div 1000000000 + 86400 < 2 ^ 64" "now \<le> t + seconds 86400"
    and v: "admin_enabled st" "user_at E name d = Some v" "usr_enabled v"
  shows "session_user E st (browser (answer_cookies jwt csrf b) csrf) now d = Some v"
    and "verify_csrf (browser (answer_cookies jwt csrf b) csrf) = Inr ()"
proof -
  note reads = browser_reads [OF jwt_plain [OF jwt(3)] jwt_plain [OF csrf(1)] csrf(2), of b, folded answer_cookies_def]
  let ?c = "session_claims name (usr_session_version v) t"
  have "uint (cl_exp ?c) = t div 1000000000 + 86400"
    using t(1,2) by (simp add: session_claims_def uint_word_ariths unsigned_of_int take_bit_eq_mod
        pos_imp_zdiv_nonneg_iff mod_simps)
  moreover have "now div 1000000000 \<le> t div 1000000000 + 86400"
  proof -
    have "now div 1000000000 \<le> (t + 86400 * 1000000000) div 1000000000"
      using t(3) by (intro zdiv_mono1) (simp_all add: seconds_def)
    then show ?thesis by simp
  qed
  ultimately have "jwt_decode E now jwt (jwt_secret st) = Inr ?c"
    using jwt(1,2) unfolding jwt_ok_def by (metis Inr_inject)
  then have "jwt_decode E now (trim jwt) (jwt_secret st) = Inr ?c"
    by (simp add: trim_plain [OF jwt_plain [OF jwt(3)]])
  with reads(1) v show "session_user E st (browser (answer_cookies jwt csrf b) csrf) now d = Some v"
    unfolding session_user_iff by (auto simp: session_claims_def)
  show "verify_csrf (browser (answer_cookies jwt csrf b) csrf) = Inr ()" by (rule reads(2))
qed

text \<open>The browser that keeps the answer of a login passes the checks for a day.\<close>

lemma login_then_checked:
  assumes ok: "no_faults E" "codecs_ok E" "rows_wf E (db w)" and jwt: "jwt_ok E" "uuid_text E"
    and run: "admin_login E st hs ip body w = (Inr (cookies, answer), w')"
    and clock: "\<And>i. tick w \<le> i \<Longrightarrow> i \<le> tick w' \<Longrightarrow> 0 \<le> clock E i \<and> clock E i div 1000000000 + 86400 < 2 ^ 64"
    and later: "rows_wf E (db w2)" "accounts w2 = accounts w'"
      "\<And>i. tick w \<le> i \<Longrightarrow> i \<le> tick w' \<Longrightarrow> clock E (tick w2) \<le> clock E i + seconds 86400"
  shows "\<exists>csrf. answer = JObj [(''ok'', JBool True), (''csrfToken'', JStr csrf)]
    \<and> validate_admin_session E st (browser cookies csrf) w2 = (Inr (login_name body), w2\<lparr>tick := Suc (Suc (tick w2))\<rparr>)
    \<and> fst (verify_admin_mutation E st (browser cookies csrf) w2) = Inr ()"
proof -
  let ?ip = "resolve_client_ip E hs ip st"
  from run login_iff [OF ok jwt, of st hs ip body]
  have en: "admin_enabled st" and free: "\<not> login_blocked E ?ip (clock E (tick w)) (attempts w)"
    and cred: "credentials_ok E body (accounts w)" by blast+
  from cred obtain u where u: "user_in E (accounts w) (login_name body) = Some u" "usr_enabled u"
      "verify_admin_password E (lr_password body) (usr_password_hash u)"
    by (auto simp: credentials_ok_def)
  from login_succeeds [OF ok jwt en free u] run obtain j csrf i t t' where
    ans: "cookies = answer_cookies j csrf (effective_admin_cookie_secure hs st)"
      "answer = JObj [(''ok'', JBool True), (''csrfToken'', JStr csrf)]" "tick w < i" "i < tick w'"
      "jwt_encode E (jwt_secret st) (session_claims (login_name body) (usr_session_version u) (clock E i)) = Inr j"
      "list_all jwt_char j" "list_all jwt_char csrf" "csrf \<noteq> []" "stored E (accounts w) (logged_in E ?ip t t' u) (accounts w')"
    by auto
  let ?v = "logged_in E ?ip t t' u"
  have name: "usr_username u = login_name body"
    by (rule user_rows(2) [OF rows_wfD(8) [OF ok(3)] u(1)])
  have v: "user_at E (login_name body) (db w2) = Some ?v"
    using stored_user_in [OF codecs_okD(9) [OF ok(2)] ans(9)] by (simp add: user_at_in later(2) name)
  have s: "session_user E st (browser cookies csrf) (clock E (tick w2)) (db w2) = Some ?v"
    and c: "verify_csrf (browser cookies csrf) = Inr ()"
    unfolding ans(1)
    by (rule login_session [OF jwt(1) _ ans(6,7,8) _ _ _ en v, where t = "clock E i"];
        use ans(3-5) clock [of i] later(3) [of i] u(2) in simp)+
  from validate_admin_session_complete [OF ok(1) later(1) s]
  have "validate_admin_session E st (browser cookies csrf) w2 = (Inr (login_name body), w2\<lparr>tick := Suc (Suc (tick w2))\<rparr>)"
    by (simp add: name)
  with c ans(2) show ?thesis
    by (intro exI [of _ csrf]) (simp add: verify_admin_mutation_def verify_admin_def bindE_def lift_res_def ret_def)
qed

end
