(* ===== verification/Panel_Writes.thy ===== *)
theory Panel_Writes
  imports Server
begin

text \<open>
  What the panel writes, as an interface: a preorder on databases that every single write of
  the panel respects is respected by every request of the panel. One locale covers the
  writes of all requests but the login, a second one adds those of the login. They are
  interpreted with "time passes", "the login attempts stay", and "no snapshot gets an ETag".
\<close>

section \<open>The interface\<close>

definition later :: "('j db \<Rightarrow> 'j db \<Rightarrow> bool) \<Rightarrow> 'j world \<Rightarrow> 'j world \<Rightarrow> bool" where
  "later Q w w' \<longleftrightarrow> tick w \<le> tick w' \<and> Q (db w) (db w')"

locale panel_writes = db_frame Q for Q :: "'j db \<Rightarrow> 'j db \<Rightarrow> bool" +
  fixes E :: "'j ext"
  assumes set_token: "set_token_tx E tok d = Inr (u, d') \<Longrightarrow> Q d d'"
    and delete_token: "delete_token_tx E i d = Inr (u, d') \<Longrightarrow> Q d d'"
    and set_device: "set_device_tx E dev d = Inr (u, d') \<Longrightarrow> Q d d'"
    and delete_device: "Q d (d\<lparr>device_table := tdel (device_key i) (device_table d)\<rparr>)"
    and set_user: "set_admin_user_tx E user d = Inr (u, d') \<Longrightarrow> Q d d'"
    and delete_user: "Q d (d\<lparr>admin_user_table := tdel (admin_user_key name) (admin_user_table d)\<rparr>)"
    and create_namespace: "to_vec (c_metadata E) empty_metadata = Inr v
      \<Longrightarrow> Q d (d\<lparr>metadata_table := tput (metadata_key ns) v (metadata_table d)\<rparr>)"
    and soft_delete: "soft_delete_namespace_tx E ns at d = Inr (u, d') \<Longrightarrow> Q d d'"
    and restore: "Q d (restore_namespace_tx ns d)"
    and hard_delete: "Q d (hard_delete_namespace_tx ns d)"
    and set_usage: "set_namespace_usage_tx E ns us d = Inr (us', d') \<Longrightarrow> Q d d'"

sublocale panel_writes \<subseteq> after: frame "later Q"
  by unfold_locales (auto simp: later_def Q_refl intro: Q_trans)

context panel_writes
begin

lemma later_sample: "moves (later Q) (sample f)"
  by (simp add: moves_def sample_def later_def Q_refl)

lemma later_outside: "moves (later Q) (utc_now E')" "moves (later Q) (now_rfc3339 E')" "moves (later Q) (new_uuid E')"
  by (simp_all add: outside_defs later_sample)

lemma later_read: "moves (later Q) (read_txn E' conv f)"
  by (auto simp: moves_def read_txn_def later_def Q_refl split: option.splits)

lemma later_write: "(\<And>d x d'. f d = Inr (x, d') \<Longrightarrow> Q d d') \<Longrightarrow> moves (later Q) (write_txn E' conv f)"
  by (auto simp: moves_def write_txn_def later_def Q_refl split: option.splits sum.splits)

lemmas later_rules = after.frame_rules later_sample later_outside later_read

lemma later_writes:
  "moves (later Q) (db_set_token E tok)" "moves (later Q) (db_delete_token E i)"
  "moves (later Q) (db_set_device E dev)" "moves (later Q) (db_delete_device E i)"
  "moves (later Q) (db_set_admin_user E user)" "moves (later Q) (db_delete_admin_user E name)"
  "moves (later Q) (db_soft_delete_namespace E ns at)" "moves (later Q) (db_restore_namespace E ns)"
  "moves (later Q) (db_hard_delete_namespace E ns)" "moves (later Q) (db_check_writable E)"
  unfolding db_set_token_def db_delete_token_def db_set_device_def db_delete_device_def db_set_admin_user_def
    db_delete_admin_user_def db_soft_delete_namespace_def db_restore_namespace_def db_hard_delete_namespace_def
    db_check_writable_def
  by (rule later_write, (erule set_token delete_token set_device set_user soft_delete
      | auto intro: Q_refl delete_device delete_user restore hard_delete))+

lemma later_refresh: "moves (later Q) (db_refresh_namespace_usage E ns now s)"
  by (auto simp: db_refresh_namespace_usage_def db_reads intro!: later_rules later_write set_usage split: prod.split)

lemma later_session: "moves (later Q) (validate_admin_session E st hs)"
  by (auto simp: validate_admin_session_def validate_admin_jwt_def db_reads Let_def intro!: later_rules)

lemma later_checks:
  "moves (later Q) (verify_admin E st hs)" "moves (later Q) (verify_admin_mutation E st hs)"
  "moves (later Q) (ensure_disk_capacity E st n)" "moves (later Q) (hash_new_password E p)"
  "moves (later Q) (password_too_short p)" "moves (later Q) (enabled_admin_user_count E)"
  "moves (later Q) (create_admin_jwt_for_user E s u v)" "moves (later Q) (record_user_login_failure E user)"
  by (auto simp: verify_admin_mutation_def verify_admin_def ensure_disk_capacity_def hash_new_password_def
      hash_admin_password_def password_too_short_def enabled_admin_user_count_def create_admin_jwt_for_user_def
      record_user_login_failure_def db_reads Let_def
      intro!: later_rules later_session later_writes split: option.split)

lemma later_parts:
  "moves (later Q) (require_token E i)" "moves (later Q) (seal_token E st raw)"
  "moves (later Q) (effective_token_expiry E st x)" "moves (later Q) (require_device E a)"
  "moves (later Q) (link_device E a t)" "moves (later Q) (unlink_device E a t)"
  "moves (later Q) (update_token_enabled E b tok)" "moves (later Q) (update_token_expiry E e tok)"
  "moves (later Q) (panel_token_expired E tok)" "moves (later Q) (serialize_token_summary E tok)"
  "moves (later Q) (unlink_token E a i)" "moves (later Q) (link_token E a i)"
  "moves (later Q) (check_pattern E p)" "moves (later Q) (check_token E a)"
  "moves (later Q) (namespace_exists E ns)" "moves (later Q) (namespace_entry E ns del)"
  "moves (later Q) (namespace_total E ns)" "moves (later Q) (update_password E p user)"
  "moves (later Q) (update_enabled E b user)"
  by (auto simp: require_token_def seal_token_def encrypt_def effective_token_expiry_def require_device_def
      link_device_def unlink_device_def update_token_enabled_def update_token_expiry_def panel_token_expired_def
      serialize_token_summary_def unlink_token_def link_token_def check_pattern_def check_token_def
      namespace_exists_def db_list_object_paths_def namespace_entry_def stored_metadata_def namespace_total_def
      update_password_def update_enabled_def db_reads Let_def
      intro!: later_rules later_writes later_checks split: option.split prod.split)

lemma later_updates:
  "moves (later Q) (update_token_device E dv tok)" "moves (later Q) (update_device_fields E ub dev)"
  "moves (later Q) (set_token_device_link E a b i)"
  by (auto simp: update_token_device_def update_device_fields_def set_token_device_link_def Let_def
      intro!: later_rules later_parts split: option.split)

lemma later_serialized:
  "(\<And>x. r = Inr x \<Longrightarrow> moves (later Q) (f x)) \<Longrightarrow> moves (later Q) (bindE (map_err c (lift_res r)) f)"
  by (rule movesI) (auto simp: bindE_def map_err_def after.frame_refl split: prod.splits sum.splits dest: movesD)

lemma later_namespaces:
  "moves (later Q) (admin_create_namespace E st hs ns)" "moves (later Q) (admin_delete_namespace E st ns h hs)"
  "moves (later Q) (admin_restore_namespace E st ns hs)" "moves (later Q) (admin_list_namespaces E st hs)"
  by (auto simp: admin_create_namespace_def admin_delete_namespace_def admin_restore_namespace_def
      admin_list_namespaces_def db_is_namespace_deleted_def db_set_metadata_def db_list_namespaces_def
      db_list_deleted_namespaces_def Let_def
      intro!: later_serialized later_rules later_checks later_parts later_writes later_refresh
        later_write create_namespace split: prod.split)

lemma later_accounts:
  "moves (later Q) (admin_logout E st hs)" "moves (later Q) (admin_current_user E st hs)"
  "moves (later Q) (admin_change_own_password E st hs b)" "moves (later Q) (admin_list_users E st hs)"
  "moves (later Q) (admin_create_user E st hs cb)" "moves (later Q) (admin_update_user E st name hs ub)"
  "moves (later Q) (admin_delete_user E st name hs)"
  by (auto simp: admin_logout_def admin_current_user_def admin_change_own_password_def admin_list_users_def
      admin_create_user_def admin_update_user_def admin_delete_user_def db_reads Let_def
      intro!: later_rules later_checks later_session later_parts later_writes)

lemma later_tokens:
  "moves (later Q) (admin_list_tokens E st hs)" "moves (later Q) (admin_create_token E st hs ct)"
  "moves (later Q) (admin_update_token E st i hs ut)" "moves (later Q) (admin_rotate_token E st i hs)"
  "moves (later Q) (admin_reveal_token E st i hs)" "moves (later Q) (admin_delete_token E st i hs)"
  by (auto simp: admin_list_tokens_def admin_create_token_def admin_update_token_def admin_rotate_token_def
      admin_reveal_token_def admin_delete_token_def db_reads Let_def
      intro!: later_rules later_checks later_parts later_updates later_writes)

lemma later_devices:
  "moves (later Q) (admin_list_devices E st hs)" "moves (later Q) (admin_create_device E st hs cd)"
  "moves (later Q) (admin_update_device E st i hs ud)" "moves (later Q) (admin_delete_device E st i hs)"
  "moves (later Q) (admin_list_conflicts E st hs)" "moves (later Q) (admin_stats E st hs n v)"
  by (auto simp: admin_list_devices_def admin_create_device_def admin_update_device_def admin_delete_device_def
      admin_list_conflicts_def admin_stats_def db_reads Let_def
      intro!: later_rules later_checks later_parts later_updates later_writes)

lemma panel_later: "\<not> is_login rq \<Longrightarrow> moves (later Q) (serve_panel E st ip hs rq)"
  by (cases rq) (auto simp: fmap_def intro!: after.frame_bindE after.frame_ret later_namespaces later_accounts
      later_tokens later_devices)

end

text \<open>The writes of a login.\<close>

locale all_panel_writes = panel_writes +
  assumes set_attempt: "set_login_attempt_tx E ip la d = Inr (u, d') \<Longrightarrow> Q d d'"
    and delete_attempt: "Q d (d\<lparr>login_attempt_table := tdel ip (login_attempt_table d)\<rparr>)"
    and cleanup_attempts: "Q d (cleanup_login_attempts_tx E now win d)"
begin

lemma later_attempts:
  "moves (later Q) (db_set_login_attempt E ip la)" "moves (later Q) (db_delete_login_attempt E ip)"
  "moves (later Q) (db_cleanup_login_attempts E now win)"
  unfolding db_set_login_attempt_def db_delete_login_attempt_def db_cleanup_login_attempts_def
  by (rule later_write, (erule set_attempt | auto intro: delete_attempt cleanup_attempts))+

lemma later_login: "moves (later Q) (admin_login E st hs ip body)"
  by (auto simp: admin_login_def ensure_login_allowed_def record_login_failure_def clear_login_failures_def
      db_get_login_attempt_def db_reads Let_def
      intro!: later_rules later_checks later_writes later_attempts split: option.split)

lemma all_later: "moves (later Q) (serve_panel E st ip hs rq)"
proof (cases "is_login rq")
  case True
  then show ?thesis
    by (cases rq) (auto simp: fmap_def intro!: after.frame_bindE after.frame_ret later_login)
qed (rule panel_later)

end

section \<open>Time, login attempts and ETags\<close>

interpretation passing: all_panel_writes "\<lambda>_ _. True" E for E :: "'j ext"
  by unfold_locales auto

definition attempts_kept :: "'j db \<Rightarrow> 'j db \<Rightarrow> bool" where
  "attempts_kept d d' \<longleftrightarrow> login_attempt_table d' = login_attempt_table d"

interpretation throttle: panel_writes attempts_kept E for E :: "'j ext"
  by unfold_locales
    (auto simp: attempts_kept_def set_token_tx_def delete_token_tx_def set_device_tx_def set_admin_user_tx_def
      soft_delete_namespace_tx_def restore_namespace_tx_def hard_delete_namespace_tx_def
      set_namespace_usage_tx_def Let_def split: sum.splits option.splits)

text \<open>
  The metadata of a namespace stays as it was, or has no ETag afterwards: the panel removes
  metadata, and creates the empty one, but it never writes a version.
\<close>

definition no_new_etag :: "'j ext \<Rightarrow> 'j db \<Rightarrow> 'j db \<Rightarrow> bool" where
  "no_new_etag E d d' \<longleftrightarrow>
     (\<forall>ns. meta_at E ns d' = meta_at E ns d \<or> Option.bind (meta_at E ns d') meta_etag = None)"

lemma meta_at_row:
  "tget (metadata_table d') (metadata_key ns) = tget (metadata_table d) (metadata_key ns) \<Longrightarrow> meta_at E ns d' = meta_at E ns d"
  by (simp add: meta_at_def)

lemma no_new_etag_same: "metadata_table d' = metadata_table d \<Longrightarrow> no_new_etag E d d'"
  by (simp add: no_new_etag_def meta_at_def)

lemma no_new_etag_rows:
  assumes "\<And>ns. tget (metadata_table d') (metadata_key ns) = tget (metadata_table d) (metadata_key ns)
     \<or> Option.bind (meta_at E ns d') meta_etag = None"
  shows "no_new_etag E d d'"
  unfolding no_new_etag_def using assms meta_at_row by metis

definition etags_stay :: "'j ext \<Rightarrow> 'j db \<Rightarrow> 'j db \<Rightarrow> bool" where
  "etags_stay E d d' \<longleftrightarrow> (codecs_ok E \<longrightarrow> no_new_etag E d d')"

lemma no_new_etag_trans: "no_new_etag E d e \<Longrightarrow> no_new_etag E e f \<Longrightarrow> no_new_etag E d f"
  unfolding no_new_etag_def by metis

lemma no_new_etag_empty:
  assumes "codecs_ok E" "to_vec (c_metadata E) empty_metadata = Inr v"
  shows "no_new_etag E d (d\<lparr>metadata_table := tput (metadata_key ns) v (metadata_table d)\<rparr>)"
proof (rule no_new_etag_rows)
  fix m
  let ?d = "d\<lparr>metadata_table := tput (metadata_key ns) v (metadata_table d)\<rparr>"
  have "meta_at E ns ?d = Some empty_metadata"
    by (rule meta_at_put [OF codecs_okD(1) [OF assms(1)] assms(2)]) simp
  then show "tget (metadata_table ?d) (metadata_key m) = tget (metadata_table d) (metadata_key m)
      \<or> Option.bind (meta_at E m ?d) meta_etag = None"
    by (cases "m = ns") (simp_all add: empty_metadata_def metadata_key_def)
qed

lemma no_new_etag_hard_delete: "no_new_etag E d (hard_delete_namespace_tx ns d)"
proof (rule no_new_etag_rows)
  show "tget (metadata_table (hard_delete_namespace_tx ns d)) (metadata_key m) = tget (metadata_table d) (metadata_key m)
      \<or> Option.bind (meta_at E m (hard_delete_namespace_tx ns d)) meta_etag = None" for m
    by (cases "m = ns") (simp_all add: hard_delete_rows meta_at_def)
qed

interpretation etags: all_panel_writes "etags_stay E" E for E :: "'j ext"
proof unfold_locales
  show "etags_stay E d f" if "etags_stay E d e" "etags_stay E e f" for d e f :: "'j db"
    using that no_new_etag_trans unfolding etags_stay_def by blast
qed (auto simp: etags_stay_def set_token_tx_def delete_token_tx_def set_device_tx_def set_admin_user_tx_def
      soft_delete_namespace_tx_def restore_namespace_tx_def set_namespace_usage_tx_def set_login_attempt_tx_def
      cleanup_login_attempts_tx_def Let_def intro: no_new_etag_same no_new_etag_empty no_new_etag_hard_delete
      split: sum.splits option.splits)

lemma panel_no_new_etag:
  assumes "codecs_ok E" "serve_panel E st ip hs rq w = (r, w')"
  shows "no_new_etag E (db w) (db w')"
  using movesD [OF etags.all_later assms(2)] assms(1) by (simp add: later_def etags_stay_def)

lemma panel_ticks:
  assumes "serve_panel E st ip hs rq w = (r, w')"
  shows "tick w \<le> tick w'"
  using movesD [OF passing.all_later assms] by (simp add: later_def)

end
