(* ===== verification/Panel_Throttle.thy ===== *)
theory Panel_Throttle
  imports Panel_Access Panel_Writes
begin

text \<open>
  The throttle of the login over whole runs of the server: the failed logins of an address
  are counted however they are mixed with other requests, and the block they lead to outlives
  whatever the server answers until the lockout has passed, logins included.
\<close>

section \<open>Counting failed logins among other requests\<close>

fun login_from :: "'j ext \<Rightarrow> app_state \<Rightarrow> string \<Rightarrow> string \<times> headers \<times> request \<Rightarrow> bool" where
  "login_from E st ip (peer, hs, Panel (Login body)) \<longleftrightarrow> resolve_client_ip E hs peer st = ip"
| "login_from E st ip _ \<longleftrightarrow> False"

text \<open>The refused logins of an address since its last successful one, over a run of the server.\<close>

fun login_streak :: "'j ext \<Rightarrow> app_state \<Rightarrow> string \<Rightarrow> nat \<Rightarrow> (string \<times> headers \<times> request) list \<Rightarrow> 'j world \<Rightarrow> nat" where
  "login_streak E st ip n [] w = n"
| "login_streak E st ip n (q # qs) w = login_streak E st ip
     (if \<not> login_from E st ip q then n else if res_ok (fst (respond E st q w)) = None then Suc n else 0)
     qs (snd (respond E st q w))"

text \<open>
  What a streak leaves on record: below the maximum the count, from the maximum on a block
  that lasts to the end of the lockout.
\<close>

definition throttled :: "'j ext \<Rightarrow> app_state \<Rightarrow> int \<Rightarrow> int \<Rightarrow> nat \<Rightarrow> login_attempt_record option \<Rightarrow> bool" where
  "throttled E st t0 t1 n found \<longleftrightarrow> (if n < unat (max_login_failures st) then tried E st t0 t1 n found
     else \<exists>b. blocked_until E found = Some b \<and> t0 + seconds (login_lockout_seconds st) \<le> b)"

lemma throttled_next:
  assumes "time_ok E" "printable_time t0" "printable_time t1" "printable_time (t1 + seconds (login_lockout_seconds st))"
    and "0 \<le> seconds (login_lockout_seconds st)" "num_seconds (t1 - t0) \<le> login_window_seconds st"
    and "throttled E st t0 t1 n found" "n < unat (max_login_failures st)" "t0 \<le> now" "now \<le> t1"
  shows "throttled E st t0 t1 (Suc n) (Some (next_attempt E st now found))"
proof -
  have "tried E st t0 t1 n found" using assms(7,8) by (simp add: throttled_def)
  from tried_next [OF assms(1-3) this assms(8-10,6)]
  have t: "tried E st t0 t1 (Suc n) (Some (next_attempt E st now found))" .
  show ?thesis
  proof (cases "Suc n < unat (max_login_failures st)")
    case False
    with assms(8) have "Suc n = unat (max_login_failures st)" by simp
    with t have "tried E st t0 t1 (unat (max_login_failures st)) (Some (next_attempt E st now found))" by simp
    moreover have "max_login_failures st \<noteq> 0" using assms(8) by auto
    ultimately show ?thesis
      using tried_blocked [OF assms(1,2,4,5)] False by (simp add: throttled_def)
  qed (use t in \<open>simp add: throttled_def\<close>)
qed

text \<open>A cleanup in the meantime leaves it on record.\<close>

lemma throttled_stays:
  assumes "throttled E st t0 t1 n found" "t0 \<le> now" "now \<le> t1" "num_seconds (t1 - t0) \<le> login_window_seconds st"
    and "now < t0 + seconds (login_lockout_seconds st)"
  shows "opt_filter (keep_attempt E now (login_window_seconds st)) found = found"
proof (cases "n < unat (max_login_failures st)")
  case True
  with assms(1) have "tried E st t0 t1 n found" by (simp add: throttled_def)
  from tried_kept [OF this True assms(2-4)] show ?thesis .
next
  case False
  with assms(1,5) obtain r b where "found = Some r" "blocked_until E (Some r) = Some b" "now < b"
    by (cases found) (auto simp: throttled_def blocked_until_def)
  then show ?thesis by (auto simp: blocked_until_def keep_attempt_def Let_def split: option.splits)
qed

text \<open>After the throttle a login from one address leaves the attempts of the others alone.\<close>

abbreviation row_kept :: "string \<Rightarrow> 'j world \<Rightarrow> 'j world \<Rightarrow> bool" where
  "row_kept ip \<equiv> keeps (\<lambda>w. tget (attempts w) ip)"

lemma row_kept_writes:
  "moves (row_kept ip) (db_set_admin_user E user)"
  "ip' \<noteq> ip \<Longrightarrow> moves (row_kept ip) (db_set_login_attempt E ip' la)"
  "ip' \<noteq> ip \<Longrightarrow> moves (row_kept ip) (db_delete_login_attempt E ip')"
  by (auto simp: db_set_admin_user_def set_admin_user_tx_def db_set_login_attempt_def set_login_attempt_tx_def
      db_delete_login_attempt_def intro!: keep_write_txn split: sum.splits)

lemma row_kept_parts:
  "moves (row_kept ip) (record_user_login_failure E user)" "moves (row_kept ip) (create_admin_jwt_for_user E s u v)"
  "ip' \<noteq> ip \<Longrightarrow> moves (row_kept ip) (record_login_failure E st ip')"
  "ip' \<noteq> ip \<Longrightarrow> moves (row_kept ip) (clear_login_failures E ip')"
  by (auto simp: record_user_login_failure_def create_admin_jwt_for_user_def record_login_failure_def
      clear_login_failures_def db_get_login_attempt_def Let_def intro!: keep_rules row_kept_writes)

lemma login_after_throttle:
  assumes "resolve_client_ip E hs peer st \<noteq> ip"
  shows "\<exists>f. admin_login E st hs peer body = bindE (ensure_login_allowed E st (resolve_client_ip E hs peer st)) f
    \<and> (\<forall>u. moves (row_kept ip) (f u))"
  unfolding admin_login_def Let_def
  by (rule exI, rule conjI [OF refl])
    (auto simp: db_get_admin_user_def intro!: keep_rules row_kept_parts row_kept_writes assms split: option.split)

lemma attempt_in_row: "tget t' ip = tget t ip \<Longrightarrow> attempt_in E t' ip = attempt_in E t ip"
  by (simp add: attempt_in_def)

lemma other_login_keeps:
  assumes ok: "no_faults E" "codecs_ok E" "rows_wf E (db w)" and other: "resolve_client_ip E hs peer st \<noteq> ip"
    and stays: "opt_filter (keep_attempt E (clock E (tick w)) (login_window_seconds st)) (attempt_in E (attempts w) ip)
      = attempt_in E (attempts w) ip"
    and run: "admin_login E st hs peer body w = (r, w')"
  shows "attempt_in E (attempts w') ip = attempt_in E (attempts w) ip"
proof -
  let ?ip = "resolve_client_ip E hs peer st"
  let ?w1 = "\<lparr>db = cleanup_login_attempts_tx E (clock E (tick w)) (login_window_seconds st) (db w), tick = tick w + 3\<rparr>"
  have kept: "attempt_in E (attempts ?w1) ip = attempt_in E (attempts w) ip"
    using attempt_in_cleanup [OF rows_wfD(4) [OF ok(3)]] stays by simp
  obtain f where f: "admin_login E st hs peer body = bindE (ensure_login_allowed E st ?ip) f" "\<And>u. moves (row_kept ip) (f u)"
    using login_after_throttle [OF other, of body] by blast
  obtain x where "ensure_login_allowed E st ?ip w = (x, ?w1)"
    using ensure_login_allowed_run [OF ok, of st ?ip] by (auto simp: Let_def split: option.splits if_splits)
  with run f(1) have "w' = ?w1 \<or> (\<exists>u. f u ?w1 = (r, w'))"
    by (cases x) (auto simp: bindE_def)
  then have "tget (attempts w') ip = tget (attempts ?w1) ip"
    using movesD [OF f(2)] by (auto simp: keeps_def)
  with kept show ?thesis using attempt_in_row by metis
qed

text \<open>Requests that are no login from the address.\<close>

lemma respond_ticks:
  assumes "respond E st q w = (r, w')"
  shows "tick w \<le> tick w'"
proof -
  obtain peer hs q' where q: "q = (peer, hs, q')" by (cases q)
  show ?thesis
  proof (cases q')
    case (Sync ns rq)
    with assms q obtain r0 where "serve E st ns peer hs rq w = (r0, w')" by (auto dest: fmap_run)
    from movesD [OF serve_index this] show ?thesis by (simp add: index_kept_def)
  next
    case (Panel rq)
    with assms q obtain r0 where "serve_panel E st peer hs rq w = (r0, w')" by (auto dest: fmap_run)
    then show ?thesis by (rule panel_ticks)
  qed
qed

lemma run_server_ticks: "tick w \<le> tick (run_server E st qs w)"
proof (induction qs arbitrary: w)
  case (Cons q qs)
  have "tick w \<le> tick (snd (respond E st q w))" by (rule respond_ticks [of E st q w "fst (respond E st q w)"]) simp
  with Cons [of "snd (respond E st q w)"] show ?case by simp
qed simp

lemma other_request_keeps:
  assumes ok: "no_faults E" "codecs_ok E" "rows_wf E (db w)" and other: "\<not> login_from E st ip q"
    and stays: "opt_filter (keep_attempt E (clock E (tick w)) (login_window_seconds st)) (attempt_in E (attempts w) ip)
      = attempt_in E (attempts w) ip"
    and run: "respond E st q w = (r, w')"
  shows "attempt_in E (attempts w') ip = attempt_in E (attempts w) ip"
proof -
  obtain peer hs q' where q: "q = (peer, hs, q')" by (cases q)
  show ?thesis
  proof (cases q')
    case (Sync ns rq)
    with run q obtain r0 where "serve E st ns peer hs rq w = (r0, w')" by (auto dest: fmap_run)
    from movesD [OF serve_index this] show ?thesis by (simp add: index_kept_def)
  next
    case (Panel rq)
    with run q obtain r0 where p: "serve_panel E st peer hs rq w = (r0, w')" by (auto dest: fmap_run)
    show ?thesis
    proof (cases "is_login rq")
      case False
      from movesD [OF throttle.panel_later [OF this] p] show ?thesis by (simp add: later_def attempts_kept_def)
    next
      case True
      then obtain body where rq: "rq = Login body" by (cases rq) auto
      with p obtain r1 where l: "admin_login E st hs peer body w = (r1, w')" by (auto dest: fmap_run)
      have "resolve_client_ip E hs peer st \<noteq> ip" using other q Panel rq by simp
      from other_login_keeps [OF ok this stays l] show ?thesis .
    qed
  qed
qed

section \<open>From the first failure to the end of the lockout\<close>

text \<open>A login from the address, below the maximum and from it on.\<close>

lemma own_login_throttled:
  assumes ok: "no_faults E" "codecs_ok E" "rows_wf E (db w)" "time_ok E" "jwt_ok E" "uuid_text E" "admin_enabled st"
    and range: "printable_time t0" "printable_time t1" "printable_time (t1 + seconds (login_lockout_seconds st))"
    and len: "0 \<le> seconds (login_lockout_seconds st)" "num_seconds (t1 - t0) \<le> login_window_seconds st"
    and m: "max_login_failures st \<noteq> 0"
    and inv: "throttled E st t0 t1 n (attempt_in E (attempts w) (resolve_client_ip E hs peer st))"
    and run: "admin_login E st hs peer body w = (r, w')"
    and now: "\<forall>i. tick w \<le> i \<and> i \<le> tick w' \<longrightarrow> t0 \<le> clock E i \<and> clock E i \<le> t1 \<and> clock E i < t0 + seconds (login_lockout_seconds st)"
  shows "throttled E st t0 t1 (if res_ok r = None then Suc n else 0) (attempt_in E (attempts w') (resolve_client_ip E hs peer st))"
proof -
  let ?ip = "resolve_client_ip E hs peer st" and ?max = "unat (max_login_failures st)"
  have "tick w \<le> tick w'" using login_ticks [of w E st hs peer body] run by simp
  then have t: "t0 \<le> clock E (tick w)" "clock E (tick w) \<le> t1" "clock E (tick w) < t0 + seconds (login_lockout_seconds st)"
    using now by auto
  show ?thesis
  proof (cases "n < ?max")
    case False
    with inv t(3) have "login_blocked E ?ip (clock E (tick w)) (attempts w)"
      by (auto simp: throttled_def login_blocked_def)
    from login_while_blocked [OF ok(1-3) this, of body] run False inv show ?thesis
      by (auto simp: throttled_def)
  next
    case True
    with inv have tr: "tried E st t0 t1 n (attempt_in E (attempts w) ?ip)" by (simp add: throttled_def)
    have free: "\<not> login_blocked E ?ip (clock E (tick w)) (attempts w)"
      using tried_free [OF tr True] by (simp add: login_blocked_def)
    show ?thesis
    proof (cases "credentials_ok E body (accounts w)")
      case True
      then obtain u where "user_in E (accounts w) (login_name body) = Some u" "usr_enabled u"
          "verify_admin_password E (lr_password body) (usr_password_hash u)"
        by (auto simp: credentials_ok_def)
      from login_succeeds [OF ok(1-3,5-7) free this] run
      have "res_ok r \<noteq> None" "attempt_in E (attempts w') ?ip = None" by auto
      then show ?thesis using m by (cases "res_ok r") (simp_all add: throttled_def tried_def unat_gt_0)
    next
      case False
      from login_fails [OF ok(1-3,7) free this, unfolded counted_attempt_def] run obtain i where
        i: "tick w < i" "i < tick w'" "res_ok r = None" and att: "attempt_in E (attempts w') ?ip = Some (next_attempt E st (clock E i)
          (opt_filter (keep_attempt E (clock E (tick w)) (login_window_seconds st)) (attempt_in E (attempts w) ?ip)))"
        by auto
      have "t0 \<le> clock E i" "clock E i \<le> t1" using now i(1,2) by auto
      from throttled_next [OF ok(4) range len inv True this] show ?thesis
        unfolding att throttled_stays [OF inv t(1,2) len(2) t(3)] using i(3) by simp
    qed
  qed
qed

lemma streak_throttled:
  assumes ok: "no_faults E" "ext_ok E" "time_ok E" "jwt_ok E" "uuid_text E" "admin_enabled st"
    and range: "printable_time t0" "printable_time t1" "printable_time (t1 + seconds (login_lockout_seconds st))"
    and len: "0 \<le> seconds (login_lockout_seconds st)" "num_seconds (t1 - t0) \<le> login_window_seconds st"
    and m: "max_login_failures st \<noteq> 0"
  shows "world_ok E w \<Longrightarrow> throttled E st t0 t1 n (attempt_in E (attempts w) ip) \<Longrightarrow>
    \<forall>i. tick w \<le> i \<and> i \<le> tick (run_server E st qs w) \<longrightarrow>
      t0 \<le> clock E i \<and> clock E i \<le> t1 \<and> clock E i < t0 + seconds (login_lockout_seconds st) \<Longrightarrow>
    world_ok E (run_server E st qs w) \<and>
    throttled E st t0 t1 (login_streak E st ip n qs w) (attempt_in E (attempts (run_server E st qs w)) ip)"
proof (induction qs arbitrary: w n)
  case (Cons q qs)
  let ?ok = "\<lambda>i. t0 \<le> clock E i \<and> clock E i \<le> t1 \<and> clock E i < t0 + seconds (login_lockout_seconds st)"
  have c: "codecs_ok E" using ok(2) by (simp add: ext_ok_def)
  have wf: "rows_wf E (db w)" using Cons.prems(1) by (simp add: world_ok_def db_wf_def)
  obtain r w' where run: "respond E st q w = (r, w')" by (cases "respond E st q w")
  have le: "tick w \<le> tick w'" "tick w' \<le> tick (run_server E st (q # qs) w)"
    using respond_ticks [OF run] run_server_ticks [of w' E st qs] run by simp_all
  have now: "\<forall>i. tick w \<le> i \<and> i \<le> tick w' \<longrightarrow> ?ok i" "\<forall>i. tick w' \<le> i \<and> i \<le> tick (run_server E st qs w') \<longrightarrow> ?ok i"
    using Cons.prems(3) le run by auto
  have world: "world_ok E w'" using movesD [OF respond_served run] ok(2) Cons.prems(1) by (simp add: serves_def)
  let ?n = "if \<not> login_from E st ip q then n else if res_ok r = None then Suc n else 0"
  have "throttled E st t0 t1 ?n (attempt_in E (attempts w') ip)"
  proof (cases "login_from E st ip q")
    case False
    have "opt_filter (keep_attempt E (clock E (tick w)) (login_window_seconds st)) (attempt_in E (attempts w) ip)
        = attempt_in E (attempts w) ip"
      by (rule throttled_stays [OF Cons.prems(2) _ _ len(2)]) (use now(1) le(1) in auto)
    from other_request_keeps [OF ok(1) c wf False this run] Cons.prems(2) False show ?thesis by simp
  next
    case True
    then obtain peer hs body where q: "q = (peer, hs, Panel (Login body))" "resolve_client_ip E hs peer st = ip"
      by (cases "(E, st, ip, q)" rule: login_from.cases) auto
    then obtain r0 where r0: "admin_login E st hs peer body w = (r0, w')" "res_ok r = None \<longleftrightarrow> res_ok r0 = None"
      using run by (auto dest!: fmap_run simp: res_ok_def split: sum.splits)
    from own_login_throttled [OF ok(1) c wf ok(3-6) range len m _ r0(1) now(1), of n] Cons.prems(2) q(2) True r0(2)
    show ?thesis by simp
  qed
  from Cons.IH [OF world this now(2)] run show ?case
    by (cases "login_from E st ip q"; cases "res_ok r") simp_all
qed simp

text \<open>Requests of any kind, one after the other, until the block ends.\<close>

lemma run_server_keeps_block:
  assumes ok: "no_faults E" "ext_ok E"
  shows "world_ok E w \<Longrightarrow> blocked_until E (attempt_in E (attempts w) ip) = Some b \<Longrightarrow>
    \<forall>i. tick w \<le> i \<and> i \<le> tick (run_server E st qs w) \<longrightarrow> clock E i < b \<Longrightarrow>
    attempt_in E (attempts (run_server E st qs w)) ip = attempt_in E (attempts w) ip"
proof (induction qs arbitrary: w)
  case (Cons q qs)
  have c: "codecs_ok E" using ok(2) by (simp add: ext_ok_def)
  have wf: "rows_wf E (db w)" using Cons.prems(1) by (simp add: world_ok_def db_wf_def)
  obtain r w' where run: "respond E st q w = (r, w')" by (cases "respond E st q w")
  have "tick w \<le> tick (run_server E st (q # qs) w)" by (rule run_server_ticks)
  with Cons.prems(3) have now: "clock E (tick w) < b" by simp
  with Cons.prems(2) have blocked: "login_blocked E ip (clock E (tick w)) (attempts w)" by (auto simp: login_blocked_def)
  have keep: "attempt_in E (attempts w') ip = attempt_in E (attempts w) ip"
  proof (cases "login_from E st ip q")
    case True
    then obtain peer hs body where q: "q = (peer, hs, Panel (Login body))" "resolve_client_ip E hs peer st = ip"
      by (cases "(E, st, ip, q)" rule: login_from.cases) auto
    then obtain r0 where "admin_login E st hs peer body w = (r0, w')" using run by (auto dest!: fmap_run)
    with login_while_blocked [OF ok(1) c wf, of hs peer st body] blocked q(2) show ?thesis by auto
  next
    case False
    obtain la where la: "attempt_in E (attempts w) ip = Some la" "blocked_until E (Some la) = Some b"
      using Cons.prems(2) by (cases "attempt_in E (attempts w) ip") (auto simp: blocked_until_def)
    with now have "opt_filter (keep_attempt E (clock E (tick w)) (login_window_seconds st)) (attempt_in E (attempts w) ip)
        = attempt_in E (attempts w) ip"
      by (auto simp: blocked_until_def keep_attempt_def Let_def split: option.splits)
    from other_request_keeps [OF ok(1) c wf False this run] show ?thesis .
  qed
  have "world_ok E w'" using movesD [OF respond_served run] ok(2) Cons.prems(1) by (simp add: serves_def)
  from Cons.IH [OF this] Cons.prems(2,3) keep respond_ticks [OF run] run show ?case by simp
qed simp

text \<open>Both together.\<close>

lemma locked_out:
  assumes ok: "no_faults E" "ext_ok E" "time_ok E" "jwt_ok E" "uuid_text E" "world_ok E w" "admin_enabled st"
    and range: "printable_time t0" "printable_time (t1 + seconds (login_lockout_seconds st))"
    and fresh: "attempt_in E (attempts w) ip = None"
    and w1: "w1 = run_server E st before w" "max_login_failures st \<noteq> 0"
      "unat (max_login_failures st) \<le> login_streak E st ip 0 before w"
      "num_seconds (t1 - t0) \<le> login_window_seconds st"
      "\<forall>i. tick w \<le> i \<and> i \<le> tick w1 \<longrightarrow> t0 \<le> clock E i \<and> clock E i \<le> t1"
    and w2: "w2 = run_server E st between w1"
      "\<forall>i. tick w \<le> i \<and> i \<le> tick w2 \<longrightarrow> clock E i < t0 + seconds (login_lockout_seconds st)"
  shows "rows_wf E (db w2)" and "login_blocked E ip (clock E (tick w2)) (attempts w2)"
proof -
  let ?stop = "t0 + seconds (login_lockout_seconds st)"
  have ticks: "tick w \<le> tick w1" "tick w1 \<le> tick w2"
    using run_server_ticks [of w E st before] run_server_ticks [of w1 E st between] by (simp_all add: w1(1) w2(1))
  have now: "t0 \<le> clock E (tick w) \<and> clock E (tick w) \<le> t1" "clock E (tick w) < ?stop"
    using w1(5) w2(2) ticks by simp_all
  then have len: "0 \<le> seconds (login_lockout_seconds st)" and t1: "printable_time t1"
    using range by (auto simp: printable_time_def)
  have start: "throttled E st t0 t1 0 (attempt_in E (attempts w) ip)"
    using fresh w1(2) by (simp add: throttled_def tried_def unat_gt_0)
  have "\<forall>i. tick w \<le> i \<and> i \<le> tick (run_server E st before w) \<longrightarrow> t0 \<le> clock E i \<and> clock E i \<le> t1 \<and> clock E i < ?stop"
    using w1(5) w2(2) ticks by (simp add: w1(1) [symmetric])
  from streak_throttled [OF ok(1-5,7) range(1) t1 range(2) len w1(4,2) ok(6) start this]
  have world: "world_ok E w1" and "throttled E st t0 t1 (login_streak E st ip 0 before w) (attempt_in E (attempts w1) ip)"
    by (simp_all add: w1(1))
  then obtain b where b: "blocked_until E (attempt_in E (attempts w1) ip) = Some b" "?stop \<le> b"
    using w1(3) by (auto simp: throttled_def)
  have "clock E i < b" if "tick w1 \<le> i \<and> i \<le> tick (run_server E st between w1)" for i
  proof -
    have "clock E i < ?stop" using that w2(2) ticks(1) by (simp add: w2(1))
    with b(2) show ?thesis by simp
  qed
  then have "attempt_in E (attempts w2) ip = attempt_in E (attempts w1) ip"
    unfolding w2(1) by (intro run_server_keeps_block [OF ok(1,2) world b(1)]) blast
  moreover have "clock E (tick w2) < ?stop" using w2(2) ticks by simp
  ultimately show "login_blocked E ip (clock E (tick w2)) (attempts w2)"
    using b by (simp add: login_blocked_def)
  show "rows_wf E (db w2)"
    using run_server_serves [of E w1 st between] ok(2) world by (simp add: w2(1) serves_def world_ok_def db_wf_def)
qed

end
