(* ===== verification/Panel_Secrets.thy ===== *)
theory Panel_Secrets
  imports Panel_Access
begin

text \<open>
  The secrets of API tokens: what a request does to the table of tokens, that the sealed
  copy of a secret opens to the secret the token is looked up by, and which secrets the
  gate knows after a token is created, rotated or deleted.
\<close>

section \<open>The table of tokens\<close>

abbreviation tokens :: "'j world \<Rightarrow> 'j table" where
  "tokens w \<equiv> token_table (db w)"

definition token_in :: "'j ext \<Rightarrow> 'j table \<Rightarrow> string \<Rightarrow> api_token option" where
  "token_in E t i = opt_get None (res_ok (decode_row (c_token E) (tget t (token_key i))))"

lemma token_at_in: "token_at E i d = token_in E (token_table d) i"
  by (simp add: token_at_def token_in_def get_token_tx_def)

definition put_token :: "'j ext \<Rightarrow> 'j table \<Rightarrow> api_token \<Rightarrow> 'j table \<Rightarrow> bool" where
  "put_token E t s t' \<longleftrightarrow> (\<exists>v. to_vec (c_token E) s = Inr v \<and> t' = tput (token_key (tok_id s)) v t)"

lemma put_token_in:
  "codec_ok (c_token E) \<Longrightarrow> put_token E t s t' \<Longrightarrow> token_in E t' i = (if i = tok_id s then Some s else token_in E t i)"
  by (auto simp: put_token_def token_in_def decode_row_def dest: codec_ok_decode)

lemma token_in_del: "token_in E (tdel (token_key i) t) j = (if j = i then None else token_in E t j)"
  by (simp add: token_in_def decode_row_def)

lemma aside_keeps: "moves (aside E) m \<Longrightarrow> moves (keeps tokens) m"
  by (erule moves_mono) (simp add: aside_def keeps_def)

lemma runs_aside:
  assumes "moves (aside E) m" "\<And>e. R (Inl e) t"
    and "\<And>w x w'. tokens w = t \<Longrightarrow> m w = (Inr x, w') \<Longrightarrow> runs_from tokens t (f x) R"
  shows "runs_from tokens t (bindE m f) R"
  by (rule runs_skip [OF aside_keeps [OF assms(1)] assms(2,3)])

lemma runs_get_token:
  assumes "\<And>e. R (Inl e) t" "runs_from tokens t (f (token_in E t i)) R"
  shows "runs_from tokens t (bindE (map_err c (db_get_token E i)) f) R"
proof (rule runs_skip)
  show "moves (keeps tokens) (map_err c (db_get_token E i))"
    by (auto simp: db_get_token_def intro!: keep_rules)
  fix w x w'
  assume "tokens w = t" "map_err c (db_get_token E i) w = (Inr x, w')"
  then have "x = token_in E t i"
    by (auto simp: map_err_Inr_iff db_get_token_def txn_ok_iff token_in_def get_token_tx_def)
  then show "runs_from tokens t (f x) R" using assms(2) by simp
qed (rule assms(1))

lemma runs_require_token:
  assumes "\<And>e. R (Inl e) t" "\<And>s. token_in E t i = Some s \<Longrightarrow> runs_from tokens t (f s) R"
  shows "runs_from tokens t (bindE (require_token E i) f) R"
  unfolding require_token_def bindE_assoc
  by (rule runs_get_token, rule assms(1), rule runs_ok_or, rule assms(1), rule assms(2))

lemma runs_set_token_end:
  "(\<And>e. R (Inl e) t) \<Longrightarrow> (\<And>t'. put_token E t s t' \<Longrightarrow> R (Inr ()) t') \<Longrightarrow>
     runs_from tokens t (map_err c (db_set_token E s)) R"
  unfolding db_set_token_def
  by (rule runs_write_txn)
    (auto simp: set_token_tx_def put_token_def encode_row_ok_iff Let_def split: sum.splits)

lemma runs_set_token:
  "(\<And>e. R (Inl e) t) \<Longrightarrow> (\<And>t'. put_token E t s t' \<Longrightarrow> runs_from tokens t' (f ()) R) \<Longrightarrow>
     runs_from tokens t (bindE (map_err c (db_set_token E s)) f) R"
  by (rule runs_bind, rule runs_set_token_end) auto

section \<open>Moves of the table\<close>

text \<open>A sealed copy that opens, under the key of the server, to the secret of the hash.\<close>

definition opens :: "'j ext \<Rightarrow> app_state \<Rightarrow> api_token \<Rightarrow> string \<Rightarrow> bool" where
  "opens E st s raw \<longleftrightarrow> (\<exists>e. tok_encrypted_token s = Some e \<and> open_token E st e = Inr raw)
     \<and> tok_token_hash s = hash_api_token E raw"

text \<open>What a token grants, and grants that the panel hands out.\<close>

definition scope :: "api_token \<Rightarrow> string \<times> string list" where
  "scope s = (tok_namespace_pattern s, tok_permissions s)"

definition scope_ok :: "'j ext \<Rightarrow> string \<times> string list \<Rightarrow> bool" where
  "scope_ok E sc \<longleftrightarrow> validate_namespace_pattern E (fst sc) \<and> validate_permissions (snd sc)"

text \<open>
  A secret is only stored when it was drawn: as the identifier number \<open>k\<close> of the outside, not
  before number \<open>n\<close>.
\<close>

inductive token_move :: "'j ext \<Rightarrow> app_state \<Rightarrow> nat \<Rightarrow> 'j table \<Rightarrow> 'j table \<Rightarrow> bool" for E st n where
  kept: "token_in E t i = Some s \<Longrightarrow> tok_token_hash s' = tok_token_hash s \<Longrightarrow>
     tok_encrypted_token s' = tok_encrypted_token s \<Longrightarrow> scope s' = scope s \<Longrightarrow> to_vec (c_token E) s' = Inr v \<Longrightarrow>
     token_move E st n t (tput (token_key j) v t)"
| sealed: "opens E st s' (uuid_v4 E k) \<Longrightarrow> n \<le> k \<Longrightarrow> scope_ok E (scope s') \<or> (\<exists>i s. token_in E t i = Some s \<and> scope s' = scope s) \<Longrightarrow>
     put_token E t s' t' \<Longrightarrow> token_move E st n t t'"
| gone: "token_move E st n t (tdel (token_key i) t)"

lemma token_kept:
  "put_token E t s' t' \<Longrightarrow> token_in E t i = Some s \<Longrightarrow> tok_token_hash s' = tok_token_hash s \<Longrightarrow>
     tok_encrypted_token s' = tok_encrypted_token s \<Longrightarrow> scope s' = scope s \<Longrightarrow> token_move E st n t t'"
  unfolding put_token_def by (auto intro: token_move.kept)

text \<open>Whatever holds of every row, and of the rows a move stores, holds after the move.\<close>

lemma token_move_rows:
  assumes "codec_ok (c_token E)" "token_move E st n t t'" "\<forall>i s. token_in E t i = Some s \<longrightarrow> P s"
    and "\<And>s s'. P s \<Longrightarrow> tok_token_hash s' = tok_token_hash s \<Longrightarrow> tok_encrypted_token s' = tok_encrypted_token s \<Longrightarrow>
      scope s' = scope s \<Longrightarrow> P s'"
    and "\<And>s' k. opens E st s' (uuid_v4 E k) \<Longrightarrow> n \<le> k \<Longrightarrow>
      scope_ok E (scope s') \<or> (\<exists>s. P s \<and> scope s' = scope s) \<Longrightarrow> P s'"
  shows "\<forall>i s. token_in E t' i = Some s \<longrightarrow> P s"
  using assms(2)
proof cases
  case (kept i s s' v j)
  have "token_in E t' l = (if l = j then Some s' else token_in E t l)" for l
    using kept(1,6) codec_ok_decode [OF assms(1)] by (auto simp: token_in_def decode_row_def)
  moreover have "P s'" by (rule assms(4) [OF _ kept(3-5)]) (use assms(3) kept(2) in blast)
  ultimately show ?thesis using assms(3) by (auto split: if_splits)
next
  case (sealed s' k)
  have "P s'" by (rule assms(5) [OF sealed(1,2)]) (use sealed(3) assms(3) in blast)
  with assms(3) put_token_in [OF assms(1) sealed(4)] show ?thesis by (auto split: if_splits)
next
  case (gone i)
  with assms(3) show ?thesis by (auto simp: token_in_del split: if_splits)
qed

text \<open>Every sealed copy in the table opens to a secret of its token.\<close>

definition sealed_ok :: "'j ext \<Rightarrow> app_state \<Rightarrow> 'j table \<Rightarrow> bool" where
  "sealed_ok E st t \<longleftrightarrow> (\<forall>i s. token_in E t i = Some s \<longrightarrow> tok_encrypted_token s \<noteq> None \<longrightarrow> (\<exists>raw. opens E st s raw))"

lemma token_move_sealed:
  assumes "codec_ok (c_token E)" "token_move E st n t t'" "sealed_ok E st t"
  shows "sealed_ok E st t'"
  unfolding sealed_ok_def
proof (rule token_move_rows [OF assms(1,2)])
  show "\<forall>i s. token_in E t i = Some s \<longrightarrow> tok_encrypted_token s \<noteq> None \<longrightarrow> (\<exists>raw. opens E st s raw)"
    using assms(3) by (simp add: sealed_ok_def)
qed (auto simp: opens_def)

text \<open>Every token grants what the panel could have handed out.\<close>

definition scopes_ok :: "'j ext \<Rightarrow> 'j table \<Rightarrow> bool" where
  "scopes_ok E t \<longleftrightarrow> (\<forall>i s. token_in E t i = Some s \<longrightarrow> scope_ok E (scope s))"

lemma token_move_scopes:
  assumes "codec_ok (c_token E)" "token_move E st n t t'" "scopes_ok E t"
  shows "scopes_ok E t'"
  unfolding scopes_ok_def
  by (rule token_move_rows [OF assms(1,2)]) (use assms(3) in \<open>auto simp: scopes_ok_def\<close>)

text \<open>A hash no token has, of no secret still to be drawn.\<close>

definition hash_dead :: "'j ext \<Rightarrow> nat \<Rightarrow> string \<Rightarrow> 'j table \<Rightarrow> bool" where
  "hash_dead E n h t \<longleftrightarrow> (\<forall>k \<ge> n. secret_hash E k \<noteq> h) \<and> (\<forall>i s. token_in E t i = Some s \<longrightarrow> tok_token_hash s \<noteq> h)"

lemma token_move_dead:
  assumes "codec_ok (c_token E)" "token_move E st n t t'" "hash_dead E n h t"
  shows "hash_dead E n h t'"
proof -
  have fresh: "\<forall>k \<ge> n. hash_api_token E (uuid_v4 E k) \<noteq> h"
    and rows: "\<forall>i s. token_in E t i = Some s \<longrightarrow> tok_token_hash s \<noteq> h"
    using assms(3) unfolding hash_dead_def secret_hash_def by blast+
  have "tok_token_hash s' \<noteq> h" if "opens E st s' (uuid_v4 E k)" "n \<le> k" for s' k
    using that fresh unfolding opens_def by metis
  then have "\<forall>i s. token_in E t' i = Some s \<longrightarrow> tok_token_hash s \<noteq> h"
    by (intro token_move_rows [OF assms(1,2) rows]) simp_all
  with assms(3) show ?thesis unfolding hash_dead_def by blast
qed

text \<open>What a part of a handler does to the table, in moves.\<close>

definition token_moves :: "'j ext \<Rightarrow> app_state \<Rightarrow> nat \<Rightarrow> 'j world \<Rightarrow> 'j world \<Rightarrow> bool" where
  "token_moves E st n w w' \<longleftrightarrow> (token_move E st n)\<^sup>*\<^sup>* (tokens w) (tokens w')"

interpretation secret_moves: frame "token_moves E st n" for E :: "'j ext" and st n
  by unfold_locales (auto simp: token_moves_def)

lemma moves_keep_tokens: "moves (keeps tokens) m \<Longrightarrow> moves (token_moves E st n) m"
  by (erule moves_mono) (simp add: token_moves_def keeps_def)

lemma moves_secret_aside: "moves (aside E) m \<Longrightarrow> moves (token_moves E st n) m"
  by (rule moves_keep_tokens) (rule aside_keeps)

lemma moves_runs:
  "(\<And>t. runs_from tokens t m (\<lambda>r t'. (token_move E st n)\<^sup>*\<^sup>* t t')) \<Longrightarrow> moves (token_moves E st n) m"
  by (rule movesI) (simp add: token_moves_def runs_from_def)

lemma token_moves_keep:
  assumes "codec_ok (c_token E)" "token_moves E st n w w'"
  shows "sealed_ok E st (tokens w) \<Longrightarrow> sealed_ok E st (tokens w')"
    and "scopes_ok E (tokens w) \<Longrightarrow> scopes_ok E (tokens w')"
    and "hash_dead E n h (tokens w) \<Longrightarrow> hash_dead E n h (tokens w')"
  using assms(2) unfolding token_moves_def
  by (induction rule: rtranclp_induct)
    (auto intro: token_move_sealed token_move_scopes token_move_dead assms(1))

text \<open>A drawn secret has a number, so the parts that store one are followed from a number on.\<close>

definition since :: "nat \<Rightarrow> 'j table \<Rightarrow> ('e, 'j world, 'a) act \<Rightarrow> ('e + 'a \<Rightarrow> 'j table \<Rightarrow> bool) \<Rightarrow> bool" where
  "since n t m R \<longleftrightarrow> (\<forall>w r w'. tokens w = t \<longrightarrow> n \<le> tick w \<longrightarrow> m w = (r, w') \<longrightarrow> R r (tokens w'))"

lemma since_aside:
  assumes "moves (aside E) m" "\<And>e. R (Inl e) t"
    and "\<And>w x w'. n \<le> tick w \<Longrightarrow> m w = (Inr x, w') \<Longrightarrow> since n t (f x) R"
  shows "since n t (bindE m f) R"
  unfolding since_def
proof (intro allI impI)
  fix w r w'
  assume w: "tokens w = t" "n \<le> tick w" and run: "bindE m f w = (r, w')"
  obtain x w1 where m: "m w = (x, w1)" by (cases "m w")
  have w1: "tokens w1 = t" "n \<le> tick w1" using movesD [OF assms(1) m] w by (auto simp: aside_def)
  show "R r (tokens w')"
  proof (cases x)
    case (Inl e)
    with run m assms(2) w1 show ?thesis by (auto simp: bindE_def)
  next
    case (Inr y)
    with run m assms(3) [OF w(2)] w1 show ?thesis by (auto simp: bindE_def since_def)
  qed
qed

lemma since_unless:
  "R (Inl e) t \<Longrightarrow> (\<not> b \<Longrightarrow> since n t (f ()) R) \<Longrightarrow> since n t (bindE (whenE b (throw e)) f) R"
  by (auto simp: since_def whenE_def bindE_def throw_def)

lemma since_runs:
  assumes "runs_from tokens t m R"
  shows "since n t m R"
  using assms by (simp add: since_def runs_from_def)

lemma since_mint:
  assumes "\<And>k. n \<le> k \<Longrightarrow> since n t (f (uuid_v4 E k)) R"
  shows "since n t (bindE (new_uuid E) f) R"
  unfolding since_def
proof (intro allI impI)
  fix w r w'
  assume w: "tokens w = t" "n \<le> tick w" and run: "bindE (new_uuid E) f w = (r, w')"
  then have "f (uuid_v4 E (tick w)) (w\<lparr>tick := Suc (tick w)\<rparr>) = (r, w')"
    by (simp add: new_uuid_def sample_def bindE_def)
  moreover have "tokens (w\<lparr>tick := Suc (tick w)\<rparr>) = t" "n \<le> tick (w\<lparr>tick := Suc (tick w)\<rparr>)" using w by simp_all
  ultimately show "R r (tokens w')" using assms [OF w(2)] unfolding since_def by blast
qed

lemma since_require:
  assumes "\<And>e. R (Inl e) t" "\<And>s. token_in E t i = Some s \<Longrightarrow> since n t (f s) R"
  shows "since n t (bindE (require_token E i) f) R"
  unfolding since_def
proof (intro allI impI)
  fix w r w'
  assume w: "tokens w = t" "n \<le> tick w" and run: "bindE (require_token E i) f w = (r, w')"
  obtain x w1 where m: "require_token E i w = (x, w1)" by (cases "require_token E i w")
  have "moves (aside E) (require_token E i)"
    by (auto simp: require_token_def db_get_token_def intro!: aside_rules)
  from movesD [OF this m] w have w1: "tokens w1 = t" "n \<le> tick w1" by (auto simp: aside_def)
  show "R r (tokens w')"
  proof (cases x)
    case (Inl e)
    with run m assms(1) w1 show ?thesis by (auto simp: bindE_def)
  next
    case (Inr s)
    with m have "token_in E t i = Some s"
      using w(1) by (auto simp: require_token_def act_ok_iff db_get_token_def txn_ok_iff token_in_def get_token_tx_def)
    from assms(2) [OF this] run m Inr w1 show ?thesis by (auto simp: bindE_def since_def)
  qed
qed

lemma moves_since:
  "(\<And>t. since n t m (\<lambda>r t'. (token_move E st n)\<^sup>*\<^sup>* t t')) \<Longrightarrow> n \<le> tick w \<Longrightarrow> m w = (r, w') \<Longrightarrow> token_moves E st n w w'"
  by (simp add: since_def token_moves_def)

section \<open>Sealing\<close>

text \<open>What sealing needs: an invertible cipher and text encoding, and identifiers that are text.\<close>

definition sealing_ok :: "'j ext \<Rightarrow> bool" where
  "sealing_ok E \<longleftrightarrow> aead_ok E \<and> uuid_text E \<and> (\<forall>b. base64_decode E (base64_encode E b) = Inr b)"

lemma ascii_utf8: "\<forall>c \<in> set s. (of_char c :: nat) < 0x80 \<Longrightarrow> from_utf8 s = Some s"
proof -
  assume a: "\<forall>c \<in> set s. (of_char c :: nat) < 0x80"
  have "valid_utf8 (map of_char s)" using a by (induction s) auto
  then show ?thesis by (simp add: from_utf8_def)
qed

lemma uuid_utf8: "uuid_text E \<Longrightarrow> from_utf8 (uuid_v4 E i) = Some (uuid_v4 E i)"
proof (rule ascii_utf8)
  assume "uuid_text E"
  then have "list_all jwt_char (uuid_v4 E i)" unfolding uuid_text_def by blast
  then have "Ball (set (uuid_v4 E i)) plain" using jwt_plain unfolding list_all_iff by blast
  then show "\<forall>c \<in> set (uuid_v4 E i). (of_char c :: nat) < 0x80" using plain_ascii by blast
qed

lemma seal_opens:
  assumes "sealing_ok E" "seal_token E st (uuid_v4 E i) w = (Inr e, w')"
  shows "open_token E st e = Inr (uuid_v4 E i)"
proof -
  from assms(2) obtain c where c: "encrypt E (token_reveal_key st) (uuid_v4 E i) w = (Inr c, w')" "e = base64_encode E c"
    by (auto simp: seal_token_def act_ok_iff)
  from assms(1) have ok: "aead_ok E" "uuid_text E" "base64_decode E e = Inr c"
    unfolding sealing_ok_def c(2) by blast+
  have "decrypt E (token_reveal_key st) c = Inr (uuid_v4 E i)"
    by (rule encrypt_decrypt [OF ok(1) c(1)]) simp
  with ok(3) uuid_utf8 [OF ok(2), of i] show ?thesis
    by (simp add: open_token_def)
qed

lemma minted_text: "new_uuid E w = (Inr raw, w') \<Longrightarrow> raw = uuid_v4 E (tick w) \<and> w' = w\<lparr>tick := Suc (tick w)\<rparr>"
  by (auto simp: new_uuid_def sample_def)

section \<open>The panel and the table of tokens\<close>

lemma sealed_since:
  assumes "sealing_ok E" "seal_token E st (uuid_v4 E k) w = (Inr e, w1)" "n \<le> k" "put_token E t s t'"
    and "tok_encrypted_token s = Some e" "tok_token_hash s = hash_api_token E (uuid_v4 E k)"
    and "scope_ok E (scope s) \<or> (\<exists>i s0. token_in E t i = Some s0 \<and> scope s = scope s0)"
  shows "(token_move E st n)\<^sup>*\<^sup>* t t'"
  using seal_opens [OF assms(1,2)] assms(3-7)
  by (intro r_into_rtranclp token_move.sealed [of E st s k n]) (simp_all add: opens_def)

lemma create_token_moves:
  assumes "sealing_ok E"
  shows "since n t (admin_create_token E st hs body) (\<lambda>r t'. (token_move E st n)\<^sup>*\<^sup>* t t')"
  unfolding admin_create_token_def Let_def
  apply (rule since_aside [OF aside_checks(3)], simp)
  apply (rule since_aside [OF aside_checks(4)], simp)
  apply (rule since_unless, simp)
  apply (rule since_unless, simp)
  apply (rule since_mint)
  apply (rule since_aside [OF aside_token_parts(1)], simp)
  apply (rule since_aside [OF aside_outside(3)], simp)
  apply (rule since_aside [OF aside_token_parts(2)], simp)
  apply (rule since_aside [OF aside_devices(1)], simp)
  apply (rule since_aside [OF aside_outside(2)], simp)
  apply (rule since_runs)
  apply (rule runs_set_token, simp)
  apply (rule runs_aside [OF aside_devices(2)])
   apply (rule sealed_since [OF assms], assumption, assumption, assumption, simp_all add: scope_def scope_ok_def) [1]
  apply (rule runs_ret)
  by (rule sealed_since [OF assms], assumption, assumption, assumption) (simp_all add: scope_def scope_ok_def)

lemma rotate_token_moves:
  assumes "sealing_ok E"
  shows "since n t (admin_rotate_token E st i hs) (\<lambda>r t'. (token_move E st n)\<^sup>*\<^sup>* t t')"
  unfolding admin_rotate_token_def
  apply (rule since_aside [OF aside_checks(3)], simp)
  apply (rule since_aside [OF aside_checks(4)], simp)
  apply (rule since_require, simp)
  apply (rule since_mint)
  apply (rule since_aside [OF aside_token_parts(1)], simp)
  apply (rule since_aside [OF aside_outside(2)], simp)
  apply (rule since_runs)
  apply (rule runs_set_token, simp)
  apply (rule runs_ret)
  by (rule sealed_since [OF assms], assumption, assumption, assumption) (auto simp: scope_def)

lemma update_token_keeps:
  "update_token_enabled E b t w = (Inr t', w') \<Longrightarrow> tok_id t' = tok_id t \<and> tok_token_hash t' = tok_token_hash t
     \<and> tok_encrypted_token t' = tok_encrypted_token t \<and> scope t' = scope t"
  "update_token_expiry E x t w = (Inr t', w') \<Longrightarrow> tok_id t' = tok_id t \<and> tok_token_hash t' = tok_token_hash t
     \<and> tok_encrypted_token t' = tok_encrypted_token t \<and> scope t' = scope t"
  "update_token_device E dv t w = (Inr t', w') \<Longrightarrow> tok_id t' = tok_id t \<and> tok_token_hash t' = tok_token_hash t
     \<and> tok_encrypted_token t' = tok_encrypted_token t \<and> scope t' = scope t"
  by (auto simp: update_token_enabled_def update_token_expiry_def update_token_device_def act_ok_iff Let_def scope_def
      split: option.splits if_splits)

lemma relinked: "put_token E t (s\<lparr>tok_device_id := d\<rparr>) t' \<Longrightarrow> token_in E t i = Some s \<Longrightarrow> token_move E st n t t'"
  by (erule token_kept, assumption) (simp_all add: scope_def)

lemma update_token_moves: "moves (token_moves E st n) (admin_update_token E st' i hs body)"
proof (rule moves_runs)
  fix t
  show "runs_from tokens t (admin_update_token E st' i hs body) (\<lambda>r t'. (token_move E st n)\<^sup>*\<^sup>* t t')"
    unfolding admin_update_token_def
    apply (rule runs_aside [OF aside_checks(3)], simp)
    apply (rule runs_aside [OF aside_checks(4)], simp)
    apply (rule runs_require_token, simp)
    apply (rule runs_aside [OF aside_token_parts(3)], simp)
    apply (rule runs_aside [OF aside_token_parts(4)], simp)
    apply (rule runs_aside [OF aside_token_parts(5)], simp)
    apply (rule runs_set_token, simp)
    apply (rule runs_keep [OF aside_keeps [OF aside_summary(2)]])
    apply (rule r_into_rtranclp, rule token_kept, assumption+)
     apply (auto dest!: update_token_keeps)
    done
qed

lemma delete_token_moves: "moves (token_moves E st n) (map_err c (db_delete_token E i))"
proof (rule moves_runs)
  fix t
  show "runs_from tokens t (map_err c (db_delete_token E i)) (\<lambda>r t'. (token_move E st n)\<^sup>*\<^sup>* t t')"
    unfolding db_delete_token_def
    by (rule runs_write_txn) (auto simp: delete_token_tx_def intro!: r_into_rtranclp token_move.gone split: sum.splits)
qed

lemma link_token_moves:
  "moves (token_moves E st n) (unlink_token E a i)" "moves (token_moves E st n) (link_token E b i)"
proof -
  show "moves (token_moves E st n) (unlink_token E a i)"
  proof (cases a)
    case (Some j)
    show ?thesis
      unfolding unlink_token_def Some option.case
      by (rule moves_runs, rule runs_get_token, simp)
        (auto simp: whenE_def intro!: runs_ret runs_set_token_end r_into_rtranclp
          intro: relinked split: option.split)
  qed (simp add: unlink_token_def secret_moves.frame_ret)
  show "moves (token_moves E st n) (link_token E b i)"
  proof (cases b)
    case (Some j)
    show ?thesis
      unfolding link_token_def Some option.case
      by (rule moves_runs, rule runs_get_token, simp, rule runs_ok_or, simp)
        (auto intro!: runs_set_token_end r_into_rtranclp intro: relinked)
  qed (simp add: link_token_def secret_moves.frame_ret)
qed

lemma create_device_moves: "moves (token_moves E st n) (set_token_device_link E a b i)"
  by (auto simp: set_token_device_link_def intro!: secret_moves.frame_rules link_token_moves)

lemma secret_checks:
  "moves (token_moves E st n) (verify_admin_mutation E' st' hs)" "moves (token_moves E st n) (ensure_disk_capacity E' st' b)"
  by (rule moves_secret_aside, rule aside_checks)+

lemma secret_txn:
  "moves (token_moves E st n) (now_rfc3339 E')" "moves (token_moves E st n) (new_uuid E')"
  "moves (token_moves E st n) (read_txn E' conv f)"
  "moves (token_moves E st n) (db_set_device E dev)" "moves (token_moves E st n) (db_delete_device E dv)"
  by (auto intro!: moves_secret_aside aside_outside aside_read_txn aside_writes)

lemma device_handlers_moves:
  "moves (token_moves E st n) (admin_create_device E st' hs cd)" "moves (token_moves E st n) (admin_update_device E st' i hs ud)"
  "moves (token_moves E st n) (admin_delete_device E st' i hs)" "moves (token_moves E st n) (admin_delete_token E st' i hs)"
  "moves (token_moves E st n) (admin_reveal_token E st' i hs)"
  by (auto simp: admin_create_device_def admin_update_device_def admin_delete_device_def admin_delete_token_def
      admin_reveal_token_def require_token_def db_reads Let_def
      intro!: secret_moves.frame_rules secret_checks secret_txn create_device_moves delete_token_moves
        aside_devices [THEN moves_secret_aside])

lemma serve_panel_moves:
  assumes "sealing_ok E" "n \<le> tick w" "serve_panel E st ip hs rq w = (r, w')"
  shows "token_moves E st n w w'"
proof (cases "\<exists>body i. rq = Create_Token body \<or> rq = Rotate_Token i")
  case True
  then obtain m w1 x where "serve_panel E st ip hs rq = fmap Pr_Json m" "m w = (x, w1)"
      "\<And>t. since n t m (\<lambda>r t'. (token_move E st n)\<^sup>*\<^sup>* t t')"
    using create_token_moves [OF assms(1)] rotate_token_moves [OF assms(1)] surj_pair
    by (metis serve_panel.simps(14,16))
  with moves_since [OF this(3) assms(2)] assms(3) show ?thesis
    by (auto simp: fmap_def bindE_def ret_def split: sum.splits)
next
  case False
  then have "moves (token_moves E st n) (serve_panel E st ip hs rq)"
    by (cases rq) (auto simp: fmap_def intro!: secret_moves.frame_bindE secret_moves.frame_ret
        update_token_moves device_handlers_moves
        aside_login [THEN moves_secret_aside] aside_account [THEN moves_secret_aside]
        aside_users [THEN moves_secret_aside] aside_create_namespace [THEN moves_secret_aside]
        aside_namespaces [THEN moves_secret_aside] aside_lists [THEN moves_secret_aside])
  from movesD [OF this assms(3)] show ?thesis .
qed

section \<open>The sync API and the table of tokens\<close>

lemma secret_writes:
  "moves (keeps tokens) (db_set_metadata E ns v)" "moves (keeps tokens) (db_put_blob_if_matches E ns x a blob v)"
  "moves (keeps tokens) (db_put_object_if_matches E ns p x a data om)" "moves (keeps tokens) (db_delete_object E ns p)"
  "moves (keeps tokens) (db_add_sync_conflict E c n)"
  by (auto simp: db_set_metadata_def db_put_blob_if_matches_def db_put_object_if_matches_def
      db_delete_object_def db_add_sync_conflict_def put_blob_tx_def put_object_tx_def delete_object_tx_def
      add_sync_conflict_tx_def Let_def intro!: keep_write_txn split: sum.splits option.splits)

lemma secret_parts:
  "moves (keeps tokens) (ensure_disk_capacity E st b)" "moves (keeps tokens) (encrypt_if_needed E st bs)"
  "moves (keeps tokens) (stored_metadata E ns)" "moves (keeps tokens) (refresh_usage E st ns now)"
  "moves (keeps tokens) (record_conditional_write_conflict E st ob e)"
  by (auto simp: ensure_disk_capacity_def encrypt_if_needed_def encrypt_def stored_metadata_def refresh_usage_def
      record_conditional_write_conflict_def db_refresh_namespace_usage_if_stale_def db_reads Let_def
      intro!: keep_rules secret_writes aside_keeps [OF aside_refresh_usage] split: option.split conditional_write_error.split)

lemma usage_moves:
  "moves (token_moves E st n) (db_record_token_usage E i ns p c cv now)"
  "moves (token_moves E st n) (db_record_token_failure E i)"
proof -
  have touched: "tok_encrypted_token (touch_token ns p c cv now t) = tok_encrypted_token t"
      "scope (touch_token ns p c cv now t) = scope t" for t
    by (simp_all add: touch_token_def scope_def Let_def)
  have kept: "token_move E st n (token_table d) (tput (token_key i) v (token_table d))"
    if "get_token_tx E i d = Inr (Some s)" "tok_token_hash s' = tok_token_hash s"
      "tok_encrypted_token s' = tok_encrypted_token s" "scope s' = scope s" "to_vec (c_token E) s' = Inr v" for d s s' v
    by (rule token_move.kept [of E "token_table d" i s s']) (use that in \<open>simp_all add: token_in_def get_token_tx_def\<close>)
  have used: "token_move E st n (token_table d) (tput (token_key i) v (token_table d))"
    if "get_token_tx E i d = Inr (Some s)" "to_vec (c_token E) (touch_token ns p c cv now s) = Inr v" for d s v
    by (rule kept [OF that(1) _ _ _ that(2)]) (simp_all add: touched)
  show "moves (token_moves E st n) (db_record_token_usage E i ns p c cv now)"
    unfolding db_record_token_usage_def moves_def token_moves_def
    by (auto simp: write_txn_def record_token_usage_tx_def touch_device_tx_def encode_row_ok_iff
        intro!: used r_into_rtranclp split: option.splits sum.splits)
  have failed: "token_move E st n (token_table d) (tput (token_key i) v (token_table d))"
    if "get_token_tx E i d = Inr (Some s)" "to_vec (c_token E) (s\<lparr>tok_failed_count := m\<rparr>) = Inr v" for d s v m
    by (rule kept [OF that(1) _ _ _ that(2)]) (simp_all add: scope_def)
  show "moves (token_moves E st n) (db_record_token_failure E i)"
    unfolding db_record_token_failure_def moves_def token_moves_def
    by (auto simp: write_txn_def record_token_failure_tx_def encode_row_ok_iff
        intro!: failed r_into_rtranclp split: option.splits sum.splits)
qed

lemma authorize_token_moves: "moves (token_moves E st n) (authorize_sync_request_with_permission E st' hs ns p ip)"
  by (auto simp: authorize_sync_request_with_permission_def ensure_namespace_active_def extract_auth_def
      ensure_token_active_def token_expired_def record_token_failure_def db_get_token_by_hash_def
      db_get_token_def db_is_namespace_deleted_def
      intro!: secret_moves.frame_rules usage_moves secret_txn moves_keep_tokens [OF keep_outside(1)]
        moves_keep_tokens [OF keep_outside(2)] split: option.split)

lemma serve_moves_tokens: "moves (token_moves E st n) (serve E st' rns ip hs rq)"
  by (cases rq) (auto simp: fmap_def get_metadata_def put_metadata_def get_blob_def put_blob_def list_objects_def
      list_page_def delete_object_def get_object_def put_object_def db_get_metadata_def db_get_blob_def db_get_object_def
      db_get_object_metadata_def db_list_object_paths_def Let_def
      intro!: secret_moves.frame_rules secret_txn authorize_token_moves secret_writes [THEN moves_keep_tokens]
        secret_parts [THEN moves_keep_tokens] moves_keep_tokens [OF keep_outside(1)]
      split: option.split sum.split prod.split)

text \<open>The uses of the outside are counted on.\<close>

lemma aside_ticks: "moves (aside E) m \<Longrightarrow> moves ticks m"
  by (erule moves_mono) (simp add: aside_def ticks_def)

lemma token_txn_ticks:
  "moves ticks (map_err c (db_set_token E s))" "moves ticks (map_err c (db_get_token E i))"
  "moves ticks (map_err c (db_delete_token E i))" "moves ticks (require_token E i)"
  "moves ticks (set_token_device_link E x y z)"
  by (auto simp: db_set_token_def db_get_token_def db_delete_token_def require_token_def set_token_device_link_def
      unlink_token_def link_token_def intro!: ticking.frame_rules ticks_prims split: option.split)

lemma serve_panel_ticks: "moves ticks (serve_panel E st ip hs rq)"
proof -
  have db: "moves ticks (db_set_device E dev)" "moves ticks (db_delete_device E i)" "moves ticks (db_list_devices E)"
      "moves ticks (db_get_device E i)" "moves ticks (now_rfc3339 E)" "moves ticks (new_uuid E)" for dev i
    by (auto simp: db_set_device_def db_delete_device_def db_reads outside_defs intro!: ticking.frame_rules ticks_prims)
  note parts = aside_checks [THEN aside_ticks] aside_token_parts [THEN aside_ticks] aside_devices [THEN aside_ticks]
    aside_summary [THEN aside_ticks]
  show ?thesis
    by (cases rq) (auto simp: fmap_def admin_create_token_def admin_rotate_token_def admin_update_token_def
        admin_create_device_def admin_update_device_def admin_delete_device_def admin_delete_token_def
        admin_reveal_token_def Let_def
        intro!: ticking.frame_rules parts db token_txn_ticks
        aside_login [THEN aside_ticks] aside_account [THEN aside_ticks]
        aside_users [THEN aside_ticks] aside_create_namespace [THEN aside_ticks]
        aside_namespaces [THEN aside_ticks] aside_lists [THEN aside_ticks])
qed

lemma respond_moves:
  assumes "sealing_ok E" "n \<le> tick w" "respond E st q w = (r, w')"
  shows "token_moves E st n w w'" "n \<le> tick w'"
proof -
  obtain ip hs rq where q: "q = (ip, hs, rq)" by (cases q) auto
  have "token_moves E st n w w' \<and> tick w \<le> tick w'"
  proof (cases rq)
    case (Sync ns sq)
    have "moves (token_moves E st n) (respond E st q)" "moves index_kept (respond E st q)"
      unfolding q Sync respond.simps fmap_def
      by (intro secret_moves.frame_bindE secret_moves.frame_ret serve_moves_tokens,
          intro indexed.frame_bindE indexed.frame_ret serve_index)
    from movesD [OF this(1) assms(3)] movesD [OF this(2) assms(3)] show ?thesis by (simp add: index_kept_def)
  next
    case (Panel pq)
    obtain x w1 where run: "serve_panel E st ip hs pq w = (x, w1)" by (cases "serve_panel E st ip hs pq w")
    have "w1 = w'" using assms(3) run by (auto simp: q Panel fmap_def bindE_def ret_def split: sum.splits)
    with serve_panel_moves [OF assms(1,2) run] movesD [OF serve_panel_ticks run] show ?thesis by (simp add: ticks_def)
  qed
  with assms(2) show "token_moves E st n w w'" "n \<le> tick w'" by auto
qed

lemma run_server_moves:
  "sealing_ok E \<Longrightarrow> n \<le> tick w \<Longrightarrow> token_moves E st n w (run_server E st qs w) \<and> n \<le> tick (run_server E st qs w)"
proof (induction qs arbitrary: w)
  case (Cons q qs)
  obtain r w1 where run: "respond E st q w = (r, w1)" by (cases "respond E st q w")
  from respond_moves [OF Cons.prems run] Cons.IH [of w1] Cons.prems(1) run show ?case
    using secret_moves.frame_trans by fastforce
qed (simp add: secret_moves.frame_refl)

section \<open>The gate after a token request\<close>

text \<open>A client that sends a secret.\<close>

definition bearer :: "string \<Rightarrow> headers" where
  "bearer raw = [(''authorization'', ''Bearer '' @ raw)]"

lemma bearer_secret:
  assumes "list_all plain raw"
  shows "bearer_or_basic E (header (bearer raw) ''authorization'') = Inr raw"
proof -
  have "header_text (''Bearer '' @ raw)"
    unfolding header_text_append using header_text_plain [OF assms] by (simp add: header_text_def)
  then have "header (bearer raw) ''authorization'' = Some (''Bearer '' @ raw)"
    by (simp add: header_def bearer_def)
  moreover have "strip_prefix (''Bearer '' @ raw) ''Bearer '' = Some raw"
    by (simp only: strip_prefix_Some_iff)
  ultimately show ?thesis
    by (simp only: bearer_or_basic_def option.case trim_plain [OF assms])
qed

lemma bearer_finds:
  assumes "token_index_ok E d" "token_at E i d = Some s" "tok_token_hash s = hash_api_token E raw" "list_all plain raw"
  shows "token_of_request E (bearer raw) d = Some s"
  using assms bearer_secret [OF assms(4)] by (auto simp: token_of_request_iff)

text \<open>A request that found a token finds the same one as long as that token keeps its hash.\<close>

lemma request_finds:
  assumes "token_index_ok E d" "token_index_ok E d'" "token_of_request E hs d = Some s"
  shows "token_of_request E hs d' = Some s' \<Longrightarrow> tok_token_hash s' = tok_token_hash s"
    and "token_at E (tok_id s) d' = Some s' \<Longrightarrow> tok_token_hash s' = tok_token_hash s \<Longrightarrow> token_of_request E hs d' = Some s'"
  using assms by (auto simp: token_of_request_iff)

section \<open>What the token handlers store and answer\<close>

lemma bindE_okE:
  assumes "bindE m f w = (Inr r, w')"
  obtains x w1 where "m w = (Inr x, w1)" "f x w1 = (Inr r, w')"
  using assms by (auto simp: bindE_Inr_iff)

lemma set_token_run:
  "map_err c (db_set_token E s) w = (Inr u, w') \<Longrightarrow> put_token E (tokens w) s (tokens w')"
  by (auto simp: map_err_Inr_iff db_set_token_def txn_ok_iff set_token_tx_def put_token_def encode_row_ok_iff Let_def
      split: sum.splits)

lemma require_token_run:
  "require_token E i w = (Inr s, w') \<Longrightarrow> token_in E (tokens w) i = Some s \<and> db w' = db w \<and> tick w \<le> tick w'"
  by (auto simp: require_token_def act_ok_iff db_get_token_def txn_ok_iff token_in_def get_token_tx_def)

lemma aside_ok: "moves (aside E) m \<Longrightarrow> m w = (r, w') \<Longrightarrow> tokens w' = tokens w \<and> tick w \<le> tick w'"
  by (drule movesD, assumption) (simp add: aside_def)

definition rotated :: "'j ext \<Rightarrow> app_state \<Rightarrow> string \<Rightarrow> string \<Rightarrow> api_token \<Rightarrow> api_token \<Rightarrow> bool" where
  "rotated E st raw at s s' \<longleftrightarrow> opens E st s' raw \<and> (\<exists>e. s' = s\<lparr>tok_token_hash := hash_api_token E raw,
     tok_encrypted_token := Some e, tok_rotated_at := Some at\<rparr>)"

lemma rotate_token_run:
  assumes "sealing_ok E" "admin_rotate_token E st i hs w = (Inr answer, w')"
  shows "\<exists>s s' k at. token_in E (tokens w) i = Some s \<and> tick w \<le> k \<and> rotated E st (uuid_v4 E k) at s s'
    \<and> put_token E (tokens w) s' (tokens w')
    \<and> answer = JObj [(''id'', JStr (tok_id s)), (''token'', JStr (uuid_v4 E k)), (''rotatedAt'', JStr at)]"
  using assms(2) unfolding admin_rotate_token_def
proof (elim bindE_okE)
  fix w1 w2 w3 w4 w5 w6 w7 s raw e at u1 u2 u3
  assume run: "verify_admin_mutation E st hs w = (Inr u1, w1)" "ensure_disk_capacity E st (256 * 1024) w1 = (Inr u2, w2)"
      "require_token E i w2 = (Inr s, w3)" "new_uuid E w3 = (Inr raw, w4)" "seal_token E st raw w4 = (Inr e, w5)"
      "now_rfc3339 E w5 = (Inr at, w6)"
      "map_err app_of_redb (db_set_token E (s\<lparr>tok_token_hash := hash_api_token E raw,
         tok_encrypted_token := Some e, tok_rotated_at := Some at\<rparr>)) w6 = (Inr u3, w7)"
      "ret (JObj [(''id'', JStr (tok_id s)), (''token'', JStr raw), (''rotatedAt'', JStr at)]) w7 = (Inr answer, w')"
  note tabs = aside_ok [OF aside_checks(3) run(1)] aside_ok [OF aside_checks(4) run(2)] require_token_run [OF run(3)]
    aside_ok [OF aside_token_parts(1) run(5)] aside_ok [OF aside_outside(2) run(6)] minted_text [OF run(4)]
  let ?s = "s\<lparr>tok_token_hash := hash_api_token E raw, tok_encrypted_token := Some e, tok_rotated_at := Some at\<rparr>"
  have raw: "raw = uuid_v4 E (tick w3)" using tabs by simp
  have "rotated E st raw at s ?s"
    using seal_opens [OF assms(1)] run(5) raw by (auto simp: rotated_def opens_def)
  moreover have "put_token E (tokens w) ?s (tokens w')" using set_token_run [OF run(7)] tabs run(8) by simp
  moreover have "tick w \<le> tick w3" using tabs by simp
  moreover have "token_in E (tokens w) i = Some s" using tabs by simp
  ultimately show ?thesis using raw run(8) by auto
qed

text \<open>The expiry of a new token: the requested time, or the default lifetime from now.\<close>

definition expiry_of :: "'j ext \<Rightarrow> app_state \<Rightarrow> string option \<Rightarrow> int \<Rightarrow> string option" where
  "expiry_of E st requested now = (case normalize_optional_timestamp E requested of
       Inr (Some x) \<Rightarrow> Some x
     | _ \<Rightarrow> map_option (\<lambda>ttl. to_rfc3339 E (now + seconds ttl)) (default_token_ttl_seconds st))"

lemma expiry_run:
  assumes "effective_token_expiry E st requested w = (Inr x, w')"
  shows "x = expiry_of E st requested (clock E (tick w))"
proof (cases "normalize_optional_timestamp E requested")
  case (Inr v)
  with assms show ?thesis
    by (cases v; cases "default_token_ttl_seconds st")
      (auto simp: effective_token_expiry_def expiry_of_def bindE_def lift_res_def utc_now_def sample_def)
qed (use assms in \<open>simp add: effective_token_expiry_def bindE_def lift_res_def\<close>)

definition created :: "'j ext \<Rightarrow> app_state \<Rightarrow> create_token_request \<Rightarrow> string \<Rightarrow> int \<Rightarrow> api_token \<Rightarrow> bool" where
  "created E st body raw now s \<longleftrightarrow> opens E st s raw \<and> tok_enabled s \<and> tok_name s = ct_name body
     \<and> tok_namespace_pattern s = ct_namespace_pattern body \<and> validate_namespace_pattern E (ct_namespace_pattern body)
     \<and> tok_permissions s = normalize_permissions (opt_get [''read'', ''write''] (ct_permissions body))
     \<and> validate_permissions (tok_permissions s) \<and> tok_expires_at s = expiry_of E st (ct_expires_at body) now"

definition created_answer :: "string \<Rightarrow> api_token \<Rightarrow> json" where
  "created_answer raw s = JObj [(''id'', JStr (tok_id s)), (''token'', JStr raw), (''name'', JStr (tok_name s)),
     (''namespacePattern'', JStr (tok_namespace_pattern s)),
     (''permissions'', JArr (map JStr (tok_permissions s))),
     (''createdAt'', JStr (tok_created_at s)),
     (''expiresAt'', json_opt_str (tok_expires_at s)),
     (''deviceId'', json_opt_str (tok_device_id s))]"

lemma create_token_run:
  assumes "sealing_ok E" "admin_create_token E st hs body w = (Inr answer, w')"
  shows "\<exists>s k l. tick w \<le> k \<and> tick w \<le> l \<and> created E st body (uuid_v4 E k) (clock E l) s
    \<and> put_token E (tokens w) s (tokens w') \<and> answer = created_answer (uuid_v4 E k) s"
  using assms(2) unfolding admin_create_token_def Let_def
proof (elim bindE_okE)
  fix w1 w2 w3 w4 w5 w6 w7 w8 w9 w10 w11 w12 u1 u2 u3 u4 u5 u6 u7 raw e i x at
  let ?perms = "normalize_permissions (opt_get [''read'', ''write''] (ct_permissions body))"
  let ?dev = "normalize_optional_text (ct_device_id body)"
  let ?s = "\<lparr>tok_id = i, tok_name = ct_name body, tok_token_hash = hash_api_token E raw,
           tok_encrypted_token = Some e,
           tok_namespace_pattern = ct_namespace_pattern body, tok_permissions = ?perms,
           tok_created_at = at, tok_enabled = True, tok_expires_at = x,
           tok_rotated_at = None, tok_disabled_at = None, tok_last_used_at = None,
           tok_device_id = ?dev, tok_read_count = 0, tok_write_count = 0, tok_failed_count = 0,
           tok_last_namespace = None, tok_last_permission = None, tok_last_client_ip = None,
           tok_last_client_version = None\<rparr>"
  assume run: "verify_admin_mutation E st hs w = (Inr u1, w1)" "ensure_disk_capacity E st (256 * 1024) w1 = (Inr u2, w2)"
      "whenE (\<not> validate_namespace_pattern E (ct_namespace_pattern body)) (throw bad_pattern) w2 = (Inr u3, w3)"
      "whenE (\<not> validate_permissions ?perms)
         (throw (Bad_Request (''Permissions must be a non-empty subset of ['' @ quoted ''read'' @ '', ''
            @ quoted ''write'' @ '']''))) w3 = (Inr u4, w4)"
      "new_uuid E w4 = (Inr raw, w5)" "seal_token E st raw w5 = (Inr e, w6)" "new_uuid E w6 = (Inr i, w7)"
      "effective_token_expiry E st (ct_expires_at body) w7 = (Inr x, w8)" "require_device E ?dev w8 = (Inr u5, w9)"
      "now_rfc3339 E w9 = (Inr at, w10)" "map_err app_of_redb (db_set_token E ?s) w10 = (Inr u6, w11)"
      "link_device E ?dev i w11 = (Inr u7, w12)"
      "ret (JObj [(''id'', JStr i), (''token'', JStr raw), (''name'', JStr (tok_name ?s)),
       (''namespacePattern'', JStr (tok_namespace_pattern ?s)),
       (''permissions'', JArr (map JStr (tok_permissions ?s))),
       (''createdAt'', JStr (tok_created_at ?s)),
       (''expiresAt'', json_opt_str (tok_expires_at ?s)),
       (''deviceId'', json_opt_str (tok_device_id ?s))]) w12 = (Inr answer, w')"
  have valid: "validate_namespace_pattern E (ct_namespace_pattern body)" "w3 = w2" "validate_permissions ?perms" "w4 = w3"
    using run(3,4) by (simp_all add: whenE_Inr_iff split: if_splits)
  note tabs = aside_ok [OF aside_checks(3) run(1)] aside_ok [OF aside_checks(4) run(2)] valid minted_text [OF run(5)]
    aside_ok [OF aside_token_parts(1) run(6)] aside_ok [OF aside_outside(3) run(7)] aside_ok [OF aside_token_parts(2) run(8)]
    aside_ok [OF aside_devices(1) run(9)] aside_ok [OF aside_outside(2) run(10)] aside_ok [OF aside_devices(2) run(12)]
  have raw: "raw = uuid_v4 E (tick w4)" "tick w \<le> tick w4" "tick w \<le> tick w7"
    and tab: "tokens w10 = tokens w" "tokens w12 = tokens w11"
    using tabs by simp_all
  have last: "w' = w12" "answer = created_answer raw ?s"
    using run(13) by (simp_all add: created_answer_def)
  have "opens E st ?s raw" using seal_opens [OF assms(1)] run(6) raw(1) by (simp add: opens_def)
  then have "created E st body raw (clock E (tick w7)) ?s"
    using valid(1,3) expiry_run [OF run(8)] by (simp add: created_def)
  moreover have "put_token E (tokens w) ?s (tokens w')"
    using set_token_run [OF run(11)] unfolding tab last(1) .
  ultimately show ?thesis
    using raw(2,3) last(2)
    by (intro exI [of _ ?s] exI [of _ "tick w4"] exI [of _ "tick w7"] conjI) (simp_all only: raw(1) [symmetric])
qed

lemma delete_token_run:
  assumes "admin_delete_token E st i hs w = (Inr answer, w')"
  shows "token_in E (tokens w') j = (if j = i then None else token_in E (tokens w) j)"
  using assms unfolding admin_delete_token_def
proof (elim bindE_okE)
  fix w1 w2 w3 w4 u1 ds u3 u4
  assume run: "verify_admin_mutation E st hs w = (Inr u1, w1)" "map_err app_of_redb (db_list_devices E) w1 = (Inr ds, w2)"
      "forE ds (\<lambda>device. whenE (dev_token_id device = Some i)
       (bindE (now_rfc3339 E) (\<lambda>now. map_err app_of_redb (db_set_device E
          (device\<lparr>dev_token_id := None, dev_updated_at := now\<rparr>))))) w2 = (Inr u3, w3)"
      "map_err app_of_redb (db_delete_token E i) w3 = (Inr u4, w4)" "ret ok_body w4 = (Inr answer, w')"
  have "moves (aside E) (map_err app_of_redb (db_list_devices E))"
    by (auto simp: db_list_devices_def intro!: aside_rules)
  from aside_ok [OF this run(2)] have "tokens w2 = tokens w1" by simp
  moreover have "moves (aside E) (forE ds (\<lambda>device. whenE (dev_token_id device = Some i)
       (bindE (now_rfc3339 E) (\<lambda>now. map_err app_of_redb (db_set_device E
          (device\<lparr>dev_token_id := None, dev_updated_at := now\<rparr>))))))"
    by (auto intro!: aside_rules aside_writes)
  from aside_ok [OF this run(3)] have "tokens w3 = tokens w2" by simp
  moreover have "tokens w4 = tdel (token_key i) (tokens w3)"
    using run(4) by (auto simp: map_err_Inr_iff db_delete_token_def txn_ok_iff delete_token_tx_def split: sum.splits)
  ultimately show ?thesis
    using run(5) aside_ok [OF aside_checks(3) run(1)] by (simp add: token_in_del)
qed

lemma reveal_token_run:
  assumes "admin_reveal_token E st i hs w = (Inr answer, w')"
  shows "\<exists>s e raw. token_in E (tokens w) i = Some s \<and> tok_encrypted_token s = Some e \<and> open_token E st e = Inr raw
    \<and> answer = JObj [(''id'', JStr (tok_id s)), (''token'', JStr raw), (''persistent'', JBool (token_reveal_persistent st))]
    \<and> tokens w' = tokens w"
proof -
  from assms obtain u w1 s w2 e raw where run: "verify_admin_mutation E st hs w = (Inr u, w1)"
      "require_token E i w1 = (Inr s, w2)" "tok_encrypted_token s = Some e" "open_token E st e = Inr raw" "w' = w2"
      "answer = JObj [(''id'', JStr (tok_id s)), (''token'', JStr raw), (''persistent'', JBool (token_reveal_persistent st))]"
    by (auto simp: admin_reveal_token_def bindE_Inr_iff ok_or_Inr_iff)
  from aside_ok [OF aside_checks(3) run(1)] require_token_run [OF run(2)] run(3-6) show ?thesis by auto
qed

end
