(* ===== verification/Panel_Instance.thy ===== *)
theory Panel_Instance
  imports Instance Panel_Secrets
begin

text \<open>
  The concrete instance with two administrators, and a browser of one of them: the state on
  which the hypotheses of the panel properties are shown to hold.
\<close>

definition demo_user :: "string \<Rightarrow> admin_user_record" where
  "demo_user name = \<lparr>usr_username = name, usr_password_hash = ''password'', usr_role = ''admin'',
     usr_session_version = 0, usr_enabled = True, usr_created_at = ''1'', usr_updated_at = ''1'',
     usr_last_login_at = None, usr_last_login_ip = None, usr_failed_login_count = 0,
     usr_last_failed_login_at = None, usr_password_updated_at = None, usr_disabled_at = None\<rparr>"

definition panel_db :: "doc db" where
  "panel_db = demo_db\<lparr>admin_user_table := tput (admin_user_key ''root'') (Doc_User (demo_user ''root''))
     (tput (admin_user_key ''admin'') (Doc_User (demo_user ''admin'')) tempty)\<rparr>"

definition panel_world :: "doc world" where
  "panel_world = \<lparr>db = panel_db, tick = 0\<rparr>"

definition panel_claims :: admin_claims where
  "panel_claims = \<lparr>cl_sub = ''admin'', cl_exp = 86400, cl_iat = 0, cl_ver = 0\<rparr>"

definition panel_headers :: headers where
  "panel_headers = browser [(''set-cookie'', build_admin_session_cookie (demo_jwt panel_claims) True),
     (''set-cookie'', build_csrf_cookie ''c'' True)] ''c''"

lemma demo_set_user:
  "set_admin_user_tx demo (demo_user name) d =
     Inr ((), d\<lparr>admin_user_table := tput (admin_user_key name) (Doc_User (demo_user name)) (admin_user_table d)\<rparr>)"
  by (simp add: set_admin_user_tx_def encode_row_def demo_def doc_codec_def demo_user_def)

lemma panel_reachable: "db_reachable demo panel_db"
proof -
  have "db_reachable demo (demo_db\<lparr>admin_user_table := tput (admin_user_key ''admin'') (Doc_User (demo_user ''admin'')) tempty\<rparr>)"
    (is "db_reachable demo ?d")
    using db_reachable.step [OF demo_reachable db_step.set_user [OF demo_set_user [of "''admin''" demo_db]]]
    by (simp add: demo_db_def open_db_def)
  from db_reachable.step [OF this db_step.set_user [OF demo_set_user [of "''root''"]]] show ?thesis
    by (simp add: panel_db_def)
qed

lemma demo_secrets: "secret_hash demo i = replicate (Suc i) CHR ''u''"
  by (simp add: secret_hash_def hash_api_token_def demo_def)

lemma demo_ext_ok: "ext_ok demo"
proof -
  have "i = j" if "secret_hash demo i = secret_hash demo j" for i j
    using arg_cong [OF that, of length] by (simp add: demo_secrets del: replicate_Suc)
  then show ?thesis
    using demo_codecs_ok by (simp add: ext_ok_def secrets_distinct_def)
qed

lemma panel_fresh: "secrets_fresh demo (w\<lparr>db := panel_db\<rparr>)"
  by (simp add: secrets_fresh_def panel_db_def demo_db_def demo_secrets)

lemma panel_world_ok: "world_ok demo panel_world"
  using panel_fresh [of panel_world] reachable_wf [OF panel_reachable demo_codecs_ok]
  by (simp add: world_ok_def panel_world_def)

lemma panel_user: "user_at demo name panel_db = (if name = ''root'' \<or> name = ''admin'' then Some (demo_user name) else None)"
  by (auto simp: user_at_in user_in_def panel_db_def decode_row_def demo_def doc_codec_def)

lemma demo_jwt_plain: "list_all plain (demo_jwt c)"
proof -
  have "jwt_encode demo ''s'' c = Inr (demo_jwt c)" by (simp add: demo_def demo_jwt_encode_def)
  then have "list_all jwt_char (demo_jwt c)" using demo_jwt_ok unfolding jwt_ok_def by (metis Inr_inject)
  then show ?thesis by (rule list.pred_mono_strong) (simp add: plain_jwt)
qed

lemma panel_csrf: "verify_csrf panel_headers = Inr ()"
  unfolding panel_headers_def by (rule browser_reads(2) [OF demo_jwt_plain]) (simp_all add: plain_def)

lemma panel_token: "extract_admin_token panel_headers = Some (demo_jwt panel_claims)"
  unfolding panel_headers_def by (rule browser_reads(1) [OF demo_jwt_plain]) (simp_all add: plain_def)

lemma panel_decode:
  assumes "now div 1000000000 \<le> 86400"
  shows "jwt_decode demo now (trim (demo_jwt panel_claims)) (jwt_secret demo_state) = Inr panel_claims"
proof -
  have "jwt_encode demo s panel_claims = Inr (demo_jwt panel_claims)" for s
    by (simp add: demo_def demo_jwt_encode_def)
  moreover have "now div 1000000000 \<le> uint (cl_exp panel_claims)"
    using assms by (simp add: panel_claims_def)
  ultimately show ?thesis
    using demo_jwt_ok unfolding jwt_ok_def trim_plain [OF demo_jwt_plain] by (metis Inr_inject)
qed

lemma panel_session:
  assumes "now div 1000000000 \<le> 86400" "admin_user_table d = admin_user_table panel_db"
  shows "session_user demo demo_state panel_headers now d = Some (demo_user ''admin'')"
proof -
  have "user_at demo ''admin'' d = Some (demo_user ''admin'')"
    using panel_user [of "''admin''"] assms(2) by (simp add: user_at_in)
  moreover have "admin_enabled demo_state" by (simp add: demo_state_def)
  ultimately show ?thesis
    unfolding session_user_iff using panel_token panel_decode [OF assms(1)]
    by (auto simp: panel_claims_def demo_user_def)
qed

text \<open>The checks of a request of this browser pass at every time of the first day.\<close>

lemma panel_checked:
  assumes "rows_wf demo (db w)" "int (tick w) div 1000000000 \<le> 86400" "admin_user_table (db w) = admin_user_table panel_db"
  shows "validate_admin_session demo demo_state panel_headers w = (Inr ''admin'', w\<lparr>tick := Suc (Suc (tick w))\<rparr>)"
    and "verify_admin_mutation demo demo_state panel_headers w = (Inr (), w\<lparr>tick := Suc (Suc (tick w))\<rparr>)"
proof -
  have "clock demo (tick w) = int (tick w)" by (simp add: demo_def)
  with panel_session [OF _ assms(3)] assms(2)
  have "session_user demo demo_state panel_headers (clock demo (tick w)) (db w) = Some (demo_user ''admin'')" by simp
  from validate_admin_session_complete [OF demo_no_faults assms(1) this]
  show v: "validate_admin_session demo demo_state panel_headers w = (Inr ''admin'', w\<lparr>tick := Suc (Suc (tick w))\<rparr>)"
    by (simp add: demo_user_def)
  show "verify_admin_mutation demo demo_state panel_headers w = (Inr (), w\<lparr>tick := Suc (Suc (tick w))\<rparr>)"
    by (simp add: verify_admin_mutation_def verify_admin_def bindE_def v panel_csrf)
qed

lemma panel_world_wf: "rows_wf demo panel_db"
  using reachable_wf [OF panel_reachable demo_codecs_ok] by (simp add: db_wf_def)

lemma panel_world_reachable: "db_reachable demo (db panel_world)"
  by (simp add: panel_world_def panel_reachable)

text \<open>Requests of this browser, and that they are answered.\<close>

definition panel_run :: "panel_request \<Rightarrow> (app_error + panel_response) \<times> doc world" where
  "panel_run rq = serve_panel demo demo_state ''ip'' panel_headers rq panel_world"

lemma panel_start:
  "verify_admin_mutation demo demo_state panel_headers panel_world = (Inr (), \<lparr>db = panel_db, tick = 2\<rparr>)"
  "validate_admin_session demo demo_state panel_headers \<lparr>db = panel_db, tick = 2\<rparr> = (Inr ''admin'', \<lparr>db = panel_db, tick = 4\<rparr>)"
  "ensure_disk_capacity demo demo_state n w = (Inr (), w)"
  using panel_checked(1) [of "\<lparr>db = panel_db, tick = 2\<rparr>"] panel_checked(2) [of panel_world] panel_world_wf
  by (simp_all add: panel_world_def ensure_disk_capacity_def demo_state_def ret_def)

lemma panel_starts:
  "bindE (verify_admin_mutation demo demo_state panel_headers) f panel_world = f () \<lparr>db = panel_db, tick = 2\<rparr>"
  "bindE (validate_admin_session demo demo_state panel_headers) g \<lparr>db = panel_db, tick = 2\<rparr>
     = g ''admin'' \<lparr>db = panel_db, tick = 4\<rparr>"
  "bindE (ensure_disk_capacity demo demo_state n) f w = f () w"
  by (simp_all add: bindE_def panel_start)

lemma update_runs: "res_ok (fst (panel_run (Update_User ''admin'' \<lparr>uu_password = None, uu_enabled = Some False\<rparr>))) \<noteq> None"
  unfolding panel_run_def serve_panel.simps fmap_def admin_update_user_def bindE_assoc panel_starts
  by code_simp

lemma demo_jwt_late:
  "uint (cl_exp c) < now div 1000000000 \<Longrightarrow> demo_jwt_decode now (demo_jwt c) s = Inl ''ExpiredSignature''"
  by (simp add: demo_jwt_decode_def demo_jwt_def read_word)

text \<open>A change of the password of this administrator runs to its end.\<close>

lemma change_password_runs:
  "res_ok (fst (panel_run (Change_Password \<lparr>cp_current_password = ''password'', cp_new_password = ''password2''\<rparr>))) \<noteq> None"
proof -
  let ?user = "demo_user ''admin''"
  have get: "map_err c (db_get_admin_user demo ''admin'') \<lparr>db = panel_db, tick = n\<rparr> = (Inr (Some ?user), \<lparr>db = panel_db, tick = Suc n\<rparr>)"
    for c :: "redb_error \<Rightarrow> app_error" and n
    using user_at_wf(1) [OF panel_world_wf, of "''admin''"] panel_user [of "''admin''"]
    by (simp add: map_err_def db_get_admin_user_def read_txn_no_faults [OF demo_no_faults])
  have pass: "verify_admin_password demo ''password'' (usr_password_hash ?user)"
    by (simp add: verify_admin_password_def demo_def demo_user_def)
  have now: "now_rfc3339 demo v = (Inr (to_rfc3339 demo (clock demo (tick v))), v\<lparr>tick := Suc (tick v)\<rparr>)" for v :: "doc world"
    by (simp add: outside_defs sample_def)
  have hash: "hash_new_password demo p v = (Inr p, v\<lparr>tick := Suc (tick v)\<rparr>)" for p and v :: "doc world"
    by (simp add: hash_new_password_def hash_admin_password_def map_err_def bindE_def sample_def lift_res_def demo_def)
  have "\<exists>d. map_err app_of_redb (db_set_admin_user demo u) \<lparr>db = panel_db, tick = n\<rparr> = (Inr (), \<lparr>db = d, tick = Suc n\<rparr>)" for u n
    using set_admin_user_run [OF demo_no_faults demo_codecs_ok, of "\<lparr>db = panel_db, tick = n\<rparr>"] panel_world_wf by fastforce
  then obtain d where set: "map_err app_of_redb (db_set_admin_user demo u) \<lparr>db = panel_db, tick = n\<rparr>
      = (Inr (), \<lparr>db = d u n, tick = Suc n\<rparr>)" for u n by metis
  have jwt: "map_err c (create_admin_jwt_for_user demo s name v) w
      = (Inr (demo_jwt (session_claims name v (clock demo (tick w)))), w\<lparr>tick := Suc (tick w)\<rparr>)"
    for c :: "string \<Rightarrow> app_error" and s name v and w :: "doc world"
    by (rule create_jwt_run) (simp add: demo_def demo_jwt_encode_def)
  show ?thesis
    unfolding panel_run_def serve_panel.simps fmap_def admin_change_own_password_def bindE_assoc panel_starts
    by (simp add: bindE_def get pass now hash set jwt cookies_valid [OF demo_jwt_plain] whenE_def lift_res_def ret_def
        res_ok_def Let_def)
qed

text \<open>The token of this browser is read as its claims or not at all.\<close>

lemma panel_session_only:
  assumes "session_user demo demo_state panel_headers now panel_db = Some v"
  shows "usr_username v = ''admin''"
proof -
  from assms obtain token claims where "extract_admin_token panel_headers = Some token"
      and c: "jwt_decode demo now (trim token) (jwt_secret demo_state) = Inr claims" "user_at demo (cl_sub claims) panel_db = Some v"
    unfolding session_user_iff by blast
  then have "jwt_decode demo now (demo_jwt panel_claims) (jwt_secret demo_state) = Inr claims"
    using panel_token trim_plain [OF demo_jwt_plain, of panel_claims] by auto
  then have "demo_jwt_decode now (demo_jwt panel_claims) ''s'' = Inr claims"
    by (simp add: demo_def demo_state_def)
  then have "claims = panel_claims"
    using demo_jwt_late [of panel_claims now "''s''"] panel_decode [of now] trim_plain [OF demo_jwt_plain, of panel_claims]
    by (cases "now div 1000000000 \<le> 86400") (simp_all add: demo_def demo_state_def panel_claims_def [THEN arg_cong, of cl_exp])
  with c(2) panel_user [of "''admin''"] show ?thesis by (auto simp: panel_claims_def demo_user_def)
qed

text \<open>What logging in and sealing need of the instance.\<close>

lemma demo_uuid_text: "uuid_text demo"
  by (simp add: uuid_text_def demo_def jwt_char_def is_ascii_alphanumeric_def list_all_iff)

lemma demo_sealing_ok: "sealing_ok demo"
  using demo_aead_ok demo_uuid_text by (simp add: sealing_ok_def) (simp add: demo_def)

definition admin_login_body :: login_request where
  "admin_login_body = \<lparr>lr_username = Some ''admin'', lr_password = ''password''\<rparr>"

definition wrong_login_body :: login_request where
  "wrong_login_body = \<lparr>lr_username = Some ''nobody'', lr_password = ''password''\<rparr>"

lemma login_names: "login_name admin_login_body = ''admin''" "login_name wrong_login_body = ''nobody''"
  by code_simp+

lemma panel_credentials:
  "credentials_ok demo admin_login_body (accounts panel_world)" "\<not> credentials_ok demo wrong_login_body (accounts panel_world)"
  using panel_user [unfolded user_at_in]
  by (simp_all add: credentials_ok_def login_names panel_world_def)
    (simp add: admin_login_body_def demo_user_def verify_admin_password_def demo_def)

lemma panel_attempts: "attempt_in demo (attempts panel_world) ip = None"
  by (simp add: attempt_in_def panel_world_def panel_db_def demo_db_def open_db_def decode_row_def)

lemma panel_free: "\<not> login_blocked demo ip now (attempts panel_world)"
  by (simp add: login_blocked_def blocked_until_def panel_attempts)

end
