(* ===== verification/Routes.thy ===== *)
theory Routes
  imports Server
begin

text \<open>
  The route tables of \<^verbatim>\<open>src/src/api.rs\<close> and \<^verbatim>\<open>src/src/panel.rs\<close>, their body limits and the
  CORS layer, as the values the server builds at its start. A pattern is matched as the
  framework documents it: a parameter takes one segment that is not empty, a final wildcard
  the rest of the path.
\<close>

section \<open>Routes\<close>

datatype http_method = GET | PUT | POST | DELETE | PATCH | OPTIONS

datatype segment = Lit string | Param | Rest

datatype handler =
    H_redirect | H_health_check | H_readiness_check
  | H_get_metadata | H_put_metadata | H_get_blob | H_put_blob
  | H_list_objects | H_get_object | H_put_object | H_delete_object
  | H_admin_page | H_admin_login | H_admin_logout | H_admin_current_user | H_admin_change_own_password
  | H_admin_list_users | H_admin_create_user | H_admin_delete_user | H_admin_update_user
  | H_admin_list_namespaces | H_admin_create_namespace | H_admin_delete_namespace | H_admin_restore_namespace
  | H_admin_list_tokens | H_admin_create_token | H_admin_delete_token | H_admin_update_token
  | H_admin_rotate_token | H_admin_reveal_token
  | H_admin_list_devices | H_admin_create_device | H_admin_delete_device | H_admin_update_device
  | H_admin_list_conflicts | H_admin_stats

datatype allow_origin = Any_Origin | Origin_List "string list"

record cors_layer =
  allow_methods :: "http_method list"
  allow_any_header :: bool
  allow_origin :: allow_origin

text \<open>A route with its layers; without a body limit the default of the framework applies.\<close>

record route =
  route_path :: "segment list"
  route_handlers :: "(http_method \<times> handler) list"
  body_limit :: "nat option"
  cors :: "cors_layer option"

definition at_path :: "segment list \<Rightarrow> (http_method \<times> handler) list \<Rightarrow> route" where
  "at_path p hs = \<lparr>route_path = p, route_handlers = hs, body_limit = None, cors = None\<rparr>"

definition admin_router :: "route list" where
  "admin_router = (let api = (\<lambda>p. at_path (Lit ''admin'' # Lit ''api'' # p)) in
     [at_path [Lit ''admin''] [(GET, H_admin_page)],
      api [Lit ''login''] [(POST, H_admin_login)],
      api [Lit ''logout''] [(POST, H_admin_logout)],
      api [Lit ''me''] [(GET, H_admin_current_user)],
      api [Lit ''me'', Lit ''password''] [(POST, H_admin_change_own_password)],
      api [Lit ''users''] [(GET, H_admin_list_users), (POST, H_admin_create_user)],
      api [Lit ''users'', Param] [(DELETE, H_admin_delete_user), (PATCH, H_admin_update_user)],
      api [Lit ''namespaces''] [(GET, H_admin_list_namespaces), (POST, H_admin_create_namespace)],
      api [Lit ''namespaces'', Param] [(DELETE, H_admin_delete_namespace)],
      api [Lit ''namespaces'', Param, Lit ''restore''] [(POST, H_admin_restore_namespace)],
      api [Lit ''tokens''] [(GET, H_admin_list_tokens), (POST, H_admin_create_token)],
      api [Lit ''tokens'', Param] [(DELETE, H_admin_delete_token), (PATCH, H_admin_update_token)],
      api [Lit ''tokens'', Param, Lit ''rotate''] [(POST, H_admin_rotate_token)],
      api [Lit ''tokens'', Param, Lit ''reveal''] [(POST, H_admin_reveal_token)],
      api [Lit ''devices''] [(GET, H_admin_list_devices), (POST, H_admin_create_device)],
      api [Lit ''devices'', Param] [(DELETE, H_admin_delete_device), (PATCH, H_admin_update_device)],
      api [Lit ''conflicts''] [(GET, H_admin_list_conflicts)],
      api [Lit ''stats''] [(GET, H_admin_stats)]])"

definition sync_router :: "app_state \<Rightarrow> cors_layer option \<Rightarrow> route list" where
  "sync_router st layer =
     (let ns = (\<lambda>p. Lit ''v1'' # Lit ''namespaces'' # Param # p);
          metadata_api = [at_path (ns [Lit ''metadata'']) [(GET, H_get_metadata), (PUT, H_put_metadata)]];
          blob_api = [at_path (ns [Lit ''blob'']) [(GET, H_get_blob), (PUT, H_put_blob)]];
          object_api = [at_path (ns [Lit ''objects'']) [(GET, H_list_objects)],
            at_path (ns [Lit ''objects'', Rest]) [(GET, H_get_object), (PUT, H_put_object), (DELETE, H_delete_object)]];
          limit = (\<lambda>n. map (\<lambda>r. r\<lparr>body_limit := Some n\<rparr>))
      in map (\<lambda>r. r\<lparr>cors := layer\<rparr>)
        (limit (256 * 1024) metadata_api @ limit (max_blob_size st) blob_api @ limit (max_object_size st) object_api
         @ [at_path [] [(GET, H_redirect)], at_path [Lit ''health''] [(GET, H_health_check)],
            at_path [Lit ''ready''] [(GET, H_readiness_check)]]))"

section \<open>Cross-origin requests\<close>

text \<open>The layer, or the panic on an origin that is no header value.\<close>

definition build_sync_cors_layer :: "string list \<Rightarrow> string + cors_layer option" where
  "build_sync_cors_layer origins =
     (if origins = [] then Inr None
      else let layer = \<lparr>allow_methods = [GET, PUT, DELETE, OPTIONS], allow_any_header = True, allow_origin = Origin_List []\<rparr>
        in if ''*'' \<in> set origins then Inr (Some (layer\<lparr>allow_origin := Any_Origin\<rparr>))
        else case List.find (\<lambda>origin. \<not> header_text origin) origins of
            Some origin \<Rightarrow> Inl (''Invalid CORS origin configured: '' @ origin)
          | None \<Rightarrow> Inr (Some (layer\<lparr>allow_origin := Origin_List origins\<rparr>)))"

definition router :: "app_state \<Rightarrow> string + route list" where
  "router st = (case build_sync_cors_layer (sync_cors_allowed_origins st) of
       Inl e \<Rightarrow> Inl e
     | Inr layer \<Rightarrow> Inr (sync_router st layer @ admin_router))"

lemma router_ok_iff:
  "(\<exists>rs. router st = Inr rs) \<longleftrightarrow> ''*'' \<in> set (sync_cors_allowed_origins st) \<or> list_all header_text (sync_cors_allowed_origins st)"
  by (auto simp: router_def build_sync_cors_layer_def Let_def list_all_iff find_None_iff find_Some_iff split: option.split sum.splits)

section \<open>Dispatch\<close>

fun path_matches :: "segment list \<Rightarrow> string list \<Rightarrow> bool" where
  "path_matches [] xs \<longleftrightarrow> xs = []"
| "path_matches (Lit s # p) xs \<longleftrightarrow> (case xs of [] \<Rightarrow> False | x # r \<Rightarrow> x = s \<and> path_matches p r)"
| "path_matches (Param # p) xs \<longleftrightarrow> (case xs of [] \<Rightarrow> False | x # r \<Rightarrow> x \<noteq> [] \<and> path_matches p r)"
| "path_matches (Rest # p) xs \<longleftrightarrow> xs \<noteq> [] \<and> xs \<noteq> [[]]"

text \<open>Whether two patterns may match the same path.\<close>

fun overlap :: "segment list \<Rightarrow> segment list \<Rightarrow> bool" where
  "overlap [] q \<longleftrightarrow> q = []"
| "overlap p [] \<longleftrightarrow> False"
| "overlap (Rest # p) q \<longleftrightarrow> True"
| "overlap p (Rest # q) \<longleftrightarrow> True"
| "overlap (Lit s # p) (Lit t # q) \<longleftrightarrow> s = t \<and> overlap p q"
| "overlap (_ # p) (_ # q) \<longleftrightarrow> overlap p q"

lemma matches_overlap: "path_matches p xs \<Longrightarrow> path_matches q xs \<Longrightarrow> overlap p q"
  by (induction p q arbitrary: xs rule: overlap.induct) (auto split: list.splits elim: path_matches.elims)

fun separate :: "segment list list \<Rightarrow> bool" where
  "separate [] = True"
| "separate (p # ps) \<longleftrightarrow> list_all (\<lambda>q. \<not> overlap p q) ps \<and> separate ps"

lemma separate_unique:
  "separate (map route_path rs) \<Longrightarrow> r \<in> set rs \<Longrightarrow> r' \<in> set rs \<Longrightarrow>
     path_matches (route_path r) xs \<Longrightarrow> path_matches (route_path r') xs \<Longrightarrow> r = r'"
  by (induction rs) (auto simp: list_all_iff dest: matches_overlap)

text \<open>No path is matched by two routes, so the order of the table and the priorities of the
  framework do not matter.\<close>

lemma routes_separate: "separate (map route_path (sync_router st layer @ admin_router))"
  by (simp add: sync_router_def admin_router_def at_path_def Let_def)

lemma router_unique:
  assumes "router st = Inr rs" "r \<in> set rs" "r' \<in> set rs"
    and "path_matches (route_path r) xs" "path_matches (route_path r') xs"
  shows "r = r'"
proof -
  obtain layer where "rs = sync_router st layer @ admin_router" using assms(1) by (auto simp: router_def split: sum.splits)
  with separate_unique [OF routes_separate] assms(2-5) show ?thesis by blast
qed

text \<open>\<open>None\<close> is 404, \<open>Some None\<close> 405.\<close>

definition dispatch :: "route list \<Rightarrow> http_method \<Rightarrow> string list \<Rightarrow> handler option option" where
  "dispatch rs m path = map_option (\<lambda>r. map_of (route_handlers r) m) (List.find (\<lambda>r. path_matches (route_path r) path) rs)"

lemma dispatch_routed:
  "dispatch rs m path = Some (Some h) \<Longrightarrow> \<exists>r \<in> set rs. (m, h) \<in> set (route_handlers r)"
  by (auto simp: dispatch_def find_Some_iff dest: map_of_SomeD)

section \<open>The handlers of the requests\<close>

fun sync_handler :: "sync_request \<Rightarrow> handler" where
  "sync_handler Get_Metadata = H_get_metadata"
| "sync_handler (Put_Metadata _) = H_put_metadata"
| "sync_handler Get_Blob = H_get_blob"
| "sync_handler (Put_Blob _) = H_put_blob"
| "sync_handler (List_Objects _) = H_list_objects"
| "sync_handler (Get_Object _) = H_get_object"
| "sync_handler (Put_Object _ _) = H_put_object"
| "sync_handler (Delete_Object _) = H_delete_object"

fun panel_handler :: "panel_request \<Rightarrow> handler" where
  "panel_handler (Login _) = H_admin_login"
| "panel_handler Logout = H_admin_logout"
| "panel_handler Me = H_admin_current_user"
| "panel_handler (Change_Password _) = H_admin_change_own_password"
| "panel_handler List_Users = H_admin_list_users"
| "panel_handler (Create_User _) = H_admin_create_user"
| "panel_handler (Update_User _ _) = H_admin_update_user"
| "panel_handler (Delete_User _) = H_admin_delete_user"
| "panel_handler List_Namespaces = H_admin_list_namespaces"
| "panel_handler (Create_Namespace _) = H_admin_create_namespace"
| "panel_handler (Delete_Namespace _ _) = H_admin_delete_namespace"
| "panel_handler (Restore_Namespace _) = H_admin_restore_namespace"
| "panel_handler List_Tokens = H_admin_list_tokens"
| "panel_handler (Create_Token _) = H_admin_create_token"
| "panel_handler (Update_Token _ _) = H_admin_update_token"
| "panel_handler (Rotate_Token _) = H_admin_rotate_token"
| "panel_handler (Reveal_Token _) = H_admin_reveal_token"
| "panel_handler (Delete_Token _) = H_admin_delete_token"
| "panel_handler List_Devices = H_admin_list_devices"
| "panel_handler (Create_Device _) = H_admin_create_device"
| "panel_handler (Update_Device _ _) = H_admin_update_device"
| "panel_handler (Delete_Device _) = H_admin_delete_device"
| "panel_handler List_Conflicts = H_admin_list_conflicts"
| "panel_handler (Stats _ _) = H_admin_stats"

lemma handlers_distinct: "sync_handler q \<noteq> panel_handler rq"
  by (cases q; cases rq) simp_all

text \<open>The handlers the tables have under a method.\<close>

definition handlers_of :: "http_method \<Rightarrow> route list \<Rightarrow> handler list" where
  "handlers_of m rs = concat (map (\<lambda>r. map snd (filter (\<lambda>(m', h). m' = m) (route_handlers r))) rs)"

lemma routed_handler: "r \<in> set rs \<Longrightarrow> (m, h) \<in> set (route_handlers r) \<Longrightarrow> h \<in> set (handlers_of m rs)"
  by (force simp: handlers_of_def)

lemma get_handlers:
  "set (handlers_of GET (sync_router st layer @ admin_router)) = {H_get_metadata, H_get_blob, H_list_objects, H_get_object,
     H_redirect, H_health_check, H_readiness_check, H_admin_page, H_admin_current_user, H_admin_list_users,
     H_admin_list_namespaces, H_admin_list_tokens, H_admin_list_devices, H_admin_list_conflicts, H_admin_stats}"
  by (auto simp: handlers_of_def sync_router_def admin_router_def at_path_def Let_def)

lemma panel_get:
  assumes "router st = Inr rs" "dispatch rs GET path = Some (Some (panel_handler rq))"
  shows "is_get rq"
proof -
  obtain layer where "rs = sync_router st layer @ admin_router" using assms(1) by (auto simp: router_def split: sum.splits)
  then have "panel_handler rq \<in> set (handlers_of GET (sync_router st layer @ admin_router))"
    using dispatch_routed [OF assms(2)] routed_handler by blast
  then show ?thesis unfolding get_handlers by (cases rq) simp_all
qed

lemma sync_get:
  assumes "router st = Inr rs" "dispatch rs GET path = Some (Some (sync_handler q))"
  shows "needs q = Read"
proof -
  obtain layer where "rs = sync_router st layer @ admin_router" using assms(1) by (auto simp: router_def split: sum.splits)
  then have "sync_handler q \<in> set (handlers_of GET (sync_router st layer @ admin_router))"
    using dispatch_routed [OF assms(2)] routed_handler by blast
  then show ?thesis unfolding get_handlers by (cases q) simp_all
qed

end
