(* ===== verification/Panel_Props.thy ===== *)
theory Panel_Props
  imports Panel_Throttle Panel_Instance Routes
begin

text \<open>
  The properties of the administrator panel and of the server as a whole, each with a run
  on the concrete instance where its hypotheses hold.
\<close>

section \<open>Sessions\<close>

text \<open>C23: On a store without faults and in every reachable database, a session is valid for a name
  exactly when the panel is enabled, the request carries a token that decodes under the
  server's secret to claims for that name, and the account of that name is stored, enabled
  and at the session version of the claims.\<close>

theorem session_exact:
  assumes "no_faults E" "codecs_ok E" "db_reachable E (db w)"
  shows "(\<exists>w'. validate_admin_session E st hs w = (Inr name, w')) \<longleftrightarrow> admin_enabled st \<and>
    (\<exists>token claims u. extract_admin_token hs = Some token
      \<and> jwt_decode E (clock E (tick w)) (trim token) (jwt_secret st) = Inr claims \<and> cl_sub claims = name
      \<and> user_at E name (db w) = Some u \<and> usr_enabled u \<and> cl_ver claims = usr_session_version u)"
proof -
  have wf: "rows_wf E (db w)" using reachable_wf [OF assms(3,2)] by (simp add: db_wf_def)
  have "(\<exists>w'. validate_admin_session E st hs w = (Inr name, w'))
    \<longleftrightarrow> (\<exists>u. session_user E st hs (clock E (tick w)) (db w) = Some u \<and> usr_username u = name)"
    (is "_ \<longleftrightarrow> (\<exists>u. ?s = Some u \<and> _)")
    using validate_admin_session_ok(1) [of E st hs w name] validate_admin_session_complete [OF assms(1) wf]
    by blast
  also have "\<dots> \<longleftrightarrow> admin_enabled st \<and>
    (\<exists>token claims u. extract_admin_token hs = Some token
      \<and> jwt_decode E (clock E (tick w)) (trim token) (jwt_secret st) = Inr claims \<and> cl_sub claims = name
      \<and> user_at E name (db w) = Some u \<and> usr_enabled u \<and> cl_ver claims = usr_session_version u)"
    (is "_ \<longleftrightarrow> ?r")
  proof (intro iffI; elim exE conjE)
    fix u
    assume "?s = Some u" "usr_username u = name"
    then show "?r" using user_at_wf(2) [OF wf] unfolding session_user_iff by metis
  next
    fix token claims u
    assume "admin_enabled st" "extract_admin_token hs = Some token"
      "jwt_decode E (clock E (tick w)) (trim token) (jwt_secret st) = Inr claims" "cl_sub claims = name"
      "user_at E name (db w) = Some u" "usr_enabled u" "cl_ver claims = usr_session_version u"
    then have "?s = Some u" "usr_username u = name"
      using user_at_wf(2) [OF wf] by (auto simp: session_user_iff)
    then show "\<exists>u. ?s = Some u \<and> usr_username u = name" by blast
  qed
  finally show ?thesis .
qed

theorem session_exact_witness:
  "\<exists>w'. validate_admin_session demo demo_state panel_headers panel_world = (Inr ''admin'', w')"
proof -
  have "cl_sub panel_claims = ''admin''" "user_at demo ''admin'' (db panel_world) = Some (demo_user ''admin'')"
    "usr_enabled (demo_user ''admin'')" "cl_ver panel_claims = usr_session_version (demo_user ''admin'')"
    "admin_enabled demo_state"
    by (simp_all add: panel_claims_def panel_world_def panel_user) (simp_all add: demo_user_def demo_state_def)
  moreover have "jwt_decode demo (clock demo (tick panel_world)) (trim (demo_jwt panel_claims)) (jwt_secret demo_state)
      = Inr panel_claims"
    by (rule panel_decode) (simp add: panel_world_def demo_def)
  moreover have "db_reachable demo (db panel_world)" by (simp add: panel_world_def panel_reachable)
  ultimately show ?thesis
    using session_exact [OF demo_no_faults demo_codecs_ok] panel_token by blast
qed

text \<open>C24: Without a valid session no request of the panel but the login is answered, and without the
  CSRF token none that can change anything; it is refused with 401, 403, 404 or 500 and
  changes nothing.\<close>

theorem panel_guarded:
  assumes "\<not> is_login rq"
    and "session_user E st hs (clock E (tick w)) (db w) = None \<or> \<not> is_get rq \<and> verify_csrf hs \<noteq> Inr ()"
  shows "\<exists>e w'. serve_panel E st ip hs rq w = (Inl e, w') \<and> db w' = db w
    \<and> fst (into_response e) \<in> {401, 403, 404, 500}"
  using serve_panel_refused [OF assms(1)] assms(2) verify_csrf_iff by blast

theorem panel_guarded_witness:
  "\<exists>e w'. serve_panel demo demo_state ''ip'' demo_headers (Delete_User ''root'') panel_world = (Inl e, w')
     \<and> db w' = db panel_world"
proof -
  have "verify_csrf demo_headers \<noteq> Inr ()" by code_simp
  then show ?thesis using panel_guarded [of "Delete_User ''root''"] by fastforce
qed

text \<open>The GET routes of the panel change nothing, whatever they answer.\<close>

lemma panel_reads_change_nothing:
  assumes "is_get rq"
  shows "db (snd (serve_panel E st ip hs rq w)) = db w"
  using moves_snd [OF serve_panel_get_still [OF assms]] by (simp add: on_db_def unchanged_def)

lemma serve_read_keeps: "needs q = Read \<Longrightarrow> moves (on_db same_content) (serve E st ns ip hs q)"
  by (cases q) (auto simp: fmap_def get_metadata_def get_blob_def list_objects_def list_page_def get_object_def Let_def
      intro!: kept.db_frame_rules kept_moves split: option.split prod.split)

text \<open>C25: Whatever path it names, a GET request changes nothing when a panel handler answers it, and no
  metadata, blob or object when a handler of the sync API does.\<close>

theorem get_is_safe:
  assumes "router st = Inr routes" "dispatch routes GET path = Some (Some h)"
  shows "(\<forall>rq. h = panel_handler rq \<longrightarrow> db (snd (serve_panel E st ip hs rq w)) = db w)
    \<and> (\<forall>ns q. h = sync_handler q \<longrightarrow> content (db (snd (serve E st ns ip hs q w))) = content (db w))"
proof (intro conjI allI impI)
  fix rq
  assume "h = panel_handler rq"
  with panel_get [OF assms(1)] assms(2) have "is_get rq" by simp
  from moves_snd [OF serve_panel_get_still [OF this]] show "db (snd (serve_panel E st ip hs rq w)) = db w"
    by (simp add: on_db_def unchanged_def)
next
  fix ns q
  assume "h = sync_handler q"
  with sync_get [OF assms(1)] assms(2) have "needs q = Read" by simp
  from moves_snd [OF serve_read_keeps [OF this]] show "content (db (snd (serve E st ns ip hs q w))) = content (db w)"
    unfolding on_db_def same_content_def by (rule sym)
qed

definition demo_routes :: "route list" where
  "demo_routes = sync_router demo_state None @ admin_router"

theorem get_is_safe_witness:
  "content (db (snd (serve demo demo_state ''ns'' ''ip'' demo_headers Get_Blob demo_world))) = content (db demo_world)"
proof -
  have "router demo_state = Inr demo_routes"
    by (simp add: router_def build_sync_cors_layer_def demo_state_def demo_routes_def)
  moreover have "dispatch demo_routes GET [''v1'', ''namespaces'', ''ns'', ''blob''] = Some (Some (sync_handler Get_Blob))"
    by (simp add: dispatch_def demo_routes_def sync_router_def at_path_def Let_def)
  ultimately show ?thesis by (rule get_is_safe [THEN conjunct2, rule_format, OF _ _ refl])
qed
section \<open>Accounts\<close>

text \<open>C26: Whatever sync and panel requests the server answers, one after the other, an enabled
  administrator remains when there was one at the start.\<close>

theorem last_admin_stays:
  assumes "ext_ok E" "world_ok E w" "user_at E name (db w) = Some u" "usr_enabled u"
  shows "\<exists>name' u'. user_at E name' (db (run_server E st qs w)) = Some u' \<and> usr_enabled u'"
proof -
  have "enabled_names E (accounts w) \<noteq> {}"
    using assms(3,4) by (auto simp: enabled_names_def user_at_in)
  from run_server_admins [OF assms(1,2) this, of st qs] show ?thesis
    by (auto simp: enabled_names_def user_at_in)
qed

theorem last_admin_stays_witness:
  "\<exists>name' u'. user_at demo name' (db (run_server demo demo_state
      [(''ip'', panel_headers, Panel (Delete_User ''root'')), (''ip'', panel_headers, Panel (Delete_User ''admin''))]
      panel_world)) = Some u' \<and> usr_enabled u'"
  by (rule last_admin_stays [OF demo_ext_ok panel_world_ok, of "''admin''" "demo_user ''admin''"])
    (simp_all add: panel_world_def panel_user demo_user_def)

text \<open>C27: Disabling an account, giving it a new password or deleting it ends every session of the
  account, as long as its session version has not reached the last value of 64 bits, where it
  stays. The new password may come from the user administration or from the account's own
  session, by a change of one's own password.\<close>

theorem sessions_end:
  assumes "codecs_ok E" "db_reachable E (db w)" "serve_panel E st ip hs rq w = (Inr r, w')"
    and "session_user E st hs' now (db w) = Some u" "ends_sessions E st hs (db w) rq u" "usr_session_version u \<noteq> - 1"
  shows "session_user E st hs' now (db w') = None"
  by (rule ends_sessions_ok [OF codecs_okD(9) [OF assms(1)] _ assms(3-6)])
    (use reachable_wf [OF assms(2,1)] in \<open>simp add: db_wf_def\<close>)

theorem sessions_end_witness:
  "session_user demo demo_state panel_headers 0
     (db (snd (panel_run (Update_User ''admin'' \<lparr>uu_password = None, uu_enabled = Some False\<rparr>)))) = None
   \<and> session_user demo demo_state panel_headers 0 (db (snd (panel_run
      (Change_Password \<lparr>cp_current_password = ''password'', cp_new_password = ''password2''\<rparr>)))) = None"
proof -
  have ended: "session_user demo demo_state panel_headers 0 (db (snd (panel_run rq))) = None"
    if "res_ok (fst (panel_run rq)) \<noteq> None" "ends_sessions demo demo_state panel_headers panel_db rq (demo_user ''admin'')" for rq
  proof -
    from run_result [OF that(1)] obtain r w' where run: "panel_run rq = (Inr r, w')" by blast
    have "session_user demo demo_state panel_headers 0 (db panel_world) = Some (demo_user ''admin'')"
      by (rule panel_session) (simp_all add: panel_world_def)
    moreover have "ends_sessions demo demo_state panel_headers (db panel_world) rq (demo_user ''admin'')"
      "usr_session_version (demo_user ''admin'') \<noteq> - 1" "db_reachable demo (db panel_world)"
      using that(2) by (simp_all add: demo_user_def panel_world_def panel_reachable)
    ultimately show ?thesis
      using sessions_end [OF demo_codecs_ok _ run [unfolded panel_run_def]] run by simp
  qed
  show ?thesis
    by (intro conjI ended update_runs change_password_runs) (use panel_session_only in \<open>simp_all add: demo_user_def\<close>)
qed

section \<open>Logging in\<close>

lemma login_not_enabled:
  assumes "no_faults E" "codecs_ok E" "rows_wf E (db w)" "\<not> admin_enabled st"
    and "\<not> login_blocked E (resolve_client_ip E hs ip st) (clock E (tick w)) (attempts w)"
  shows "\<exists>w'. admin_login E st hs ip body w = (Inl (Not_Found ''Admin panel disabled''), w')"
proof -
  from login_allowed [OF assms(1-3,5), of st "login_name body"] obtain d where
    "ensure_login_allowed E st (resolve_client_ip E hs ip st) w = (Inr (), \<lparr>db = d, tick = tick w + 3\<rparr>)" by blast
  then show ?thesis using assms(4) by (simp add: admin_login_def Let_def bindE_def)
qed

text \<open>C28: On a store without faults and in every reachable database, a login succeeds exactly when
  the panel is enabled, the address is not blocked, and the name and password are those of
  an enabled account. A wrong name, a wrong password and a disabled account are not told
  apart.\<close>

theorem login_exact:
  assumes "no_faults E" "codecs_ok E" "jwt_ok E" "uuid_text E" "db_reachable E (db w)"
  shows "(case admin_login E st hs ip body w of
      (Inr _, _) \<Rightarrow> admin_enabled st
        \<and> \<not> login_blocked E (resolve_client_ip E hs ip st) (clock E (tick w)) (attempts w)
        \<and> credentials_ok E body (accounts w)
    | (Inl e, _) \<Rightarrow> (if login_blocked E (resolve_client_ip E hs ip st) (clock E (tick w)) (attempts w)
          then fst (into_response e) = 429
          else if \<not> admin_enabled st then fst (into_response e) = 404
          else \<not> credentials_ok E body (accounts w) \<and> e = Unauthorized ''Invalid username or password''))"
proof -
  have wf: "rows_wf E (db w)" using reachable_wf [OF assms(5,2)] by (simp add: db_wf_def)
  note iff = login_iff [OF assms(1,2) wf assms(3,4), of st hs ip body]
  obtain r w' where run: "admin_login E st hs ip body w = (r, w')" by (cases "admin_login E st hs ip body w")
  show ?thesis
  proof (cases r)
    case (Inr x)
    with run iff show ?thesis by auto
  next
    case (Inl e)
    show ?thesis
    proof (cases "login_blocked E (resolve_client_ip E hs ip st) (clock E (tick w)) (attempts w)")
      case True
      from login_while_blocked [OF assms(1,2) wf this, of body] run Inl True show ?thesis by auto
    next
      case False
      then show ?thesis
        using run Inl iff login_fails [OF assms(1,2) wf _ False, of body]
          login_not_enabled [OF assms(1,2) wf _ False, of body]
        by (cases "admin_enabled st"; cases "credentials_ok E body (accounts w)") auto
    qed
  qed
qed

theorem login_exact_witness:
  "\<exists>r w'. admin_login demo demo_state [] ''ip'' admin_login_body panel_world = (Inr r, w')"
proof -
  have "db_reachable demo (db panel_world)" by (simp add: panel_world_def panel_reachable)
  from login_exact [OF demo_no_faults demo_codecs_ok demo_jwt_ok demo_uuid_text this, where st = demo_state and hs = "[]"
      and ip = "''ip''" and body = admin_login_body]
  show ?thesis
    using panel_credentials(1) panel_free
    by (cases "admin_login demo demo_state [] ''ip'' admin_login_body panel_world")
      (auto simp: demo_state_def split: sum.splits)
qed

text \<open>C29: A browser that keeps the cookies of a successful login and sends back the CSRF token of
  its answer passes the session and CSRF checks, as the account it logged in to, for the
  next 24 hours, as long as the accounts stay as they are.\<close>

theorem login_round_trip:
  assumes "no_faults E" "codecs_ok E" "jwt_ok E" "uuid_text E" "db_reachable E (db w)"
    and "admin_login E st hs ip body w = (Inr (cookies, answer), w')"
    and "\<forall>i. tick w \<le> i \<and> i \<le> tick w' \<longrightarrow> 0 \<le> clock E i \<and> clock E i div 1000000000 + 86400 < 2 ^ 64
      \<and> clock E (tick w2) \<le> clock E i + seconds 86400"
    and "db_reachable E (db w2)" "accounts w2 = accounts w'"
  shows "\<exists>csrf. answer = JObj [(''ok'', JBool True), (''csrfToken'', JStr csrf)]
    \<and> fst (validate_admin_session E st (browser cookies csrf) w2) = Inr (login_name body)
    \<and> fst (verify_admin_mutation E st (browser cookies csrf) w2) = Inr ()"
proof -
  have wf: "rows_wf E (db w)" "rows_wf E (db w2)"
    using reachable_wf [OF _ assms(2)] assms(5,8) by (auto simp: db_wf_def)
  from login_then_checked [OF assms(1,2) wf(1) assms(3,4,6) _ wf(2) assms(9)] assms(7)
  show ?thesis by fastforce
qed

theorem login_round_trip_witness:
  "\<exists>cookies answer w'. admin_login demo demo_state [] ''ip'' admin_login_body panel_world = (Inr (cookies, answer), w')
     \<and> (\<exists>csrf. fst (verify_admin_mutation demo demo_state (browser cookies csrf) w') = Inr ())"
proof -
  have reach: "db_reachable demo (db panel_world)" by (simp add: panel_world_def panel_reachable)
  have wf: "rows_wf demo (db panel_world)" by (simp add: panel_world_def panel_world_wf)
  obtain u where u: "user_in demo (accounts panel_world) (login_name admin_login_body) = Some u" "usr_enabled u"
      "verify_admin_password demo (lr_password admin_login_body) (usr_password_hash u)"
    using panel_credentials(1) by (auto simp: credentials_ok_def)
  have en: "admin_enabled demo_state" by (simp add: demo_state_def)
  from login_succeeds [OF demo_no_faults demo_codecs_ok wf demo_jwt_ok demo_uuid_text en panel_free u]
  obtain cookies answer w' where run: "admin_login demo demo_state [] ''ip'' admin_login_body panel_world = (Inr (cookies, answer), w')"
      and t: "tick w' = 10"
    by (fastforce simp: panel_world_def)
  have "steps_of demo panel_world w'"
    using movesD [OF aside_login run] by (simp add: aside_def)
  then have reach': "db_reachable demo (db w')"
    using reachable_steps reach by (auto simp: on_db_def)
  have times: "\<forall>i. tick panel_world \<le> i \<and> i \<le> tick w' \<longrightarrow> 0 \<le> clock demo i \<and> clock demo i div 1000000000 + 86400 < 2 ^ 64
      \<and> clock demo (tick w') \<le> clock demo i + seconds 86400"
    by (simp add: panel_world_def t demo_def seconds_def)
  from login_round_trip [OF demo_no_faults demo_codecs_ok demo_jwt_ok demo_uuid_text reach run times reach' refl] run
  show ?thesis by (elim exE conjE, intro exI conjI)
qed




end
