(* ===== verification/Token_Props.thy ===== *)
theory Token_Props
  imports Panel_Instance
begin

text \<open>
  The properties of the API tokens that the panel hands out: which secrets the gate of the
  sync API knows, from the request that creates a token to long after it is deleted.
\<close>

section \<open>The instance\<close>

lemma panel_world_tokens: "token_in demo (tokens panel_world) i = (if i = ''t'' then Some demo_token else None)"
  by (simp add: token_in_def panel_world_def panel_db_def demo_db_def token_key_def decode_row_def demo_def doc_codec_def
      open_db_def)

lemma panel_sealed: "opens demo demo_state demo_token ''secret''"
proof -
  have "open_token demo demo_state (replicate 12 CHR ''n'' @ ''secret'' @ replicate 16 CHR ''t'') = Inr ''secret''"
    "hash_api_token demo ''secret'' = ''secret''"
    by code_simp+
  then show ?thesis by (simp add: opens_def demo_token_def)
qed

lemma panel_tokens_ok: "sealed_ok demo demo_state (tokens panel_world)" "scopes_ok demo (tokens panel_world)"
proof -
  have "scope_ok demo (scope demo_token)" by code_simp
  then show "sealed_ok demo demo_state (tokens panel_world)" "scopes_ok demo (tokens panel_world)"
    using panel_sealed by (auto simp: sealed_ok_def scopes_ok_def panel_world_tokens)
qed

lemma demo_bearer: "bearer_or_basic demo (header demo_headers ''authorization'') = Inr ''secret''"
  by code_simp

lemma panel_finds: "token_of_request demo demo_headers (db panel_world) = Some demo_token"
proof -
  have "token_index_ok demo (db panel_world)" using panel_world_ok by (simp add: world_ok_def db_wf_def)
  moreover have "token_at demo ''t'' (db panel_world) = Some demo_token"
    by (simp add: token_at_in panel_world_tokens)
  moreover have "tok_token_hash demo_token = hash_api_token demo ''secret''" by code_simp
  ultimately show ?thesis using demo_bearer by (simp add: token_of_request_iff) blast
qed

section \<open>Secrets the gate knows\<close>

text \<open>C32: The secret that the panel answers when it creates a token is let through at once, for every
  namespace of the pattern that is not soft-deleted and every permission of the request,
  unless the token has expired by then.\<close>

theorem token_created_admits:
  assumes "no_faults E" "ext_ok E" "sealing_ok E" "world_ok E w"
    and "admin_create_token E st hs body w = (Inr answer, w')"
    and "namespace_matches ns (ct_namespace_pattern body)"
    and "as_str p \<in> set (normalize_permissions (opt_get [''read'', ''write''] (ct_permissions body)))"
    and "tget (deleted_namespace_table (db w')) ns = None"
    and "\<forall>i. tick w \<le> i \<longrightarrow> (case Option.bind (expiry_of E st (ct_expires_at body) (clock E i)) (parse_rfc3339 E) of
      None \<Rightarrow> True | Some x \<Rightarrow> clock E (tick w' + 3) < x)"
  shows "\<exists>secret t w''. answer = created_answer secret t
    \<and> authorize_sync_request_with_permission E st' (bearer secret) ns p ip w' = (Inr t, w'')"
proof -
  have codecs: "codecs_ok E" using assms(2) by (simp add: ext_ok_def)
  from create_token_run [OF assms(3,5)] obtain s k l where s: "tick w \<le> l" "created E st body (uuid_v4 E k) (clock E l) s"
      "put_token E (tokens w) s (tokens w')" "answer = created_answer (uuid_v4 E k) s" by blast
  have "world_ok E w'" using movesD [OF create_token_served assms(5)] assms(2,4) by (simp add: serves_def)
  then have wf: "db_wf E (db w')" by (simp add: world_ok_def)
  have "token_at E (tok_id s) (db w') = Some s"
    using put_token_in [OF codecs_okD(3) [OF codecs] s(3)] by (simp add: token_at_in)
  moreover have "list_all plain (uuid_v4 E k)" using assms(3) jwt_plain unfolding sealing_ok_def uuid_text_def by blast
  ultimately have finds: "token_of_request E (bearer (uuid_v4 E k)) (db w') = Some s"
    using wf s(2) by (intro bearer_finds) (auto simp: db_wf_def created_def opens_def)
  have "token_admits E (clock E (tick w' + 3)) ns p s"
    using s(1,2) assms(6,7,9) by (simp add: token_admits_def created_def permissions_allow_iff)
  with finds assms(8) have "gate_open E (bearer (uuid_v4 E k)) ns p w'" by (simp add: gate_open_iff)
  from authorize_complete [OF assms(1) codecs wf this] finds s(4) show ?thesis by (metis option.inject)
qed

definition create_body :: create_token_request where
  "create_body = \<lparr>ct_name = ''n'', ct_namespace_pattern = ''team-*'', ct_permissions = None,
     ct_expires_at = None, ct_device_id = None\<rparr>"

definition panel_create :: "(app_error + json) \<times> doc world" where
  "panel_create = admin_create_token demo demo_state panel_headers create_body panel_world"

lemma panel_create_runs:
  "res_ok (fst panel_create) \<noteq> None" "tget (deleted_namespace_table (db (snd panel_create))) ''team-a'' = None"
  unfolding panel_create_def admin_create_token_def panel_starts by code_simp+

theorem token_created_admits_witness:
  "\<exists>answer w' secret t w''. admin_create_token demo demo_state panel_headers create_body panel_world = (Inr answer, w')
     \<and> authorize_sync_request_with_permission demo demo_state (bearer secret) ''team-a'' Write ''ip'' w' = (Inr t, w'')"
proof -
  obtain answer w' where run: "panel_create = (Inr answer, w')" using run_result [OF panel_create_runs(1)] by blast
  have ns: "namespace_matches ''team-a'' (ct_namespace_pattern create_body)"
    "as_str Write \<in> set (normalize_permissions (opt_get [''read'', ''write''] (ct_permissions create_body)))"
    "tget (deleted_namespace_table (db w')) ''team-a'' = None"
    by (code_simp, code_simp) (use panel_create_runs(2) in \<open>simp add: run\<close>)
  have "expiry_of demo demo_state (ct_expires_at create_body) now = None" for now
    by (simp add: expiry_of_def create_body_def normalize_optional_timestamp_def demo_state_def)
  with token_created_admits [OF demo_no_faults demo_ext_ok demo_sealing_ok panel_world_ok run [unfolded panel_create_def] ns]
  have "\<exists>secret t w''. answer = created_answer secret t
      \<and> authorize_sync_request_with_permission demo demo_state (bearer secret) ''team-a'' Write ''ip'' w' = (Inr t, w'')"
    by simp
  with run [unfolded panel_create_def] show ?thesis by (elim exE conjE, intro exI conjI)
qed

lemma revoked_dead:
  assumes "ext_ok E" "sealing_ok E" "world_ok E w" "token_at E i (db w) = Some t" "tok_token_hash t = h"
    and "serve_panel E st ip hs rq w = (Inr r, w')" "rq = Delete_Token i \<or> rq = Rotate_Token i"
  shows "hash_dead E (tick w) h (tokens w')"
proof -
  have codec: "codec_ok (c_token E)" using assms(1) by (simp add: ext_ok_def codecs_okD)
  have wf: "token_index_ok E (db w)" "secrets_fresh E w" using assms(3) by (simp_all add: world_ok_def db_wf_def)
  have index: "tget (token_hash_table (db w)) h = Some j \<longleftrightarrow> (\<exists>s. token_in E (tokens w) j = Some s \<and> tok_token_hash s = h)" for j
    using token_index_okD(3) [OF wf(1)] by (simp add: token_at_in)
  have fresh: "secret_hash E k \<noteq> h" if "tick w \<le> k" for k
    using wf(2) that index [of i] assms(4,5) unfolding secrets_fresh_def by (auto simp: token_at_in)
  have only: "j = i" if "token_in E (tokens w) j = Some s" "tok_token_hash s = h" for j s
    using index [of j] index [of i] that assms(4,5) by (auto simp: token_at_in)
  have "tok_token_hash s \<noteq> h" if "token_in E (tokens w') j = Some s" for j s
    using assms(7)
  proof
    assume "rq = Delete_Token i"
    then have "token_in E (tokens w') j = (if j = i then None else token_in E (tokens w) j)"
      using assms(6) delete_token_run [of E st i hs w] by (auto simp: fmap_def act_ok_iff)
    with that only show ?thesis by (auto split: if_splits)
  next
    assume "rq = Rotate_Token i"
    then obtain answer where "admin_rotate_token E st i hs w = (Inr answer, w')"
      using assms(6) by (auto simp: fmap_def act_ok_iff)
    from rotate_token_run [OF assms(2) this] obtain s0 s1 k at where s: "token_in E (tokens w) i = Some s0" "tick w \<le> k"
        "rotated E st (uuid_v4 E k) at s0 s1" "put_token E (tokens w) s1 (tokens w')" by blast
    have "tok_id s0 = i" by (rule token_index_okD(2) [OF wf(1)]) (use s(1) in \<open>simp add: token_at_in\<close>)
    then have "tok_id s1 = i" "tok_token_hash s1 \<noteq> h"
      using s(3) fresh [OF s(2)] by (auto simp: rotated_def secret_hash_def)
    with that only put_token_in [OF codec s(4), of j] show ?thesis by (auto split: if_splits)
  qed
  with fresh show ?thesis by (simp add: hash_dead_def)
qed

lemma dead_refused:
  assumes "token_index_ok E (db w)" "bearer_or_basic E (header hs ''authorization'') = Inr secret"
    and "hash_dead E n (hash_api_token E secret) (tokens w)"
  shows "\<exists>e w'. authorize_sync_request_with_permission E st hs ns p ip w = (Inl e, w')"
proof -
  obtain x w' where run: "authorize_sync_request_with_permission E st hs ns p ip w = (x, w')"
    by (cases "authorize_sync_request_with_permission E st hs ns p ip w")
  have none: "token_of_request E hs (db w) \<noteq> Some s" for s :: api_token
    unfolding token_of_request_iff [OF assms(1)] using assms(2,3) by (auto simp: hash_dead_def token_at_in)
  show ?thesis
  proof (cases x)
    case (Inr s)
    from authorize_ok(2) [OF assms(1) run [unfolded Inr]] none [of s] show ?thesis by contradiction
  qed (use run in auto)
qed

text \<open>C31: A secret whose token was deleted or rotated is never let through again, whatever requests
  the server answers afterwards, one after the other.\<close>

theorem revoked_forever:
  assumes "ext_ok E" "sealing_ok E" "world_ok E w" "token_of_request E old (db w) = Some t"
    and "serve_panel E st ip hs rq w = (Inr r, w')" "rq = Delete_Token (tok_id t) \<or> rq = Rotate_Token (tok_id t)"
  shows "\<exists>e w''. authorize_sync_request_with_permission E st old ns p ip' (run_server E st qs w') = (Inl e, w'')"
proof -
  let ?w2 = "run_server E st qs w'"
  have codec: "codec_ok (c_token E)" using assms(1) by (simp add: ext_ok_def codecs_okD)
  have idx: "token_index_ok E (db w)" using assms(3) by (simp add: world_ok_def db_wf_def)
  from assms(4) obtain secret i where i: "bearer_or_basic E (header old ''authorization'') = Inr secret"
      "token_at E i (db w) = Some t" "tok_token_hash t = hash_api_token E secret"
    unfolding token_of_request_iff [OF idx] by blast
  have "tok_id t = i" by (rule token_index_okD(2) [OF idx i(2)])
  with revoked_dead [OF assms(1-3) i(2,3) assms(5)] assms(6)
  have dead: "hash_dead E (tick w) (hash_api_token E secret) (tokens w')" by blast
  have "tick w \<le> tick w'" using movesD [OF serve_panel_ticks assms(5)] by (simp add: ticks_def)
  from run_server_moves [OF assms(2) this] have "token_moves E st (tick w) w' ?w2" by blast
  from token_moves_keep(3) [OF codec this dead]
  have dead2: "hash_dead E (tick w) (hash_api_token E secret) (tokens ?w2)" .
  have "world_ok E w'" using movesD [OF serve_panel_served assms(5)] assms(1,3) by (simp add: serves_def)
  with run_server_serves [of E w' st qs] assms(1) have "token_index_ok E (db ?w2)"
    by (simp add: serves_def world_ok_def db_wf_def)
  from dead_refused [OF this i(1) dead2] show ?thesis .
qed

lemma panel_delete_runs: "res_ok (fst (panel_run (Delete_Token ''t''))) \<noteq> None"
  unfolding panel_run_def serve_panel.simps fmap_def admin_delete_token_def bindE_assoc panel_starts
  by code_simp

theorem revoked_forever_witness:
  "\<exists>r w' e w''. panel_run (Delete_Token ''t'') = (Inr r, w')
     \<and> authorize_sync_request_with_permission demo demo_state demo_headers ''ns'' Read ''ip''
       (run_server demo demo_state [(''ip'', panel_headers, Panel (Create_Token create_body))] w') = (Inl e, w'')"
proof -
  obtain r w' where run: "panel_run (Delete_Token ''t'') = (Inr r, w')" using run_result [OF panel_delete_runs] by blast
  have "Delete_Token ''t'' = Delete_Token (tok_id demo_token) \<or> Delete_Token ''t'' = Rotate_Token (tok_id demo_token)"
    by (simp add: demo_token_def)
  from revoked_forever [OF demo_ext_ok demo_sealing_ok panel_world_ok panel_finds run [unfolded panel_run_def] this]
  obtain e w'' where "authorize_sync_request_with_permission demo demo_state demo_headers ''ns'' Read ''ip''
       (run_server demo demo_state [(''ip'', panel_headers, Panel (Create_Token create_body))] w') = (Inl e, w'')"
    by blast
  with run show ?thesis by (intro exI conjI)
qed

text \<open>C33: Whatever requests the server answered, a secret that the panel reveals for a token is the one
  by which the gate finds that token.\<close>

theorem reveal_current_secret:
  assumes "ext_ok E" "sealing_ok E" "world_ok E w" "sealed_ok E st (tokens w)"
    and "admin_reveal_token E st i hs (run_server E st qs w) = (Inr answer, w')"
  shows "\<exists>secret t. answer = JObj [(''id'', JStr i), (''token'', JStr secret), (''persistent'', JBool (token_reveal_persistent st))]
    \<and> (\<forall>hs'. bearer_or_basic E (header hs' ''authorization'') = Inr secret \<longrightarrow> token_of_request E hs' (db w') = Some t)
    \<and> tok_id t = i"
proof -
  let ?w1 = "run_server E st qs w"
  have codec: "codec_ok (c_token E)" using assms(1) by (simp add: ext_ok_def codecs_okD)
  have "token_moves E st (tick w) w ?w1" using run_server_moves [OF assms(2) order_refl] by blast
  from token_moves_keep(1) [OF codec this assms(4)] have sealed: "sealed_ok E st (tokens ?w1)" .
  have w1: "world_ok E ?w1" using run_server_serves [of E w st qs] assms(1,3) by (simp add: serves_def)
  from reveal_token_run [OF assms(5)] obtain s e raw where s: "token_in E (tokens ?w1) i = Some s"
      "tok_encrypted_token s = Some e" "open_token E st e = Inr raw"
      "answer = JObj [(''id'', JStr (tok_id s)), (''token'', JStr raw), (''persistent'', JBool (token_reveal_persistent st))]"
      "tokens w' = tokens ?w1" by blast
  have "world_ok E w'" using movesD [OF delete_reveal_served(2) assms(5)] assms(1) w1 by (simp add: serves_def)
  then have ok: "token_index_ok E (db w')" by (simp add: world_ok_def db_wf_def)
  have at: "token_at E i (db w') = Some s" using s(1,5) by (simp add: token_at_in)
  have id: "tok_id s = i" by (rule token_index_okD(2) [OF ok at])
  have "\<exists>raw. opens E st s raw" using sealed s(1,2) unfolding sealed_ok_def by blast
  then have "tok_token_hash s = hash_api_token E raw" using s(2,3) by (auto simp: opens_def)
  with at have "token_of_request E hs' (db w') = Some s" if "bearer_or_basic E (header hs' ''authorization'') = Inr raw" for hs'
    using that by (auto simp: token_of_request_iff [OF ok])
  with s(4) id show ?thesis by blast
qed

lemma panel_reveal_runs: "res_ok (fst (admin_reveal_token demo demo_state ''t'' panel_headers panel_world)) \<noteq> None"
  unfolding admin_reveal_token_def panel_starts by code_simp

theorem reveal_current_secret_witness:
  "\<exists>answer w' secret t. admin_reveal_token demo demo_state ''t'' panel_headers panel_world = (Inr answer, w')
     \<and> answer = JObj [(''id'', JStr ''t''), (''token'', JStr secret), (''persistent'', JBool True)]
     \<and> (\<forall>hs'. bearer_or_basic demo (header hs' ''authorization'') = Inr secret \<longrightarrow>
          token_of_request demo hs' (db w') = Some t)"
proof -
  obtain answer w' where run: "admin_reveal_token demo demo_state ''t'' panel_headers panel_world = (Inr answer, w')"
    using run_result [OF panel_reveal_runs] by blast
  then have "admin_reveal_token demo demo_state ''t'' panel_headers (run_server demo demo_state [] panel_world) = (Inr answer, w')"
    by simp
  from reveal_current_secret [OF demo_ext_ok demo_sealing_ok panel_world_ok panel_tokens_ok(1) this] obtain secret t where
    "answer = JObj [(''id'', JStr ''t''), (''token'', JStr secret), (''persistent'', JBool (token_reveal_persistent demo_state))]"
    "\<forall>hs'. bearer_or_basic demo (header hs' ''authorization'') = Inr secret \<longrightarrow> token_of_request demo hs' (db w') = Some t"
    by blast
  moreover have "token_reveal_persistent demo_state" by (simp add: demo_state_def)
  ultimately show ?thesis using run by (intro exI conjI) simp_all
qed

text \<open>C34: Whatever requests the server answers, every stored token keeps a valid namespace pattern and
  a set of permissions that is not empty and names only read and write.\<close>

theorem tokens_well_typed:
  assumes "codecs_ok E" "sealing_ok E" "scopes_ok E (tokens w)"
    and "token_at E i (db (run_server E st qs w)) = Some t"
  shows "validate_namespace_pattern E (tok_namespace_pattern t)
    \<and> tok_permissions t \<noteq> [] \<and> set (tok_permissions t) \<subseteq> {''read'', ''write''}"
proof -
  have "token_moves E st (tick w) w (run_server E st qs w)" using run_server_moves [OF assms(2) order_refl] by blast
  from token_moves_keep(2) [OF codecs_okD(3) [OF assms(1)] this assms(3)] assms(4) show ?thesis
    by (auto simp: scopes_ok_def scope_ok_def scope_def validate_permissions_def list_all_iff token_at_in)
qed

theorem tokens_well_typed_witness:
  "set (tok_permissions demo_token) \<subseteq> {''read'', ''write''}"
proof -
  have "token_at demo ''t'' (db (run_server demo demo_state [] panel_world)) = Some demo_token"
    by (simp add: token_at_in panel_world_tokens)
  from tokens_well_typed [OF demo_codecs_ok demo_sealing_ok panel_tokens_ok(2) this] show ?thesis by blast
qed

section \<open>The invariant of the server\<close>

text \<open>C35: Whatever sync and panel requests the server answers, the database stays reachable by its
  own committed steps and well-formed, and no secret still to be drawn is known to the gate.\<close>

theorem server_keeps_invariant:
  assumes "ext_ok E" "db_reachable E (db w)" "secrets_fresh E w"
  shows "db_reachable E (db (run_server E st qs w)) \<and> db_wf E (db (run_server E st qs w))
    \<and> secrets_fresh E (run_server E st qs w)"
proof -
  have "codecs_ok E" using assms(1) by (simp add: ext_ok_def)
  then have "world_ok E w" using reachable_wf [OF assms(2)] assms(3) by (simp add: world_ok_def)
  with run_server_serves [of E w st qs] assms(1)
  have s: "steps_of E w (run_server E st qs w)" "world_ok E (run_server E st qs w)" by (simp_all add: serves_def)
  have "db_reachable E (db (run_server E st qs w))"
    using reachable_steps [of E "db w"] assms(2) s(1) by (auto simp: on_db_def)
  with s(2) show ?thesis by (simp add: world_ok_def)
qed

theorem server_keeps_invariant_witness:
  "db_wf demo (db (run_server demo demo_state
     [(''ip'', panel_headers, Panel (Create_Token create_body)), (''ip'', demo_headers, Sync ''ns'' (Put_Blob ''x''))] panel_world))"
proof -
  have "secrets_fresh demo panel_world" using panel_world_ok by (simp add: world_ok_def)
  from server_keeps_invariant [OF demo_ext_ok panel_world_reachable this] show ?thesis by blast
qed

end
