(* ===== verification/Maintenance.thy ===== *)
theory Maintenance
  imports Crypto
begin

text \<open>
  The maintenance modes of \<^verbatim>\<open>src/src/main.rs\<close>: backup, restore and verification of the
  database file. The world is the files of the machine by path. A panic ends the process
  with its message, so an action returns it as its error. A path is its text; the model takes
  different texts for different files.
\<close>

section \<open>Files\<close>

record files =
  file_at :: "string \<Rightarrow> bytes option"
  io_tick :: nat

text \<open>
  What can go wrong: an operation may fail, and a write that fails may leave anything in its
  target.
\<close>

record io_ext =
  io_fault :: "nat \<Rightarrow> string option"
  torn :: "nat \<Rightarrow> bytes option \<Rightarrow> bytes option"

definition no_io_faults :: "io_ext \<Rightarrow> bool" where
  "no_io_faults F \<longleftrightarrow> (\<forall>i. io_fault F i = None)"

type_synonym 'a io = "(string, files, 'a) act"

definition io_next :: "files \<Rightarrow> files" where
  "io_next w = w\<lparr>io_tick := Suc (io_tick w)\<rparr>"

definition no_such_file :: string where
  "no_such_file = ''No such file or directory (os error 2)''"

definition fs_read :: "io_ext \<Rightarrow> string \<Rightarrow> bytes io" where
  "fs_read F path = (\<lambda>w. case io_fault F (io_tick w) of
       Some e \<Rightarrow> (Inl e, io_next w)
     | None \<Rightarrow> (case file_at w path of
           None \<Rightarrow> (Inl no_such_file, io_next w)
         | Some b \<Rightarrow> (Inr b, io_next w)))"

definition fs_write :: "io_ext \<Rightarrow> string \<Rightarrow> bytes \<Rightarrow> unit io" where
  "fs_write F path data = (\<lambda>w. case io_fault F (io_tick w) of
       Some e \<Rightarrow> (Inl e, io_next (w\<lparr>file_at := (file_at w)(path := torn F (io_tick w) (file_at w path))\<rparr>))
     | None \<Rightarrow> (Inr (), io_next (w\<lparr>file_at := (file_at w)(path \<mapsto> data)\<rparr>)))"

text \<open>\<open>fs::copy\<close> opens its source, truncates its target, then copies: onto itself it empties the file.\<close>

definition fs_copy :: "io_ext \<Rightarrow> string \<Rightarrow> string \<Rightarrow> unit io" where
  "fs_copy F source target = (\<lambda>w. case file_at w source of
       None \<Rightarrow> (Inl no_such_file, io_next w)
     | Some b \<Rightarrow> fs_write F target (if source = target then [] else b) w)"

definition fs_create_dir_all :: "io_ext \<Rightarrow> string \<Rightarrow> unit io" where
  "fs_create_dir_all F path = (\<lambda>w. case io_fault F (io_tick w) of
       Some e \<Rightarrow> (Inl e, io_next w)
     | None \<Rightarrow> (Inr (), io_next w))"

definition fs_exists :: "io_ext \<Rightarrow> string \<Rightarrow> bool io" where
  "fs_exists F path = (\<lambda>w. (Inr (io_fault F (io_tick w) = None \<and> file_at w path \<noteq> None), io_next w))"

section \<open>Paths\<close>

text \<open>The components of a path: empty parts and single dots do not count.\<close>

definition path_components :: "string \<Rightarrow> string list" where
  "path_components p = filter (\<lambda>c. c \<noteq> [] \<and> c \<noteq> ''.'') (split_on CHR ''/'' p)"

definition path_file_name :: "string \<Rightarrow> string option" where
  "path_file_name p = (case rev (path_components p) of
       [] \<Rightarrow> None
     | c # _ \<Rightarrow> if c = ''..'' then None else Some c)"

fun join_path :: "string list \<Rightarrow> string" where
  "join_path [] = []"
| "join_path [c] = c"
| "join_path (c # cs) = c @ CHR ''/'' # join_path cs"

text \<open>The directory of a path, written without repeated separators.\<close>

definition path_parent :: "string \<Rightarrow> string option" where
  "path_parent p = (case rev (path_components p) of
       [] \<Rightarrow> None
     | _ # cs \<Rightarrow> Some ((if prefix ''/'' p then ''/'' else []) @ join_path (rev cs)))"

text \<open>\<open>split_whitespace().next()\<close>.\<close>

definition first_word :: "string \<Rightarrow> string option" where
  "first_word s = (case takeWhile (\<lambda>c. \<not> is_whitespace c) (dropWhile is_whitespace (utf8_chars s)) of
       [] \<Rightarrow> None | cs \<Rightarrow> Some (concat cs))"

section \<open>Checksums\<close>

definition empty_to_none :: "string option \<Rightarrow> string option" where
  "empty_to_none v = Option.bind v (\<lambda>value. let trimmed = trim value in
     if trimmed = [] then None else Some trimmed)"

definition read_file_bytes :: "io_ext \<Rightarrow> string \<Rightarrow> bytes io" where
  "read_file_bytes F path = map_err (\<lambda>e. ''Failed to read '' @ path @ '': '' @ e) (fs_read F path)"

definition checksum_sidecar_path :: "string \<Rightarrow> string" where
  "checksum_sidecar_path path = path @ ''.sha256''"

definition checksum_line :: "'j ext \<Rightarrow> string \<Rightarrow> bytes \<Rightarrow> string" where
  "checksum_line E path data = sha256_hex E data @ ''  '' @ opt_get [] (path_file_name path) @ [char_of (10 :: nat)]"

definition write_checksum :: "'j ext \<Rightarrow> io_ext \<Rightarrow> string \<Rightarrow> unit io" where
  "write_checksum E F path =
     bindE (read_file_bytes F path) (\<lambda>data.
     let checksum_path = checksum_sidecar_path path in
     map_err (\<lambda>e. ''Failed to write '' @ checksum_path @ '': '' @ e)
       (fs_write F checksum_path (checksum_line E path data)))"

definition read_to_string :: "io_ext \<Rightarrow> string \<Rightarrow> string io" where
  "read_to_string F path = bindE (fs_read F path) (\<lambda>b.
     ok_or ''stream did not contain valid UTF-8'' (from_utf8 b))"

definition verify_backup_file :: "'j ext \<Rightarrow> io_ext \<Rightarrow> string \<Rightarrow> unit io" where
  "verify_backup_file E F path =
     (let checksum_path = checksum_sidecar_path path in
     bindE (map_err (\<lambda>e. ''Failed to read '' @ checksum_path @ '': '' @ e) (read_to_string F checksum_path)) (\<lambda>checksum.
     bindE (ok_or (''Checksum file '' @ checksum_path @ '' is malformed'') (first_word checksum)) (\<lambda>expected.
     bindE (read_file_bytes F path) (\<lambda>data.
     whenE (sha256_hex E data \<noteq> expected) (throw (''Checksum mismatch for '' @ path))))))"

section \<open>Backup and restore\<close>

definition make_parent :: "io_ext \<Rightarrow> string \<Rightarrow> unit io" where
  "make_parent F path = (case path_parent path of
       None \<Rightarrow> ret ()
     | Some parent \<Rightarrow> map_err (\<lambda>e. ''Failed to create '' @ parent @ '': '' @ e) (fs_create_dir_all F parent))"

definition backup_database :: "'j ext \<Rightarrow> io_ext \<Rightarrow> string \<Rightarrow> string \<Rightarrow> unit io" where
  "backup_database E F db_path output_path =
     bindE (make_parent F output_path) (\<lambda>_.
     bindE (map_err (\<lambda>e. ''Failed to copy database from '' @ db_path @ '' to '' @ output_path @ '': '' @ e)
       (fs_copy F db_path output_path)) (\<lambda>_.
     write_checksum E F output_path))"

definition restore_database :: "'j ext \<Rightarrow> io_ext \<Rightarrow> string \<Rightarrow> string \<Rightarrow> unit io" where
  "restore_database E F backup_path db_path =
     bindE (fs_exists F (checksum_sidecar_path backup_path)) (\<lambda>found.
     bindE (whenE found (verify_backup_file E F backup_path)) (\<lambda>_.
     bindE (make_parent F db_path) (\<lambda>_.
     map_err (\<lambda>e. ''Failed to restore database from '' @ backup_path @ '' to '' @ db_path @ '': '' @ e)
       (fs_copy F backup_path db_path))))"

section \<open>The modes\<close>

record cli =
  cli_listen :: string
  cli_db_path :: string
  cli_encryption_key :: "string option"
  cli_admin_password :: "string option"
  cli_admin_username :: string
  cli_admin_jwt_secret :: "string option"
  cli_admin_cookie_secure :: bool
  cli_trust_proxy_headers :: bool
  cli_sync_cors_allowed_origins :: "string list"
  cli_max_blob_size :: nat
  cli_max_object_size :: nat
  cli_min_free_disk_bytes :: u64
  cli_login_window_seconds :: int
  cli_login_lockout_seconds :: int
  cli_max_login_failures :: u32
  cli_token_usage_write_interval_seconds :: int
  cli_usage_refresh_interval_seconds :: int
  cli_max_sync_conflict_records :: nat
  cli_default_token_ttl_seconds :: "int option"
  cli_store_metadata_revision :: bool
  cli_store_metadata_uploaded_at :: bool
  cli_store_metadata_device_id :: bool
  cli_store_metadata_content_hash :: bool
  cli_backup_to :: "string option"
  cli_restore_from :: "string option"
  cli_verify_backup :: "string option"

text \<open>Whether a maintenance mode ran; without one the server starts.\<close>

definition maintenance :: "'j ext \<Rightarrow> io_ext \<Rightarrow> cli \<Rightarrow> bool io" where
  "maintenance E F c =
     (let maintenance_modes = length (filter id [cli_backup_to c \<noteq> None, cli_restore_from c \<noteq> None,
            cli_verify_backup c \<noteq> None]) in
     bindE (whenE (maintenance_modes > 1)
       (throw ''Only one of --backup-to, --restore-from, or --verify-backup may be used at a time'')) (\<lambda>_.
     case cli_backup_to c of
       Some output_path \<Rightarrow> bindE (backup_database E F (cli_db_path c) output_path) (\<lambda>_. ret True)
     | None \<Rightarrow> (case cli_restore_from c of
           Some input_path \<Rightarrow> bindE (restore_database E F input_path (cli_db_path c)) (\<lambda>_. ret True)
         | None \<Rightarrow> (case cli_verify_backup c of
               Some input_path \<Rightarrow> bindE (verify_backup_file E F input_path) (\<lambda>_. ret True)
             | None \<Rightarrow> ret False))))"

end
