(* ===== verification/Boot.thy ===== *)
theory Boot
  imports Panel_Secrets Maintenance Routes
begin

text \<open>
  The start of the server in \<^verbatim>\<open>src/src/main.rs\<close>: keys and secrets from the command
  line and the environment, the bootstrap of an administrator account, and the configuration
  the handlers run with. A panic is an error with its message, less the quotes that
  \<open>expect\<close> prints around it.
\<close>

section \<open>Keys and secrets\<close>

definition start_encryption_key :: "'j ext \<Rightarrow> cli \<Rightarrow> string + bytes option" where
  "start_encryption_key E c = (case empty_to_none (cli_encryption_key c) of
       None \<Rightarrow> Inr None
     | Some hex_key \<Rightarrow> (case parse_hex_key E hex_key of
           Inl e \<Rightarrow> Inl (''ENCRYPTION_KEY must be 64 hex chars (32 bytes): '' @ e)
         | Inr key \<Rightarrow> Inr (Some key)))"

definition start_jwt_secret :: "'j ext \<Rightarrow> cli \<Rightarrow> (string, 'j world, string) act" where
  "start_jwt_secret E c = (case empty_to_none (cli_admin_jwt_secret c) of
       Some secret \<Rightarrow> ret secret
     | None \<Rightarrow> new_uuid E)"

section \<open>The bootstrap account\<close>

definition expect :: "string \<Rightarrow> redb_error \<Rightarrow> string" where
  "expect what e = what @ '': '' @ redb_text e"

definition bootstrap_version :: "bool \<Rightarrow> admin_user_record option \<Rightarrow> u64" where
  "bootstrap_version password_unchanged existing_user = (case existing_user of
       None \<Rightarrow> 0
     | Some user \<Rightarrow> if password_unchanged then usr_session_version user
         else sat_add (usr_session_version user) 1)"

definition bootstrap_admin :: "'j ext \<Rightarrow> cli \<Rightarrow> string \<Rightarrow> (string, 'j world, unit) act" where
  "bootstrap_admin E c password =
     (let username = trim (cli_admin_username c) in
     bindE (whenE (username = []) (throw ''ADMIN_USERNAME must not be empty'')) (\<lambda>_.
     bindE (now_rfc3339 E) (\<lambda>now.
     bindE (map_err (expect ''Failed to read admin user'') (db_get_admin_user E username)) (\<lambda>existing_user.
     let password_unchanged = (case existing_user of None \<Rightarrow> False
           | Some user \<Rightarrow> verify_admin_password E password (usr_password_hash user)) in
     bindE (case existing_user of
         Some user \<Rightarrow> if password_unchanged then ret (usr_password_hash user)
           else map_err (\<lambda>e. ''Failed to hash admin password: '' @ e) (hash_admin_password E password)
       | None \<Rightarrow> map_err (\<lambda>e. ''Failed to hash admin password: '' @ e) (hash_admin_password E password)) (\<lambda>password_hash.
     bindE (if password_unchanged then ret (Option.bind existing_user usr_password_updated_at)
       else bindE (now_rfc3339 E) (\<lambda>t. ret (Some t))) (\<lambda>password_updated_at.
     map_err (expect ''Failed to bootstrap admin user'') (db_set_admin_user E
       \<lparr>usr_username = username, usr_password_hash = password_hash,
        usr_role = opt_get ''admin'' (map_option usr_role existing_user),
        usr_session_version = bootstrap_version password_unchanged existing_user,
        usr_enabled = True,
        usr_created_at = opt_get now (map_option usr_created_at existing_user),
        usr_updated_at = now,
        usr_last_login_at = Option.bind existing_user usr_last_login_at,
        usr_last_login_ip = None, usr_failed_login_count = 0, usr_last_failed_login_at = None,
        usr_password_updated_at = password_updated_at, usr_disabled_at = None\<rparr>)))))))"

section \<open>The configuration\<close>

definition start_state :: "cli \<Rightarrow> bytes option \<Rightarrow> bool \<Rightarrow> string \<Rightarrow> bytes \<Rightarrow> app_state" where
  "start_state c key enabled secret reveal_key =
     \<lparr>encryption_key = key, admin_enabled = enabled, jwt_secret = secret,
      admin_jwt_secret_persistent = (empty_to_none (cli_admin_jwt_secret c) \<noteq> None),
      admin_cookie_secure = cli_admin_cookie_secure c,
      token_reveal_key = reveal_key,
      token_reveal_persistent = (key \<noteq> None \<or> empty_to_none (cli_admin_jwt_secret c) \<noteq> None),
      trust_proxy_headers = cli_trust_proxy_headers c,
      sync_cors_allowed_origins = filter (\<lambda>origin. origin \<noteq> []) (map trim (cli_sync_cors_allowed_origins c)),
      max_blob_size = cli_max_blob_size c, max_object_size = cli_max_object_size c,
      min_free_disk_bytes = cli_min_free_disk_bytes c,
      login_window_seconds = cli_login_window_seconds c,
      login_lockout_seconds = cli_login_lockout_seconds c,
      max_login_failures = cli_max_login_failures c,
      token_usage_write_interval_seconds = cli_token_usage_write_interval_seconds c,
      usage_refresh_interval_seconds = cli_usage_refresh_interval_seconds c,
      max_sync_conflict_records = cli_max_sync_conflict_records c,
      default_token_ttl_seconds = cli_default_token_ttl_seconds c,
      metadata_retention = \<lparr>store_revision = cli_store_metadata_revision c,
        store_uploaded_at = cli_store_metadata_uploaded_at c,
        store_device_id = cli_store_metadata_device_id c,
        store_content_hash = cli_store_metadata_content_hash c\<rparr>\<rparr>"

text \<open>\<open>Database::open\<close> on an existing file finds its tables and changes nothing.\<close>

definition db_open :: "'j ext \<Rightarrow> (redb_error, 'j world, unit) act" where
  "db_open E = write_txn E id (\<lambda>d. Inr ((), d))"

definition start :: "'j ext \<Rightarrow> cli \<Rightarrow> (string, 'j world, app_state) act" where
  "start E c =
     bindE (lift_res (start_encryption_key E c)) (\<lambda>key.
     bindE (start_jwt_secret E c) (\<lambda>secret.
     let reveal_key = opt_get (derive_key E secret) key in
     bindE (map_err (expect ''Failed to open database'') (db_open E)) (\<lambda>_.
     bindE (case empty_to_none (cli_admin_password c) of
         None \<Rightarrow> ret ()
       | Some password \<Rightarrow> bootstrap_admin E c password) (\<lambda>_.
     bindE (map_err (expect ''Failed to list admin users'') (db_list_admin_users E)) (\<lambda>users.
     ret (start_state c key (users \<noteq> []) secret reveal_key))))))"

text \<open>The start, up to the router that the listener serves.\<close>

definition boot :: "'j ext \<Rightarrow> cli \<Rightarrow> (string, 'j world, app_state \<times> route list) act" where
  "boot E c =
     bindE (start E c) (\<lambda>state.
     bindE (lift_res (router state)) (\<lambda>app.
     ret (state, app)))"

end
