(* ===== verification/Boot_Facts.thy ===== *)
theory Boot_Facts
  imports Boot
begin

text \<open>When the server starts, what the bootstrap stores, and what a restart keeps.\<close>

text \<open>\<open>bcrypt\<close>: hashing succeeds, and a password verifies against its own hash.\<close>

definition bcrypt_ok :: "'j ext \<Rightarrow> bool" where
  "bcrypt_ok E \<longleftrightarrow> (\<forall>i p. \<exists>h. bcrypt_hash E i p = Inr h \<and> bcrypt_verify E p h = Inr True)"

definition known_password :: "'j ext \<Rightarrow> string \<Rightarrow> admin_user_record option \<Rightarrow> bool" where
  "known_password E password found \<longleftrightarrow> (\<exists>u. found = Some u \<and> verify_admin_password E password (usr_password_hash u))"

text \<open>The account after the bootstrap, from the one before.\<close>

definition bootstrapped :: "'j ext \<Rightarrow> string \<Rightarrow> string \<Rightarrow> 'j table \<Rightarrow> 'j table \<Rightarrow> bool" where
  "bootstrapped E name password t t' \<longleftrightarrow> (\<exists>u. stored E t u t' \<and> usr_username u = name \<and> usr_enabled u
     \<and> verify_admin_password E password (usr_password_hash u)
     \<and> usr_session_version u = bootstrap_version (known_password E password (user_in E t name)) (user_in E t name))"

lemma bootstrapped_intro:
  "stored E t u t' \<Longrightarrow> usr_username u = name \<Longrightarrow> usr_enabled u \<Longrightarrow> verify_admin_password E password (usr_password_hash u) \<Longrightarrow>
     usr_session_version u = bootstrap_version (known_password E password (user_in E t name)) (user_in E t name) \<Longrightarrow>
     bootstrapped E name password t t'"
  unfolding bootstrapped_def by blast

lemma hash_verifies:
  "bcrypt_ok E \<Longrightarrow> hash_admin_password E password w = (Inr h, w') \<Longrightarrow> verify_admin_password E password h"
  unfolding bcrypt_ok_def
  by (auto simp: hash_admin_password_def act_ok_iff sample_ok_iff verify_admin_password_def) (metis Inr_inject sum.case(2))

lemma keep_hash: "moves (keeps accounts) (hash_admin_password E p)"
  by (auto simp: hash_admin_password_def intro!: keep_rules)

lemma bootstrap_effect:
  assumes "bcrypt_ok E"
  shows "runs_from accounts t (bootstrap_admin E c password)
     (\<lambda>r t'. case r of Inl _ \<Rightarrow> t' = t | Inr _ \<Rightarrow> trim (cli_admin_username c) \<noteq> []
        \<and> bootstrapped E (trim (cli_admin_username c)) password t t')"
  unfolding bootstrap_admin_def Let_def
  apply (rule runs_skip [OF keeping.frame_whenE [OF keeping.frame_throw]], simp)
  apply (rule runs_skip [OF keep_outside(2)], simp)
  apply (rule runs_get_user, simp)
  apply (rule runs_skip)
    apply (auto intro!: keep_rules keep_hash split: option.split) [1]
   apply simp
  apply (rule runs_skip)
    apply (auto intro!: keep_rules) [1]
   apply simp
  apply (rule runs_set_user_end, simp)
  apply (auto simp: whenE_Inr_iff map_err_Inr_iff split: option.splits if_splits)
    apply (erule bootstrapped_intro; auto simp: known_password_def dest: hash_verifies [OF assms])+
  done

section \<open>A start that succeeds\<close>

lemma aside_bootstrap: "moves (aside E) (bootstrap_admin E c p)"
  by (auto simp: bootstrap_admin_def hash_admin_password_def db_reads Let_def
      intro!: aside_rules aside_writes split: option.split)

lemma aside_start: "moves (aside E) (start E c)"
  by (auto simp: start_def start_jwt_secret_def db_open_def db_reads Let_def
      intro!: aside_rules aside_write_txn aside_bootstrap split: option.split)

lemma start_run:
  assumes "start E c w = (Inr st, w')"
  obtains key secret w1 w2 where "start_encryption_key E c = Inr key"
    "start_jwt_secret E c w = (Inr secret, w1)" "db w2 = db w"
    "case empty_to_none (cli_admin_password c) of None \<Rightarrow> db w' = db w
      | Some p \<Rightarrow> \<exists>w3. bootstrap_admin E c p w2 = (Inr (), w3) \<and> db w' = db w3"
    "st = start_state c key (decode_all (c_user E) (accounts w') \<noteq> []) secret (opt_get (derive_key E secret) key)"
  using assms unfolding start_def Let_def
proof (elim bindE_okE)
  fix key w0 secret w1 u2 w2 u3 w3 users w4
  assume run: "lift_res (start_encryption_key E c) w = (Inr key, w0)" "start_jwt_secret E c w0 = (Inr secret, w1)"
    "map_err (expect ''Failed to open database'') (db_open E) w1 = (Inr u2, w2)"
    "(case empty_to_none (cli_admin_password c) of None \<Rightarrow> ret () | Some password \<Rightarrow> bootstrap_admin E c password) w2 = (Inr u3, w3)"
    "map_err (expect ''Failed to list admin users'') (db_list_admin_users E) w3 = (Inr users, w4)"
    "ret (start_state c key (users \<noteq> []) secret (opt_get (derive_key E secret) key)) w4 = (Inr st, w')"
  have w0: "w0 = w" "start_encryption_key E c = Inr key" using run(1) by simp_all
  have "db w1 = db w0" using run(2)
    by (auto simp: start_jwt_secret_def new_uuid_def sample_ok_iff split: option.splits)
  moreover have "db w2 = db w1" using run(3) by (auto simp: map_err_Inr_iff db_open_def txn_ok_iff)
  moreover have users: "users = decode_all (c_user E) (accounts w3)" "w' = w4" "db w4 = db w3"
    using run(5,6) by (auto simp: map_err_Inr_iff db_list_admin_users_def txn_ok_iff)
  ultimately show thesis
    using w0 run(2,4,6) by (intro that [of key secret w1 w2]) (auto split: option.splits)
qed

lemma start_accounts:
  assumes "bcrypt_ok E" "start E c w = (Inr st, w')"
  shows "case empty_to_none (cli_admin_password c) of None \<Rightarrow> accounts w' = accounts w
    | Some p \<Rightarrow> trim (cli_admin_username c) \<noteq> [] \<and> bootstrapped E (trim (cli_admin_username c)) p (accounts w) (accounts w')"
proof (rule start_run [OF assms(2)])
  fix w2
  assume "db w2 = db w"
    and "case empty_to_none (cli_admin_password c) of None \<Rightarrow> db w' = db w
      | Some p \<Rightarrow> \<exists>w3. bootstrap_admin E c p w2 = (Inr (), w3) \<and> db w' = db w3"
  then show ?thesis
    using runs_fromD [OF bootstrap_effect [OF assms(1)]] by (fastforce split: option.splits)
qed

lemma start_reachable:
  assumes "start E c w = (r, w')" "db_reachable E (db w)"
  shows "db_reachable E (db w')" "tokens w' = tokens w"
proof -
  have a: "aside E w w'" by (rule movesD [OF aside_start assms(1)])
  then show "db_reachable E (db w')" "tokens w' = tokens w"
    using reachable_steps [of E "db w"] assms(2) by (auto simp: aside_def on_db_def)
qed

lemma start_attempts: "start E c w = (r, w') \<Longrightarrow> attempts w' = attempts w"
proof -
  have set_user: "moves (keeps attempts) (db_set_admin_user E u)" for u
    by (auto simp: db_set_admin_user_def set_admin_user_tx_def intro!: keep_write_txn split: sum.splits)
  have "moves (keeps attempts) (start E c)"
    by (auto simp: start_def start_jwt_secret_def bootstrap_admin_def hash_admin_password_def db_open_def db_reads Let_def
        intro!: keep_rules keep_write_txn set_user split: option.split)
  then show "start E c w = (r, w') \<Longrightarrow> attempts w' = attempts w"
    using movesD by (fastforce simp: keeps_def)
qed

lemma start_enabled:
  assumes "rows_wf E (db w')" "start E c w = (Inr st, w')"
  shows "admin_enabled st \<longleftrightarrow> (\<exists>name u. user_in E (accounts w') name = Some u)"
proof (rule start_run [OF assms(2)])
  fix key secret
  assume "st = start_state c key (decode_all (c_user E) (accounts w') \<noteq> []) secret (opt_get (derive_key E secret) key)"
  then have "admin_enabled st \<longleftrightarrow> (\<exists>u. u \<in> set (decode_all (c_user E) (accounts w')))"
    by (simp add: start_state_def ex_in_conv)
  also have "\<dots> \<longleftrightarrow> (\<exists>name u. user_in E (accounts w') name = Some u)"
    using user_rows [OF rows_wfD(8) [OF assms(1)]] by metis
  finally show ?thesis .
qed

text \<open>Actions that succeed from every good state, and end in one.\<close>

definition succeeds :: "('w \<Rightarrow> bool) \<Rightarrow> ('e, 'w, 'a) act \<Rightarrow> bool" where
  "succeeds P m \<longleftrightarrow> (\<forall>w. P w \<longrightarrow> (\<exists>x w'. m w = (Inr x, w') \<and> P w'))"

lemma succeedsD: "succeeds P m \<Longrightarrow> P w \<Longrightarrow> \<exists>x w'. m w = (Inr x, w') \<and> P w'"
  by (simp add: succeeds_def)

lemma succeeds_rules:
  "succeeds P (ret x)" "(\<And>e. succeeds P n) \<Longrightarrow> succeeds P (map_err c n)"
  "\<not> b \<Longrightarrow> succeeds P (whenE b k)" "succeeds P (lift_res (Inr y))"
  by (auto simp: succeeds_def map_err_def whenE_def)

lemma succeeds_bind: "succeeds P m \<Longrightarrow> (\<And>x. succeeds P (f x)) \<Longrightarrow> succeeds P (bindE m f)"
  unfolding succeeds_def by (fastforce simp: bindE_def)

definition good :: "'j ext \<Rightarrow> 'j world \<Rightarrow> bool" where
  "good E w \<longleftrightarrow> rows_wf E (db w)"

lemma succeeds_sample: "succeeds (good E) (sample f)"
  by (simp add: succeeds_def sample_def good_def)

lemma succeeds_hash: "bcrypt_ok E' \<Longrightarrow> succeeds (good E) (hash_admin_password E' p)"
  unfolding hash_admin_password_def bcrypt_ok_def succeeds_def good_def
  by (auto simp: bindE_def sample_def)

lemma succeeds_users:
  assumes "no_faults E" "codecs_ok E"
  shows "succeeds (good E) (db_get_admin_user E name)" "succeeds (good E) (db_set_admin_user E u)"
    "succeeds (good E) (db_open E)" "succeeds (good E) (db_list_admin_users E)"
proof -
  show "succeeds (good E) (db_get_admin_user E name)"
    using assms(1) by (auto simp: succeeds_def good_def db_get_admin_user_def read_txn_no_faults user_at_wf(1))
  show "succeeds (good E) (db_set_admin_user E u)"
    unfolding succeeds_def good_def
  proof (intro allI impI)
    fix w :: "'a world"
    assume "rows_wf E (db w)"
    from set_admin_user_run [OF assms this, of id u]
    show "\<exists>x w'. db_set_admin_user E u w = (Inr x, w') \<and> rows_wf E (db w')"
      by (auto simp: map_err_Inr_iff)
  qed
  show "succeeds (good E) (db_open E)" "succeeds (good E) (db_list_admin_users E)"
    using assms(1) by (auto simp: succeeds_def good_def db_open_def db_list_admin_users_def read_txn_no_faults write_txn_no_faults)
qed

text \<open>Exactly when the server starts.\<close>

lemma bootstrap_succeeds:
  assumes "no_faults E" "codecs_ok E" "bcrypt_ok E" "trim (cli_admin_username c) \<noteq> []"
  shows "succeeds (good E) (bootstrap_admin E c p)"
  using assms(4)
  by (auto simp: bootstrap_admin_def Let_def now_rfc3339_def
      intro!: succeeds_bind succeeds_rules succeeds_sample succeeds_hash [OF assms(3)] succeeds_users [OF assms(1,2)]
      split: option.split)

lemma start_exact_run:
  assumes "no_faults E" "codecs_ok E" "rows_wf E (db w)" "bcrypt_ok E"
  shows "(\<exists>st w'. start E c w = (Inr st, w')) \<longleftrightarrow> (\<exists>key. start_encryption_key E c = Inr key)
    \<and> (empty_to_none (cli_admin_password c) \<noteq> None \<longrightarrow> trim (cli_admin_username c) \<noteq> [])"
proof
  assume "\<exists>st w'. start E c w = (Inr st, w')"
  then obtain st w' where run: "start E c w = (Inr st, w')" by blast
  then obtain key where "start_encryption_key E c = Inr key" by (rule start_run)
  with start_accounts [OF assms(4) run] show "(\<exists>key. start_encryption_key E c = Inr key)
    \<and> (empty_to_none (cli_admin_password c) \<noteq> None \<longrightarrow> trim (cli_admin_username c) \<noteq> [])"
    by (auto split: option.splits)
next
  assume a: "(\<exists>key. start_encryption_key E c = Inr key)
    \<and> (empty_to_none (cli_admin_password c) \<noteq> None \<longrightarrow> trim (cli_admin_username c) \<noteq> [])"
  then obtain key where key: "start_encryption_key E c = Inr key" by blast
  have "succeeds (good E) (start E c)"
    using a bootstrap_succeeds [OF assms(1,2,4)] unfolding start_def key start_jwt_secret_def Let_def new_uuid_def
    by (auto intro!: succeeds_bind succeeds_rules succeeds_sample succeeds_users [OF assms(1,2)] split: option.split)
  from succeedsD [OF this, of w] assms(3) show "\<exists>st w'. start E c w = (Inr st, w')"
    unfolding good_def by blast
qed

text \<open>The origins the CORS layer is built from.\<close>

definition cors_origins :: "cli \<Rightarrow> string list" where
  "cors_origins c = filter (\<lambda>origin. origin \<noteq> []) (map trim (cli_sync_cors_allowed_origins c))"

lemma boot_iff:
  "(\<exists>x w'. boot E c w = (Inr x, w')) \<longleftrightarrow> (\<exists>st w'. start E c w = (Inr st, w'))
     \<and> (''*'' \<in> set (cors_origins c) \<or> list_all header_text (cors_origins c))"
proof -
  have origins: "sync_cors_allowed_origins st = cors_origins c" if "start E c w = (Inr st, w')" for st w'
    by (rule start_run [OF that]) (simp add: start_state_def cors_origins_def)
  have "(\<exists>x w'. boot E c w = (Inr x, w')) \<longleftrightarrow> (\<exists>st w' rs. start E c w = (Inr st, w') \<and> router st = Inr rs)"
    by (auto simp: boot_def bindE_Inr_iff)
  also have "\<dots> \<longleftrightarrow> (\<exists>st w'. start E c w = (Inr st, w'))
     \<and> (''*'' \<in> set (cors_origins c) \<or> list_all header_text (cors_origins c))"
    using router_ok_iff origins by metis
  finally show ?thesis .
qed

section \<open>What depends on the secrets\<close>

lemma session_user_secret:
  assumes "admin_enabled st = admin_enabled st'"
    and "\<And>now token. jwt_decode E now token (jwt_secret st) = jwt_decode E now token (jwt_secret st')"
  shows "session_user E st = session_user E st'"
  by (intro ext) (simp only: session_user_def assms)

lemma open_token_key: "token_reveal_key st = token_reveal_key st' \<Longrightarrow> open_token E st = open_token E st'"
  by (intro ext) (simp only: open_token_def)

end
