(* ===== verification/Maintenance_Facts.thy ===== *)
theory Maintenance_Facts
  imports Maintenance Panel_Secrets
begin

text \<open>What the maintenance modes do to the files.\<close>

section \<open>The sidecar is read back\<close>

definition ascii :: "string \<Rightarrow> bool" where
  "ascii s \<longleftrightarrow> (\<forall>c \<in> set s. (of_char c :: nat) < 0x80)"

lemma split_on_chars: "f \<in> set (split_on c s) \<Longrightarrow> set f \<subseteq> set s"
proof (induction s arbitrary: f)
  case (Cons x s)
  obtain g gs where g: "split_on c s = g # gs" using split_on_nonempty [of c s] by (cases "split_on c s") auto
  show ?case
  proof (cases "x = c")
    case True
    with Cons show ?thesis by fastforce
  next
    case False
    with Cons.prems g have "f = x # g \<or> f \<in> set gs" by auto
    with Cons.IH g show ?thesis by fastforce
  qed
qed simp

lemma file_name_chars: "path_file_name p = Some n \<Longrightarrow> set n \<subseteq> set p"
proof -
  assume "path_file_name p = Some n"
  then have "n \<in> set (rev (path_components p))"
    by (auto simp: path_file_name_def split: list.splits if_splits)
  then show ?thesis using split_on_chars by (auto simp: path_components_def)
qed

text \<open>A digest prints as text of hexadecimal digits.\<close>

definition digest_text :: "'j ext \<Rightarrow> bool" where
  "digest_text E \<longleftrightarrow> (\<forall>b. sha256_hex E b \<noteq> [] \<and> list_all plain (sha256_hex E b))"

lemma ascii_simps [simp]:
  "ascii []" "ascii (c # s) \<longleftrightarrow> (of_char c :: nat) < 0x80 \<and> ascii s" "ascii (a @ b) \<longleftrightarrow> ascii a \<and> ascii b"
  unfolding ascii_def by auto

lemma ascii_subset: "set a \<subseteq> set b \<Longrightarrow> ascii b \<Longrightarrow> ascii a"
  unfolding ascii_def by blast

lemma ascii_file_name: "ascii p \<Longrightarrow> ascii (opt_get [] (path_file_name p))"
  using file_name_chars [of p] ascii_subset [of _ p] by (cases "path_file_name p") simp_all

lemma ascii_plain: "list_all plain s \<Longrightarrow> ascii s"
  unfolding ascii_def list_all_iff using plain_ascii by blast

lemma checksum_line_ascii:
  assumes "digest_text E" "ascii path"
  shows "from_utf8 (checksum_line E path data) = Some (checksum_line E path data)"
proof (rule ascii_utf8)
  have "ascii (opt_get [] (path_file_name path))" by (rule ascii_file_name [OF assms(2)])
  moreover have "ascii (sha256_hex E data)"
    using assms(1) by (intro ascii_plain) (simp add: digest_text_def)
  ultimately have "ascii (checksum_line E path data)"
    by (simp add: checksum_line_def)
  then show "\<forall>c \<in> set (checksum_line E path data). (of_char c :: nat) < 0x80" by (simp only: ascii_def)
qed

lemma first_word_plain:
  assumes "list_all plain s" "s \<noteq> []" "ascii r"
  shows "first_word (s @ CHR '' '' # r) = Some s"
proof -
  have a: "ascii (s @ CHR '' '' # r)"
    using assms(3) ascii_plain [OF assms(1)] by simp
  have w: "\<not> is_whitespace [c]" if "c \<in> set s" for c
    using that assms(1) plain_not_space by (simp add: list_all_iff)
  obtain c t where s: "s = c # t" using assms(2) by (cases s) auto
  have u: "utf8_chars (s @ CHR '' '' # r) = map (\<lambda>c. [c]) s @ [CHR '' ''] # map (\<lambda>c. [c]) r"
    using utf8_chars_ascii [OF a [unfolded ascii_def]] by simp
  have d: "dropWhile is_whitespace (map (\<lambda>c. [c]) s @ [CHR '' ''] # map (\<lambda>c. [c]) r)
      = map (\<lambda>c. [c]) s @ [CHR '' ''] # map (\<lambda>c. [c]) r"
    using w [of c] by (simp add: s)
  have k: "takeWhile (\<lambda>c. \<not> is_whitespace c) (map (\<lambda>c. [c]) s @ [CHR '' ''] # map (\<lambda>c. [c]) r) = map (\<lambda>c. [c]) s"
    using w by (subst takeWhile_append2) (auto simp: is_whitespace_def)
  show ?thesis
    unfolding first_word_def u d k by (simp add: s)
qed

lemma first_word_checksum:
  assumes "digest_text E" "ascii path"
  shows "first_word (checksum_line E path data) = Some (sha256_hex E data)"
proof -
  have "ascii (CHR '' '' # opt_get [] (path_file_name path) @ [char_of (10 :: nat)])"
    using ascii_file_name [OF assms(2)] by simp
  from first_word_plain [OF _ _ this] assms(1) show ?thesis
    by (simp add: checksum_line_def digest_text_def)
qed

section \<open>Runs without faults\<close>

lemma fs_runs:
  assumes "no_io_faults F"
  shows "fs_read F p w = (case file_at w p of None \<Rightarrow> (Inl no_such_file, io_next w) | Some b \<Rightarrow> (Inr b, io_next w))"
    and "fs_write F p d w = (Inr (), io_next (w\<lparr>file_at := (file_at w)(p \<mapsto> d)\<rparr>))"
    and "fs_exists F p w = (Inr (file_at w p \<noteq> None), io_next w)"
    and "make_parent F p w = (Inr (), if path_parent p = None then w else io_next w)"
  using assms by (auto simp: no_io_faults_def fs_read_def fs_write_def fs_exists_def make_parent_def
      fs_create_dir_all_def map_err_def split: option.split)

lemma io_next_content [simp]: "file_at (io_next w) = file_at w"
  by (simp add: io_next_def)

text \<open>Verification reads only, and passes exactly when the sidecar names the digest of the file.\<close>

lemma verify_keeps: "moves (keeps file_at) (verify_backup_file E F path)"
proof -
  have r: "moves (keeps file_at) (fs_read F p)" for p
    by (auto simp: moves_def keeps_def fs_read_def split: option.splits)
  show ?thesis
    by (auto simp: verify_backup_file_def read_to_string_def read_file_bytes_def Let_def
        intro!: keeping.frame_rules r)
qed

definition sidecar_digest :: "(string \<Rightarrow> bytes option) \<Rightarrow> string \<Rightarrow> string option" where
  "sidecar_digest fs path = Option.bind (Option.bind (fs (checksum_sidecar_path path)) from_utf8) first_word"

lemma verify_run:
  assumes "no_io_faults F"
  shows "(\<exists>w'. verify_backup_file E F path w = (Inr (), w')) \<longleftrightarrow>
    (\<exists>data. file_at w path = Some data \<and> sidecar_digest (file_at w) path = Some (sha256_hex E data))"
proof -
  let ?side = "checksum_sidecar_path path"
  show ?thesis
  proof (cases "Option.bind (file_at w ?side) from_utf8")
    case None
    then show ?thesis
      by (cases "file_at w ?side") (auto simp: verify_backup_file_def Let_def bindE_def map_err_def read_to_string_def
        sidecar_digest_def fs_runs [OF assms])
  next
    case (Some line)
    then obtain b where b: "file_at w ?side = Some b" "from_utf8 b = Some line" by (auto simp: bind_eq_Some_conv)
    show ?thesis
      by (cases "first_word line"; cases "file_at w path")
        (auto simp: verify_backup_file_def Let_def bindE_def map_err_def read_to_string_def read_file_bytes_def
          sidecar_digest_def fs_runs [OF assms] b whenE_def)
  qed
qed

section \<open>Backup and restore\<close>

lemma sidecar_neq [simp]: "checksum_sidecar_path p \<noteq> p" "p \<noteq> checksum_sidecar_path p"
  by (simp_all add: checksum_sidecar_path_def)

text \<open>What a copy puts in its target.\<close>

definition copied :: "string \<Rightarrow> string \<Rightarrow> bytes \<Rightarrow> bytes" where
  "copied source target b = (if source = target then [] else b)"

lemma make_parent_run:
  assumes "no_io_faults F"
  obtains w1 where "make_parent F p w = (Inr (), w1)" "file_at w1 = file_at w"
  using that fs_runs(4) [OF assms, of p w] by (cases "path_parent p = None") simp_all

lemma copy_run:
  assumes "no_io_faults F" "file_at w p = Some b"
  shows "fs_copy F p q w = (Inr (), io_next (w\<lparr>file_at := (file_at w)(q \<mapsto> copied p q b)\<rparr>))"
  using assms by (simp add: fs_copy_def fs_runs copied_def)

lemma backup_run:
  assumes "no_io_faults F" "file_at w db_path = Some b"
  shows "\<exists>w'. backup_database E F db_path out w = (Inr (), w')
    \<and> file_at w' = (file_at w)(out \<mapsto> copied db_path out b,
        checksum_sidecar_path out \<mapsto> checksum_line E out (copied db_path out b))"
proof -
  obtain w1 where w1: "make_parent F out w = (Inr (), w1)" "file_at w1 = file_at w"
    using make_parent_run [OF assms(1)] .
  have copy: "fs_copy F db_path out w1 = (Inr (), io_next (w1\<lparr>file_at := (file_at w1)(out \<mapsto> copied db_path out b)\<rparr>))"
    by (rule copy_run [OF assms(1)]) (simp add: w1 assms(2))
  show ?thesis
    by (simp add: backup_database_def bindE_def map_err_def w1 copy write_checksum_def read_file_bytes_def Let_def
        fs_runs(1-3) [OF assms(1)])
qed

lemma backup_missing:
  assumes "file_at w db_path = None"
  shows "\<exists>e w'. backup_database E F db_path out w = (Inl e, w') \<and> file_at w' = file_at w"
  using assms by (auto simp: backup_database_def bindE_def map_err_def make_parent_def fs_create_dir_all_def
      fs_copy_def split: option.split)

lemma restore_run:
  assumes "no_io_faults F"
  shows "case restore_database E F bk db_path w of
      (Inr u, w') \<Rightarrow> \<exists>data. file_at w bk = Some data
        \<and> (file_at w (checksum_sidecar_path bk) = None \<or> sidecar_digest (file_at w) bk = Some (sha256_hex E data))
        \<and> file_at w' = (file_at w)(db_path \<mapsto> copied bk db_path data)
    | (Inl e, w') \<Rightarrow> file_at w' = file_at w \<and> (case file_at w bk of None \<Rightarrow> True
        | Some data \<Rightarrow> file_at w (checksum_sidecar_path bk) \<noteq> None \<and> sidecar_digest (file_at w) bk \<noteq> Some (sha256_hex E data))"
proof -
  let ?side = "checksum_sidecar_path bk" and ?w1 = "io_next w"
  let ?found = "file_at w ?side \<noteq> None"
  have ex: "fs_exists F ?side w = (Inr ?found, ?w1)" by (simp add: fs_runs [OF assms])
  obtain r w2 where v: "whenE ?found (verify_backup_file E F bk) ?w1 = (r, w2)" by (cases "whenE ?found (verify_backup_file E F bk) ?w1")
  have w2: "file_at w2 = file_at w"
    using v movesD [OF verify_keeps, of E F bk ?w1] by (cases ?found) (auto simp: keeps_def)
  have r: "(\<exists>u. r = Inr u) \<longleftrightarrow> (\<not> ?found \<or> (\<exists>data. file_at w bk = Some data \<and> sidecar_digest (file_at w) bk = Some (sha256_hex E data)))"
    using v verify_run [OF assms, of E bk ?w1] by (cases ?found) (auto simp: prod_eq_iff)
  show ?thesis
  proof (cases r)
    case (Inl e)
    then have "restore_database E F bk db_path w = (Inl e, w2)"
      by (simp only: restore_database_def bindE_def ex v prod.case sum.case)
    with Inl r w2 show ?thesis by (auto split: option.split)
  next
    case (Inr u)
    obtain w3 where w3: "make_parent F db_path w2 = (Inr (), w3)" "file_at w3 = file_at w2"
      using make_parent_run [OF assms] .
    have run: "restore_database E F bk db_path w = map_err (\<lambda>e. ''Failed to restore database from '' @ bk @ '' to '' @ db_path @ '': '' @ e)
        (fs_copy F bk db_path) w3"
      by (simp only: restore_database_def bindE_def ex v Inr w3 prod.case sum.case)
    show ?thesis
    proof (cases "file_at w bk")
      case None
      then show ?thesis by (simp add: run map_err_def fs_copy_def w3 w2)
    next
      case (Some data)
      then have "fs_copy F bk db_path w3 = (Inr (), io_next (w3\<lparr>file_at := (file_at w3)(db_path \<mapsto> copied bk db_path data)\<rparr>))"
        by (intro copy_run [OF assms]) (simp add: w3 w2)
      with Some Inr r show ?thesis by (auto simp: run map_err_def w3 w2)
    qed
  qed
qed

end
