(* ===== verification/Boot_Props.thy ===== *)
theory Boot_Props
  imports Boot_Facts Maintenance_Facts Panel_Instance
begin

text \<open>
  The properties of the start of the server and of its maintenance modes, each with a run on
  a concrete instance.
\<close>

section \<open>The instance\<close>

definition demo_cli :: cli where
  "demo_cli = \<lparr>cli_listen = ''0.0.0.0:8730'', cli_db_path = ''/data/sync.db'', cli_encryption_key = None, cli_admin_password = Some ''new-password'',
     cli_admin_username = ''admin'', cli_admin_jwt_secret = Some ''s'', cli_admin_cookie_secure = True,
     cli_trust_proxy_headers = False, cli_sync_cors_allowed_origins = [], cli_max_blob_size = 1000,
     cli_max_object_size = 1000, cli_min_free_disk_bytes = 0, cli_login_window_seconds = 900,
     cli_login_lockout_seconds = 900, cli_max_login_failures = 5, cli_token_usage_write_interval_seconds = 60,
     cli_usage_refresh_interval_seconds = 60, cli_max_sync_conflict_records = 500,
     cli_default_token_ttl_seconds = None, cli_store_metadata_revision = True,
     cli_store_metadata_uploaded_at = True, cli_store_metadata_device_id = True,
     cli_store_metadata_content_hash = True, cli_backup_to = None, cli_restore_from = None,
     cli_verify_backup = None\<rparr>"

lemma demo_bcrypt_ok: "bcrypt_ok demo"
  by (simp add: bcrypt_ok_def demo_def)

lemma demo_cli_texts:
  "empty_to_none (cli_admin_password demo_cli) = Some ''new-password''"
  "empty_to_none (cli_encryption_key demo_cli) = None"
  "empty_to_none (cli_admin_jwt_secret demo_cli) = Some ''s''"
  "trim (cli_admin_username demo_cli) = ''admin''"
  by code_simp+

lemma demo_key: "start_encryption_key E demo_cli = Inr None"
  by (simp add: start_encryption_key_def demo_cli_texts)

text \<open>A machine with a database file, and digests that print as text.\<close>

definition disk :: files where
  "disk = \<lparr>file_at = [''/data/sync.db'' \<mapsto> ''rows''], io_tick = 0\<rparr>"

definition calm :: io_ext where
  "calm = \<lparr>io_fault = (\<lambda>_. None), torn = (\<lambda>_ b. b)\<rparr>"

definition digests :: "doc ext" where
  "digests = demo\<lparr>hex_encode := \<lambda>b. replicate (Suc (length b)) CHR ''a''\<rparr>"

lemma calm_no_faults: "no_io_faults calm"
  by (simp add: no_io_faults_def calm_def)

lemma digests_text: "digest_text digests"
  by (simp add: digest_text_def digests_def sha256_hex_def list_all_iff plain_def)

lemma disk_path: "ascii ''/backup/sync.db''" "file_at disk ''/data/sync.db'' = Some ''rows''"
  by (simp_all add: disk_def)

section \<open>Starting\<close>

text \<open>C36: On a store without faults the server starts exactly when the encryption key, if one is
  given, is 64 hexadecimal digits, the name of the bootstrap account, if a password is given,
  is not blank, and every origin of the CORS list is a header value, unless one is a star.\<close>

theorem start_exact:
  assumes "no_faults E" "codecs_ok E" "bcrypt_ok E" "db_reachable E (db w)"
  shows "(\<exists>st app w'. boot E c w = (Inr (st, app), w')) \<longleftrightarrow>
    (case empty_to_none (cli_encryption_key c) of None \<Rightarrow> True
      | Some hex \<Rightarrow> \<exists>key. hex_decode E hex = Inr key \<and> length key = 32)
    \<and> (case empty_to_none (cli_admin_password c) of None \<Rightarrow> True
      | Some _ \<Rightarrow> trim (cli_admin_username c) \<noteq> [])
    \<and> (''*'' \<in> set (cors_origins c) \<or> list_all header_text (cors_origins c))"
proof -
  have wf: "rows_wf E (db w)" using reachable_wf [OF assms(4,2)] by (simp add: db_wf_def)
  have "(\<exists>st app w'. boot E c w = (Inr (st, app), w')) \<longleftrightarrow> (\<exists>x w'. boot E c w = (Inr x, w'))" by auto
  then show ?thesis
    unfolding boot_iff start_exact_run [OF assms(1,2) wf assms(3)]
    by (auto simp: start_encryption_key_def parse_hex_key_def split: option.split sum.splits)
qed

theorem start_exact_witness:
  "\<exists>st app w'. boot demo demo_cli panel_world = (Inr (st, app), w')"
proof -
  have "db_reachable demo (db panel_world)" by (simp add: panel_world_def panel_reachable)
  moreover have "cors_origins demo_cli = []" by (simp add: cors_origins_def demo_cli_def)
  ultimately show ?thesis
    using start_exact [OF demo_no_faults demo_codecs_ok demo_bcrypt_ok, of panel_world demo_cli]
    by (simp add: demo_cli_texts)
qed

text \<open>What the witnesses start from.\<close>

lemma panel_starting:
  obtains st w' where "start demo demo_cli panel_world = (Inr st, w')" "jwt_secret st = ''s''"
    "attempts w' = attempts panel_world"
proof -
  have "rows_wf demo (db panel_world)" by (simp add: panel_world_def panel_world_wf)
  from start_exact_run [OF demo_no_faults demo_codecs_ok this demo_bcrypt_ok, of demo_cli]
  obtain st w' where run: "start demo demo_cli panel_world = (Inr st, w')"
    by (auto simp: demo_key demo_cli_texts)
  have "jwt_secret st = ''s''"
    by (rule start_run [OF run]) (simp add: start_jwt_secret_def demo_cli_texts start_state_def)
  with run start_attempts [OF run] that show thesis by blast
qed

text \<open>C37: After a start with a bootstrap password, the bootstrap account can log in with it from every
  address that is not blocked, whatever the account was before.\<close>

theorem bootstrap_can_login:
  assumes "no_faults E" "codecs_ok E" "bcrypt_ok E" "jwt_ok E" "uuid_text E" "db_reachable E (db w)"
    and "start E c w = (Inr st, w')" "empty_to_none (cli_admin_password c) = Some (lr_password body)"
    and "login_name body = trim (cli_admin_username c)"
    and "\<not> login_blocked E (resolve_client_ip E hs ip st) (clock E (tick w')) (attempts w')"
  shows "\<exists>r w''. admin_login E st hs ip body w' = (Inr r, w'')"
proof -
  have wf: "rows_wf E (db w')"
    using reachable_wf [OF start_reachable(1) [OF assms(7,6)] assms(2)] by (simp add: db_wf_def)
  obtain u where u: "stored E (accounts w) u (accounts w')" "usr_username u = login_name body" "usr_enabled u"
      "verify_admin_password E (lr_password body) (usr_password_hash u)"
    using start_accounts [OF assms(3,7)] assms(8,9) by (auto simp: bootstrapped_def)
  have at: "user_in E (accounts w') (login_name body) = Some u"
    using stored_user_in [OF codecs_okD(9) [OF assms(2)] u(1)] u(2) by simp
  have "admin_enabled st" using start_enabled [OF wf assms(7)] at by blast
  moreover have "credentials_ok E body (accounts w')" using at u(3,4) by (auto simp: credentials_ok_def)
  ultimately show ?thesis
    using login_iff [OF assms(1,2) wf assms(4,5)] assms(10) by blast
qed

definition new_login_body :: login_request where
  "new_login_body = \<lparr>lr_username = Some ''admin'', lr_password = ''new-password''\<rparr>"

theorem bootstrap_can_login_witness:
  "\<exists>st w' r w''. start demo demo_cli panel_world = (Inr st, w')
     \<and> admin_login demo st [] ''ip'' new_login_body w' = (Inr r, w'')"
proof -
  obtain st w' where run: "start demo demo_cli panel_world = (Inr st, w')" "attempts w' = attempts panel_world"
    by (rule panel_starting)
  have "attempt_in demo (attempts w') ip = None" for ip using panel_attempts by (simp only: run(2))
  then have free: "\<not> login_blocked demo ip now (attempts w')" for ip now
    by (simp add: login_blocked_def blocked_until_def)
  have "lr_password new_login_body = ''new-password''" by (simp add: new_login_body_def)
  moreover have "login_name new_login_body = ''admin''" by code_simp
  ultimately have "\<exists>r w''. admin_login demo st [] ''ip'' new_login_body w' = (Inr r, w'')"
    by (intro bootstrap_can_login [OF demo_no_faults demo_codecs_ok demo_bcrypt_ok demo_jwt_ok demo_uuid_text
          panel_world_reachable run(1) _ _ free]) (simp_all add: demo_cli_texts)
  with run(1) show ?thesis by blast
qed

text \<open>C38: When the signing secret stays the same (it is configured; by default every start draws a new
  one, which ends all sessions), a start with a bootstrap password keeps the sessions of the
  bootstrap account if that password is the one it had, and ends them if it is another, as
  long as the session version has not reached the last value of 64 bits.\<close>

theorem bootstrap_sessions:
  assumes "codecs_ok E" "bcrypt_ok E" "db_reachable E (db w)"
    and "start E c w = (Inr st', w')" "empty_to_none (cli_admin_password c) = Some password"
    and "session_user E st hs now (db w) = Some u" "usr_username u = trim (cli_admin_username c)"
    and "jwt_secret st' = jwt_secret st" "usr_session_version u \<noteq> - 1"
  shows "session_user E st' hs now (db w') \<noteq> None \<longleftrightarrow> verify_admin_password E password (usr_password_hash u)"
proof -
  let ?name = "trim (cli_admin_username c)"
  have wf: "rows_wf E (db w)" "rows_wf E (db w')"
    using reachable_wf [OF assms(3,1)] reachable_wf [OF start_reachable(1) [OF assms(4,3)] assms(1)]
    by (auto simp: db_wf_def)
  from assms(6) obtain token claims where t: "extract_admin_token hs = Some token"
      "jwt_decode E now (trim token) (jwt_secret st) = Inr claims" "user_in E (accounts w) (cl_sub claims) = Some u"
      "cl_ver claims = usr_session_version u"
    by (auto simp: session_user_iff user_at_in)
  have sub: "cl_sub claims = ?name" using user_at_wf(2) [OF wf(1)] t(3) assms(7) by (simp add: user_at_in)
  obtain v where v: "stored E (accounts w) v (accounts w')" "usr_username v = ?name" "usr_enabled v"
      "usr_session_version v = bootstrap_version (known_password E password (Some u)) (Some u)"
    using start_accounts [OF assms(2,4)] assms(5) t(3) sub by (auto simp: bootstrapped_def)
  have at: "user_in E (accounts w') ?name = Some v"
    using stored_user_in [OF codecs_okD(9) [OF assms(1)] v(1)] v(2) by simp
  have en: "admin_enabled st'" using start_enabled [OF wf(2) assms(4)] at by blast
  have "session_user E st' hs now (db w') \<noteq> None \<longleftrightarrow> usr_session_version u = usr_session_version v"
    using t(1,2,4) at en v(3) by (auto simp: session_user_iff user_at_in assms(8) sub)
  also have "\<dots> \<longleftrightarrow> verify_admin_password E password (usr_password_hash u)"
    using sat_add_one_neq [OF assms(9)] by (auto simp: v(4) bootstrap_version_def known_password_def)
  finally show ?thesis .
qed

theorem bootstrap_sessions_witness:
  "\<exists>st w'. start demo demo_cli panel_world = (Inr st, w')
     \<and> session_user demo (demo_state\<lparr>jwt_secret := ''s''\<rparr>) panel_headers 0 (db panel_world) = Some (demo_user ''admin'')
     \<and> session_user demo st panel_headers 0 (db w') = None"
proof -
  let ?st = "demo_state\<lparr>jwt_secret := ''s''\<rparr>"
  obtain st w' where run: "start demo demo_cli panel_world = (Inr st, w')" "jwt_secret st = ''s''"
    by (rule panel_starting)
  have "session_user demo demo_state panel_headers 0 (db panel_world) = Some (demo_user ''admin'')"
    by (rule panel_session) (simp_all add: panel_world_def)
  moreover have "session_user demo ?st = session_user demo demo_state"
    by (rule session_user_secret) (simp_all add: demo_def demo_jwt_decode_def)
  ultimately have old: "session_user demo ?st panel_headers 0 (db panel_world) = Some (demo_user ''admin'')" by simp
  have "\<not> verify_admin_password demo ''new-password'' (usr_password_hash (demo_user ''admin''))"
    by (simp add: verify_admin_password_def demo_user_def) (simp add: demo_def)
  with bootstrap_sessions [OF demo_codecs_ok demo_bcrypt_ok panel_world_reachable run(1) demo_cli_texts(1) old]
  have "session_user demo st panel_headers 0 (db w') = None"
    by (simp add: demo_cli_texts run(2)) (simp add: demo_user_def)
  with run(1) old show ?thesis by blast
qed

text \<open>Two starts with the same command line agree on the encryption key and on what they report as
  persistent. What is persistent is the same after the restart: the sealed token secrets
  open to the same text, and every session is valid as before.\<close>

theorem restart_keeps:
  assumes "start E c w1 = (Inr st1, w1')" "start E c w2 = (Inr st2, w2')"
  shows "encryption_key st1 = encryption_key st2
    \<and> token_reveal_persistent st1 = token_reveal_persistent st2
    \<and> admin_jwt_secret_persistent st1 = admin_jwt_secret_persistent st2
    \<and> (token_reveal_persistent st1 \<longrightarrow> open_token E st1 = open_token E st2)
    \<and> (admin_jwt_secret_persistent st1 \<and> admin_enabled st1 = admin_enabled st2 \<longrightarrow>
        session_user E st1 = session_user E st2)"
proof (rule start_run [OF assms(1)], rule start_run [OF assms(2)])
  fix key1 key2 s1 s2 u1 u2 v1 v2
  assume run: "start_encryption_key E c = Inr key1" "start_encryption_key E c = Inr key2"
      "start_jwt_secret E c w1 = (Inr s1, u1)" "start_jwt_secret E c w2 = (Inr s2, u2)"
    and st: "st1 = start_state c key1 (decode_all (c_user E) (accounts w1') \<noteq> []) s1 (opt_get (derive_key E s1) key1)"
      "st2 = start_state c key2 (decode_all (c_user E) (accounts w2') \<noteq> []) s2 (opt_get (derive_key E s2) key2)"
  have key: "key2 = key1" using run(1,2) by simp
  have secret: "s1 = s2" if "empty_to_none (cli_admin_jwt_secret c) \<noteq> None"
    using that run(3,4) by (auto simp: start_jwt_secret_def)
  have "token_reveal_key st1 = token_reveal_key st2" if "token_reveal_persistent st1"
    using that secret by (cases key1) (auto simp: st start_state_def key)
  moreover have "jwt_secret st1 = jwt_secret st2" if "admin_jwt_secret_persistent st1"
    using that secret by (simp add: st start_state_def)
  moreover have "encryption_key st1 = encryption_key st2"
      "token_reveal_persistent st1 = token_reveal_persistent st2"
      "admin_jwt_secret_persistent st1 = admin_jwt_secret_persistent st2"
    by (simp_all add: st start_state_def key)
  ultimately show ?thesis
    using open_token_key [of st1 st2 E] session_user_secret [of st1 st2 E] by auto
qed

theorem restart_keeps_witness:
  "\<exists>st1 w1 st2 w2. start demo demo_cli panel_world = (Inr st1, w1) \<and> start demo demo_cli w1 = (Inr st2, w2)
     \<and> open_token demo st1 = open_token demo st2"
proof -
  obtain st1 w1 where run1: "start demo demo_cli panel_world = (Inr st1, w1)"
    by (rule panel_starting)
  have "rows_wf demo (db w1)"
    using reachable_wf [OF start_reachable(1) [OF run1 panel_world_reachable] demo_codecs_ok] by (simp add: db_wf_def)
  from start_exact_run [OF demo_no_faults demo_codecs_ok this demo_bcrypt_ok, of demo_cli]
  obtain st2 w2 where run2: "start demo demo_cli w1 = (Inr st2, w2)"
    by (auto simp: demo_key demo_cli_texts)
  have "token_reveal_persistent st1"
    by (rule start_run [OF run1]) (simp add: start_state_def demo_cli_texts)
  then have "open_token demo st1 = open_token demo st2" using restart_keeps [OF run1 run2] by blast
  with run1 run2 show ?thesis by blast
qed

section \<open>Backups\<close>

text \<open>C39: A backup of an existing database to another path can be verified and restored: the restored
  database file holds the same bytes.\<close>

theorem backup_round_trip:
  assumes "no_io_faults F" "digest_text E" "ascii out" "file_at w db_path = Some data"
    and "out \<noteq> db_path" "checksum_sidecar_path out \<noteq> db_path"
    and "file_at w2 out = file_at (snd (backup_database E F db_path out w)) out"
    and "file_at w2 (checksum_sidecar_path out) = file_at (snd (backup_database E F db_path out w)) (checksum_sidecar_path out)"
  shows "fst (backup_database E F db_path out w) = Inr ()
    \<and> file_at (snd (backup_database E F db_path out w)) db_path = Some data
    \<and> fst (verify_backup_file E F out w2) = Inr ()
    \<and> (\<exists>w3. restore_database E F out db_path w2 = (Inr (), w3) \<and> file_at w3 = (file_at w2)(db_path \<mapsto> data))"
proof -
  from backup_run [OF assms(1,4), of E out] assms(5) obtain w1 where
    run: "backup_database E F db_path out w = (Inr (), w1)"
      "file_at w1 = (file_at w)(out \<mapsto> data, checksum_sidecar_path out \<mapsto> checksum_line E out data)"
    by (auto simp: copied_def)
  have files: "file_at w2 out = Some data" "file_at w2 (checksum_sidecar_path out) = Some (checksum_line E out data)"
    using assms(7,8) by (simp_all add: run)
  then have side: "sidecar_digest (file_at w2) out = Some (sha256_hex E data)"
    by (simp add: sidecar_digest_def checksum_line_ascii [OF assms(2,3)] first_word_checksum [OF assms(2,3)])
  have "fst (verify_backup_file E F out w2) = Inr ()"
    using verify_run [OF assms(1), of E out w2] files(1) side by auto
  moreover have "\<exists>w3. restore_database E F out db_path w2 = (Inr (), w3) \<and> file_at w3 = (file_at w2)(db_path \<mapsto> data)"
    using restore_run [OF assms(1), where E = E and bk = out and db_path = db_path and w = w2] files(1) side assms(5)
    by (cases "restore_database E F out db_path w2") (auto simp: copied_def split: sum.splits)
  ultimately show ?thesis using assms(4-6) by (simp add: run)
qed

theorem backup_round_trip_witness:
  "\<exists>w3. restore_database digests calm ''/backup/sync.db'' ''/data/sync.db''
       (snd (backup_database digests calm ''/data/sync.db'' ''/backup/sync.db'' disk)) = (Inr (), w3)
     \<and> file_at w3 ''/data/sync.db'' = Some ''rows''"
proof -
  have "''/backup/sync.db'' \<noteq> ''/data/sync.db''" "checksum_sidecar_path ''/backup/sync.db'' \<noteq> ''/data/sync.db''"
    by (simp_all add: checksum_sidecar_path_def)
  from backup_round_trip [OF calm_no_faults digests_text disk_path this refl refl] show ?thesis by auto
qed

text \<open>C40: A backup whose sidecar does not name the digest of its bytes is not restored: the restore
  fails and every file stays as it was. A backup with no sidecar is restored unchecked.\<close>

theorem restore_checks:
  assumes "no_io_faults F" "file_at w bk = Some data" "bk \<noteq> db_path"
  shows "case restore_database E F bk db_path w of
      (Inl _, w') \<Rightarrow> file_at w' = file_at w \<and> file_at w (checksum_sidecar_path bk) \<noteq> None
        \<and> sidecar_digest (file_at w) bk \<noteq> Some (sha256_hex E data)
    | (Inr _, w') \<Rightarrow> file_at w' = (file_at w)(db_path \<mapsto> data)
        \<and> (file_at w (checksum_sidecar_path bk) = None \<or> sidecar_digest (file_at w) bk = Some (sha256_hex E data))"
  using restore_run [OF assms(1), where E = E and bk = bk and db_path = db_path and w = w] assms(2,3)
  by (auto simp: copied_def split: prod.splits sum.splits)

theorem restore_checks_witness:
  "\<exists>e w'. restore_database digests calm ''/b'' ''/data/sync.db''
       (disk\<lparr>file_at := [''/b'' \<mapsto> ''torn'', ''/b.sha256'' \<mapsto> ''aa  b'']\<rparr>) = (Inl e, w')"
proof -
  let ?w = "disk\<lparr>file_at := [''/b'' \<mapsto> ''torn'', ''/b.sha256'' \<mapsto> ''aa  b'']\<rparr>"
  have "sidecar_digest (file_at ?w) ''/b'' \<noteq> Some (sha256_hex digests ''torn'')"
    by code_simp
  moreover have "file_at ?w ''/b'' = Some ''torn''" "checksum_sidecar_path ''/b'' = ''/b.sha256''"
    by (simp_all add: checksum_sidecar_path_def)
  ultimately show ?thesis
    using restore_checks [OF calm_no_faults, of ?w "''/b''" "''torn''" "''/data/sync.db''" digests]
    by (auto split: prod.splits sum.splits)
qed

text \<open>A backup whose output is the database file itself reports success and leaves the database
  empty.\<close>

lemma backup_onto_itself:
  assumes "no_io_faults F" "file_at w db_path = Some data"
  shows "\<exists>w'. backup_database E F db_path db_path w = (Inr (), w') \<and> file_at w' db_path = Some []"
  using backup_run [OF assms, of E db_path] by (auto simp: copied_def)

end
