(* ===== verification/Interleave.thy ===== *)
theory Interleave
  imports Sync_Env
begin

text \<open>
  Requests that run side by side. An action of the prelude runs to its end at once; here a
  handler is a program: a tree whose nodes are the single uses of the outside (a transaction,
  a clock, a draw), between which other requests may run. The theory has the program
  combinators that mirror those of the actions, the guarantees of a program (what each of its
  steps does, whatever state it meets), and schedules of a pool of programs.
\<close>

section \<open>Programs\<close>

datatype ('e, 'w, 'a) prog = Done "'e + 'a" | Step "'w \<Rightarrow> ('e, 'w, 'a) prog \<times> 'w"

lemma prog_induct [case_names Done Step, induct type: prog]:
  assumes "\<And>r. P (Done r)" "\<And>f. (\<And>w. P (fst (f w))) \<Longrightarrow> P (Step f)"
  shows "P p"
proof (induction p rule: prog.induct)
  case (Step f)
  have "P (fst (f w))" for w by (rule Step [of "f w"]) (auto simp: prod_set_simps fsts.simps intro: prod.exhaust_sel)
  then show ?case by (rule assms(2))
qed (rule assms(1))

text \<open>Without interruption a program is an action.\<close>

primrec run :: "('e, 'w, 'a) prog \<Rightarrow> ('e, 'w, 'a) act" where
  "run (Done r) = (\<lambda>w. (r, w))"
| "run (Step f) = (\<lambda>w. case map_prod run id (f w) of (m, w1) \<Rightarrow> m w1)"

primrec bindP :: "('e, 'w, 'a) prog \<Rightarrow> ('e + 'a \<Rightarrow> ('f, 'w, 'b) prog) \<Rightarrow> ('f, 'w, 'b) prog" where
  "bindP (Done r) k = k r"
| "bindP (Step f) k = Step (\<lambda>w. map_prod (\<lambda>p. bindP p k) id (f w))"

definition atom :: "('e, 'w, 'a) act \<Rightarrow> ('e, 'w, 'a) prog" where
  "atom m = Step (\<lambda>w. case m w of (r, w1) \<Rightarrow> (Done r, w1))"

definition retP :: "'a \<Rightarrow> ('e, 'w, 'a) prog" where
  "retP x = Done (Inr x)"

definition throwP :: "'e \<Rightarrow> ('e, 'w, 'a) prog" where
  "throwP e = Done (Inl e)"

definition seqP :: "('e, 'w, 'a) prog \<Rightarrow> ('a \<Rightarrow> ('e, 'w, 'b) prog) \<Rightarrow> ('e, 'w, 'b) prog" where
  "seqP p f = bindP p (case_sum throwP f)"

definition errP :: "('e \<Rightarrow> 'f) \<Rightarrow> ('e, 'w, 'a) prog \<Rightarrow> ('f, 'w, 'a) prog" where
  "errP h p = bindP p (case_sum (\<lambda>e. throwP (h e)) retP)"

definition handleP ::
  "('e, 'w, 'a) prog \<Rightarrow> ('e \<Rightarrow> ('f, 'w, 'b) prog) \<Rightarrow> ('a \<Rightarrow> ('f, 'w, 'b) prog) \<Rightarrow> ('f, 'w, 'b) prog" where
  "handleP p f g = bindP p (case_sum f g)"

definition ok_orP :: "'e \<Rightarrow> 'a option \<Rightarrow> ('e, 'w, 'a) prog" where
  "ok_orP e x = (case x of None \<Rightarrow> throwP e | Some y \<Rightarrow> retP y)"

definition whenP :: "bool \<Rightarrow> ('e, 'w, unit) prog \<Rightarrow> ('e, 'w, unit) prog" where
  "whenP b p = (if b then p else retP ())"

text \<open>What each of them is when it is not interrupted.\<close>

named_theorems run_alone "programs that run without interruption"

lemma run_bindP: "run (bindP p k) w = (case run p w of (r, w1) \<Rightarrow> run (k r) w1)"
  by (induction p arbitrary: w) (auto simp: case_prod_beta run.simps(1))

lemma run_Done [run_alone]: "run (Done r) = lift_res r"
  by (simp add: fun_eq_iff)

declare run.simps(1) [simp del]

lemma run_retP [run_alone]: "run (retP x) = ret x"
  by (simp add: retP_def fun_eq_iff run_Done)

lemma run_throwP [run_alone]: "run (throwP e) = throw e"
  by (simp add: throwP_def fun_eq_iff run_Done)

lemma run_atom [run_alone]: "run (atom m) = m"
  by (simp add: atom_def fun_eq_iff run_Done split: prod.split)

lemma run_seqP [run_alone]: "run (seqP p f) = bindE (run p) (\<lambda>x. run (f x))"
  by (auto simp: seqP_def fun_eq_iff run_bindP bindE_def run_throwP split: prod.splits sum.splits)

lemma run_errP [run_alone]: "run (errP h p) = map_err h (run p)"
  by (auto simp: errP_def fun_eq_iff run_bindP map_err_def run_throwP run_retP split: prod.splits sum.splits)

lemma run_handleP [run_alone]: "run (handleP p f g) = handleE (run p) (\<lambda>e. run (f e)) (\<lambda>x. run (g x))"
  by (auto simp: handleP_def fun_eq_iff run_bindP handleE_def split: prod.splits sum.splits)

lemma run_ok_orP [run_alone]: "run (ok_orP e x) = ok_or e x"
  by (cases x) (simp_all add: ok_orP_def run_alone)

lemma run_whenP [run_alone]: "run (whenP b p) = whenE b (run p)"
  by (cases b) (simp_all add: whenP_def run_alone)

lemma seqP_ret: "seqP (retP x) f = f x" "seqP (ok_orP e (Some x)) f = f x"
  by (simp_all add: seqP_def retP_def ok_orP_def)

lemma run_if [run_alone]: "run (if b then p else q) = (if b then run p else run q)"
  by simp

section \<open>Guarantees\<close>

text \<open>
  \<open>guar P G Q p\<close>: in every state with \<open>P\<close> the next step of \<open>p\<close> is one of \<open>G\<close>, and so on;
  an end of \<open>p\<close> has a result with \<open>Q\<close>. The states a program meets are any states: others
  have run in between.
\<close>

inductive guar ::
  "('w \<Rightarrow> bool) \<Rightarrow> ('w \<Rightarrow> 'w \<Rightarrow> bool) \<Rightarrow> ('e + 'a \<Rightarrow> bool) \<Rightarrow> ('e, 'w, 'a) prog \<Rightarrow> bool" for P G Q where
  guar_Done: "Q r \<Longrightarrow> guar P G Q (Done r)"
| guar_Step: "(\<And>w. P w \<Longrightarrow> G w (snd (f w))) \<Longrightarrow> (\<And>w. P w \<Longrightarrow> guar P G Q (fst (f w))) \<Longrightarrow> guar P G Q (Step f)"

inductive_simps guar_simps: "guar P G Q (Done r)" "guar P G Q (Step f)"

abbreviation every :: "('w \<Rightarrow> bool) \<Rightarrow> ('w \<Rightarrow> 'w \<Rightarrow> bool) \<Rightarrow> ('e, 'w, 'a) prog \<Rightarrow> bool" where
  "every P G \<equiv> guar P G (\<lambda>_. True)"

lemma guar_mono:
  assumes "guar P G Q p" "\<And>w. P' w \<Longrightarrow> P w" "\<And>w v. P' w \<Longrightarrow> G w v \<Longrightarrow> G' w v" "\<And>r. Q r \<Longrightarrow> Q' r"
  shows "guar P' G' Q' p"
  using assms(1) by (induction) (auto intro!: guar.intros simp: assms(2-4))

lemma guar_bindP:
  assumes "guar P G Q p" "\<And>r. Q r \<Longrightarrow> guar P G Q' (k r)"
  shows "guar P G Q' (bindP p k)"
  using assms(1) by (induction) (auto intro!: guar.intros assms(2))

lemma guar_atom: "(\<And>w. P w \<Longrightarrow> G w (snd (m w)) \<and> Q (fst (m w))) \<Longrightarrow> guar P G Q (atom m)"
  by (simp add: atom_def guar_simps case_prod_beta)

lemma guar_retP: "Q (Inr x) \<Longrightarrow> guar P G Q (retP x)"
  by (simp add: retP_def guar_simps)

lemma guar_throwP: "Q (Inl e) \<Longrightarrow> guar P G Q (throwP e)"
  by (simp add: throwP_def guar_simps)

lemma guar_seqP:
  assumes "guar P G R p" "\<And>x. R (Inr x) \<Longrightarrow> guar P G Q (f x)" "\<And>e. R (Inl e) \<Longrightarrow> Q (Inl e)"
  shows "guar P G Q (seqP p f)"
  unfolding seqP_def
  by (rule guar_bindP [OF assms(1)]) (auto intro: assms guar_throwP split: sum.split)

text \<open>Guarantees on the steps alone: as for frames, but without any closure of \<open>G\<close>.\<close>

lemma every_atom: "(\<And>w. P w \<Longrightarrow> G w (snd (m w))) \<Longrightarrow> every P G (atom m)"
  by (rule guar_atom) simp

lemma every_Done: "every P G (Done r)"
  by (simp add: guar_simps)

lemma every_retP: "every P G (retP x)" and every_throwP: "every P G (throwP e)"
  by (simp_all add: guar_retP guar_throwP)

lemma every_bindP: "every P G p \<Longrightarrow> (\<And>r. every P G (k r)) \<Longrightarrow> every P G (bindP p k)"
  by (blast intro: guar_bindP)

lemma every_seqP: "every P G p \<Longrightarrow> (\<And>x. every P G (f x)) \<Longrightarrow> every P G (seqP p f)"
  by (blast intro: guar_seqP)

lemma every_seq_lift: "(\<And>x. r = Inr x \<Longrightarrow> every P G (f x)) \<Longrightarrow> every P G (seqP (Done r) f)"
  by (cases r) (auto simp: seqP_def every_throwP)

lemma every_errP: "every P G p \<Longrightarrow> every P G (errP h p)"
  unfolding errP_def by (rule every_bindP) (auto intro: every_throwP every_retP split: sum.split)

lemma every_handleP: "every P G p \<Longrightarrow> (\<And>e. every P G (f e)) \<Longrightarrow> (\<And>x. every P G (g x)) \<Longrightarrow> every P G (handleP p f g)"
  unfolding handleP_def by (rule every_bindP) (auto split: sum.split)

lemma every_ok_orP: "every P G (ok_orP e x)"
  by (cases x) (simp_all add: ok_orP_def every_throwP every_retP)

lemma every_whenP: "every P G p \<Longrightarrow> every P G (whenP b p)"
  by (cases b) (simp_all add: whenP_def every_retP)

lemma every_conj: "every P G p \<Longrightarrow> every P H p \<Longrightarrow> every P (\<lambda>w v. G w v \<and> H w v) p"
  by (induction p rule: guar.induct) (auto simp: guar_simps intro: guar.intros)

lemmas every_rules = every_Done every_retP every_throwP every_seqP every_errP every_handleP
  every_ok_orP every_whenP

section \<open>Following one program\<close>

text \<open>
  \<open>follows p tr q\<close>: \<open>tr\<close> lists the steps of \<open>p\<close> on its way to \<open>q\<close>, each with the state it
  met and the state it left; nothing is said of what happens in between.
\<close>

fun follows :: "('e, 'w, 'a) prog \<Rightarrow> ('w \<times> 'w) list \<Rightarrow> ('e, 'w, 'a) prog \<Rightarrow> bool" where
  "follows p [] q \<longleftrightarrow> q = p"
| "follows p ((w, v) # tr) q \<longleftrightarrow> (case p of Done r \<Rightarrow> False
     | Step f \<Rightarrow> snd (f w) = v \<and> follows (fst (f w)) tr q)"

lemma follows_Done [simp]: "follows (Done r) tr q \<longleftrightarrow> tr = [] \<and> q = Done r"
  by (cases tr) auto

lemma follows_bindP_Done:
  assumes "follows (bindP p k) tr (Done r)"
  obtains us vs r1 where "tr = us @ vs" "follows p us (Done r1)" "follows (k r1) vs (Done r)"
  using assms
proof (induction tr arbitrary: p thesis)
  case Nil
  then show ?case by (cases p) auto
next
  case (Cons s tr)
  obtain w v where s: "s = (w, v)" by (cases s)
  show ?case
  proof (cases p)
    case (Done r1)
    with Cons.prems show ?thesis by fastforce
  next
    case (Step f)
    with Cons.prems(2) s have f: "snd (f w) = v" "follows (bindP (fst (f w)) k) tr (Done r)" by simp_all
    from Cons.IH [OF _ f(2)] obtain us vs r1 where
      "tr = us @ vs" "follows (fst (f w)) us (Done r1)" "follows (k r1) vs (Done r)" by metis
    then show ?thesis
      using Cons.prems(1) [of "(w, v) # us" vs r1] Step s f(1) by simp
  qed
qed

lemma follows_bindP_iff:
  "follows (bindP p k) tr (Done r) \<longleftrightarrow>
     (\<exists>us vs r1. tr = us @ vs \<and> follows p us (Done r1) \<and> follows (k r1) vs (Done r))"
proof
  assume "\<exists>us vs r1. tr = us @ vs \<and> follows p us (Done r1) \<and> follows (k r1) vs (Done r)"
  then obtain us vs r1 where *: "tr = us @ vs" "follows p us (Done r1)" "follows (k r1) vs (Done r)" by blast
  have "follows (bindP p k) (us @ vs) (Done r)"
    using *(2) by (induction us arbitrary: p) (use *(3) in \<open>auto split: prog.splits\<close>)
  then show "follows (bindP p k) tr (Done r)" using *(1) by simp
qed (erule follows_bindP_Done, blast)

lemma follows_atom_iff: "follows (atom m) tr (Done r) \<longleftrightarrow> (\<exists>w v. tr = [(w, v)] \<and> m w = (r, v))"
proof (cases tr)
  case (Cons s us)
  then show ?thesis by (cases s; cases "m (fst s)") (auto simp: atom_def)
qed (simp add: atom_def)

lemma guar_follows:
  assumes "guar P G Q p" "follows p tr q" "\<And>w v. (w, v) \<in> set tr \<Longrightarrow> P w"
  shows "guar P G Q q \<and> (\<forall>(w, v) \<in> set tr. G w v)"
  using assms
proof (induction tr arbitrary: p)
  case (Cons s tr)
  then obtain f where p: "p = Step f" by (cases s; cases p) auto
  with Cons.prems have "guar P G Q (fst (f (fst s)))" "G (fst s) (snd s)" "follows (fst (f (fst s))) tr q"
    by (cases s; auto simp: guar_simps)+
  with Cons.IH Cons.prems(3) show ?case by auto
qed simp

text \<open>An uninterrupted run follows the program.\<close>

lemma run_follows: "run p w = (r, w') \<Longrightarrow> \<exists>tr. follows p tr (Done r)"
proof (induction p arbitrary: w)
  case (Step f)
  then have "run (fst (f w)) (snd (f w)) = (r, w')" by (simp add: case_prod_beta)
  with Step.IH [of w] obtain tr where "follows (fst (f w)) tr (Done r)" by blast
  then show ?case by (intro exI [of _ "(w, snd (f w)) # tr"]) simp
qed (simp add: run_Done)

section \<open>Schedules\<close>

text \<open>
  A pool of programs on one state. A step is one of a program, at its place in the pool, or
  one of the surroundings, in \<open>R\<close>; the trace has every step with the states around it.
\<close>

inductive sched ::
  "('w \<Rightarrow> 'w \<Rightarrow> bool) \<Rightarrow> ('e, 'w, 'a) prog list \<Rightarrow> 'w \<Rightarrow> (nat option \<times> 'w \<times> 'w) list
     \<Rightarrow> ('e, 'w, 'a) prog list \<Rightarrow> 'w \<Rightarrow> bool" for R where
  sched_end: "sched R ps w [] ps w"
| sched_own: "i < length ps \<Longrightarrow> ps ! i = Step f \<Longrightarrow> f w = (p, v) \<Longrightarrow> sched R (ps[i := p]) v tr qs w' \<Longrightarrow>
    sched R ps w ((Some i, w, v) # tr) qs w'"
| sched_env: "R w v \<Longrightarrow> sched R ps v tr qs w' \<Longrightarrow> sched R ps w ((None, w, v) # tr) qs w'"

inductive_cases sched_NilE: "sched R ps w [] qs w'"
inductive_cases sched_ConsE: "sched R ps w (s # tr) qs w'"

definition own :: "nat \<Rightarrow> (nat option \<times> 'w \<times> 'w) list \<Rightarrow> ('w \<times> 'w) list" where
  "own i tr = map snd (filter (\<lambda>s. fst s = Some i) tr)"

lemma own_simps [simp]:
  "own i [] = []" "own i (s # tr) = (if fst s = Some i then snd s # own i tr else own i tr)"
  "own i (tr @ us) = own i tr @ own i us"
  by (simp_all add: own_def)

lemma own_set: "(u, v) \<in> set (own i tr) \<longleftrightarrow> (Some i, u, v) \<in> set tr"
  by (force simp: own_def)

lemma sched_length: "sched R ps w tr qs w' \<Longrightarrow> length qs = length ps"
  by (induction rule: sched.induct) simp_all

lemma sched_follows: "sched R ps w tr qs w' \<Longrightarrow> i < length ps \<Longrightarrow> follows (ps ! i) (own i tr) (qs ! i)"
  by (induction rule: sched.induct) (auto simp: nth_list_update split: if_splits)

lemma sched_place: "sched R ps w tr qs w' \<Longrightarrow> (Some i, u, v) \<in> set tr \<Longrightarrow> i < length ps"
  by (induction rule: sched.induct) auto

text \<open>Every step of a program in a schedule is one the program guarantees.\<close>

lemma sched_every:
  assumes "sched R ps w tr qs w'" "(Some i, u, v) \<in> set tr" "every (\<lambda>_. True) G (ps ! i)"
  shows "G u v"
  using guar_follows [OF assms(3) sched_follows [OF assms(1)]] sched_place [OF assms(1,2)] assms(2)
  by (auto simp flip: own_set)

text \<open>The states of a trace follow one another.\<close>

fun linked :: "'w \<Rightarrow> ('i \<times> 'w \<times> 'w) list \<Rightarrow> 'w \<Rightarrow> bool" where
  "linked w [] w' \<longleftrightarrow> w' = w"
| "linked w ((i, u, v) # tr) w' \<longleftrightarrow> u = w \<and> linked v tr w'"

lemma sched_linked: "sched R ps w tr qs w' \<Longrightarrow> linked w tr w'"
  by (induction rule: sched.induct) simp_all

lemma linked_append: "linked w (tr @ us) w' \<longleftrightarrow> (\<exists>v. linked w tr v \<and> linked v us w')"
  by (induction w tr w' rule: linked.induct) auto

lemma linked_moves:
  assumes "linked w tr w'" "\<And>i u v. (i, u, v) \<in> set tr \<Longrightarrow> T u v" "reflp T" "transp T"
  shows "T w w'"
  using assms(1,2)
proof (induction w tr w' rule: linked.induct)
  case 1
  then show ?case using assms(3) by (simp add: reflpD)
next
  case (2 w i u v tr w')
  then have "T u v" "T v w'" by auto
  with 2(2) show ?case using transpD [OF assms(4)] by auto
qed

lemma linked_stable:
  assumes "linked w tr w'" "I w" "\<And>i u v. (i, u, v) \<in> set tr \<Longrightarrow> I u \<Longrightarrow> I v"
  shows "I w'"
  using assms by (induction w tr w' rule: linked.induct) auto

text \<open>
  A property of the state kept by the surroundings and by every program's steps holds all
  along, and every step is one the programs and the surroundings guarantee.
\<close>

lemma sched_guar:
  assumes "sched R ps w tr qs w'" "\<forall>p \<in> set ps. guar P G Q p" "P w"
    and "\<And>u v. P u \<Longrightarrow> G u v \<Longrightarrow> P v" "\<And>u v. P u \<Longrightarrow> R u v \<Longrightarrow> P v"
  shows "(\<forall>(i, u, v) \<in> set tr. P u \<and> P v \<and> (if i = None then R u v else G u v))
    \<and> (\<forall>p \<in> set qs. guar P G Q p) \<and> P w'"
  using assms(1-3)
proof (induction rule: sched.induct)
  case (sched_own i ps f w p v tr qs w')
  then have "guar P G Q (Step f)" by (metis nth_mem)
  with sched_own.hyps(3) sched_own.prems(2) have f: "G w v" "guar P G Q p" "P v"
    using assms(4) by (auto simp: guar_simps dest!: spec [of _ w])
  moreover have "\<forall>q \<in> set (ps[i := p]). guar P G Q q"
    using sched_own.prems(1) f(2) set_update_subset_insert [of ps i p] by blast
  ultimately show ?case using sched_own.IH sched_own.prems(2) by auto
qed (use assms(5) in auto)

text \<open>A schedule given by the places that run, one after the other.\<close>

fun exec :: "nat list \<Rightarrow> ('e, 'w, 'a) prog list \<times> 'w \<Rightarrow> ('e, 'w, 'a) prog list \<times> 'w" where
  "exec [] s = s"
| "exec (i # is) (ps, w) = (if i < length ps then case ps ! i of
       Done r \<Rightarrow> exec is (ps, w)
     | Step f \<Rightarrow> exec is (ps[i := fst (f w)], snd (f w)) else exec is (ps, w))"

lemma exec_sched: "exec is (ps, w) = (qs, w') \<Longrightarrow> \<exists>tr. sched R ps w tr qs w'"
proof (induction "is" "(ps, w)" arbitrary: ps w rule: exec.induct)
  case (1 ps w)
  then show ?case by (auto intro: sched_end)
next
  case (2 i "is" ps w)
  show ?case
  proof (cases "\<exists>f. i < length ps \<and> ps ! i = Step f")
    case True
    then obtain f where f: "i < length ps" "ps ! i = Step f" by blast
    with 2 obtain tr where "sched R (ps[i := fst (f w)]) (snd (f w)) tr qs w'" by auto
    from sched_own [OF f _ this, of w] show ?thesis by auto
  next
    case False
    with 2 show ?thesis by (cases "i < length ps"; cases "ps ! i") auto
  qed
qed

text \<open>One program that runs to its end is a schedule of the pool.\<close>

lemma run_sched:
  "run (ps ! i) w = (r, w') \<Longrightarrow> i < length ps \<Longrightarrow> \<exists>tr. sched R ps w tr (ps[i := Done r]) w'"
proof (induction "ps ! i" arbitrary: ps w)
  case (Done r')
  then have "ps[i := Done r] = ps" "w' = w" by (auto simp flip: Done.hyps simp: list_update_same_conv run_Done)
  then show ?case using sched_end by metis
next
  case (Step f)
  have "run (fst (f w)) (snd (f w)) = (r, w')"
    using Step.prems(1) by (simp add: case_prod_beta flip: Step.hyps(2))
  with Step.hyps(1) [of w "ps[i := fst (f w)]" "snd (f w)"] Step.prems(2)
  obtain tr where "sched R (ps[i := fst (f w)]) (snd (f w)) tr (ps[i := Done r]) w'" by auto
  from sched_own [OF Step.prems(2) Step.hyps(2) [symmetric] _ this, of w] show ?case by auto
qed

lemma sched_append:
  "sched R ps w tr qs v \<Longrightarrow> sched R qs v us rs w' \<Longrightarrow> sched R ps w (tr @ us) rs w'"
  by (induction rule: sched.induct) (auto intro: sched.intros)

end
