(* ===== verification/Sync_Steps.thy ===== *)
theory Sync_Steps
  imports Interleave Sync_Service
begin

text \<open>
  The handlers of the sync API (\<^verbatim>\<open>src/src/api.rs\<close>) as programs of single transactions, clock
  readings and draws, in the order of the source. Each is the handler of \<open>Api_Sync\<close> cut at
  the points where the server may run another request: uninterrupted it is that handler, and
  each of its steps uses the outside once.
\<close>

section \<open>The gate\<close>

definition get_token_by_hash_steps :: "'j ext \<Rightarrow> string \<Rightarrow> (redb_error, 'j world, api_token option) prog" where
  "get_token_by_hash_steps E token_hash =
     seqP (atom (read_txn E id (\<lambda>d. Inr (tget (token_hash_table d) token_hash)))) (\<lambda>found.
       case found of
         None \<Rightarrow> retP None
       | Some token_id \<Rightarrow> atom (db_get_token E token_id))"

definition extract_auth_steps :: "'j ext \<Rightarrow> headers \<Rightarrow> (app_error, 'j world, api_token) prog" where
  "extract_auth_steps E headers =
     seqP (Done (bearer_or_basic E (header headers ''authorization''))) (\<lambda>token.
     seqP (errP (\<lambda>e. Internal (''Token lookup error: '' @ redb_text e))
         (get_token_by_hash_steps E (hash_api_token E token))) (\<lambda>found.
     ok_orP (Unauthorized ''Invalid token'') found))"

definition token_expired_steps :: "'j ext \<Rightarrow> api_token \<Rightarrow> ('e, 'j world, bool) prog" where
  "token_expired_steps E token = (case Option.bind (tok_expires_at token) (parse_rfc3339 E) of
       None \<Rightarrow> retP False
     | Some expires_at \<Rightarrow> seqP (atom (utc_now E)) (\<lambda>now. retP (expires_at \<le> now)))"

definition ensure_token_active_steps :: "'j ext \<Rightarrow> api_token \<Rightarrow> (app_error, 'j world, unit) prog" where
  "ensure_token_active_steps E token =
     (if \<not> tok_enabled token then throwP (Unauthorized ''Token is disabled'')
      else seqP (token_expired_steps E token) (\<lambda>expired.
        if expired then throwP (Unauthorized ''Token has expired'') else retP ()))"

definition ensure_namespace_active_steps :: "'j ext \<Rightarrow> string \<Rightarrow> (app_error, 'j world, unit) prog" where
  "ensure_namespace_active_steps E namespace =
     seqP (errP app_of_redb (atom (db_is_namespace_deleted E namespace))) (\<lambda>deleted.
     whenP deleted (throwP (Not_Found (''Namespace '' @ quoted namespace @ '' is soft-deleted''))))"

definition authorize_steps ::
  "'j ext \<Rightarrow> app_state \<Rightarrow> headers \<Rightarrow> string \<Rightarrow> sync_permission \<Rightarrow> string
     \<Rightarrow> (app_error, 'j world, api_token) prog" where
  "authorize_steps E st headers namespace permission peer_ip =
     seqP (ensure_namespace_active_steps E namespace) (\<lambda>_.
     seqP (extract_auth_steps E headers) (\<lambda>token.
     handleP (ensure_token_active_steps E token)
       (\<lambda>error. seqP (atom (record_token_failure E (tok_id token))) (\<lambda>_. throwP error))
       (\<lambda>_.
         if \<not> namespace_matches namespace (tok_namespace_pattern token)
         then seqP (atom (record_token_failure E (tok_id token))) (\<lambda>_.
           throwP (Forbidden (''Token not authorized for namespace '' @ quoted namespace)))
         else if \<not> permissions_allow (tok_permissions token) (as_str permission)
         then seqP (atom (record_token_failure E (tok_id token))) (\<lambda>_.
           throwP (Forbidden (''Token is missing '' @ quoted (as_str permission) @ '' permission'')))
         else
           seqP (atom (utc_now E)) (\<lambda>now.
           seqP (whenP (token_usage_update_due E token now (token_usage_write_interval_seconds st))
             (errP (\<lambda>e. Internal (''Failed to update token audit info: '' @ redb_text e))
               (atom (db_record_token_usage E (tok_id token) namespace (as_str permission)
                  (resolve_sync_client_ip E st headers peer_ip) (sync_client_version headers)
                  (to_rfc3339 E now))))) (\<lambda>_.
           retP token)))))"

section \<open>Helpers\<close>

definition ensure_disk_capacity_steps :: "'j ext \<Rightarrow> app_state \<Rightarrow> u64 \<Rightarrow> (app_error, 'j world, unit) prog" where
  "ensure_disk_capacity_steps E st incoming_bytes =
     (if min_free_disk_bytes st = 0 then retP () else atom (ensure_disk_capacity E st incoming_bytes))"

definition record_conflict_steps ::
  "'j ext \<Rightarrow> app_state \<Rightarrow> conflict_observation \<Rightarrow> conditional_write_error \<Rightarrow> (app_error, 'j world, unit) prog" where
  "record_conflict_steps E st observation error =
     (if max_sync_conflict_records st = 0 then retP ()
      else case error of
        Cond_Conflict remote_revision remote_etag msg \<Rightarrow>
          seqP (atom (new_uuid E)) (\<lambda>i.
          seqP (atom (now_rfc3339 E)) (\<lambda>now.
          errP (\<lambda>e. Internal (''Failed to record sync conflict: '' @ redb_text e))
            (atom (db_add_sync_conflict E \<lparr>sc_id = i, sc_occurred_at = now,
               sc_namespace = co_namespace observation, sc_operation = co_operation observation,
               sc_object_path = co_object_path observation, sc_device_id = co_device_id observation,
               sc_requested_revision = co_requested_revision observation,
               sc_requested_etag = co_requested_etag observation,
               sc_remote_revision = remote_revision, sc_remote_etag = remote_etag,
               sc_message = msg\<rparr> (max_sync_conflict_records st)))))
      | _ \<Rightarrow> retP ())"

definition encrypt_steps :: "'j ext \<Rightarrow> app_state \<Rightarrow> bytes \<Rightarrow> (app_error, 'j world, bytes) prog" where
  "encrypt_steps E st data = (case encryption_key st of
       Some key \<Rightarrow> errP Internal (atom (encrypt E key data))
     | None \<Rightarrow> retP data)"

definition refresh_namespace_usage_steps ::
  "'j ext \<Rightarrow> string \<Rightarrow> string \<Rightarrow> bool \<Rightarrow> (redb_error, 'j world, namespace_usage_record) prog" where
  "refresh_namespace_usage_steps E namespace observed_at soft_deleted =
     seqP (atom (db_blob_size E namespace)) (\<lambda>blob_bytes.
     seqP (atom (db_namespace_object_stats E namespace)) (\<lambda>(object_count, object_bytes, _).
     seqP (atom (db_get_namespace_usage E namespace)) (\<lambda>previous.
     atom (write_txn E id (set_namespace_usage_tx E namespace
       (usage_of namespace observed_at soft_deleted blob_bytes object_count object_bytes previous))))))"

definition refresh_usage_steps :: "'j ext \<Rightarrow> app_state \<Rightarrow> string \<Rightarrow> string \<Rightarrow> (app_error, 'j world, unit) prog" where
  "refresh_usage_steps E st namespace now =
     (let refresh = seqP (refresh_namespace_usage_steps E namespace now False) (\<lambda>u. retP (Some u)) in
     seqP (errP app_of_redb (if usage_refresh_interval_seconds st > 0
         then seqP (atom (db_get_namespace_usage E namespace)) (\<lambda>usage.
           if usage_refresh_due E usage now (usage_refresh_interval_seconds st) then refresh else retP None)
         else refresh)) (\<lambda>_. retP ()))"

section \<open>The handlers\<close>

definition get_metadata_steps ::
  "'j ext \<Rightarrow> app_state \<Rightarrow> string \<Rightarrow> string \<Rightarrow> headers \<Rightarrow> (app_error, 'j world, sync_metadata) prog" where
  "get_metadata_steps E st raw_namespace peer_ip headers =
     seqP (Done (decode_namespace E raw_namespace)) (\<lambda>namespace.
     seqP (authorize_steps E st headers namespace Read peer_ip) (\<lambda>_.
     seqP (errP app_of_redb (atom (db_get_metadata E namespace))) (\<lambda>row.
     case row of
       Some data \<Rightarrow> Done (map_sum app_of_serde id (from_slice (c_metadata E) data))
     | None \<Rightarrow> retP empty_metadata)))"

definition put_metadata_steps ::
  "'j ext \<Rightarrow> app_state \<Rightarrow> string \<Rightarrow> string \<Rightarrow> headers \<Rightarrow> metadata_write_request
     \<Rightarrow> (app_error, 'j world, write_response) prog" where
  "put_metadata_steps E st raw_namespace peer_ip headers body =
     seqP (Done (decode_namespace E raw_namespace)) (\<lambda>namespace.
     seqP (authorize_steps E st headers namespace Write peer_ip) (\<lambda>_.
     seqP (ensure_disk_capacity_steps E st (256 * 1024)) (\<lambda>_.
     seqP (atom (stored_metadata E namespace)) (\<lambda>existing.
     seqP (atom (new_uuid E)) (\<lambda>etag.
     seqP (atom (now_rfc3339 E)) (\<lambda>now.
     let meta = metadata_of_write st body existing etag now in
     seqP (Done (map_sum app_of_serde id (to_vec (c_metadata E) meta))) (\<lambda>serialized.
     seqP (errP app_of_redb (atom (db_set_metadata E namespace serialized))) (\<lambda>_.
     seqP (refresh_usage_steps E st namespace now) (\<lambda>_.
     retP \<lparr>wr_ok = True, wr_revision = Some (mw_revision body), wr_etag = Some etag,
          wr_section_revisions = meta_section_revisions meta, wr_error = None\<rparr>)))))))))"

definition get_blob_steps ::
  "'j ext \<Rightarrow> app_state \<Rightarrow> string \<Rightarrow> string \<Rightarrow> headers \<Rightarrow> (app_error, 'j world, headers \<times> bytes) prog" where
  "get_blob_steps E st raw_namespace peer_ip headers =
     seqP (Done (decode_namespace E raw_namespace)) (\<lambda>namespace.
     seqP (authorize_steps E st headers namespace Read peer_ip) (\<lambda>_.
     seqP (errP app_of_redb (atom (db_get_blob E namespace))) (\<lambda>row.
     seqP (ok_orP (Not_Found ''No blob found'') row) (\<lambda>encrypted_blob.
     seqP (Done (decrypt_if_needed E st encrypted_blob)) (\<lambda>blob.
     seqP (atom (stored_metadata E namespace)) (\<lambda>meta.
     retP ((''content-type'', oxide_type) # etag_header (Option.bind meta meta_etag), blob)))))))"

definition put_blob_steps ::
  "'j ext \<Rightarrow> app_state \<Rightarrow> string \<Rightarrow> string \<Rightarrow> headers \<Rightarrow> bytes \<Rightarrow> (app_error, 'j world, write_response) prog" where
  "put_blob_steps E st raw_namespace peer_ip headers body =
     seqP (Done (decode_namespace E raw_namespace)) (\<lambda>namespace.
     seqP (authorize_steps E st headers namespace Write peer_ip) (\<lambda>_.
     seqP (whenP (length body > max_blob_size st) (throwP (Payload_Too_Large (''Blob size ''
         @ show_nat (length body) @ '' exceeds limit '' @ show_nat (max_blob_size st))))) (\<lambda>_.
     seqP (ensure_disk_capacity_steps E st (of_nat (length body))) (\<lambda>_.
     seqP (atom (stored_metadata E namespace)) (\<lambda>existing_meta.
     let if_match = header headers ''if-match'';
         if_none_match = header headers ''if-none-match'';
         revision = header headers ''x-oxideterm-revision'';
         device_id = header headers ''x-oxideterm-device-id'' in
     seqP (encrypt_steps E st body) (\<lambda>encrypted.
     seqP (atom (new_uuid E)) (\<lambda>new_etag.
     seqP (atom (now_rfc3339 E)) (\<lambda>now.
     let meta = metadata_of_blob E st headers body existing_meta new_etag now in
     seqP (Done (map_sum app_of_serde id (to_vec (c_metadata E) meta))) (\<lambda>serialized_meta.
     handleP (atom (db_put_blob_if_matches E namespace if_match (if_none_match = Some ''*'')
         encrypted serialized_meta))
       (\<lambda>error.
         seqP (record_conflict_steps E st
             \<lparr>co_namespace = namespace, co_operation = ''blob'', co_object_path = None,
              co_device_id = device_id, co_requested_revision = revision,
              co_requested_etag = request_etag_for_conflict if_match if_none_match\<rparr> error) (\<lambda>_.
         throwP (map_conditional_write_error error)))
       (\<lambda>_.
         seqP (atom (now_rfc3339 E)) (\<lambda>observed_at.
         seqP (refresh_usage_steps E st namespace observed_at) (\<lambda>_.
         retP \<lparr>wr_ok = True, wr_revision = revision, wr_etag = Some new_etag,
              wr_section_revisions = meta_section_revisions meta, wr_error = None\<rparr>))))))))))))"

definition list_objects_steps ::
  "'j ext \<Rightarrow> app_state \<Rightarrow> string \<Rightarrow> string \<Rightarrow> object_list_query \<Rightarrow> headers \<Rightarrow> (app_error, 'j world, json) prog" where
  "list_objects_steps E st raw_namespace peer_ip query headers =
     seqP (Done (decode_namespace E raw_namespace)) (\<lambda>namespace.
     seqP (authorize_steps E st headers namespace Read peer_ip) (\<lambda>_.
     seqP (whenP (\<not> list_query_ok query) (throwP (Bad_Request ''Invalid object listing parameters''))) (\<lambda>_.
     let limit = opt_get 256 (q_limit query) in
     seqP (errP app_of_redb (atom (db_list_object_paths E namespace (q_prefix query) (q_cursor query) (limit + 1)))) (\<lambda>found.
     case page_of limit found of (paths, next_cursor) \<Rightarrow>
     retP (JObj [(''objects'', JArr (map (\<lambda>path. JObj [(''path'', JStr path)]) paths)),
                (''nextCursor'', json_opt_str next_cursor)])))))"

definition delete_object_steps ::
  "'j ext \<Rightarrow> app_state \<Rightarrow> string \<Rightarrow> string \<Rightarrow> string \<Rightarrow> headers \<Rightarrow> (app_error, 'j world, nat) prog" where
  "delete_object_steps E st raw_namespace raw_path peer_ip headers =
     seqP (Done (decode_namespace E raw_namespace)) (\<lambda>namespace.
     seqP (authorize_steps E st headers namespace Write peer_ip) (\<lambda>_.
     seqP (Done (decode_object_path E raw_path)) (\<lambda>decoded_path.
     seqP (errP app_of_redb (atom (db_delete_object E namespace decoded_path))) (\<lambda>deleted.
     seqP (whenP deleted (seqP (atom (now_rfc3339 E)) (refresh_usage_steps E st namespace))) (\<lambda>_.
     retP 204)))))"

definition get_object_steps ::
  "'j ext \<Rightarrow> app_state \<Rightarrow> string \<Rightarrow> string \<Rightarrow> string \<Rightarrow> headers
     \<Rightarrow> (app_error, 'j world, nat \<times> headers \<times> bytes) prog" where
  "get_object_steps E st raw_namespace raw_path peer_ip headers =
     seqP (Done (decode_namespace E raw_namespace)) (\<lambda>namespace.
     seqP (authorize_steps E st headers namespace Read peer_ip) (\<lambda>_.
     seqP (Done (decode_object_path E raw_path)) (\<lambda>decoded_path.
     seqP (errP app_of_redb (atom (db_get_object E namespace decoded_path))) (\<lambda>row.
     case row of
       Some encrypted \<Rightarrow>
         seqP (Done (decrypt_if_needed E st encrypted)) (\<lambda>data.
         seqP (errP app_of_redb (atom (db_get_object_metadata E namespace decoded_path))) (\<lambda>object_meta.
         retP (200, (''content-type'', object_content_type decoded_path)
                # etag_header (map_option om_etag object_meta), data)))
     | None \<Rightarrow> retP (404, [], [])))))"

definition put_object_steps ::
  "'j ext \<Rightarrow> app_state \<Rightarrow> string \<Rightarrow> string \<Rightarrow> string \<Rightarrow> headers \<Rightarrow> bytes
     \<Rightarrow> (app_error, 'j world, object_write_response) prog" where
  "put_object_steps E st raw_namespace raw_path peer_ip headers body =
     seqP (Done (decode_namespace E raw_namespace)) (\<lambda>namespace.
     seqP (authorize_steps E st headers namespace Write peer_ip) (\<lambda>_.
     seqP (Done (decode_object_path E raw_path)) (\<lambda>decoded_path.
     seqP (whenP (length body > max_object_size st) (throwP (Payload_Too_Large (''Object size ''
         @ show_nat (length body) @ '' exceeds limit '' @ show_nat (max_object_size st))))) (\<lambda>_.
     seqP (ensure_disk_capacity_steps E st (of_nat (length body))) (\<lambda>_.
     seqP (encrypt_steps E st body) (\<lambda>encrypted.
     seqP (atom (new_uuid E)) (\<lambda>etag.
     seqP (atom (now_rfc3339 E)) (\<lambda>now.
     let if_match = header headers ''if-match'';
         if_none_match = header headers ''if-none-match'' in
     handleP (atom (db_put_object_if_matches E namespace decoded_path if_match
         (if_none_match = Some ''*'') encrypted \<lparr>om_etag = etag, om_updated_at = now\<rparr>))
       (\<lambda>error.
         seqP (record_conflict_steps E st
             \<lparr>co_namespace = namespace, co_operation = ''object'', co_object_path = Some decoded_path,
              co_device_id = header headers ''x-oxideterm-device-id'',
              co_requested_revision = header headers ''x-oxideterm-revision'',
              co_requested_etag = request_etag_for_conflict if_match if_none_match\<rparr> error) (\<lambda>_.
         throwP (map_conditional_write_error error)))
       (\<lambda>_.
         seqP (atom (now_rfc3339 E)) (\<lambda>observed_at.
         seqP (refresh_usage_steps E st namespace observed_at) (\<lambda>_.
         retP \<lparr>owr_etag = Some etag\<rparr>)))))))))))"

section \<open>The service\<close>

definition fmapP :: "('a \<Rightarrow> 'b) \<Rightarrow> ('e, 'w, 'a) prog \<Rightarrow> ('e, 'w, 'b) prog" where
  "fmapP f p = seqP p (\<lambda>x. retP (f x))"

fun serve_steps ::
  "'j ext \<Rightarrow> app_state \<Rightarrow> string \<times> string \<times> headers \<times> sync_request
     \<Rightarrow> (app_error, 'j world, sync_response) prog" where
  "serve_steps E st (ns, ip, hs, Get_Metadata) = fmapP Re_Metadata (get_metadata_steps E st ns ip hs)"
| "serve_steps E st (ns, ip, hs, Put_Metadata body) = fmapP Re_Write (put_metadata_steps E st ns ip hs body)"
| "serve_steps E st (ns, ip, hs, Get_Blob) = fmapP (\<lambda>(h, b). Re_Blob h b) (get_blob_steps E st ns ip hs)"
| "serve_steps E st (ns, ip, hs, Put_Blob body) = fmapP Re_Write (put_blob_steps E st ns ip hs body)"
| "serve_steps E st (ns, ip, hs, List_Objects q) = fmapP Re_List (list_objects_steps E st ns ip q hs)"
| "serve_steps E st (ns, ip, hs, Get_Object path) = fmapP (\<lambda>(s, h, b). Re_Object s h b) (get_object_steps E st ns path ip hs)"
| "serve_steps E st (ns, ip, hs, Put_Object path body) = fmapP Re_Object_Write (put_object_steps E st ns path ip hs body)"
| "serve_steps E st (ns, ip, hs, Delete_Object path) = fmapP Re_Status (delete_object_steps E st ns path ip hs)"

section \<open>Uninterrupted, they are the handlers\<close>

lemmas run_congs = if_cong option.case_cong prod.case_cong conditional_write_error.case_cong

lemma run_option [run_alone]: "run (case x of None \<Rightarrow> p | Some y \<Rightarrow> q y) = (case x of None \<Rightarrow> run p | Some y \<Rightarrow> run (q y))"
  by (simp split: option.split)

lemma run_prod [run_alone]: "run (case x of (a, b) \<Rightarrow> p a b) = (case x of (a, b) \<Rightarrow> run (p a b))"
  by (simp split: prod.split)

lemma run_get_token_by_hash [run_alone]: "run (get_token_by_hash_steps E h) = db_get_token_by_hash E h"
  by (simp add: get_token_by_hash_steps_def db_get_token_by_hash_def run_alone cong: run_congs)

lemma run_extract_auth [run_alone]: "run (extract_auth_steps E hs) = extract_auth E hs"
  by (simp add: extract_auth_steps_def extract_auth_def run_alone cong: run_congs)

lemma run_token_expired [run_alone]: "run (token_expired_steps E t) = token_expired E t"
  by (simp add: token_expired_steps_def token_expired_def run_alone cong: run_congs)

lemma run_ensure_token_active [run_alone]: "run (ensure_token_active_steps E t) = ensure_token_active E t"
  by (simp add: ensure_token_active_steps_def ensure_token_active_def run_alone cong: run_congs)

lemma run_ensure_namespace_active [run_alone]: "run (ensure_namespace_active_steps E ns) = ensure_namespace_active E ns"
  by (simp add: ensure_namespace_active_steps_def ensure_namespace_active_def run_alone cong: run_congs)

lemma run_authorize [run_alone]:
  "run (authorize_steps E st hs ns p ip) = authorize_sync_request_with_permission E st hs ns p ip"
  by (simp add: authorize_steps_def authorize_sync_request_with_permission_def run_alone cong: run_congs)

lemma run_ensure_disk_capacity [run_alone]: "run (ensure_disk_capacity_steps E st n) = ensure_disk_capacity E st n"
  by (simp add: ensure_disk_capacity_steps_def ensure_disk_capacity_def run_alone cong: run_congs)

lemma run_record_conflict [run_alone]:
  "run (record_conflict_steps E st ob e) = record_conditional_write_conflict E st ob e"
  by (simp add: record_conflict_steps_def record_conditional_write_conflict_def run_alone cong: run_congs
      split: conditional_write_error.split)

lemma run_encrypt [run_alone]: "run (encrypt_steps E st data) = encrypt_if_needed E st data"
  by (simp add: encrypt_steps_def encrypt_if_needed_def run_alone cong: run_congs)

lemma run_refresh_namespace_usage [run_alone]:
  "run (refresh_namespace_usage_steps E ns now del) = db_refresh_namespace_usage E ns now del"
  by (simp add: refresh_namespace_usage_steps_def db_refresh_namespace_usage_def run_alone cong: run_congs)

lemma run_refresh_usage [run_alone]: "run (refresh_usage_steps E st ns now) = refresh_usage E st ns now"
  by (simp add: refresh_usage_steps_def refresh_usage_def db_refresh_namespace_usage_if_stale_def Let_def
      run_alone cong: run_congs)

lemma run_handlers [run_alone]:
  "run (get_metadata_steps E st rns ip hs) = get_metadata E st rns ip hs"
  "run (put_metadata_steps E st rns ip hs mw) = put_metadata E st rns ip hs mw"
  "run (get_blob_steps E st rns ip hs) = get_blob E st rns ip hs"
  "run (put_blob_steps E st rns ip hs body) = put_blob E st rns ip hs body"
  "run (list_objects_steps E st rns ip q hs) = list_objects E st rns ip q hs"
  "run (delete_object_steps E st rns rp ip hs) = delete_object E st rns rp ip hs"
  "run (get_object_steps E st rns rp ip hs) = get_object E st rns rp ip hs"
  "run (put_object_steps E st rns rp ip hs body) = put_object E st rns rp ip hs body"
  by (simp_all add: get_metadata_steps_def get_metadata_def put_metadata_steps_def put_metadata_def
      get_blob_steps_def get_blob_def put_blob_steps_def put_blob_def list_objects_steps_def
      list_objects_def list_page_def bindE_assoc delete_object_steps_def delete_object_def
      get_object_steps_def get_object_def put_object_steps_def put_object_def Let_def run_alone cong: run_congs)

lemma run_serve: "run (serve_steps E st (rns, ip, hs, rq)) = serve E st rns ip hs rq"
  by (cases rq) (auto simp: fmapP_def fmap_def run_alone cong: run_congs)

end
