(* ===== verification/Sync_Races.thy ===== *)
theory Sync_Races
  imports Sync_Steps Abstract_Store
begin

text \<open>
  What the programs of the sync API do when they are interleaved: a contract for all their
  steps at once, as a locale over the single writes, and the instant at which a request that
  succeeded took effect.
\<close>

section \<open>The steps of the sync API\<close>

text \<open>
  A guarantee \<open>G\<close> of the steps, given that it holds of a use of the outside that writes
  nothing, and of each write: of content in the namespaces of \<open>N\<close> with ETags in \<open>F\<close>, of
  usage in those of \<open>V\<close>, and of the audit and conflict tables. Drawn ETags are in \<open>F\<close>.
\<close>

abbreviation written :: "'j world \<Rightarrow> 'j db \<Rightarrow> 'j world" where
  "written w d \<equiv> w\<lparr>db := d, tick := Suc (tick w)\<rparr>"

locale sync_atoms =
  fixes E :: "'j ext" and P :: "'j world \<Rightarrow> bool" and G :: "'j world \<Rightarrow> 'j world \<Rightarrow> bool"
    and N V :: "string \<Rightarrow> bool" and F :: "string \<Rightarrow> bool"
  assumes idle: "P w \<Longrightarrow> G w (w\<lparr>tick := Suc (tick w)\<rparr>)"
    and fresh: "P w \<Longrightarrow> F (uuid_v4 E (tick w))"
    and write_metadata: "P w \<Longrightarrow> N ns \<Longrightarrow> to_vec (c_metadata E) m = Inr v \<Longrightarrow> meta_etag m = Some etag \<Longrightarrow> F etag \<Longrightarrow>
      G w (written w ((db w)\<lparr>metadata_table := tput (metadata_key ns) v (metadata_table (db w))\<rparr>))"
    and write_blob: "P w \<Longrightarrow> N ns \<Longrightarrow> to_vec (c_metadata E) m = Inr v \<Longrightarrow> meta_etag m = Some etag \<Longrightarrow> F etag \<Longrightarrow>
      put_blob_tx E ns x a blob v (db w) = Inr (u, d) \<Longrightarrow> G w (written w d)"
    and write_object: "P w \<Longrightarrow> N ns \<Longrightarrow> F (om_etag om) \<Longrightarrow> put_object_tx E ns path x a data om (db w) = Inr (u, d) \<Longrightarrow>
      G w (written w d)"
    and remove_object: "P w \<Longrightarrow> N ns \<Longrightarrow> G w (written w (snd (delete_object_tx ns path (db w))))"
    and write_usage: "P w \<Longrightarrow> V (us_namespace us) \<Longrightarrow> set_namespace_usage_tx E (us_namespace us) us (db w) = Inr (r, d) \<Longrightarrow>
      G w (written w d)"
    and write_conflict: "P w \<Longrightarrow> add_sync_conflict_tx E c n (db w) = Inr (u, d) \<Longrightarrow> G w (written w d)"
    and write_token_usage: "P w \<Longrightarrow> record_token_usage_tx E i ns p ip cv now (db w) = Inr (u, d) \<Longrightarrow> G w (written w d)"
    and write_token_failure: "P w \<Longrightarrow> record_token_failure_tx E i (db w) = Inr (u, d) \<Longrightarrow> G w (written w d)"
begin

lemma sample_in: "every P G (atom (sample f))"
  by (rule every_atom) (simp add: sample_def idle)

lemma outside_in: "every P G (atom (utc_now E))" "every P G (atom (now_rfc3339 E))" "every P G (atom (new_uuid E))"
  by (simp_all add: outside_defs sample_in)

lemma read_in: "every P G (atom (read_txn E conv f))"
  by (rule every_atom) (simp add: read_txn_def idle split: option.split)

lemma write_in:
  "(\<And>w u d. P w \<Longrightarrow> f (db w) = Inr (u, d) \<Longrightarrow> G w (written w d)) \<Longrightarrow> every P G (atom (write_txn E conv f))"
  by (rule every_atom) (auto simp: write_txn_def idle split: option.split sum.split)

lemma reads_in:
  "every P G (atom (db_get_metadata E ns))" "every P G (atom (db_get_blob E ns))"
  "every P G (atom (db_list_object_paths E ns p q n))" "every P G (atom (db_get_object E ns path))"
  "every P G (atom (db_get_object_metadata E ns path))" "every P G (atom (db_blob_size E ns))"
  "every P G (atom (db_namespace_object_stats E ns))" "every P G (atom (db_get_namespace_usage E ns))"
  "every P G (atom (db_is_namespace_deleted E ns))" "every P G (atom (db_get_token E i))"
  by (simp_all add: db_get_metadata_def db_get_blob_def db_list_object_paths_def db_get_object_def
      db_get_object_metadata_def db_blob_size_def db_namespace_object_stats_def
      db_get_namespace_usage_def db_is_namespace_deleted_def db_get_token_def read_in)

lemma stored_metadata_in: "every P G (atom (stored_metadata E ns))"
  by (rule every_atom) (simp add: stored_metadata_def db_get_metadata_def bindE_def map_err_def read_txn_def idle
      split: option.split)

lemma encrypt_in: "every P G (atom (encrypt E key data))"
  by (rule every_atom) (simp add: encrypt_def bindE_def sample_def map_err_def idle split: sum.split)

lemma token_writes_in:
  "every P G (atom (record_token_failure E i))"
  "every P G (atom (db_record_token_usage E i ns p ip cv now))"
proof -
  have "every P G (atom (db_record_token_failure E i))"
    unfolding db_record_token_failure_def by (rule write_in) (rule write_token_failure)
  then show "every P G (atom (record_token_failure E i))"
    by (auto simp: record_token_failure_def atom_def guar_simps map_err_def split: prod.splits sum.splits)
qed (unfold db_record_token_usage_def, rule write_in, rule write_token_usage)

lemma conflict_in: "every P G (atom (db_add_sync_conflict E c n))"
  unfolding db_add_sync_conflict_def by (rule write_in) (rule write_conflict)

lemma disk_in: "every P G (ensure_disk_capacity_steps E st n)"
proof (cases "min_free_disk_bytes st = 0")
  case False
  then show ?thesis
    unfolding ensure_disk_capacity_steps_def
    by (auto intro!: every_atom simp: ensure_disk_capacity_def bindE_def sample_def Let_def idle split: option.split)
qed (simp add: ensure_disk_capacity_steps_def every_retP)

lemmas atoms_in = outside_in reads_in stored_metadata_in encrypt_in token_writes_in conflict_in disk_in every_rules

lemma authorize_in: "every P G (authorize_steps E st hs ns p ip)"
  unfolding authorize_steps_def extract_auth_steps_def get_token_by_hash_steps_def
    ensure_namespace_active_steps_def ensure_token_active_steps_def token_expired_steps_def
  by (auto intro!: atoms_in read_in split: option.split)

lemma record_conflict_in: "every P G (record_conflict_steps E st ob e)"
  unfolding record_conflict_steps_def by (auto intro!: atoms_in split: conditional_write_error.split)

lemma encrypt_steps_in: "every P G (encrypt_steps E st data)"
  unfolding encrypt_steps_def by (auto intro!: atoms_in split: option.split)

lemma refresh_usage_in:
  assumes "V ns"
  shows "every P G (refresh_usage_steps E st ns now)"
proof -
  have "every P G (atom (write_txn E id (set_namespace_usage_tx E ns (usage_of ns now' del b c n prev))))" for now' del b c n prev
    by (rule write_in) (use write_usage [of _ "usage_of ns now' del b c n prev"] assms in simp)
  then show ?thesis
    unfolding refresh_usage_steps_def refresh_namespace_usage_steps_def Let_def
    by (auto intro!: atoms_in split: prod.split)
qed

lemmas parts_in = authorize_in record_conflict_in encrypt_steps_in refresh_usage_in atoms_in

text \<open>An ETag that is drawn goes into the program that follows.\<close>

lemma seq_uuid_in: "(\<And>x. F x \<Longrightarrow> every P G (f x)) \<Longrightarrow> every P G (seqP (atom (new_uuid E)) f)"
  by (rule guar_seqP [where R = "\<lambda>r. \<forall>x. r = Inr x \<longrightarrow> F x"])
    (auto intro!: guar_atom simp: new_uuid_def sample_def idle fresh)

lemma serialized_in:
  "(\<And>v. to_vec (c_metadata E) m = Inr v \<Longrightarrow> every P G (f v)) \<Longrightarrow>
     every P G (seqP (Done (map_sum app_of_serde id (to_vec (c_metadata E) m))) f)"
  by (rule every_seq_lift) (simp add: map_sum_Inr_iff)

lemma put_blob_in:
  assumes "\<And>ns. decode_namespace E rns = Inr ns \<Longrightarrow> N ns \<and> V ns"
  shows "every P G (put_blob_steps E st rns ip hs body)"
proof -
  have put: "every P G (atom (db_put_blob_if_matches E ns x a blob v))"
    if "F etag" "to_vec (c_metadata E) (metadata_of_blob E st hs body ex etag now) = Inr v" "N ns"
    for ns x a blob v ex etag now
    unfolding db_put_blob_if_matches_def
    by (rule write_in, erule write_blob [OF _ that(3,2) _ that(1)]) (simp add: metadata_of_blob_def)
  show ?thesis
    unfolding put_blob_steps_def Let_def
    by (rule every_seq_lift)
      ((rule serialized_in | rule seq_uuid_in | rule every_seqP, (intro parts_in)[1])+,
       rule every_handleP, auto dest: assms intro: put intro!: parts_in)
qed

lemma put_metadata_in:
  assumes "\<And>ns. decode_namespace E rns = Inr ns \<Longrightarrow> N ns \<and> V ns"
  shows "every P G (put_metadata_steps E st rns ip hs body)"
proof -
  have put: "every P G (atom (db_set_metadata E ns v))"
    if "F etag" "to_vec (c_metadata E) (metadata_of_write st body ex etag now) = Inr v" "N ns" for ns v ex etag now
    unfolding db_set_metadata_def
    by (rule write_in) (use write_metadata [OF _ that(3,2) _ that(1)] in \<open>auto simp: metadata_of_write_def\<close>)
  show ?thesis
    unfolding put_metadata_steps_def Let_def
    by (rule every_seq_lift)
      ((rule serialized_in | rule seq_uuid_in | rule every_seqP, (intro parts_in)[1])+,
       auto dest: assms intro: put intro!: parts_in)
qed

lemma put_object_in:
  assumes "\<And>ns. decode_namespace E rns = Inr ns \<Longrightarrow> N ns \<and> V ns"
  shows "every P G (put_object_steps E st rns rp ip hs body)"
proof -
  have put: "every P G (atom (db_put_object_if_matches E ns path x a data \<lparr>om_etag = etag, om_updated_at = now\<rparr>))"
    if "F etag" "N ns" for ns path x a data etag now
    unfolding db_put_object_if_matches_def
    by (rule write_in) (use write_object [OF _ that(2), of _ "\<lparr>om_etag = etag, om_updated_at = now\<rparr>"] that(1) in simp)
  show ?thesis
    unfolding put_object_steps_def Let_def
    by (rule every_seq_lift)
      ((rule seq_uuid_in | rule every_seqP, (intro parts_in)[1])+,
       rule every_handleP, auto dest: assms intro: put intro!: parts_in)
qed

lemma delete_object_in:
  assumes "\<And>ns. decode_namespace E rns = Inr ns \<Longrightarrow> N ns \<and> V ns"
  shows "every P G (delete_object_steps E st rns rp ip hs)"
proof -
  have del: "every P G (atom (db_delete_object E ns path))" if "N ns" for ns path
    unfolding db_delete_object_def by (rule write_in) (metis remove_object [OF _ that] snd_conv sum.inject(2))
  show ?thesis
    unfolding delete_object_steps_def
    by (rule every_seq_lift) (auto dest: assms intro!: del parts_in)
qed

lemma readers_in:
  "every P G (get_metadata_steps E st rns ip hs)" "every P G (get_blob_steps E st rns ip hs)"
  "every P G (list_objects_steps E st rns ip q hs)" "every P G (get_object_steps E st rns rp ip hs)"
  unfolding get_metadata_steps_def get_blob_steps_def list_objects_steps_def get_object_steps_def Let_def
  by (auto intro!: parts_in split: option.split prod.split)

lemma serve_in:
  assumes "\<And>ns. decode_namespace E (fst q) = Inr ns \<Longrightarrow> N ns \<and> V ns"
  shows "every P G (serve_steps E st q)"
proof -
  obtain rns ip hs rq where q: "q = (rns, ip, hs, rq)" by (cases q)
  show ?thesis
    using assms
    by (cases rq) (auto simp: q fmapP_def intro!: every_seqP every_retP readers_in put_blob_in put_metadata_in
        put_object_in delete_object_in split: prod.split)
qed

end

section \<open>Instances of the contract\<close>

text \<open>Every step is one use of the outside: nothing smaller than a transaction is a step.\<close>

definition once :: "'j world \<Rightarrow> 'j world \<Rightarrow> bool" where
  "once w v \<longleftrightarrow> tick v = Suc (tick w)"

interpretation once: sync_atoms E "\<lambda>_. True" once "\<lambda>_. True" "\<lambda>_. True" "\<lambda>_. True" for E :: "'j ext"
  by unfold_locales (simp_all add: once_def)

text \<open>Every step moves the database as a committed transaction does, or not at all.\<close>

interpretation committed: sync_atoms E "\<lambda>_. True" "steps_of E" "\<lambda>_. True" "\<lambda>_. True" "\<lambda>_. True" for E :: "'j ext"
  by unfold_locales (auto simp: on_db_def intro: db_step.intros)

text \<open>A request writes to its own namespace only.\<close>

definition besides :: "string \<Rightarrow> string \<Rightarrow> bool" where
  "besides m ns \<longleftrightarrow> m \<noteq> ns \<and> CHR ''/'' \<notin> set ns \<and> CHR ''/'' \<notin> set m"

lemma besides_keys:
  assumes "besides m ns"
  shows "metadata_key m \<noteq> metadata_key ns" "blob_key m \<noteq> blob_key ns"
    "namespace_usage_key m \<noteq> namespace_usage_key ns" "object_key m q \<noteq> object_key ns path"
  using assms by (simp_all add: besides_def metadata_key_def blob_key_def namespace_usage_key_def object_key_inject)

lemma set_usage_tx_tables:
  "set_namespace_usage_tx E ns us d = Inr (r, d') \<Longrightarrow>
     \<exists>v. d' = d\<lparr>namespace_usage_table := tput (namespace_usage_key ns) v (namespace_usage_table d)\<rparr>"
  by (auto simp: set_namespace_usage_tx_def split: sum.splits)

lemma add_conflict_tx_tables:
  "add_sync_conflict_tx E c n d = Inr (u, d') \<Longrightarrow> \<exists>t. d' = d\<lparr>sync_conflict_table := t\<rparr>"
  by (auto simp: add_sync_conflict_tx_def Let_def split: sum.splits)

lemmas tx_tables = set_usage_tx_tables add_conflict_tx_tables record_token_usage_tables record_token_failure_tables
lemmas content_tx = put_blob_tx_ok_iff put_object_tx_ok_iff delete_object_tx_def object_meta_key_def

interpretation elsewhere: sync_atoms E "\<lambda>_. True" "on_db (view_kept m)" "besides m" "besides m" "\<lambda>_. True" for E :: "'j ext" and m
  by unfold_locales (auto simp: on_db_def view_kept_def namespace_view_def content_tx fun_eq_iff dest: besides_keys dest!: tx_tables)

text \<open>The steps that write no content: those of the gate, of the usage and of the conflict log.\<close>

interpretation quiet: sync_atoms E "\<lambda>_. True" "on_db same_content" "\<lambda>_. False" "\<lambda>_. True" "\<lambda>_. True" for E :: "'j ext"
  by unfold_locales (auto simp: on_db_def same_content_def content_def dest!: tx_tables)

section \<open>The instant of a request\<close>

text \<open>
  What a request that succeeded did at one instant. It is the step of the abstract store,
  except where the handler reads in several transactions: the metadata that an upload keeps
  parts of, and the ETag beside a payload, are those of another instant.
\<close>

fun lands ::
  "'j ext \<Rightarrow> app_state \<Rightarrow> string \<Rightarrow> headers \<Rightarrow> sync_request \<Rightarrow> sync_response \<Rightarrow> store \<Rightarrow> store \<Rightarrow> bool" where
  "lands E st ns hs (Put_Metadata body) re s s' \<longleftrightarrow> (\<exists>r existing etag now. re = Re_Write r \<and> wr_etag r = Some etag
     \<and> s' = s\<lparr>about := (about s)(ns \<mapsto> metadata_of_write st body existing etag now)\<rparr>)"
| "lands E st ns hs Get_Blob re s s' \<longleftrightarrow> (\<exists>h body. snapshot s ns = Some (Inr body) \<and> re = Re_Blob h body \<and> s' = s)"
| "lands E st ns hs (Put_Blob body) re s s' \<longleftrightarrow> (\<exists>r existing etag now. re = Re_Write r \<and> wr_etag r = Some etag
     \<and> precondition hs (Option.bind (about s ns) meta_etag) (opt_get False (map_option meta_exists (about s ns)))
     \<and> s' = s\<lparr>snapshot := (snapshot s)(ns \<mapsto> Inr body),
          about := (about s)(ns \<mapsto> metadata_of_blob E st hs body existing etag now)\<rparr>)"
| "lands E st ns hs (Get_Object raw_path) re s s' \<longleftrightarrow> (\<exists>path. decode_object_path E raw_path = Inr path
     \<and> (case entry s (ns, path) of
          None \<Rightarrow> re = Re_Object 404 [] []
        | Some (found, _) \<Rightarrow> \<exists>h body. found = Inr body \<and> re = Re_Object 200 h body) \<and> s' = s)"
| "lands E st ns hs rq re s s' \<longleftrightarrow> spec E st ns hs rq re s s'"

fun effect_of ::
  "'j ext \<Rightarrow> app_state \<Rightarrow> string \<times> string \<times> headers \<times> sync_request \<Rightarrow> sync_response \<Rightarrow> 'j db \<Rightarrow> 'j db \<Rightarrow> bool" where
  "effect_of E st (rns, ip, hs, rq) re d d' \<longleftrightarrow>
     (\<exists>ns. decode_namespace E rns = Inr ns \<and> lands E st ns hs rq re (abs_store E st d) (abs_store E st d'))"

definition quiet_steps :: "('j world \<times> 'j world) list \<Rightarrow> bool" where
  "quiet_steps tr \<longleftrightarrow> (\<forall>(u, v) \<in> set tr. same_content (db u) (db v))"

definition one_effect :: "('j db \<Rightarrow> 'j db \<Rightarrow> bool) \<Rightarrow> ('j world \<times> 'j world) list \<Rightarrow> bool" where
  "one_effect eff tr \<longleftrightarrow> (\<exists>us u v vs. tr = us @ (u, v) # vs \<and> eff (db u) (db v) \<and> quiet_steps us \<and> quiet_steps vs)"

lemma quiet_steps_simps [simp]:
  "quiet_steps []" "quiet_steps (s # tr) \<longleftrightarrow> same_content (db (fst s)) (db (snd s)) \<and> quiet_steps tr"
  "quiet_steps (tr @ us) \<longleftrightarrow> quiet_steps tr \<and> quiet_steps us"
  by (auto simp: quiet_steps_def case_prod_beta)

lemma one_effectI:
  "eff (db u) (db v) \<Longrightarrow> quiet_steps us \<Longrightarrow> quiet_steps vs \<Longrightarrow> tr = us @ (u, v) # vs \<Longrightarrow> one_effect eff tr"
  unfolding one_effect_def by blast

lemma quiet_follows: "every (\<lambda>_. True) (on_db same_content) p \<Longrightarrow> follows p tr q \<Longrightarrow> quiet_steps tr"
  using guar_follows [of "\<lambda>_. True" "on_db same_content" "\<lambda>_. True" p tr q]
  by (auto simp: quiet_steps_def on_db_def)

lemmas quiet_parts =
  quiet.authorize_in [THEN quiet_follows] quiet.refresh_usage_in [OF TrueI, THEN quiet_follows]
  quiet.disk_in [THEN quiet_follows] quiet.encrypt_steps_in [THEN quiet_follows]

text \<open>How a program that ended well got there.\<close>

lemma follows_case_sum:
  "follows (bindP p (case_sum f g)) tr (Done r) \<longleftrightarrow>
     (\<exists>us vs e. tr = us @ vs \<and> follows p us (Done (Inl e)) \<and> follows (f e) vs (Done r)) \<or>
     (\<exists>us vs x. tr = us @ vs \<and> follows p us (Done (Inr x)) \<and> follows (g x) vs (Done r))"
  by (simp only: follows_bindP_iff split_sum_ex sum.case ex_disj_distrib)

lemma follows_seqP_ok:
  "follows (seqP p f) tr (Done (Inr y)) \<longleftrightarrow>
     (\<exists>us vs x. tr = us @ vs \<and> follows p us (Done (Inr x)) \<and> follows (f x) vs (Done (Inr y)))"
  by (simp add: seqP_def follows_case_sum throwP_def)

lemma follows_errP_ok: "follows (errP h p) tr (Done (Inr y)) \<longleftrightarrow> follows p tr (Done (Inr y))"
  by (auto simp add: errP_def follows_case_sum throwP_def retP_def)

lemma follows_handleP_ok:
  "follows (handleP p f g) tr (Done (Inr y)) \<longleftrightarrow>
     (\<exists>us vs e. tr = us @ vs \<and> follows p us (Done (Inl e)) \<and> follows (f e) vs (Done (Inr y))) \<or>
     (\<exists>us vs x. tr = us @ vs \<and> follows p us (Done (Inr x)) \<and> follows (g x) vs (Done (Inr y)))"
  by (simp add: handleP_def follows_case_sum)

lemma follows_small_ok:
  "follows (Done r) tr (Done (Inr x)) \<longleftrightarrow> tr = [] \<and> r = Inr x"
  "follows (retP x) tr (Done (Inr y)) \<longleftrightarrow> tr = [] \<and> y = x"
  "\<not> follows (throwP e) tr (Done (Inr y))"
  "follows (ok_orP e found) tr (Done (Inr y)) \<longleftrightarrow> tr = [] \<and> found = Some y"
  "follows (whenP b q) tr (Done (Inr z)) \<longleftrightarrow> (if b then follows q tr (Done (Inr z)) else tr = [])"
  by (cases found; auto simp: retP_def throwP_def ok_orP_def whenP_def)+

lemmas follows_ok = follows_seqP_ok follows_errP_ok follows_handleP_ok follows_small_ok follows_atom_iff fmapP_def

lemma encrypt_follows:
  assumes "follows (encrypt_steps E st data) tr (Done (Inr c))" "aead_ok E"
  shows "decrypt_if_needed E st c = Inr data"
proof -
  have "\<exists>w w'. encrypt_if_needed E st data w = (Inr c, w')"
    using assms(1) by (auto simp: encrypt_steps_def encrypt_if_needed_def follows_ok map_err_Inr_iff split: option.splits)
  with encrypt_if_needed_ok(2) assms(2) show ?thesis by blast
qed

text \<open>A single read or draw writes nothing.\<close>

abbreviation skip :: "'j world \<Rightarrow> 'j world" where
  "skip w \<equiv> w\<lparr>tick := Suc (tick w)\<rparr>"

lemma quiet_read: "read_txn E conv f u = (r, v) \<Longrightarrow> same_content (db u) (db v)"
  by (auto simp: read_txn_def same_content_def split: option.splits)

lemma quiet_sample: "sample f u = (r, v) \<Longrightarrow> same_content (db u) (db v)"
  by (auto simp: sample_def same_content_def)

definition drawn_in :: "'j ext \<Rightarrow> string option \<Rightarrow> ('j world \<times> 'j world) list \<Rightarrow> bool" where
  "drawn_in E etag tr \<longleftrightarrow> (\<exists>u v. (u, v) \<in> set tr \<and> etag = Some (uuid_v4 E (tick u)))"

lemma put_blob_lands:
  assumes E: "codecs_ok E" "aead_ok E" and run: "follows (put_blob_steps E st rns ip hs body) tr (Done (Inr r))"
  shows "one_effect (effect_of E st (rns, ip, hs, Put_Blob body) (Re_Write r)) tr \<and> drawn_in E (wr_etag r) tr"
proof -
  from run obtain ns t us1 us2 w3 w3' existing us4 blob w5 w6 now v u u' w8 observed us9 where
    ns: "decode_namespace E rns = Inr ns"
    and tr: "tr = us1 @ us2 @ (w3, w3') # us4 @ (w5, skip w5) # (w6, skip w6) # (u, u') # (w8, skip w8) # us9"
    and auth: "follows (authorize_steps E st hs ns Write ip) us1 (Done (Inr t))"
    and disk: "follows (ensure_disk_capacity_steps E st (of_nat (length body))) us2 (Done (Inr ()))"
    and ex: "stored_metadata E ns w3 = (Inr existing, w3')"
    and enc: "follows (encrypt_steps E st body) us4 (Done (Inr blob))"
    and v: "to_vec (c_metadata E) (metadata_of_blob E st hs body existing (uuid_v4 E (tick w5)) now) = Inr v"
    and put: "db_put_blob_if_matches E ns (header hs ''if-match'') (header hs ''if-none-match'' = Some ''*'') blob v u = (Inr (), u')"
    and fin: "follows (refresh_usage_steps E st ns observed) us9 (Done (Inr ()))"
    and r: "wr_etag r = Some (uuid_v4 E (tick w5))"
    by (clarsimp simp: put_blob_steps_def Let_def follows_ok map_sum_Inr_iff not_less outside_defs sample_ok_iff
        simp del: follows_Done split: if_splits)
  from put have c: "blob_conflict (meta_at E ns (db u)) (header hs ''if-match'') (header hs ''if-none-match'' = Some ''*'') = None"
      and d: "db u' = (db u)\<lparr>blob_table := tput (blob_key ns) blob (blob_table (db u)),
        metadata_table := tput (metadata_key ns) v (metadata_table (db u))\<rparr>"
    by (auto simp: db_put_blob_if_matches_def txn_ok_iff put_blob_tx_ok_iff meta_at_def cond_decode_Inr_iff split: option.splits)
  have "lands E st ns hs (Put_Blob body) (Re_Write r) (abs_store E st (db u)) (abs_store E st (db u'))"
    using abs_put_blob [OF E(1) encrypt_follows [OF enc E(2)] v, of "db u'" ns "db u"] c r d
    by (auto simp: abs_store_simps precondition_def blob_conflict_None_iff split: option.splits)
  then have "effect_of E st (rns, ip, hs, Put_Blob body) (Re_Write r) (db u) (db u')"
    unfolding effect_of.simps using ns by blast
  moreover have "quiet_steps (us1 @ us2 @ (w3, w3') # us4 @ [(w5, skip w5), (w6, skip w6)])" "quiet_steps ((w8, skip w8) # us9)"
    using quiet_parts(1) [OF auth] quiet_parts(3) [OF disk] quiet_parts(4) [OF enc] quiet_parts(2) [OF fin] ex
    by (auto simp: stored_metadata_ok kept.Q_refl)
  ultimately have "one_effect (effect_of E st (rns, ip, hs, Put_Blob body) (Re_Write r)) tr"
    by (rule one_effectI) (simp add: tr)
  then show ?thesis using r by (auto simp: tr drawn_in_def)
qed

lemma put_metadata_lands:
  assumes E: "codecs_ok E" and run: "follows (put_metadata_steps E st rns ip hs body) tr (Done (Inr r))"
  shows "one_effect (effect_of E st (rns, ip, hs, Put_Metadata body) (Re_Write r)) tr \<and> drawn_in E (wr_etag r) tr"
proof -
  from run obtain ns t us1 us2 w3 w3' existing w5 w6 now v u u' us9 where
    ns: "decode_namespace E rns = Inr ns"
    and tr: "tr = us1 @ us2 @ (w3, w3') # (w5, skip w5) # (w6, skip w6) # (u, u') # us9"
    and auth: "follows (authorize_steps E st hs ns Write ip) us1 (Done (Inr t))"
    and disk: "follows (ensure_disk_capacity_steps E st (256 * 1024)) us2 (Done (Inr ()))"
    and ex: "stored_metadata E ns w3 = (Inr existing, w3')"
    and v: "to_vec (c_metadata E) (metadata_of_write st body existing (uuid_v4 E (tick w5)) now) = Inr v"
    and put: "db_set_metadata E ns v u = (Inr (), u')"
    and fin: "follows (refresh_usage_steps E st ns now) us9 (Done (Inr ()))"
    and r: "wr_etag r = Some (uuid_v4 E (tick w5))"
    by (clarsimp simp: put_metadata_steps_def Let_def follows_ok map_sum_Inr_iff outside_defs sample_ok_iff
        simp del: follows_Done)
  have "effect_of E st (rns, ip, hs, Put_Metadata body) (Re_Write r) (db u) (db u')"
    using abs_put_metadata [OF E v, of "db u'" ns "db u"] put ns r by (auto simp: db_set_metadata_def txn_ok_iff)
  moreover have "quiet_steps (us1 @ us2 @ (w3, w3') # [(w5, skip w5), (w6, skip w6)])" "quiet_steps us9"
    using quiet_parts(1) [OF auth] quiet_parts(3) [OF disk] quiet_parts(2) [OF fin] ex
    by (auto simp: stored_metadata_ok kept.Q_refl)
  ultimately have "one_effect (effect_of E st (rns, ip, hs, Put_Metadata body) (Re_Write r)) tr"
    by (rule one_effectI) (simp add: tr)
  then show ?thesis using r by (auto simp: tr drawn_in_def)
qed

lemma put_object_lands:
  assumes E: "codecs_ok E" "aead_ok E" and run: "follows (put_object_steps E st rns rp ip hs body) tr (Done (Inr r))"
  shows "one_effect (\<lambda>d d'. db_wf E d \<longrightarrow> effect_of E st (rns, ip, hs, Put_Object rp body) (Re_Object_Write r) d d') tr
    \<and> drawn_in E (owr_etag r) tr"
proof -
  from run obtain ns path t us1 us2 us4 data w5 w6 now u u' w8 observed us9 where
    ns: "decode_namespace E rns = Inr ns" "decode_object_path E rp = Inr path"
    and tr: "tr = us1 @ us2 @ us4 @ (w5, skip w5) # (w6, skip w6) # (u, u') # (w8, skip w8) # us9"
    and auth: "follows (authorize_steps E st hs ns Write ip) us1 (Done (Inr t))"
    and disk: "follows (ensure_disk_capacity_steps E st (of_nat (length body))) us2 (Done (Inr ()))"
    and enc: "follows (encrypt_steps E st body) us4 (Done (Inr data))"
    and put: "db_put_object_if_matches E ns path (header hs ''if-match'') (header hs ''if-none-match'' = Some ''*'') data
        \<lparr>om_etag = uuid_v4 E (tick w5), om_updated_at = now\<rparr> u = (Inr (), u')"
    and fin: "follows (refresh_usage_steps E st ns observed) us9 (Done (Inr ()))"
    and r: "owr_etag r = Some (uuid_v4 E (tick w5))"
    by (clarsimp simp: put_object_steps_def Let_def follows_ok not_less outside_defs sample_ok_iff
        simp del: follows_Done split: if_splits)
  have slash: "CHR ''/'' \<notin> set ns" by (rule decode_namespace_no_slash [OF ns(1)])
  from put obtain v where
      c: "object_conflict (current_object_meta E ns path (db u)) (header hs ''if-match'') (header hs ''if-none-match'' = Some ''*'') = None"
      and v: "to_vec (c_object_meta E) \<lparr>om_etag = uuid_v4 E (tick w5), om_updated_at = now\<rparr> = Inr v"
      and d: "db u' = (db u)\<lparr>object_table := tput (object_key ns path) data (object_table (db u)),
        object_meta_table := tput (object_key ns path) v (object_meta_table (db u))\<rparr>"
    by (auto simp: db_put_object_if_matches_def txn_ok_iff put_object_tx_ok_iff current_object_meta_def)
  have "db_wf E (db u) \<longrightarrow> effect_of E st (rns, ip, hs, Put_Object rp body) (Re_Object_Write r) (db u) (db u')"
  proof
    assume wf: "db_wf E (db u)"
    have "precondition hs (Option.bind (entry (abs_store E st (db u)) (ns, path)) snd) (entry (abs_store E st (db u)) (ns, path) \<noteq> None)"
      unfolding entry_etag [OF wf slash] using c by (auto simp: precondition_def object_conflict_None_iff split: option.splits)
    with abs_put_object [OF E(1) slash encrypt_follows [OF enc E(2)] v, of "db u'" path "db u"] d ns r
    show "effect_of E st (rns, ip, hs, Put_Object rp body) (Re_Object_Write r) (db u) (db u')" by auto
  qed
  moreover have "quiet_steps (us1 @ us2 @ us4 @ [(w5, skip w5), (w6, skip w6)])" "quiet_steps ((w8, skip w8) # us9)"
    using quiet_parts(1) [OF auth] quiet_parts(3) [OF disk] quiet_parts(4) [OF enc] quiet_parts(2) [OF fin]
    by (auto simp: kept.Q_refl)
  ultimately have "one_effect (\<lambda>d d'. db_wf E d \<longrightarrow> effect_of E st (rns, ip, hs, Put_Object rp body) (Re_Object_Write r) d d') tr"
    by (rule one_effectI) (simp add: tr)
  then show ?thesis using r by (auto simp: tr drawn_in_def)
qed

lemma delete_object_lands:
  assumes run: "follows (delete_object_steps E st rns rp ip hs) tr (Done (Inr r))"
  shows "one_effect (effect_of E st (rns, ip, hs, Delete_Object rp) (Re_Status r)) tr"
proof -
  from run obtain ns path t us1 u u' b us9 where
    ns: "decode_namespace E rns = Inr ns" "decode_object_path E rp = Inr path"
    and tr: "tr = us1 @ (u, u') # us9"
    and auth: "follows (authorize_steps E st hs ns Write ip) us1 (Done (Inr t))"
    and del: "db_delete_object E ns path u = (Inr b, u')"
    and fin: "follows (whenP b (seqP (atom (now_rfc3339 E)) (refresh_usage_steps E st ns))) us9 (Done (Inr ()))"
    and r: "r = 204"
    by (clarsimp simp: delete_object_steps_def follows_seqP_ok follows_errP_ok follows_small_ok(1,2,3) follows_atom_iff
        simp del: follows_Done)
  have "every (\<lambda>_. True) (on_db same_content) (whenP b (seqP (atom (now_rfc3339 E)) (refresh_usage_steps E st ns)))"
    by (intro quiet.parts_in TrueI)
  from quiet_follows [OF this fin] have "quiet_steps us9" .
  moreover have "effect_of E st (rns, ip, hs, Delete_Object rp) (Re_Status r) (db u) (db u')"
    using abs_delete_object [OF decode_namespace_no_slash [OF ns(1)], of "db u'" path "db u"] del ns r
    by (auto simp: db_delete_object_def txn_ok_iff delete_object_tx_def object_meta_key_def)
  ultimately show ?thesis using quiet_parts(1) [OF auth] tr by (auto intro: one_effectI)
qed

text \<open>The readers: one transaction reads the payload or the rows.\<close>

lemma get_metadata_lands:
  assumes run: "follows (get_metadata_steps E st rns ip hs) tr (Done (Inr r))"
  shows "one_effect (effect_of E st (rns, ip, hs, Get_Metadata) (Re_Metadata r)) tr"
proof -
  from run obtain ns t us1 u u' row where
    ns: "decode_namespace E rns = Inr ns" and tr: "tr = us1 @ [(u, u')]"
    and auth: "follows (authorize_steps E st hs ns Read ip) us1 (Done (Inr t))"
    and g: "db_get_metadata E ns u = (Inr row, u')"
    and r: "case row of Some data \<Rightarrow> map_sum app_of_serde id (from_slice (c_metadata E) data) = Inr r | None \<Rightarrow> r = empty_metadata"
  proof -
    from run obtain ns t us1 u u' row us9 where *: "decode_namespace E rns = Inr ns" "tr = us1 @ (u, u') # us9"
      "follows (authorize_steps E st hs ns Read ip) us1 (Done (Inr t))" "db_get_metadata E ns u = (Inr row, u')"
      "follows (case row of Some data \<Rightarrow> Done (map_sum app_of_serde id (from_slice (c_metadata E) data))
        | None \<Rightarrow> retP empty_metadata) us9 (Done (Inr r))"
      by (clarsimp simp: get_metadata_steps_def follows_ok simp del: follows_Done)
    from *(5) have "us9 = []" by (simp add: follows_ok split: option.splits)
    with * show thesis
      by (intro that [of ns us1 u u' t row]) (auto simp: retP_def follows_ok(4) simp del: follows_Done split: option.splits)
  qed
  have "effect_of E st (rns, ip, hs, Get_Metadata) (Re_Metadata r) (db u) (db u')"
    using g r ns by (auto simp: db_get_metadata_def txn_ok_iff abs_store_simps meta_at_def map_sum_Inr_iff split: option.splits)
  then show ?thesis by (rule one_effectI [OF _ quiet_parts(1) [OF auth]]) (simp_all add: tr)
qed

lemma get_blob_lands:
  assumes run: "follows (get_blob_steps E st rns ip hs) tr (Done (Inr (h, body)))"
  shows "one_effect (effect_of E st (rns, ip, hs, Get_Blob) (Re_Blob h body)) tr"
proof -
  from run obtain ns t us1 u u' c w w' m where
    ns: "decode_namespace E rns = Inr ns" and tr: "tr = us1 @ (u, u') # [(w, w')]"
    and auth: "follows (authorize_steps E st hs ns Read ip) us1 (Done (Inr t))"
    and g: "db_get_blob E ns u = (Inr (Some c), u')" "decrypt_if_needed E st c = Inr body"
    and m: "stored_metadata E ns w = (Inr m, w')"
    by (clarsimp simp: get_blob_steps_def follows_ok simp del: follows_Done)
  have "effect_of E st (rns, ip, hs, Get_Blob) (Re_Blob h body) (db u) (db u')"
    using g ns by (auto simp: db_get_blob_def txn_ok_iff abs_store_simps)
  moreover have "quiet_steps [(w, w')]" using m by (auto simp: stored_metadata_ok kept.Q_refl)
  ultimately show ?thesis by (rule one_effectI [OF _ quiet_parts(1) [OF auth]]) (simp add: tr)
qed

lemma get_object_lands:
  assumes run: "follows (get_object_steps E st rns rp ip hs) tr (Done (Inr (s, h, body)))"
  shows "one_effect (effect_of E st (rns, ip, hs, Get_Object rp) (Re_Object s h body)) tr"
proof -
  from run obtain ns path t us1 u u' row us9 where
    ns: "decode_namespace E rns = Inr ns" "decode_object_path E rp = Inr path" and tr: "tr = us1 @ (u, u') # us9"
    and auth: "follows (authorize_steps E st hs ns Read ip) us1 (Done (Inr t))"
    and g: "db_get_object E ns path u = (Inr row, u')"
    and r: "case row of None \<Rightarrow> s = 404 \<and> h = [] \<and> body = [] \<and> us9 = []
      | Some c \<Rightarrow> s = 200 \<and> decrypt_if_needed E st c = Inr body
         \<and> (\<exists>w w' m. us9 = [(w, w')] \<and> db_get_object_metadata E ns path w = (Inr m, w'))"
  proof -
    from run obtain ns path t us1 u u' row us9 where *: "decode_namespace E rns = Inr ns"
      "decode_object_path E rp = Inr path" "tr = us1 @ (u, u') # us9"
      "follows (authorize_steps E st hs ns Read ip) us1 (Done (Inr t))" "db_get_object E ns path u = (Inr row, u')"
      "follows (case row of Some encrypted \<Rightarrow>
         seqP (Done (decrypt_if_needed E st encrypted)) (\<lambda>data.
         seqP (errP app_of_redb (atom (db_get_object_metadata E ns path))) (\<lambda>object_meta.
         retP (200, (''content-type'', object_content_type path) # etag_header (map_option om_etag object_meta), data)))
       | None \<Rightarrow> retP (404, [], [])) us9 (Done (Inr (s, h, body)))"
      by (clarsimp simp: get_object_steps_def follows_ok simp del: follows_Done)
    show thesis
      by (rule that [OF *(1-5)], use *(6) in \<open>cases row\<close>) (auto simp: follows_ok simp del: follows_Done)
  qed
  have q: "quiet_steps us9"
    using r by (auto simp: db_get_object_metadata_def dest: quiet_read split: option.splits)
  have "effect_of E st (rns, ip, hs, Get_Object rp) (Re_Object s h body) (db u) (db u')"
    using g r ns
    by (auto simp: db_get_object_def txn_ok_iff abs_store_simps(3) [OF decode_namespace_no_slash [OF ns(1)]] split: option.splits)
  then show ?thesis by (rule one_effectI [OF _ quiet_parts(1) [OF auth] q]) (simp add: tr)
qed

lemma list_objects_lands:
  assumes run: "follows (list_objects_steps E st rns ip q hs) tr (Done (Inr j))"
  shows "one_effect (effect_of E st (rns, ip, hs, List_Objects q) (Re_List j)) tr"
proof -
  let ?n = "opt_get 256 (q_limit q)"
  from run obtain ns t us1 u u' paths where
    ns: "decode_namespace E rns = Inr ns" and tr: "tr = us1 @ [(u, u')]"
    and auth: "follows (authorize_steps E st hs ns Read ip) us1 (Done (Inr t))"
    and q: "list_query_ok q"
    and g: "db_list_object_paths E ns (q_prefix q) (q_cursor q) (?n + 1) u = (Inr paths, u')"
    and j: "j = listing (page_of ?n paths)"
    by (clarsimp simp: list_objects_steps_def Let_def follows_ok listing_def case_prod_beta simp del: follows_Done split: if_splits)
  have "effect_of E st (rns, ip, hs, List_Objects q) (Re_List j) (db u) (db u')"
    using g spec_list [OF ns q, of st hs "db u"] ns j by (auto simp: db_list_object_paths_def txn_ok_iff)
  then show ?thesis by (rule one_effectI [OF _ quiet_parts(1) [OF auth]]) (simp_all add: tr)
qed

text \<open>Every request.\<close>

lemma one_effect_mono: "one_effect eff tr \<Longrightarrow> (\<And>d d'. eff d d' \<Longrightarrow> eff' d d') \<Longrightarrow> one_effect eff' tr"
  unfolding one_effect_def by blast

lemma serve_lands:
  assumes E: "codecs_ok E" "aead_ok E" and run: "follows (serve_steps E st q) tr (Done (Inr re))"
  shows "one_effect (\<lambda>d d'. db_wf E d \<longrightarrow> effect_of E st q re d d') tr"
proof -
  obtain rns ip hs rq where q: "q = (rns, ip, hs, rq)" by (cases q)
  note lands = put_blob_lands [OF E, THEN conjunct1] put_metadata_lands [OF E(1), THEN conjunct1] delete_object_lands
    get_metadata_lands get_blob_lands get_object_lands list_objects_lands
  show ?thesis
    using run put_object_lands [OF E, THEN conjunct1]
    by (cases rq) (auto simp: q follows_ok case_prod_beta intro: lands [THEN one_effect_mono])
qed

section \<open>Schedules of requests\<close>

text \<open>
  The surroundings of a schedule: the rest of the server commits transactions of its own and
  uses the outside, whose uses are numbered in the order of time.
\<close>

definition others :: "'j ext \<Rightarrow> 'j world \<Rightarrow> 'j world \<Rightarrow> bool" where
  "others E u v \<longleftrightarrow> (db_step E)\<^sup>*\<^sup>* (db u) (db v) \<and> tick u \<le> tick v"

definition threads :: "'j ext \<Rightarrow> app_state \<Rightarrow> (string \<times> string \<times> headers \<times> sync_request) list
    \<Rightarrow> (app_error, 'j world, sync_response) prog list" where
  "threads E st qs = map (serve_steps E st) qs"

lemma threads_nth [simp]: "i < length qs \<Longrightarrow> threads E st qs ! i = serve_steps E st (qs ! i)"
  by (simp add: threads_def)

lemma length_threads [simp]: "length (threads E st qs) = length qs"
  by (simp add: threads_def)

text \<open>Every step keeps the database reachable and uses up numbers of the outside.\<close>

lemma requests_others: "\<forall>p \<in> set (threads E st qs). every (\<lambda>_. True) (others E) p"
proof -
  have "every (\<lambda>_. True) (others E) (serve_steps E st q)" for q
    using every_conj [OF committed.serve_in [of E q st] once.serve_in [of E q st]]
    by (rule guar_mono) (auto simp: others_def on_db_def once_def)
  then show ?thesis by (auto simp: threads_def)
qed

lemma others_trans: "others E u v \<Longrightarrow> others E v w \<Longrightarrow> others E u w"
  by (auto simp: others_def intro: rtranclp_trans)

lemma sched_others:
  assumes "sched R (threads E st qs) w tr ps w'" "\<forall>u v. R u v \<longrightarrow> others E u v"
  shows "(\<forall>(i, u, v) \<in> set tr. others E w u \<and> others E w v) \<and> others E w w'"
proof -
  have "(\<forall>(i, u, v) \<in> set tr. others E w u \<and> others E w v \<and> (if i = None then R u v else others E u v))
      \<and> (\<forall>p \<in> set ps. guar (others E w) (others E) (\<lambda>_. True) p) \<and> others E w w'"
  proof (rule sched_guar [OF assms(1)])
    show "\<forall>p \<in> set (threads E st qs). guar (others E w) (others E) (\<lambda>_. True) p"
      using requests_others [of E st qs] by (auto intro: guar_mono)
    show "others E w w" by (simp add: others_def)
  qed (use others_trans assms(2) in blast)+
  then show ?thesis by fast
qed

lemma sched_reachable:
  assumes "sched R (threads E st qs) w tr ps w'" "\<forall>u v. R u v \<longrightarrow> others E u v" "db_reachable E (db w)"
  shows "(i, u, v) \<in> set tr \<Longrightarrow> db_reachable E (db u) \<and> db_reachable E (db v) \<and> tick w \<le> tick u \<and> tick w \<le> tick v"
    and "db_reachable E (db w')"
  using sched_others [OF assms(1,2)] reachable_steps [OF _ assms(3)] by (auto simp: others_def)

text \<open>The version of the snapshot, and uploads that demand one.\<close>

definition version_at :: "'j ext \<Rightarrow> string \<Rightarrow> 'j db \<Rightarrow> string" where
  "version_at E ns d = opt_get '''' (Option.bind (meta_at E ns d) meta_etag)"

fun wants :: "'j ext \<Rightarrow> string \<Rightarrow> string \<Rightarrow> string \<times> string \<times> headers \<times> sync_request \<Rightarrow> bool" where
  "wants E ns e (rns, ip, hs, Put_Blob body) \<longleftrightarrow> decode_namespace E rns = Inr ns \<and> header hs ''if-match'' = Some e"
| "wants E ns e _ \<longleftrightarrow> False"

text \<open>A step leaves the metadata of the namespace alone or brings an ETag of its own.\<close>

definition not_back :: "'j ext \<Rightarrow> string \<Rightarrow> string \<Rightarrow> 'j world \<Rightarrow> 'j world \<Rightarrow> bool" where
  "not_back E ns e u v \<longleftrightarrow> meta_at E ns (db v) = meta_at E ns (db u) \<or> version_at E ns (db v) \<noteq> e"

lemma not_back_stays: "not_back E ns e u v \<Longrightarrow> version_at E ns (db u) \<noteq> e \<Longrightarrow> version_at E ns (db v) \<noteq> e"
  by (auto simp: not_back_def version_at_def)

lemma not_back_contract:
  assumes "codecs_ok E" "\<forall>k \<ge> n. uuid_v4 E k \<noteq> e"
  shows "sync_atoms E (\<lambda>w. n \<le> tick w) (not_back E ns e) (\<lambda>_. True) (\<lambda>_. True) (\<lambda>x. x \<noteq> e)"
proof -
  have put: "metadata_table d = tput (metadata_key ms) v (metadata_table (db w)) \<Longrightarrow>
      to_vec (c_metadata E) m = Inr v \<Longrightarrow> meta_etag m = Some etag \<Longrightarrow> etag \<noteq> e \<Longrightarrow> not_back E ns e w (written w d)" for ms v w d m etag
    using codec_ok_decode [OF codecs_okD(1) [OF assms(1)], of m v]
    by (cases "ms = ns") (auto simp: not_back_def version_at_def meta_at_def metadata_key_def)
  have same: "metadata_table d = metadata_table (db w) \<Longrightarrow> not_back E ns e w (written w d)" for w d
    by (simp add: not_back_def meta_at_def)
  show ?thesis
    by unfold_locales
      (use assms(2) in \<open>auto simp: not_back_def [of _ _ _ _ "skip _"] put_object_tx_ok_iff delete_object_tx_def put_blob_tx_ok_iff
        intro: put same dest!: tx_tables\<close>)
qed

lemma serve_not_back:
  assumes "codecs_ok E" "\<forall>k \<ge> n. uuid_v4 E k \<noteq> e"
  shows "guar (\<lambda>w. n \<le> tick w) (not_back E ns e) (\<lambda>_. True) (serve_steps E st q)"
  by (rule sync_atoms.serve_in [OF not_back_contract [OF assms]]) simp

text \<open>The instant of a request in the trace of the schedule.\<close>

lemma own_split:
  "own i tr = us @ (u, v) # vs \<Longrightarrow> \<exists>as bs. tr = as @ (Some i, u, v) # bs \<and> own i as = us \<and> own i bs = vs"
proof (induction tr arbitrary: us)
  case (Cons s tr)
  show ?case
  proof (cases "fst s = Some i \<and> us = []")
    case True
    with Cons.prems show ?thesis by (intro exI [of _ "[]"] exI [of _ tr]) (cases s, auto)
  next
    case False
    have "\<exists>us'. own i tr = us' @ (u, v) # vs \<and> us = (if fst s = Some i then snd s # us' else us')"
      using Cons.prems False by (cases us) (auto split: if_splits)
    with Cons.IH obtain us' as bs where "tr = as @ (Some i, u, v) # bs" "own i as = us'" "own i bs = vs"
      "us = (if fst s = Some i then snd s # us' else us')" by blast
    then show ?thesis by (intro exI [of _ "s # as"] exI [of _ bs]) auto
  qed
qed simp

lemma effect_in_trace:
  assumes "one_effect eff (own i tr)"
  obtains as u v bs where "tr = as @ (Some i, u, v) # bs" "eff (db u) (db v)" "quiet_steps (own i as)" "quiet_steps (own i bs)"
  using assms own_split unfolding one_effect_def by metis

lemma answer_lands:
  assumes E: "codecs_ok E" "aead_ok E" and s: "sched R (threads E st qs) w tr ps w'" "\<forall>u v. R u v \<longrightarrow> others E u v"
    and w: "db_reachable E (db w)" and i: "i < length qs" "ps ! i = Done (Inr re)"
  obtains as u v bs where "tr = as @ (Some i, u, v) # bs" "effect_of E st (qs ! i) re (db u) (db v)"
    "quiet_steps (own i (as @ bs))"
proof -
  have "follows (serve_steps E st (qs ! i)) (own i tr) (Done (Inr re))"
    using sched_follows [OF s(1), of i] i by simp
  from effect_in_trace [OF serve_lands [OF E this]] obtain as u v bs where tr: "tr = as @ (Some i, u, v) # bs"
    "db_wf E (db u) \<longrightarrow> effect_of E st (qs ! i) re (db u) (db v)" "quiet_steps (own i as)" "quiet_steps (own i bs)" by blast
  moreover have "db_wf E (db u)"
    by (rule reachable_wf [OF _ E(1)]) (use sched_reachable(1) [OF s w, of "Some i" u v] tr(1) in simp)
  ultimately show ?thesis by (intro that [of as u v bs]) simp_all
qed

lemma upload_commits:
  assumes E: "codecs_ok E" "aead_ok E" and s: "sched R (threads E st qs) w tr ps w'" "\<forall>u v. R u v \<longrightarrow> others E u v"
    and w: "db_reachable E (db w)" and fresh: "\<forall>k \<ge> tick w. uuid_v4 E k \<noteq> e"
    and i: "i < length qs" "wants E ns e (qs ! i)" "ps ! i = Done (Inr re)"
  obtains as u v bs where "tr = as @ (Some i, u, v) # bs" "version_at E ns (db u) = e" "version_at E ns (db v) \<noteq> e"
proof -
  obtain rns ip hs rq where "qs ! i = (rns, ip, hs, rq)" by (cases "qs ! i")
  with i(2) obtain body where q: "qs ! i = (rns, ip, hs, Put_Blob body)" "decode_namespace E rns = Inr ns"
    "header hs ''if-match'' = Some e" by (cases rq) auto
  have "follows (serve_steps E st (qs ! i)) (own i tr) (Done (Inr re))"
    using sched_follows [OF s(1), of i] i by simp
  then obtain r where "re = Re_Write r" and f: "follows (put_blob_steps E st rns ip hs body) (own i tr) (Done (Inr r))"
    by (auto simp: q(1) follows_ok)
  from put_blob_lands [OF E f] have one: "one_effect (effect_of E st (rns, ip, hs, Put_Blob body) (Re_Write r)) (own i tr)"
    and drawn: "drawn_in E (wr_etag r) (own i tr)" by auto
  obtain as u v bs where tr: "tr = as @ (Some i, u, v) # bs"
    and eff: "effect_of E st (rns, ip, hs, Put_Blob body) (Re_Write r) (db u) (db v)"
    by (rule effect_in_trace [OF one], rule that)
  from drawn obtain x y where "(Some i, x, y) \<in> set tr" "wr_etag r = Some (uuid_v4 E (tick x))"
    by (auto simp: drawn_in_def own_set)
  then have "wr_etag r \<noteq> Some e" using sched_reachable(1) [OF s w] fresh by auto
  with eff q(2,3) have "version_at E ns (db u) = e" "version_at E ns (db v) \<noteq> e"
    by (auto simp: version_at_def abs_store_simps(2) [symmetric, of E _ _ st] precondition_def metadata_of_blob_def
        simp del: abs_store_simps)
  with tr show ?thesis by (rule that)
qed

lemma no_second_upload:
  assumes E: "codecs_ok E" "aead_ok E" and s: "sched R (threads E st qs) w tr ps w'"
    and R: "\<forall>u v. R u v \<longrightarrow> others E u v \<and> not_back E ns e u v"
    and w: "db_reachable E (db w)" and fresh: "\<forall>k \<ge> tick w. uuid_v4 E k \<noteq> e"
    and tr: "tr = as @ (i, u, v) # bs" "version_at E ns (db v) \<noteq> e" and x: "(j, x, y) \<in> set bs"
  shows "version_at E ns (db x) \<noteq> e"
proof -
  have oth: "\<forall>u v. R u v \<longrightarrow> others E u v" using R by blast
  have keep: "not_back E ns e a b" if "(k, a, b) \<in> set tr" for k a b
  proof -
    have "(\<forall>(i, u, v) \<in> set tr. tick w \<le> tick u \<and> tick w \<le> tick v \<and> (if i = None then R u v else not_back E ns e u v \<and> others E u v))
      \<and> (\<forall>p \<in> set ps. guar (\<lambda>v. tick w \<le> tick v) (\<lambda>u v. not_back E ns e u v \<and> others E u v) (\<lambda>_. True) p) \<and> tick w \<le> tick w'"
    proof (rule sched_guar [OF s])
      have "guar (\<lambda>v. tick w \<le> tick v) (others E) (\<lambda>_. True) p" if "p \<in> set (threads E st qs)" for p
        using requests_others that by (blast intro: guar_mono)
      then show "\<forall>p \<in> set (threads E st qs). guar (\<lambda>v. tick w \<le> tick v) (\<lambda>u v. not_back E ns e u v \<and> others E u v) (\<lambda>_. True) p"
        using serve_not_back [OF E(1) fresh, of ns st] by (auto simp: threads_def intro!: every_conj)
    qed (use oth in \<open>auto simp: others_def intro: order_trans\<close>)
    with that R show ?thesis by (cases k) fastforce+
  qed
  from x obtain ms ns' where bs: "bs = ms @ (j, x, y) # ns'" by (auto dest: split_list)
  have "linked v ms x"
    using sched_linked [OF s] by (auto simp: tr(1) bs linked_append)
  then show ?thesis
  proof (rule linked_stable [where I = "\<lambda>a. version_at E ns (db a) \<noteq> e"])
    show "version_at E ns (db b) \<noteq> e" if "(k, a, b) \<in> set ms" "version_at E ns (db a) \<noteq> e" for k a b
      by (rule not_back_stays [OF keep [of k] that(2)]) (use that(1) tr(1) bs in simp)
  qed (rule tr(2))
qed

lemma one_upload:
  assumes E: "codecs_ok E" "aead_ok E" and s: "sched R (threads E st qs) w tr ps w'"
    and R: "\<forall>u v. R u v \<longrightarrow> others E u v \<and> not_back E ns e u v"
    and w: "db_reachable E (db w)" and fresh: "\<forall>k \<ge> tick w. uuid_v4 E k \<noteq> e"
    and i: "i < length qs" "wants E ns e (qs ! i)" "ps ! i = Done (Inr ri)"
    and j: "j < length qs" "wants E ns e (qs ! j)" "ps ! j = Done (Inr rj)"
  shows "i = j"
proof (rule ccontr)
  assume neq: "i \<noteq> j"
  have oth: "\<forall>u v. R u v \<longrightarrow> others E u v" using R by blast
  note commits = upload_commits [OF E s oth w fresh]
  from commits [OF i] obtain as u v bs where a: "tr = as @ (Some i, u, v) # bs"
    "version_at E ns (db u) = e" "version_at E ns (db v) \<noteq> e" by metis
  from commits [OF j] obtain cs x y ds where c: "tr = cs @ (Some j, x, y) # ds"
    "version_at E ns (db x) = e" "version_at E ns (db y) \<noteq> e" by metis
  have "(Some j, x, y) \<in> set bs \<or> (Some i, u, v) \<in> set ds"
    using a(1) c(1) neq by (auto simp: append_eq_append_conv2 append_eq_Cons_conv Cons_eq_append_conv)
  then show False
    using no_second_upload [OF E s R w fresh a(1,3)] no_second_upload [OF E s R w fresh c(1,3)] a(2) c(2) by blast
qed

section \<open>Requests that are refused\<close>

text \<open>
  A program ends cleanly when an error other than an internal one means that none of its
  steps wrote content.
\<close>

definition ends_clean :: "(app_error, 'j world, 'a) prog \<Rightarrow> bool" where
  "ends_clean p \<longleftrightarrow> (\<forall>tr e. follows p tr (Done (Inl e)) \<longrightarrow> quiet_steps tr \<or> server_fault e)"

definition ends_500 :: "(app_error, 'j world, 'a) prog \<Rightarrow> bool" where
  "ends_500 p \<longleftrightarrow> (\<forall>tr e. follows p tr (Done (Inl e)) \<longrightarrow> server_fault e)"

abbreviation quiet_prog :: "(app_error, 'j world, 'a) prog \<Rightarrow> bool" where
  "quiet_prog \<equiv> every (\<lambda>_. True) (on_db same_content)"

lemma ends_clean_quiet: "quiet_prog p \<Longrightarrow> ends_clean p"
  by (auto simp: ends_clean_def dest: quiet_follows)

lemma ends_clean_500: "ends_500 p \<Longrightarrow> ends_clean p"
  by (auto simp: ends_clean_def ends_500_def)

lemma ends_clean_seqP: "quiet_prog p \<Longrightarrow> (\<And>x. ends_clean (f x)) \<Longrightarrow> ends_clean (seqP p f)"
  unfolding ends_clean_def seqP_def follows_case_sum throwP_def
  by (fastforce dest: quiet_follows [of p])

lemma ends_clean_fmapP: "ends_clean p \<Longrightarrow> ends_clean (fmapP f p)"
  by (auto simp: ends_clean_def fmapP_def seqP_def follows_case_sum throwP_def retP_def)

lemma ends_clean_lift: "(\<And>x. ends_clean (f x)) \<Longrightarrow> ends_clean (seqP (Done r) f)"
  by (rule ends_clean_seqP) (simp add: every_Done)

lemma ends_clean_handleP:
  assumes "\<And>w e v. m w = (Inl e, v) \<Longrightarrow> same_content (db w) (db v)"
    and "\<And>e. quiet_prog (f e)" "\<And>x. ends_500 (g x)"
  shows "ends_clean (handleP (atom m) f g)"
  using assms(1,3) quiet_follows [OF assms(2)]
  by (auto simp: ends_clean_def ends_500_def handleP_def follows_case_sum follows_atom_iff)

lemma ends_clean_write:
  assumes "\<And>w e v. m w = (Inl e, v) \<Longrightarrow> same_content (db w) (db v)" "\<And>x. ends_500 (f x)"
  shows "ends_clean (seqP (errP h (atom m)) f)"
  using assms
  by (auto simp: ends_clean_def ends_500_def seqP_def errP_def follows_case_sum throwP_def retP_def follows_atom_iff)

lemma ends_500_seqP: "ends_500 p \<Longrightarrow> (\<And>x. ends_500 (f x)) \<Longrightarrow> ends_500 (seqP p f)"
  by (auto simp: ends_500_def seqP_def follows_case_sum throwP_def)

lemma ends_500_errP: "ends_500 (errP app_of_redb p)"
  by (auto simp: ends_500_def errP_def follows_case_sum throwP_def retP_def)

lemma ends_500_small: "ends_500 (retP x)" "ends_500 (atom (now_rfc3339 E))" "ends_500 p \<Longrightarrow> ends_500 (whenP b p)"
  by (auto simp: ends_500_def retP_def follows_atom_iff outside_defs sample_def whenP_def)

lemma ends_500_refresh: "ends_500 (refresh_usage_steps E st ns now)"
  unfolding refresh_usage_steps_def Let_def by (intro ends_500_seqP ends_500_errP ends_500_small)

lemmas ends_500_rules = ends_500_refresh ends_500_small ends_500_seqP

lemma write_txn_refused: "write_txn E conv f w = (Inl e, v) \<Longrightarrow> same_content (db w) (db v)"
  by (auto simp: write_txn_def same_content_def split: option.splits sum.splits)

lemma puts_refused:
  "db_put_blob_if_matches E ns x a blob m w = (Inl e, v) \<Longrightarrow> same_content (db w) (db v)"
  "db_put_object_if_matches E ns path x a data om w = (Inl e', v) \<Longrightarrow> same_content (db w) (db v)"
  "db_set_metadata E ns m w = (Inl e2, v) \<Longrightarrow> same_content (db w) (db v)"
  "db_delete_object E ns path w = (Inl e2, v) \<Longrightarrow> same_content (db w) (db v)"
  by (simp_all add: db_put_blob_if_matches_def db_put_object_if_matches_def db_set_metadata_def
      db_delete_object_def write_txn_refused)

lemma writers_end_clean:
  "ends_clean (put_blob_steps E st rns ip hs body)" "ends_clean (put_metadata_steps E st rns ip hs mw)"
  "ends_clean (put_object_steps E st rns rp ip hs body)" "ends_clean (delete_object_steps E st rns rp ip hs)"
proof -
  note quiet = quiet.parts_in TrueI
  show "ends_clean (put_blob_steps E st rns ip hs body)"
    unfolding put_blob_steps_def Let_def
    by ((rule ends_clean_lift | rule ends_clean_seqP, (intro quiet; fail)[1])+, rule ends_clean_handleP)
      (auto intro: puts_refused ends_500_rules quiet)
  show "ends_clean (put_metadata_steps E st rns ip hs mw)"
    unfolding put_metadata_steps_def Let_def
    by ((rule ends_clean_lift | rule ends_clean_seqP, (intro quiet; fail)[1])+, rule ends_clean_write)
      (auto intro: puts_refused ends_500_rules)
  show "ends_clean (put_object_steps E st rns rp ip hs body)"
    unfolding put_object_steps_def Let_def
    by ((rule ends_clean_lift | rule ends_clean_seqP, (intro quiet; fail)[1])+, rule ends_clean_handleP)
      (auto intro: puts_refused ends_500_rules quiet)
  show "ends_clean (delete_object_steps E st rns rp ip hs)"
    unfolding delete_object_steps_def Let_def
    by ((rule ends_clean_lift | rule ends_clean_seqP, (intro quiet; fail)[1])+, rule ends_clean_write)
      (auto intro: puts_refused ends_500_rules)
qed

lemma serve_ends_clean: "ends_clean (serve_steps E st q)"
proof -
  obtain rns ip hs rq where q: "q = (rns, ip, hs, rq)" by (cases q)
  show ?thesis
    by (cases rq) (simp_all add: q ends_clean_fmapP writers_end_clean quiet.readers_in [THEN ends_clean_quiet])
qed

end
