(* ===== verification/Sync_Linear.thy ===== *)
theory Sync_Linear
  imports Sync_Races "HOL-Library.Sublist"
begin

text \<open>
  The instants of all requests of a schedule, put in the order of the trace, are a run of the
  abstract store: side by side, the sync API answers as if every request happened at once.
\<close>

section \<open>Runs of instants\<close>

fun instants ::
  "'j ext \<Rightarrow> app_state \<Rightarrow> ((string \<times> string \<times> headers \<times> sync_request) \<times> sync_response) list \<Rightarrow> store \<Rightarrow> store \<Rightarrow> bool" where
  "instants E st [] s s' \<longleftrightarrow> s' = s"
| "instants E st (((rns, ip, hs, rq), re) # log) s s' \<longleftrightarrow> (\<exists>ns s1. decode_namespace E rns = Inr ns
     \<and> lands E st ns hs rq re s s1 \<and> instants E st log s1 s')"

lemma instants_snoc:
  "instants E st (log @ [(q, re)]) s (abs_store E st d') \<longleftrightarrow>
     (\<exists>s1. instants E st log s s1 \<and> instants E st [(q, re)] s1 (abs_store E st d'))"
  by (induction E st log s s' \<equiv> "abs_store E st d'" arbitrary: rule: instants.induct) auto

lemma instants_one:
  "instants E st [(q, re)] (abs_store E st d) (abs_store E st d') \<longleftrightarrow> effect_of E st q re d d'"
  by (cases q) simp

section \<open>The log of a schedule\<close>

text \<open>The steps of a trace by their numbers: who makes step \<open>k\<close>, and what it does to the database.\<close>

definition maker :: "(nat option \<times> 'w \<times> 'w) list \<Rightarrow> nat \<Rightarrow> nat option" where
  "maker tr k = fst (tr ! k)"

definition change :: "('j db \<Rightarrow> 'j db \<Rightarrow> bool) \<Rightarrow> (nat option \<times> 'j world \<times> 'j world) list \<Rightarrow> nat \<Rightarrow> bool" where
  "change G tr k \<longleftrightarrow> (case tr ! k of (_, u, v) \<Rightarrow> G (db u) (db v))"

lemma maker_snoc: "k < length tr \<Longrightarrow> maker (tr @ [s]) k = maker tr k" "maker (tr @ [s]) (length tr) = fst s"
  by (simp_all add: maker_def nth_append)

lemma change_snoc:
  "k < length tr \<Longrightarrow> change G (tr @ [s]) k = change G tr k"
  "change G (tr @ [(i, u, v)]) (length tr) = G (db u) (db v)"
  by (simp_all add: change_def nth_append)

text \<open>When the numbered steps are instants and the others quiet, the trace is a run of its instants.\<close>

lemma trace_instants:
  assumes "linked w tr w'" "\<And>k. k < length tr \<Longrightarrow> k \<notin> K \<Longrightarrow> change same_content tr k"
    and "\<And>k. k < length tr \<Longrightarrow> k \<in> K \<Longrightarrow> \<exists>i re. maker tr k = Some i \<and> P i re \<and> change (effect_of E st (qs ! i) re) tr k"
  shows "\<exists>log. map (Some \<circ> fst) log = map (maker tr) (filter (\<lambda>k. k \<in> K) [0..<length tr]) \<and> (\<forall>(i, re) \<in> set log. P i re)
    \<and> instants E st (map (\<lambda>(i, re). (qs ! i, re)) log) (abs_store E st (db w)) (abs_store E st (db w'))"
  using assms
proof (induction tr arbitrary: w' rule: rev_induct)
  case Nil
  then show ?case by (intro exI [of _ "[]"]) simp
next
  case (snoc s tr)
  obtain j u where s: "s = (j, u, w')" and u: "linked w tr u"
    using snoc.prems(1) by (cases s) (auto simp: linked_append)
  let ?ks = "filter (\<lambda>k. k \<in> K) [0..<length tr]" and ?run = "\<lambda>log. map (\<lambda>(i, re). (qs ! i, re)) log"
  have "\<exists>log. map (Some \<circ> fst) log = map (maker tr) ?ks \<and> (\<forall>(i, re) \<in> set log. P i re)
      \<and> instants E st (?run log) (abs_store E st (db w)) (abs_store E st (db u))"
  proof (rule snoc.IH [OF u])
    fix k assume "k < length tr"
    then show "k \<notin> K \<Longrightarrow> change same_content tr k"
      "k \<in> K \<Longrightarrow> \<exists>i re. maker tr k = Some i \<and> P i re \<and> change (effect_of E st (qs ! i) re) tr k"
      using snoc.prems(2,3) [of k] by (simp_all add: maker_snoc change_snoc)
  qed
  then obtain log where log: "map (Some \<circ> fst) log = map (maker tr) ?ks" "\<forall>(i, re) \<in> set log. P i re"
    "instants E st (?run log) (abs_store E st (db w)) (abs_store E st (db u))" by blast
  have old: "map (maker (tr @ [s])) ?ks = map (maker tr) ?ks" by (simp add: maker_snoc)
  show ?case
  proof (cases "length tr \<in> K")
    case True
    with snoc.prems(3) [of "length tr"] s obtain i re where i: "j = Some i" "P i re" "effect_of E st (qs ! i) re (db u) (db w')"
      by (auto simp: maker_snoc change_snoc)
    with log old True s have "map (Some \<circ> fst) (log @ [(i, re)]) = map (maker (tr @ [s])) (filter (\<lambda>k. k \<in> K) [0..<length (tr @ [s])])"
      by (simp add: maker_snoc)
    moreover have "instants E st (?run (log @ [(i, re)])) (abs_store E st (db w)) (abs_store E st (db w'))"
      using log(3) i(3) instants_one [of E st "qs ! i" re "db u" "db w'"]
      unfolding map_append list.map prod.case instants_snoc by blast
    moreover have "\<forall>(i, re) \<in> set (log @ [(i, re)]). P i re" using log(2) i(2) by auto
    ultimately show ?thesis by blast
  next
    case False
    with snoc.prems(2) [of "length tr"] s have "abs_store E st (db w') = abs_store E st (db u)"
      by (intro abs_store_content) (simp add: change_snoc same_content_def)
    moreover have "map (Some \<circ> fst) log = map (maker (tr @ [s])) (filter (\<lambda>k. k \<in> K) [0..<length (tr @ [s])])"
      using log(1) old False by simp
    ultimately show ?thesis using log(2,3) by metis
  qed
qed

text \<open>
  Every request that was answered has one instant among its own steps. When the others write
  nothing beside them, these are all the changes of content there are.
\<close>

definition answered :: "('e, 'w, 'a) prog list \<Rightarrow> nat \<Rightarrow> 'a \<Rightarrow> bool" where
  "answered ps i re \<longleftrightarrow> i < length ps \<and> ps ! i = Done (Inr re)"

lemma own_quiet:
  assumes "quiet_steps (own i (as @ bs))" "tr = as @ s # bs" "k < length tr" "k \<noteq> length as" "maker tr k = Some i"
  shows "change same_content tr k"
proof -
  have "tr ! k \<in> set (as @ bs)" using assms(2-4) by (auto simp: nth_append nth_Cons')
  moreover obtain u v where "tr ! k = (Some i, u, v)" using assms(5) by (cases "tr ! k") (auto simp: maker_def)
  ultimately show ?thesis
    using assms(1) by (force simp: change_def quiet_steps_def own_def)
qed

lemma all_quiet:
  assumes "quiet_steps (own i tr)" "k < length tr" "maker tr k = Some i"
  shows "change same_content tr k"
proof -
  obtain u v where "tr ! k = (Some i, u, v)" using assms(3) by (cases "tr ! k") (auto simp: maker_def)
  with nth_mem [OF assms(2)] assms(1) show ?thesis by (force simp: change_def quiet_steps_def own_def)
qed

lemma instants_chosen:
  assumes E: "codecs_ok E" "aead_ok E" and s: "sched R (threads E st qs) w tr ps w'" "\<forall>u v. R u v \<longrightarrow> others E u v"
    and w: "db_reachable E (db w)"
  obtains pos where "\<And>i re. answered ps i re \<Longrightarrow> pos i < length tr \<and> maker tr (pos i) = Some i
      \<and> change (effect_of E st (qs ! i) re) tr (pos i)
      \<and> (\<forall>k < length tr. k \<noteq> pos i \<and> maker tr k = Some i \<longrightarrow> change same_content tr k)"
proof -
  have "\<exists>k. \<forall>re. answered ps i re \<longrightarrow> k < length tr \<and> maker tr k = Some i \<and> change (effect_of E st (qs ! i) re) tr k
      \<and> (\<forall>l < length tr. l \<noteq> k \<and> maker tr l = Some i \<longrightarrow> change same_content tr l)" for i
  proof (cases "\<exists>re. answered ps i re")
    case True
    then obtain re where i: "i < length qs" "ps ! i = Done (Inr re)"
      using sched_length [OF s(1)] by (auto simp: answered_def)
    obtain as u v bs where "tr = as @ (Some i, u, v) # bs" "effect_of E st (qs ! i) re (db u) (db v)" "quiet_steps (own i (as @ bs))"
      by (rule answer_lands [OF E s w i])
    then show ?thesis
      using own_quiet [of i as bs tr] i(2)
      by (intro exI [of _ "length as"]) (auto simp: answered_def maker_def change_def)
  qed blast
  then show thesis by (metis that)
qed


lemma sched_env_step: "sched R ps w tr qs w' \<Longrightarrow> (None, u, v) \<in> set tr \<Longrightarrow> R u v"
  by (induction rule: sched.induct) auto

text \<open>How a request ended: with an answer or a refusal, but not with an internal error.\<close>

definition settled :: "(app_error, 'w, 'a) prog \<Rightarrow> bool" where
  "settled p \<longleftrightarrow> (\<exists>r. p = Done r \<and> (case r of Inl e \<Rightarrow> fst (into_response e) \<noteq> 500 | Inr _ \<Rightarrow> True))"

lemma refused_quiet:
  assumes "sched R (threads E st qs) w tr ps w'" "i < length qs" "ps ! i = Done (Inl e)" "fst (into_response e) \<noteq> 500"
  shows "quiet_steps (own i tr)"
  using sched_follows [OF assms(1), of i] assms(2-) serve_ends_clean [of E st "qs ! i"]
  by (auto simp: ends_clean_def server_fault_def)

lemma beside_instants:
  assumes s: "sched R (threads E st qs) w tr ps w'" "\<forall>u v. R u v \<longrightarrow> same_content (db u) (db v)" "\<forall>p \<in> set ps. settled p"
    and pos: "\<And>i re. answered ps i re \<Longrightarrow> \<forall>k < length tr. k \<noteq> pos i \<and> maker tr k = Some i \<longrightarrow> change same_content tr k"
    and k: "k < length tr" "\<forall>i re. answered ps i re \<longrightarrow> k \<noteq> pos i"
  shows "change same_content tr k"
proof -
  obtain j u v where t: "tr ! k = (j, u, v)" by (cases "tr ! k")
  with nth_mem [OF k(1)] have mem: "(j, u, v) \<in> set tr" by simp
  show ?thesis
  proof (cases j)
    case None
    with mem sched_env_step [OF s(1)] s(2) t show ?thesis by (auto simp: change_def)
  next
    case (Some i)
    then have i: "maker tr k = Some i" "i < length qs" "i < length ps"
      using t sched_place [OF s(1)] mem sched_length [OF s(1)] by (auto simp: maker_def)
    with s(3) obtain r where r: "ps ! i = Done r" "case r of Inl e \<Rightarrow> fst (into_response e) \<noteq> 500 | Inr _ \<Rightarrow> True"
      unfolding settled_def by (metis nth_mem)
    show ?thesis
    proof (cases r)
      case (Inl e)
      with r show ?thesis by (intro all_quiet [OF refused_quiet [OF s(1) i(2)] k(1) i(1)]) simp_all
    next
      case (Inr re)
      with i(3) r(1) have "answered ps i re" by (simp add: answered_def)
      with pos k i(1) show ?thesis by blast
    qed
  qed
qed

lemma schedule_log:
  assumes E: "codecs_ok E" "aead_ok E" and s: "sched R (threads E st qs) w tr ps w'"
    and R: "\<forall>u v. R u v \<longrightarrow> others E u v \<and> same_content (db u) (db v)"
    and w: "db_reachable E (db w)" and ends: "\<forall>p \<in> set ps. settled p"
  obtains log where "distinct (map fst log)" "set log = {(i, re). answered ps i re}"
    "subseq (map (Some \<circ> fst) log) (map fst tr)"
    "instants E st (map (\<lambda>(i, re). (qs ! i, re)) log) (abs_store E st (db w)) (abs_store E st (db w'))"
proof -
  have oth: "\<forall>u v. R u v \<longrightarrow> others E u v" and quiet: "\<forall>u v. R u v \<longrightarrow> same_content (db u) (db v)" using R by blast+
  obtain pos where pos: "\<And>i re. answered ps i re \<Longrightarrow> pos i < length tr \<and> maker tr (pos i) = Some i
      \<and> change (effect_of E st (qs ! i) re) tr (pos i)
      \<and> (\<forall>k < length tr. k \<noteq> pos i \<and> maker tr k = Some i \<longrightarrow> change same_content tr k)"
    using instants_chosen [OF E s oth w] by metis
  let ?K = "{pos i | i re. answered ps i re}" and ?ks = "filter (\<lambda>k. k \<in> {pos i | i re. answered ps i re}) [0..<length tr]"
  have "\<exists>log. map (Some \<circ> fst) log = map (maker tr) ?ks \<and> (\<forall>(i, re) \<in> set log. answered ps i re)
      \<and> instants E st (map (\<lambda>(i, re). (qs ! i, re)) log) (abs_store E st (db w)) (abs_store E st (db w'))"
  proof (rule trace_instants [OF sched_linked [OF s]])
    fix k assume k: "k < length tr"
    show "change same_content tr k" if "k \<notin> ?K"
      by (rule beside_instants [OF s quiet ends _ k, of pos]) (use pos that in blast)+
    show "\<exists>i re. maker tr k = Some i \<and> answered ps i re \<and> change (effect_of E st (qs ! i) re) tr k" if "k \<in> ?K"
      using pos that by blast
  qed
  then obtain log where log: "map (Some \<circ> fst) log = map (maker tr) ?ks" "\<forall>(i, re) \<in> set log. answered ps i re"
    "instants E st (map (\<lambda>(i, re). (qs ! i, re)) log) (abs_store E st (db w)) (abs_store E st (db w'))" by blast
  have "inj_on (maker tr) ?K" using pos by (fastforce simp: inj_on_def)
  then have "distinct (map (maker tr) ?ks)" by (auto simp: distinct_map intro: inj_on_subset)
  then have "distinct (map Some (map fst log))" unfolding map_map log(1) .
  then have dist: "distinct (map fst log)" by (rule distinct_map [THEN iffD1, THEN conjunct1])
  have "(i, re) \<in> set log" if i: "answered ps i re" for i re
  proof -
    have "pos i \<in> set ?ks" using pos [OF i] i by auto
    then have "maker tr (pos i) \<in> set (map (maker tr) ?ks)" unfolding set_map by (rule imageI)
    then have "Some i \<in> set (map (Some \<circ> fst) log)" using pos [OF i] by (simp only: log(1))
    then obtain re' where "(i, re') \<in> set log" by auto
    with log(2) i show ?thesis by (auto simp: answered_def)
  qed
  then have all: "set log = {(i, re). answered ps i re}" using log(2) by auto
  have "map fst tr = map (maker tr) [0..<length tr]" by (rule nth_equalityI) (simp_all add: maker_def)
  then have "subseq (map (Some \<circ> fst) log) (map fst tr)" unfolding log(1) by (simp add: subseq_map subseq_filter_left)
  with dist all log(3) show thesis by (intro that)
qed

end
