(* ===== verification/Panel_Steps.thy ===== *)
theory Panel_Steps
  imports Sync_Steps Panel_Admin
begin

text \<open>
  The two handlers of the admin panel (\<^verbatim>\<open>src/src/panel.rs\<close>) that may take an administrator
  away, as programs of single transactions: the update of an account and its deletion.
\<close>

section \<open>The checks\<close>

definition validate_admin_session_steps ::
  "'j ext \<Rightarrow> app_state \<Rightarrow> headers \<Rightarrow> (app_error, 'j world, string) prog" where
  "validate_admin_session_steps E st headers =
     seqP (whenP (\<not> admin_enabled st) (throwP (Not_Found ''Admin panel disabled''))) (\<lambda>_.
     seqP (ok_orP (Unauthorized ''Missing admin session'') (extract_admin_token headers)) (\<lambda>token.
     seqP (errP (\<lambda>_. Unauthorized ''Invalid or expired admin session'')
         (atom (validate_admin_jwt E (trim token) (jwt_secret st)))) (\<lambda>claims.
     seqP (errP app_of_redb (atom (db_get_admin_user E (cl_sub claims)))) (\<lambda>found.
     seqP (ok_orP (Unauthorized ''Admin user no longer exists'') found) (\<lambda>user.
     if \<not> usr_enabled user then throwP (Unauthorized ''Admin user is disabled'')
     else if cl_ver claims \<noteq> usr_session_version user
     then throwP (Unauthorized ''Admin session was invalidated'')
     else retP (usr_username user))))))"

definition verify_admin_steps :: "'j ext \<Rightarrow> app_state \<Rightarrow> headers \<Rightarrow> (app_error, 'j world, unit) prog" where
  "verify_admin_steps E st headers = seqP (validate_admin_session_steps E st headers) (\<lambda>_. retP ())"

definition verify_admin_mutation_steps :: "'j ext \<Rightarrow> app_state \<Rightarrow> headers \<Rightarrow> (app_error, 'j world, unit) prog" where
  "verify_admin_mutation_steps E st headers =
     seqP (verify_admin_steps E st headers) (\<lambda>_. Done (verify_csrf headers))"

section \<open>The handlers\<close>

definition update_password_steps ::
  "'j ext \<Rightarrow> string option \<Rightarrow> admin_user_record \<Rightarrow> (app_error, 'j world, admin_user_record) prog" where
  "update_password_steps E new_password user = (case new_password of
       None \<Rightarrow> retP user
     | Some password \<Rightarrow>
         seqP (whenP (length password < 8) (throwP (Bad_Request ''Password must be at least 8 characters''))) (\<lambda>_.
         seqP (atom (hash_new_password E password)) (\<lambda>hash.
         seqP (atom (now_rfc3339 E)) (\<lambda>now.
         retP (user\<lparr>usr_password_hash := hash, usr_password_updated_at := Some now\<rparr>)))))"

definition update_enabled_steps ::
  "'j ext \<Rightarrow> bool option \<Rightarrow> admin_user_record \<Rightarrow> (app_error, 'j world, admin_user_record) prog" where
  "update_enabled_steps E new_enabled user = (case new_enabled of
       None \<Rightarrow> retP user
     | Some enabled \<Rightarrow>
         seqP (whenP (\<not> enabled \<and> usr_enabled user)
           (seqP (atom (enabled_admin_user_count E)) (\<lambda>n.
             whenP (n \<le> 1) (throwP (Bad_Request ''Cannot disable the last enabled admin user''))))) (\<lambda>_.
         if enabled then retP (user\<lparr>usr_enabled := True, usr_disabled_at := None\<rparr>)
         else seqP (atom (now_rfc3339 E)) (\<lambda>now.
           retP (user\<lparr>usr_enabled := False, usr_disabled_at := Some now\<rparr>))))"

definition admin_update_user_steps ::
  "'j ext \<Rightarrow> app_state \<Rightarrow> string \<Rightarrow> headers \<Rightarrow> update_user_request \<Rightarrow> (app_error, 'j world, json) prog" where
  "admin_update_user_steps E st username headers body =
     seqP (verify_admin_mutation_steps E st headers) (\<lambda>_.
     seqP (ensure_disk_capacity_steps E st (256 * 1024)) (\<lambda>_.
     seqP (validate_admin_session_steps E st headers) (\<lambda>actor.
     seqP (Done (validate_admin_username username)) (\<lambda>_.
     seqP (errP app_of_redb (atom (db_get_admin_user E username))) (\<lambda>found.
     seqP (ok_orP (Not_Found (''Admin user '' @ quoted username @ '' not found'')) found) (\<lambda>user.
     let password_changed = (uu_password body \<noteq> None);
         enabled_changed = opt_get False (map_option (\<lambda>e. e \<noteq> usr_enabled user) (uu_enabled body)) in
     seqP (update_password_steps E (uu_password body) user) (\<lambda>user1.
     seqP (update_enabled_steps E (uu_enabled body) user1) (\<lambda>user2.
     let user3 = (if password_changed \<or> enabled_changed
           then user2\<lparr>usr_session_version := sat_add (usr_session_version user2) 1\<rparr> else user2) in
     seqP (atom (now_rfc3339 E)) (\<lambda>now.
     let user4 = user3\<lparr>usr_updated_at := now\<rparr> in
     seqP (errP app_of_redb (atom (db_set_admin_user E user4))) (\<lambda>_.
     retP (serialize_admin_user user4)))))))))))"

definition admin_delete_user_steps ::
  "'j ext \<Rightarrow> app_state \<Rightarrow> string \<Rightarrow> headers \<Rightarrow> (app_error, 'j world, json) prog" where
  "admin_delete_user_steps E st username headers =
     seqP (verify_admin_mutation_steps E st headers) (\<lambda>_.
     seqP (validate_admin_session_steps E st headers) (\<lambda>actor.
     seqP (Done (validate_admin_username username)) (\<lambda>_.
     seqP (errP app_of_redb (atom (db_get_admin_user E username))) (\<lambda>found.
     seqP (ok_orP (Not_Found (''Admin user '' @ quoted username @ '' not found'')) found) (\<lambda>user.
     seqP (whenP (usr_enabled user) (seqP (atom (enabled_admin_user_count E)) (\<lambda>n.
       whenP (n \<le> 1) (throwP (Bad_Request ''Cannot delete the last enabled admin user''))))) (\<lambda>_.
     seqP (errP app_of_redb (atom (db_delete_admin_user E username))) (\<lambda>_.
     retP ok_body)))))))"

section \<open>Uninterrupted, they are the handlers\<close>

lemma run_session [run_alone]:
  "run (validate_admin_session_steps E st hs) = validate_admin_session E st hs"
  "run (verify_admin_steps E st hs) = verify_admin E st hs"
  "run (verify_admin_mutation_steps E st hs) = verify_admin_mutation E st hs"
  by (simp_all add: validate_admin_session_steps_def validate_admin_session_def verify_admin_steps_def
      verify_admin_def verify_admin_mutation_steps_def verify_admin_mutation_def run_alone cong: run_congs)

lemma run_updates [run_alone]:
  "run (update_password_steps E p u) = update_password E p u"
  "run (update_enabled_steps E e u) = update_enabled E e u"
  by (simp_all add: update_password_steps_def update_password_def password_too_short_def
      update_enabled_steps_def update_enabled_def run_alone cong: run_congs)

lemma run_users [run_alone]:
  "run (admin_update_user_steps E st name hs body) = admin_update_user E st name hs body"
  "run (admin_delete_user_steps E st name hs) = admin_delete_user E st name hs"
  by (simp_all add: admin_update_user_steps_def admin_update_user_def admin_delete_user_steps_def
      admin_delete_user_def Let_def run_alone cong: run_congs)

end
