(* ===== verification/Race_Props.thy ===== *)
theory Race_Props
  imports Sync_Linear Panel_Steps Panel_Instance Panel_Writes Sync_Props
begin

text \<open>
  The properties of requests that run side by side: what the sync API still promises, and
  two promises that hold only when requests run one after the other.
\<close>

section \<open>A schedule to look at\<close>

text \<open>
  A download and two uploads of the same version on the concrete instance. The download
  stops between its two reads, both uploads pass the gate and read the metadata, then the
  second one commits first.
\<close>

definition race_state :: app_state where
  "race_state = demo_state\<lparr>token_usage_write_interval_seconds := 60, usage_refresh_interval_seconds := 60,
     max_sync_conflict_records := 0\<rparr>"

definition race_requests :: "(string \<times> string \<times> headers \<times> sync_request) list" where
  "race_requests = [(''ns'', ''ip'', demo_headers, Get_Blob), (''ns'', ''ip'', match_headers ''uuuuuuuu'', Put_Blob ''new''),
     (''ns'', ''ip'', match_headers ''uuuuuuuu'', Put_Blob ''other'')]"

definition race_turns :: "nat list" where
  "race_turns = replicate 5 0 @ replicate 5 1 @ replicate 20 2 @ replicate 15 1 @ [0]"

definition race_run :: "(app_error, doc world, sync_response) prog list \<times> doc world" where
  "race_run = exec race_turns (threads demo race_state race_requests, snd demo_put_blob)"

fun answer :: "('e, 'w, 'a) prog \<Rightarrow> ('e + 'a) option" where
  "answer (Done r) = Some r"
| "answer (Step f) = None"

fun blob_of :: "sync_response \<Rightarrow> (headers \<times> bytes) option" where
  "blob_of (Re_Blob h body) = Some (h, body)"
| "blob_of _ = None"

fun etag_of :: "sync_response \<Rightarrow> string option" where
  "etag_of (Re_Write r) = wr_etag r"
| "etag_of _ = None"

lemma answer_Some: "answer p = Some r \<longleftrightarrow> p = Done r"
  by (cases p) auto

lemma blob_of_Some: "blob_of re = Some (h, body) \<longleftrightarrow> re = Re_Blob h body"
  by (cases re) auto

lemma etag_of_Some: "etag_of re = Some e \<longleftrightarrow> (\<exists>r. re = Re_Write r \<and> wr_etag r = Some e)"
  by (cases re) auto

lemma map_sum_cases:
  "map_sum f g z = Inl a \<longleftrightarrow> (\<exists>x. z = Inl x \<and> f x = a)" "map_sum f g z = Inr b \<longleftrightarrow> (\<exists>y. z = Inr y \<and> g y = b)"
  by (cases z; auto)+

definition race_etag :: string where
  "race_etag = replicate 32 CHR ''u''"

lemma race_outcome:
  "map (map_option (map_sum (fst \<circ> into_response) (\<lambda>re. (blob_of re, etag_of re))) \<circ> answer) (fst race_run) =
     [Some (Inr (Some ([(''content-type'', oxide_type), (''etag'', race_etag)], ''body''), None)),
      Some (Inl 412), Some (Inr (None, Some race_etag))]"
  by code_simp

lemma race_answers:
  obtains e r where "fst race_run ! 0 = Done (Inr (Re_Blob [(''content-type'', oxide_type), (''etag'', race_etag)] ''body''))"
    "fst race_run ! 1 = Done (Inl e)" "fst (into_response e) = 412"
    "fst race_run ! 2 = Done (Inr (Re_Write r))" "wr_etag r = Some race_etag" "length (fst race_run) = 3"
proof -
  obtain p0 p1 p2 where ps: "fst race_run = [p0, p1, p2]"
    using arg_cong [OF race_outcome, of length] by (auto simp: length_Suc_conv)
  from race_outcome ps show thesis
    by (auto simp: answer_Some blob_of_Some etag_of_Some map_sum_cases intro!: that)
qed

lemma race_sched: "\<exists>tr. sched R (threads demo race_state race_requests) (snd demo_put_blob) tr (fst race_run) (snd race_run)"
  by (rule exec_sched [of race_turns]) (simp add: race_run_def)

section \<open>The programs\<close>

text \<open>Uninterrupted, the program of a sync request and those of the two account handlers are
  the handlers; and every step of the program of a sync request is one use of the outside, so
  that nothing but single transactions, clock readings and draws is taken to be atomic.\<close>

theorem steps_are_handlers:
  "run (serve_steps E st (rns, ip, hs, rq)) = serve E st rns ip hs rq
    \<and> every (\<lambda>_. True) once (serve_steps E st (rns, ip, hs, rq))
    \<and> run (admin_update_user_steps E st name hs body) = admin_update_user E st name hs body
    \<and> run (admin_delete_user_steps E st name hs) = admin_delete_user E st name hs"
  by (simp add: run_serve once.serve_in run_users)

section \<open>Any schedule\<close>

text \<open>C16: However sync requests and the rest of the server interleave, the database stays
  reachable and well-formed, and no step of a request changes what is stored for a namespace
  other than the one it names.\<close>

theorem interleaving_keeps:
  assumes "codecs_ok E" "db_reachable E (db w)" "sched (others E) (threads E st qs) w tr ps w'"
  shows "db_reachable E (db w') \<and> db_wf E (db w') \<and> (\<forall>i u v ns m. (Some i, u, v) \<in> set tr
    \<and> decode_namespace E (fst (qs ! i)) = Inr ns \<and> besides m ns \<longrightarrow> namespace_view m (db v) = namespace_view m (db u))"
proof -
  have r: "db_reachable E (db w')" by (rule sched_reachable(2) [OF assms(3) _ assms(2)]) simp
  have step: "namespace_view m (db v) = namespace_view m (db u)"
    if "(Some i, u, v) \<in> set tr" "decode_namespace E (fst (qs ! i)) = Inr ns" "besides m ns" for i u v ns m
  proof -
    have "every (\<lambda>_. True) (on_db (view_kept m)) (serve_steps E st (qs ! i))"
      by (rule elsewhere.serve_in) (use that(2,3) in simp)
    then have "on_db (view_kept m) u v"
      using sched_place [OF assms(3) that(1)] by (intro sched_every [OF assms(3) that(1), where G = "on_db (view_kept m)"]) simp
    then show ?thesis by (simp add: on_db_def view_kept_def)
  qed
  show ?thesis by (intro conjI allI impI r reachable_wf [OF r assms(1)]) (elim conjE, rule step)
qed

theorem interleaving_keeps_witness:
  "db_wf demo (db (snd race_run))"
proof -
  obtain tr where "sched (others demo) (threads demo race_state race_requests) (snd demo_put_blob) tr (fst race_run) (snd race_run)"
    using race_sched by blast
  from interleaving_keeps [OF demo_codecs_ok demo_put_blob_reachable this] show ?thesis by blast
qed

text \<open>C13: Whatever runs beside it, a sync request that is answered took effect at one instant,
  as a step of the abstract store between its other steps, which write no content (the
  metadata fields an upload keeps and the headers of a download are left open); and a request
  that is refused, other than by an internal error, wrote no content at all.\<close>

theorem answers_take_effect:
  assumes "codecs_ok E" "aead_ok E" "db_reachable E (db w)"
    and "sched (others E) (threads E st qs) w tr ps w'" "i < length qs" "ps ! i = Done r"
  shows "case r of
      Inr re \<Rightarrow> \<exists>as u v bs. tr = as @ (Some i, u, v) # bs \<and> effect_of E st (qs ! i) re (db u) (db v)
        \<and> quiet_steps (own i (as @ bs))
    | Inl e \<Rightarrow> quiet_steps (own i tr) \<or> fst (into_response e) = 500"
proof (cases r)
  case (Inl e)
  have "follows (serve_steps E st (qs ! i)) (own i tr) (Done (Inl e))"
    using sched_follows [OF assms(4), of i] assms(5,6) Inl by simp
  with serve_ends_clean [of E st "qs ! i"] show ?thesis by (auto simp: Inl ends_clean_def server_fault_def)
next
  case (Inr re)
  obtain as u v bs where "tr = as @ (Some i, u, v) # bs" "effect_of E st (qs ! i) re (db u) (db v)" "quiet_steps (own i (as @ bs))"
    by (rule answer_lands [OF assms(1,2,4) _ assms(3,5), of re]) (use assms(6) Inr in auto)
  then show ?thesis unfolding Inr sum.case by blast
qed

theorem answers_take_effect_witness:
  "\<exists>re tr as u v bs. sched (others demo) (threads demo race_state race_requests) (snd demo_put_blob) tr (fst race_run) (snd race_run)
    \<and> tr = as @ (Some 2, u, v) # bs \<and> effect_of demo race_state (race_requests ! 2) re (db u) (db v)"
proof -
  obtain tr where s: "sched (others demo) (threads demo race_state race_requests) (snd demo_put_blob) tr (fst race_run) (snd race_run)"
    using race_sched by blast
  obtain r where "fst race_run ! 2 = Done (Inr (Re_Write r))" by (rule race_answers)
  moreover have "2 < length race_requests" by (simp add: race_requests_def)
  ultimately show ?thesis
    using answers_take_effect [OF demo_codecs_ok demo_aead_ok demo_put_blob_reachable s, of 2 "Inr (Re_Write r)"] s
    unfolding sum.case by blast
qed

text \<open>C14: Linearizability: when nothing but sync requests writes content and all of them have ended,
  none with an internal error, the answered ones can be put in an order, a subsequence of the
  makers of the steps, in which the abstract store, going from the content at the start to the
  content at the end, gives each of them its answer at one instant. What a handler reads in a
  transaction of its own is left open: the metadata fields an upload keeps, and the headers
  of a download.\<close>

theorem linearizable:
  assumes "codecs_ok E" "aead_ok E" "db_reachable E (db w)"
    and "sched (\<lambda>u v. others E u v \<and> same_content (db u) (db v)) (threads E st qs) w tr ps w'"
    and "\<forall>p \<in> set ps. settled p"
  shows "\<exists>log. distinct (map fst log) \<and> set log = {(i, re). answered ps i re}
    \<and> subseq (map (Some \<circ> fst) log) (map fst tr)
    \<and> instants E st (map (\<lambda>(i, re). (qs ! i, re)) log) (abs_store E st (db w)) (abs_store E st (db w'))"
  by (rule schedule_log [OF assms(1,2,4) _ assms(3,5)]) blast+

theorem linearizable_witness:
  "\<exists>log. set (map fst log) = {0, 2} \<and> instants demo race_state (map (\<lambda>(i, re). (race_requests ! i, re)) log)
     (abs_store demo race_state (db (snd demo_put_blob))) (abs_store demo race_state (db (snd race_run)))"
proof -
  let ?ps = "fst race_run"
  obtain tr where s: "sched (\<lambda>u v. others demo u v \<and> same_content (db u) (db v)) (threads demo race_state race_requests)
      (snd demo_put_blob) tr ?ps (snd race_run)"
    using race_sched by blast
  obtain r e h b where p: "?ps ! 0 = Done (Inr (Re_Blob h b))" "?ps ! 1 = Done (Inl e)" "fst (into_response e) = 412"
    "?ps ! 2 = Done (Inr (Re_Write r))" by (rule race_answers)
  have n: "length ?ps = 3" using sched_length [OF s] by (simp add: race_requests_def)
  then have three: "i < length ?ps \<longleftrightarrow> i = 0 \<or> i = 1 \<or> i = 2" for i by auto
  have "\<forall>q \<in> set ?ps. settled q"
    by (auto simp: in_set_conv_nth three settled_def p [simplified])
  from linearizable [OF demo_codecs_ok demo_aead_ok demo_put_blob_reachable s this]
  obtain log where log: "set log = {(i, re). answered ?ps i re}" "instants demo race_state (map (\<lambda>(i, re). (race_requests ! i, re)) log)
     (abs_store demo race_state (db (snd demo_put_blob))) (abs_store demo race_state (db (snd race_run)))" by blast
  have "set (map fst log) = {i. \<exists>re. answered ?ps i re}" using log(1) by force
  also have "\<dots> = {0, 2}" using p by (auto simp: answered_def three numeral_2_eq_2)
  finally show ?thesis using log(2) by blast
qed

text \<open>What else may run beside the sync requests: steps that give no snapshot an ETag.\<close>

definition beside_uploads :: "'j ext \<Rightarrow> 'j world \<Rightarrow> 'j world \<Rightarrow> bool" where
  "beside_uploads E u v \<longleftrightarrow> others E u v \<and> no_new_etag E (db u) (db v)"

lemma beside_uploads_not_back:
  assumes "beside_uploads E u v" "e \<noteq> ''''"
  shows "others E u v \<and> not_back E ns e u v"
proof -
  have "meta_at E ns (db v) = meta_at E ns (db u) \<or> Option.bind (meta_at E ns (db v)) meta_etag = None"
    using assms(1) by (simp add: beside_uploads_def no_new_etag_def)
  with assms show ?thesis
    by (auto simp: beside_uploads_def not_back_def version_at_def)
qed

text \<open>Every request of the panel is of this kind.\<close>

lemma panel_beside_uploads:
  assumes "ext_ok E" "world_ok E u"
  shows "beside_uploads E u (snd (serve_panel E st ip hs rq u))"
proof -
  obtain r v where run: "serve_panel E st ip hs rq u = (r, v)" by (cases "serve_panel E st ip hs rq u")
  have "steps_of E u v" using movesD [OF serve_panel_served run] assms by (simp add: serves_def)
  moreover have "codecs_ok E" using assms(1) by (simp add: ext_ok_def)
  ultimately show ?thesis
    using panel_ticks [OF run] panel_no_new_etag [OF _ run] run
    by (simp add: beside_uploads_def others_def on_db_def)
qed

text \<open>C15: Of all uploads in flight that demand the same version of a snapshot (a non-empty ETag
  that is not drawn again) at most one succeeds, whatever sync requests run beside them and
  whatever else the server does that gives no snapshot an ETag. Every request of the panel is
  of that kind: it may remove a snapshot or create its namespace anew, but it never brings a
  version back.\<close>

theorem one_upload_wins:
  assumes "codecs_ok E" "aead_ok E" "db_reachable E (db w)" "e \<noteq> ''''" "\<forall>k \<ge> tick w. uuid_v4 E k \<noteq> e"
    and "sched (beside_uploads E) (threads E st qs) w tr ps w'"
  shows "card {i. i < length qs \<and> wants E ns e (qs ! i) \<and> (\<exists>re. ps ! i = Done (Inr re))} \<le> 1
    \<and> (\<forall>ip hs rq u. ext_ok E \<and> world_ok E u \<longrightarrow> beside_uploads E u (snd (serve_panel E st ip hs rq u)))"
proof (intro conjI allI impI)
  have R: "\<forall>u v. beside_uploads E u v \<longrightarrow> others E u v \<and> not_back E ns e u v"
    using beside_uploads_not_back assms(4) by blast
  have "i = j" if "i < length qs" "wants E ns e (qs ! i)" "ps ! i = Done (Inr ri)"
      "j < length qs" "wants E ns e (qs ! j)" "ps ! j = Done (Inr rj)" for i j ri rj
    by (rule one_upload [OF assms(1,2,6) R assms(3,5) that])
  then show "card {i. i < length qs \<and> wants E ns e (qs ! i) \<and> (\<exists>re. ps ! i = Done (Inr re))} \<le> 1"
    by (intro card_le_Suc0_iff_eq [THEN iffD2, folded One_nat_def]) auto
  show "beside_uploads E u (snd (serve_panel E st ip hs rq u))" if "ext_ok E \<and> world_ok E u" for ip hs rq u
    using panel_beside_uploads that by blast
qed

theorem one_upload_wins_witness:
  "card {i. i < length race_requests \<and> wants demo ''ns'' ''uuuuuuuu'' (race_requests ! i)
      \<and> (\<exists>re. fst race_run ! i = Done (Inr re))} = 1"
proof -
  let ?S = "{i. i < length race_requests \<and> wants demo ''ns'' ''uuuuuuuu'' (race_requests ! i) \<and> (\<exists>re. fst race_run ! i = Done (Inr re))}"
  obtain tr where s: "sched (beside_uploads demo) (threads demo race_state race_requests) (snd demo_put_blob) tr
      (fst race_run) (snd race_run)"
    using race_sched by blast
  have "8 \<le> tick (snd demo_put_blob)" by code_simp
  then have fresh: "\<forall>k \<ge> tick (snd demo_put_blob). uuid_v4 demo k \<noteq> ''uuuuuuuu''"
    by (auto simp: demo_def dest!: arg_cong [of _ _ length] simp del: replicate_Suc)
  obtain r where "fst race_run ! 2 = Done (Inr (Re_Write r))" by (rule race_answers)
  moreover have "wants demo ''ns'' ''uuuuuuuu'' (race_requests ! 2)" "2 < length race_requests" by code_simp+
  ultimately have "2 \<in> ?S" by blast
  moreover have "finite ?S" by simp
  ultimately have "card ?S \<noteq> 0" by auto
  moreover have "''uuuuuuuu'' \<noteq> ''''" by simp
  note one_upload_wins [OF demo_codecs_ok demo_aead_ok demo_put_blob_reachable this fresh s, of "''ns''"]
  ultimately show ?thesis by linarith
qed

section \<open>What needs requests one after the other\<close>

text \<open>A download reads the payload and the metadata in two transactions: an upload that commits
  in between makes the answer carry the old bytes with the ETag of the new ones.\<close>

theorem download_may_tear:
  "\<exists>tr ps w' h r. sched (\<lambda>_ _. False) (threads demo race_state
       [(''ns'', ''ip'', demo_headers, Get_Blob), (''ns'', ''ip'', match_headers ''uuuuuuuu'', Put_Blob ''new''),
        (''ns'', ''ip'', match_headers ''uuuuuuuu'', Put_Blob ''other'')]) (snd demo_put_blob) tr ps w'
     \<and> ps ! 0 = Done (Inr (Re_Blob h ''body'')) \<and> ps ! 2 = Done (Inr (Re_Write r)) \<and> header h ''etag'' = wr_etag r"
proof -
  obtain r where r: "fst race_run ! 0 = Done (Inr (Re_Blob [(''content-type'', oxide_type), (''etag'', race_etag)] ''body''))"
    "fst race_run ! 2 = Done (Inr (Re_Write r))" "wr_etag r = Some race_etag" by (rule race_answers)
  have "header [(''content-type'', oxide_type), (''etag'', race_etag)] ''etag'' = Some race_etag" by code_simp
  with r race_sched [of "\<lambda>_ _. False", unfolded race_requests_def] show ?thesis by metis
qed

text \<open>
  Two requests of one administrator, each disabling one of the two enabled accounts. Both
  count the enabled accounts before either of them writes.
\<close>

definition disable :: update_user_request where
  "disable = \<lparr>uu_password = None, uu_enabled = Some False\<rparr>"

definition admin_turns :: "nat list" where
  "admin_turns = replicate 6 0 @ replicate 6 1 @ replicate 5 0 @ replicate 5 1"

text \<open>The session token of the browser is decoded once and for all times of the first day.\<close>

definition decode_token :: "(string, doc world, admin_claims) act" where
  "decode_token w = (if int (tick w) \<le> 86400 then (Inr panel_claims, skip w)
     else validate_admin_jwt demo (trim (demo_jwt panel_claims)) (jwt_secret demo_state) w)"

lemma decode_token: "validate_admin_jwt demo (trim (demo_jwt panel_claims)) (jwt_secret demo_state) = decode_token"
proof
  fix w :: "doc world"
  show "validate_admin_jwt demo (trim (demo_jwt panel_claims)) (jwt_secret demo_state) w = decode_token w"
    using panel_decode [of "int (tick w)"]
    by (auto simp: decode_token_def validate_admin_jwt_def bindE_def sample_def demo_def)
qed

lemma panel_session_steps:
  "validate_admin_session_steps demo demo_state panel_headers =
     seqP (whenP (\<not> admin_enabled demo_state) (throwP (Not_Found ''Admin panel disabled''))) (\<lambda>_.
     seqP (errP (\<lambda>_. Unauthorized ''Invalid or expired admin session'') (atom decode_token)) (\<lambda>claims.
     seqP (errP app_of_redb (atom (db_get_admin_user demo (cl_sub claims)))) (\<lambda>found.
     seqP (ok_orP (Unauthorized ''Admin user no longer exists'') found) (\<lambda>user.
     if \<not> usr_enabled user then throwP (Unauthorized ''Admin user is disabled'')
     else if cl_ver claims \<noteq> usr_session_version user
     then throwP (Unauthorized ''Admin session was invalidated'')
     else retP (usr_username user)))))"
  unfolding validate_admin_session_steps_def panel_token seqP_ret decode_token ..

fun succeeds :: "('e, 'w, 'a) prog \<Rightarrow> bool" where
  "succeeds (Done (Inr x)) = True"
| "succeeds _ = False"

lemma succeeds_iff: "succeeds p \<longleftrightarrow> (\<exists>x. p = Done (Inr x))"
  by (cases p rule: succeeds.cases) simp_all

definition admin_race :: "(app_error, doc world, json) prog list \<times> doc world" where
  "admin_race = exec admin_turns ([admin_update_user_steps demo demo_state ''root'' panel_headers disable,
     admin_update_user_steps demo demo_state ''admin'' panel_headers disable], panel_world)"

lemma admin_race_outcome:
  "(map succeeds (fst admin_race), fst (enabled_admin_user_count demo (snd admin_race)))
     = ([True, True], Inr 0)"
  unfolding admin_race_def admin_update_user_steps_def verify_admin_mutation_steps_def verify_admin_steps_def
    panel_session_steps panel_csrf
  by code_simp

text \<open>Each of two requests that disable the last two enabled administrators may pass its check
  before the other writes: then both succeed and no administrator is enabled.\<close>

theorem last_admin_race:
  "\<exists>tr ps w' a b. sched (\<lambda>_ _. False)
       [admin_update_user_steps demo demo_state ''root'' panel_headers disable,
        admin_update_user_steps demo demo_state ''admin'' panel_headers disable] panel_world tr ps w'
     \<and> ps = [Done (Inr a), Done (Inr b)]
     \<and> fst (enabled_admin_user_count demo panel_world) = Inr 2
     \<and> fst (enabled_admin_user_count demo w') = Inr 0"
proof -
  obtain ps w' where r: "admin_race = (ps, w')" by (cases admin_race)
  then obtain tr where s: "sched (\<lambda>_ _. False)
      [admin_update_user_steps demo demo_state ''root'' panel_headers disable,
       admin_update_user_steps demo demo_state ''admin'' panel_headers disable] panel_world tr ps w'"
    unfolding admin_race_def using exec_sched by metis
  have "map succeeds ps = [True, True]"
    and left: "fst (enabled_admin_user_count demo w') = Inr 0"
    using admin_race_outcome by (simp_all add: r)
  then obtain a b where "ps = [Done (Inr a), Done (Inr b)]"
    by (auto simp: map_eq_Cons_conv succeeds_iff)
  moreover have "fst (enabled_admin_user_count demo panel_world) = Inr 2" by code_simp
  ultimately show ?thesis using s left by blast
qed

end
