(* ===== verification/Source_Tests.thy ===== *)
theory Source_Tests
  imports Panel_Instance
begin

text \<open>
  The unit tests of the repository, evaluated on the model: each lemma is the test of its
  name (in \<^verbatim>\<open>auth.rs\<close>, \<^verbatim>\<open>crypto.rs\<close>, \<^verbatim>\<open>db.rs\<close>, \<^verbatim>\<open>api.rs\<close>, \<^verbatim>\<open>panel.rs\<close> and
  \<^verbatim>\<open>api_object_tests.rs\<close>), with the same inputs and the same assertions, on the concrete
  parameters of \<open>Instance\<close>. The tests of code that is a parameter are not repeated.
\<close>

abbreviation first_world :: "doc world" where
  "first_world \<equiv> \<lparr>db = open_db, tick = 0\<rparr>"

abbreviation result :: "('e, doc world, 'a) act \<Rightarrow> 'e + 'a" where
  "result m \<equiv> fst (m first_world)"

section \<open>Tokens, passwords, encryption\<close>

lemma namespace_pattern_matching:
  "namespace_matches ''my-sync'' ''*''" "namespace_matches ''my-sync'' ''my-sync''"
  "\<not> namespace_matches ''my-sync'' ''other''" "namespace_matches ''team-prod'' ''team-*''"
  "namespace_matches ''team-staging'' ''team-*''" "\<not> namespace_matches ''other-prod'' ''team-*''"
  by code_simp+

lemma permission_validation:
  "validate_permissions (normalize_permissions [''read''])"
  "validate_permissions (normalize_permissions [''read'', ''write''])"
  "\<not> validate_permissions (normalize_permissions [''admin''])"
  "validate_namespace_pattern demo ''*''" "validate_namespace_pattern demo ''team-*''"
  "validate_namespace_pattern demo ''team-prod''" "\<not> validate_namespace_pattern demo ''''"
  by code_simp+

lemma encrypt_decrypt_roundtrip:
  "result (bindE (encrypt demo (replicate 32 (char_of (0x42 :: nat))) ''Hello, OxideTerm Cloud Sync!'')
     (\<lambda>encrypted. lift_res (decrypt demo (replicate 32 (char_of (0x42 :: nat))) encrypted)))
   = Inr ''Hello, OxideTerm Cloud Sync!''"
  by code_simp

section \<open>Storage\<close>

definition test_token :: "string \<Rightarrow> string option \<Rightarrow> api_token" where
  "test_token i device = demo_token\<lparr>tok_id := i, tok_name := ''test token'', tok_token_hash := ''hash-'' @ i,
     tok_encrypted_token := None, tok_device_id := device\<rparr>"

definition test_device :: "string \<Rightarrow> string option \<Rightarrow> device_record" where
  "test_device i token = \<lparr>dev_id = i, dev_name = ''work laptop'', dev_namespace_pattern = Some ''*'',
     dev_token_id = token, dev_enabled = True, dev_created_at = ''1'', dev_updated_at = ''1'',
     dev_last_seen_at = None, dev_last_client_ip = None, dev_last_client_version = None, dev_notes = None\<rparr>"

definition test_conflict :: "string \<Rightarrow> string \<Rightarrow> sync_conflict_record" where
  "test_conflict i occurred_at = \<lparr>sc_id = i, sc_occurred_at = occurred_at, sc_namespace = ''demo'',
     sc_operation = ''blob'', sc_object_path = None, sc_device_id = Some ''device-1'',
     sc_requested_revision = Some ''rev-local'', sc_requested_etag = Some ''etag-local'',
     sc_remote_revision = Some ''rev-remote'', sc_remote_etag = Some ''etag-remote'',
     sc_message = ''Remote snapshot changed before upload completed''\<rparr>"

lemma login_attempt_roundtrip:
  "result (bindE (db_set_login_attempt demo ''127.0.0.1''
       \<lparr>la_first_failure_at = ''1'', la_failures = 3, la_blocked_until = None\<rparr>) (\<lambda>_.
     bindE (db_get_login_attempt demo ''127.0.0.1'') (\<lambda>loaded. ret (map_option la_failures loaded))))
   = Inr (Some 3)"
  by code_simp

lemma admin_user_roundtrip_and_delete:
  "result (bindE (db_set_admin_user demo (demo_user ''ops'')) (\<lambda>_.
     bindE (db_list_admin_users demo) (\<lambda>users.
     bindE (db_get_admin_user demo ''ops'') (\<lambda>found.
     bindE (db_delete_admin_user demo ''ops'') (\<lambda>_.
     bindE (db_get_admin_user demo ''ops'') (\<lambda>gone.
     ret (length users, map_option usr_role found, gone)))))))
   = Inr (1, Some ''admin'', None)"
  by code_simp

lemma namespace_soft_delete_and_restore:
  "result (bindE (db_set_metadata demo ''demo'' (Doc_Metadata empty_metadata)) (\<lambda>_.
     bindE (db_soft_delete_namespace demo ''demo'' ''1'') (\<lambda>_.
     bindE (db_is_namespace_deleted demo ''demo'') (\<lambda>deleted.
     bindE (db_list_namespaces demo) (\<lambda>listed.
     bindE (db_restore_namespace demo ''demo'') (\<lambda>_.
     bindE (db_is_namespace_deleted demo ''demo'') (\<lambda>deleted'.
     bindE (db_list_namespaces demo) (\<lambda>listed'.
     ret (deleted, listed, deleted', listed')))))))))
   = Inr (True, [], False, [''demo''])"
  by code_simp

lemma hard_delete_removes_soft_deleted_namespace_data:
  "result (bindE (db_set_metadata demo ''demo'' (Doc_Metadata empty_metadata)) (\<lambda>_.
     bindE (db_soft_delete_namespace demo ''demo'' ''1'') (\<lambda>_.
     bindE (db_hard_delete_namespace demo ''demo'') (\<lambda>_.
     bindE (db_get_metadata demo ''demo'') (\<lambda>found.
     bindE (db_is_namespace_deleted demo ''demo'') (\<lambda>deleted.
     ret (found, deleted)))))))
   = Inr (None, False)"
  by code_simp

lemma device_record_roundtrip_and_delete:
  "result (bindE (db_set_device demo (test_device ''dev-1'' None)) (\<lambda>_.
     bindE (db_list_devices demo) (\<lambda>devices.
     bindE (db_get_device demo ''dev-1'') (\<lambda>found.
     bindE (db_delete_device demo ''dev-1'') (\<lambda>_.
     bindE (db_get_device demo ''dev-1'') (\<lambda>gone.
     ret (length devices, map_option dev_name found, gone)))))))
   = Inr (1, Some ''work laptop'', None)"
  by code_simp

lemma token_usage_updates_profile_and_linked_device:
  "result (bindE (db_set_token demo (test_token ''tok-1'' (Some ''dev-1''))) (\<lambda>_.
     bindE (db_set_device demo (test_device ''dev-1'' (Some ''tok-1''))) (\<lambda>_.
     bindE (db_record_token_usage demo ''tok-1'' ''demo'' ''write'' ''127.0.0.1'' (Some ''OxideTerm/1.0'') ''1a'') (\<lambda>_.
     bindE (db_record_token_failure demo ''tok-1'') (\<lambda>_.
     bindE (db_get_token demo ''tok-1'') (\<lambda>token.
     bindE (db_get_device demo ''dev-1'') (\<lambda>device.
     ret (map_option (\<lambda>t. (tok_write_count t, tok_failed_count t, tok_last_namespace t, tok_last_client_version t)) token,
       map_option (\<lambda>d. (dev_last_seen_at d, dev_last_client_ip d)) device))))))))
   = Inr (Some (1, 1, Some ''demo'', Some ''OxideTerm/1.0''), Some (Some ''1a'', Some ''127.0.0.1''))"
  by code_simp

lemma sync_conflicts_are_returned_newest_first:
  "result (bindE (db_add_sync_conflict demo (test_conflict ''old'' ''2026-01-01T00:00:00Z'') 100) (\<lambda>_.
     bindE (db_add_sync_conflict demo (test_conflict ''new'' ''2026-01-02T00:00:00Z'') 100) (\<lambda>_.
     bindE (db_list_sync_conflicts demo 1) (\<lambda>conflicts. ret (map sc_id conflicts)))))
   = Inr [''new'']"
  by code_simp

lemma sync_conflict_retention_removes_oldest_records:
  "result (bindE (db_add_sync_conflict demo (test_conflict ''old'' ''2026-01-01T00:00:00Z'') 2) (\<lambda>_.
     bindE (db_add_sync_conflict demo (test_conflict ''middle'' ''2026-01-02T00:00:00Z'') 2) (\<lambda>_.
     bindE (db_add_sync_conflict demo (test_conflict ''new'' ''2026-01-03T00:00:00Z'') 2) (\<lambda>_.
     bindE (db_list_sync_conflicts demo 10) (\<lambda>conflicts. ret (map sc_id conflicts))))))
   = Inr [''new'', ''middle'']"
  by code_simp

lemma namespace_usage_tracks_growth_between_snapshots:
  "(let meta = \<lparr>om_etag = ''etag-1'', om_updated_at = ''2026-01-01T00:00:00Z''\<rparr>;
        usage = (\<lambda>at. map_err cond_of_redb (db_refresh_namespace_usage demo ''demo'' at False)) in
    result (bindE (db_put_object_if_matches demo ''demo'' ''a.json'' None False ''1234'' meta) (\<lambda>_.
     bindE (usage ''2026-01-01T00:00:00Z'') (\<lambda>first.
     bindE (db_put_object_if_matches demo ''demo'' ''a.json'' None False ''123456'' meta) (\<lambda>_.
     bindE (usage ''2026-01-02T00:00:00Z'') (\<lambda>second.
     ret (us_total_bytes first, us_growth_bytes first, us_total_bytes second, us_growth_bytes second)))))))
   = Inr (4, 0, 6, 2)"
  by code_simp


section \<open>The sync API\<close>

text \<open>Times that the tests reach by subtracting seconds from now, which is one minute.\<close>

definition test_times :: "doc ext" where
  "test_times = demo\<lparr>parse_rfc3339 := \<lambda>s. if s = ''now - 1 s'' then Some (- 1000000000)
     else if s = ''now - 30 s'' then Some (- 30000000000)
     else if s = ''now - 60 s'' then Some (- 60000000000) else None\<rparr>"

lemma expired_tokens_are_rejected:
  "fst (ensure_token_active test_times (demo_token\<lparr>tok_expires_at := Some ''now - 1 s''\<rparr>) first_world)
   = Inl (Unauthorized ''Token has expired'')"
  by code_simp

lemma retain_metadata_value_clears_when_disabled:
  "retain_metadata_value False (Some ''value'') = None" "retain_metadata_value True (Some ''value'') = Some ''value''"
  by code_simp+

lemma token_usage_updates_respect_persistence_interval:
  "\<not> token_usage_update_due test_times (demo_token\<lparr>tok_last_used_at := Some ''now - 30 s''\<rparr>) 0 60"
  "token_usage_update_due test_times (demo_token\<lparr>tok_last_used_at := Some ''now - 60 s''\<rparr>) 0 60"
  "token_usage_update_due test_times (demo_token\<lparr>tok_last_used_at := Some ''now - 60 s''\<rparr>) 0 0"
  by code_simp+

text \<open>
  The integration test on objects in scenarios: discovery page by page, namespaces,
  permissions, cleanup, refused queries and a soft-deleted namespace. Requests come from a writer, a reader
  and a stranger.
\<close>

definition object_test_tokens :: "(redb_error, doc world, unit) act" where
  "object_test_tokens =
     (let token = (\<lambda>name permissions. demo_token\<lparr>tok_id := name, tok_name := name, tok_token_hash := hash_api_token demo name,
        tok_encrypted_token := None, tok_namespace_pattern := ''demo*'', tok_permissions := permissions\<rparr>)
      in bindE (db_set_token demo (token ''writer'' [''read'', ''write''])) (\<lambda>_.
         db_set_token demo (token ''reader'' [''read''])))"

definition object_test_state :: app_state where
  "object_test_state = demo_state\<lparr>admin_enabled := False, sync_cors_allowed_origins := [''*''],
     max_blob_size := 1024, max_object_size := 1024, token_usage_write_interval_seconds := 60, usage_refresh_interval_seconds := 60,
     max_sync_conflict_records := 500\<rparr>"

definition by_token :: "string \<Rightarrow> string \<Rightarrow> sync_request \<Rightarrow> string \<times> string \<times> headers \<times> sync_request" where
  "by_token name namespace rq = (namespace, ''127.0.0.1'', [(''authorization'', ''Bearer '' @ name)], rq)"

definition listing :: "string \<Rightarrow> string option \<Rightarrow> nat option \<Rightarrow> sync_request" where
  "listing pre cursor limit = List_Objects \<lparr>q_prefix = pre, q_cursor = cursor, q_limit = limit\<rparr>"

fun outcome :: "app_error + sync_response \<Rightarrow> nat + json" where
  "outcome (Inl e) = Inl (fst (into_response e))"
| "outcome (Inr (Re_List body)) = Inr body"
| "outcome (Inr (Re_Status status)) = Inl status"
| "outcome (Inr (Re_Object status _ body)) = (if status = 200 then Inr (JStr body) else Inl status)"
| "outcome (Inr _) = Inl 200"

definition object_listing :: "string list \<Rightarrow> string option \<Rightarrow> json" where
  "object_listing paths cursor = JObj [(''objects'', JArr (map (\<lambda>path. JObj [(''path'', JStr path)]) paths)),
     (''nextCursor'', json_opt_str cursor)]"

definition object_test ::
  "(string \<times> string \<times> headers \<times> sync_request) list \<Rightarrow> (nat + json) list \<times> doc world" where
  "object_test rs = map_prod (map outcome) id
     (serve_all demo object_test_state rs (snd (object_test_tokens first_world)))"

lemma object_discovery:
  "fst (object_test
     [by_token ''writer'' ''demo'' (Put_Object ''sync-v3/b.oxide'' ''snapshot''),
      by_token ''writer'' ''demo'' (Put_Object ''sync-v3/a.oxide'' ''snapshot''),
      by_token ''reader'' ''demo'' (listing ''sync-v3/'' None (Some 1)),
      by_token ''reader'' ''demo'' (listing ''sync-v3/'' (Some ''sync-v3/a.oxide'') (Some 1))]) =
   [Inl 200, Inl 200, Inr (object_listing [''sync-v3/a.oxide''] (Some ''sync-v3/a.oxide'')),
    Inr (object_listing [''sync-v3/b.oxide''] None)]"
  by code_simp

lemma object_namespaces:
  "(case object_test
     [by_token ''writer'' ''demo'' (Put_Object ''sync-v3/a.oxide'' ''snapshot''),
      by_token ''writer'' ''demo-other'' (Put_Object ''sync-v3/foreign.oxide'' ''snapshot'')]
    of (out, w) \<Rightarrow> (out, fst (db_list_namespaces demo w))) = ([Inl 200, Inl 200], Inr [''demo'', ''demo-other''])"
  by code_simp

lemma object_cleanup_respects_permissions:
  "fst (object_test
     [by_token ''writer'' ''demo'' (Put_Object ''sync-v3/a.oxide'' ''snapshot''),
      by_token ''invalid'' ''demo'' (Delete_Object ''sync-v3/a.oxide''),
      by_token ''writer'' ''private'' (Delete_Object ''sync-v3/a.oxide''),
      by_token ''reader'' ''demo'' (Delete_Object ''sync-v3/a.oxide''),
      by_token ''reader'' ''demo'' (Get_Object ''sync-v3/a.oxide'')]) =
   [Inl 200, Inl 401, Inl 403, Inl 403, Inr (JStr ''snapshot'')]"
  by code_simp

lemma object_cleanup:
  "fst (object_test
     [by_token ''writer'' ''demo'' (Put_Object ''sync-v3/a.oxide'' ''snapshot''),
      by_token ''writer'' ''demo'' (Delete_Object ''sync-v3/a.oxide''),
      by_token ''writer'' ''demo'' (Delete_Object ''sync-v3/a.oxide''),
      by_token ''reader'' ''demo'' (Get_Object ''sync-v3/a.oxide'')]) =
   [Inl 200, Inl 204, Inl 204, Inl 404]"
  by code_simp

lemma object_queries_refused:
  "fst (object_test
     [by_token ''writer'' ''demo'' (listing '''' None None),
      by_token ''invalid'' ''demo'' (listing '''' None None), by_token ''writer'' ''private'' (listing '''' None None),
      by_token ''reader'' ''demo'' (listing '''' None (Some 0)), by_token ''reader'' ''demo'' (listing '''' None (Some 257)),
      by_token ''reader'' ''demo'' (listing ''sync-v3/'' (Some ''legacy.json'') None)]) =
   [Inr (object_listing [] None), Inl 401, Inl 403, Inl 400, Inl 400, Inl 400]"
  by code_simp

lemma objects_of_a_soft_deleted_namespace:
  "(case object_test [by_token ''writer'' ''demo'' (Put_Object ''sync-v3/a.oxide'' ''snapshot'')] of (_, w) \<Rightarrow>
    case snd (db_soft_delete_namespace demo ''demo'' ''1'' w) of w1 \<Rightarrow>
      (map outcome (fst (serve_all demo object_test_state
        [by_token ''reader'' ''demo'' (listing '''' None None),
         by_token ''writer'' ''demo'' (Delete_Object ''sync-v3/a.oxide'')] w1)),
       fst (db_list_namespaces demo w1))) = ([Inl 404, Inl 404], Inr [])"
  by code_simp

section \<open>The panel\<close>

definition test_state :: "bool \<Rightarrow> app_state" where
  "test_state trust = demo_state\<lparr>encryption_key := None, jwt_secret := ''secret'', trust_proxy_headers := trust,
     max_blob_size := 1024, max_object_size := 1024\<rparr>"

lemma cookie_extraction_prefers_named_cookie:
  "extract_cookie [(''cookie'', ''other=1; admin_session=abc123; admin_csrf=csrf123'')] ''admin_session'' = Some ''abc123''"
  by code_simp

lemma csrf_verification_requires_matching_cookie_and_header:
  "verify_csrf [(''cookie'', ''admin_csrf=csrf123''), (''x-csrf-token'', ''csrf123'')] = Inr ()"
  by code_simp

lemma csrf_verification_rejects_missing_header:
  "fst (into_response (case verify_csrf [(''cookie'', ''admin_csrf=csrf123'')] of Inl e \<Rightarrow> e)) = 403"
  by code_simp

lemma admin_username_validation_rejects_unsafe_names:
  "validate_admin_username ''ops-admin_1'' = Inr ()" "res_ok (validate_admin_username '''') = None"
  "res_ok (validate_admin_username ''ops/admin'') = None"
  by code_simp+

lemma user_login_failure_updates_user_security_state:
  "result (bindE (record_user_login_failure demo (demo_user ''ops'')) (\<lambda>_.
     bindE (map_err app_of_redb (db_get_admin_user demo ''ops'')) (\<lambda>stored.
     ret (map_option (\<lambda>u. (usr_failed_login_count u, usr_last_failed_login_at u \<noteq> None)) stored))))
   = Inr (Some (1, True))"
  by code_simp

lemma session_version_invalidates_existing_admin_session:
  "(let claims = \<lparr>cl_sub = ''ops'', cl_exp = 86400, cl_iat = 0, cl_ver = 1\<rparr>;
        headers = [(''cookie'', ''admin_session='' @ demo_jwt claims)];
        user = (demo_user ''ops'')\<lparr>usr_session_version := 1\<rparr>;
        set_user = (\<lambda>u. map_err app_of_redb (db_set_admin_user demo u)) in
    result (bindE (set_user user) (\<lambda>_.
     bindE (attempt (validate_admin_session demo (test_state False) headers)) (\<lambda>before.
     bindE (set_user (user\<lparr>usr_session_version := 2\<rparr>)) (\<lambda>_.
     bindE (attempt (validate_admin_session demo (test_state False) headers)) (\<lambda>after.
     ret (before, after)))))))
   = Inr (Inr ''ops'', Inl (Unauthorized ''Admin session was invalidated''))"
  by code_simp

lemma secure_cookie_is_omitted_for_plain_http_requests:
  "\<not> effective_admin_cookie_secure [] (test_state False)"
  "\<not> sublist ''; Secure'' (build_admin_session_cookie ''jwt'' (effective_admin_cookie_secure [] (test_state False)))"
  by code_simp+

lemma secure_cookie_is_kept_for_trusted_https_proxy_requests:
  "effective_admin_cookie_secure [(''x-forwarded-proto'', ''https'')] (test_state True)"
  "sublist ''; Secure''
     (build_admin_session_cookie ''jwt'' (effective_admin_cookie_secure [(''x-forwarded-proto'', ''https'')] (test_state True)))"
  by code_simp+

end
