(* ===== verification/Spec2Isabelle.thy ===== *)
theory Spec2Isabelle
  imports Sync_Props Store_Props Panel_Props Token_Props Boot_Props Race_Props Source_Tests
begin

text \<open>
  A model of the OxideTerm cloud sync server (\<^verbatim>\<open>src/src/*.rs\<close>): an HTTP server that keeps,
  per namespace, one encrypted settings snapshot (the blob), its metadata and a set of
  objects, in a redb database, behind API tokens, with a web panel for administrators.

  \<^bold>\<open>Parts.\<close> A sync request (\<^verbatim>\<open>api.rs\<close>) names a namespace; the gate checks that the
  namespace is not soft-deleted, finds the token of the bearer secret by its hash, checks it
  and records the access; the handler then reads or writes the store (\<^verbatim>\<open>db.rs\<close>),
  encrypting payloads when a key is configured (\<^verbatim>\<open>crypto.rs\<close>). Conditional writes compare
  ETags inside one write transaction and a lost race is logged as a conflict. The panel
  (\<^verbatim>\<open>panel.rs\<close>) has its own sessions (a JWT that carries the session version of the
  account), CSRF check and login throttle, and administers users, namespaces, tokens and
  devices. The program (\<^verbatim>\<open>main.rs\<close>) either copies, restores or verifies the database file, or
  bootstraps an administrator, builds the configuration and the routes, and serves.

  \<^bold>\<open>Model.\<close> A function that returns \<open>Result\<close> is an action
  \<open>'w \<Rightarrow> ('e + 'a) \<times> 'w\<close>; the world is the database (a record of the twelve redb
  tables, each an ordered table of rows) and a counter numbering the uses of the outside. A
  transaction is a function on the database that commits at once. A handler has two
  readings: as an action it runs to its end (one request after the other), and as a program
  \<open>f_steps\<close>, a tree of single uses of the outside, it may be interrupted between its
  transactions. The two are proved equal on an uninterrupted run. Third
  party code (clock, random source, faults of the store, ciphers, hashes, JSON codecs of the
  stored structs, RFC 3339, JWT and bcrypt) is the record \<open>ext\<close>. The maintenance modes
  have a world of their own, the files of the machine by path, with faults and torn writes
  as the record \<open>io_ext\<close>; a panic is an error with its message.

  \<^bold>\<open>Hypotheses.\<close> What is relied on is named, documented behaviour of that code:
  \<open>codecs_ok\<close> (a stored struct decodes to itself), \<open>time_ok\<close> (a printed time of the years 0 to
  9999 parses),
  \<open>aead_ok\<close> (decryption inverts encryption), \<open>jwt_ok\<close>, \<open>bcrypt_ok\<close>, \<open>digest_text\<close> (a digest
  prints as text), \<open>uuid_text\<close> and \<open>sealing_ok\<close> (identifiers and base64 are text),
  \<open>ext_ok\<close> (drawn secrets never repeat), \<open>no_faults\<close> and \<open>no_io_faults\<close> (the store, the
  files do not fail) where a theorem says that something succeeds. \<open>Instance\<close> and
  \<open>Panel_Instance\<close> give concrete parameters on which every one of them holds.

  \<^bold>\<open>Theories.\<close>
  \<^item> \<open>Sync_Prelude\<close>: actions, frames, saturating words; \<open>Rust_Str\<close>: byte strings;
    \<open>Redb_Table\<close>: ordered tables; \<open>Sync_Config\<close>, \<open>Sync_Error\<close>: the structs and errors;
    \<open>Sync_Env\<close>: world, parameters, transactions, frames over the database.
  \<^item> \<open>Auth\<close>, \<open>Crypto\<close>: \<^verbatim>\<open>auth.rs\<close> and \<^verbatim>\<open>crypto.rs\<close>.
  \<^item> \<open>Cond_Store\<close>: the interface of a conditionally written cell (compare and swap);
    \<open>Db_Store\<close> interprets it for blobs and objects. \<open>Db_Usage\<close>, \<open>Db_Tokens\<close>,
    \<open>Db_Admin\<close>, \<open>Db_Namespaces\<close>: the rest of \<^verbatim>\<open>db.rs\<close>. \<open>Db_Steps\<close>: the committed
    steps as an inductive relation, reachable databases and their invariant.
  \<^item> \<open>Api_Auth\<close>, \<open>Api_Sync\<close>: \<^verbatim>\<open>api.rs\<close>; \<open>Api_Frames\<close>, \<open>Gate\<close>, \<open>Sync_Facts\<close>,
    \<open>Sync_Service\<close>, \<open>Paging\<close>: what the handlers do and keep, the routes as one service,
    the client that follows list cursors. \<open>Abstract_Store\<close>: the store of plain values that
    the service refines.
  \<^item> \<open>Panel_Session\<close>, \<open>Panel_Admin\<close>, \<open>Panel_Tokens\<close>: \<^verbatim>\<open>panel.rs\<close>; \<open>Panel_Service\<close>: its
    routes as one service; \<open>Panel_Facts\<close>: sessions; \<open>Panel_Users\<close>: what each route does to the
    accounts; \<open>Panel_Login\<close>: which requests end sessions, what a failed login leaves
    on record; \<open>Panel_Writes\<close>: the single writes of the panel as an interface (a locale, interpreted for
    time, the login attempts and the ETags of snapshots); \<open>Panel_Throttle\<close>: failed
    logins counted over whole runs of the server, and that a block outlives whatever is answered
    meanwhile; \<open>Panel_Cookies\<close>, \<open>Panel_Access\<close>: the
    browser that logs in and comes back; \<open>Panel_Frames\<close>: the invariant of the tokens;
    \<open>Panel_Secrets\<close>: where the secrets of tokens are, as moves of the token table.
  \<^item> \<open>Server\<close>: sync and panel requests, one after the other. \<open>Routes\<close>: the route tables, body
    limits and CORS layer as the values the server builds.
  \<^item> \<open>Interleave\<close>: programs, guarantees of their steps, schedules of a pool of programs beside
    an environment, as an inductive relation with labelled traces. \<open>Sync_Steps\<close>,
    \<open>Panel_Steps\<close>: the sync handlers and the two account handlers as programs. \<open>Sync_Races\<close>: the
    contract of every single write (a locale, interpreted for what a step commits, changes in
    other namespaces and shows of the content), and where in a trace a request takes effect;
    \<open>Sync_Linear\<close>: the instants of all requests, in the order of the trace, as one run of the
    abstract store.
  \<^item> \<open>Maintenance\<close>, \<open>Boot\<close>: \<^verbatim>\<open>main.rs\<close>; \<open>Maintenance_Facts\<close>, \<open>Boot_Facts\<close>: their lemmas.
  \<^item> \<open>Sync_Props\<close>, \<open>Store_Props\<close>, \<open>Panel_Props\<close>, \<open>Token_Props\<close>, \<open>Boot_Props\<close>,
    \<open>Race_Props\<close>: the properties with their witnesses. \<open>Source_Tests\<close>: the unit tests of the
    repository, evaluated on the model.

  \<^bold>\<open>What the theorems show.\<close> Who passes the gate and what a refusal changes; round trips of
  blobs and objects through encryption; lost updates excluded; exactly when an
  upload succeeds, and that it leaves the disk reserve free; listing; isolation of
  namespaces; refinement of the abstract store; deletion, usage, conflict log; panel sessions,
  CSRF, throttle, the last administrator; the life of a token secret from creation to
  revocation under any further requests. For requests in flight at the same time: whatever the
  schedule, a sync request that is answered took effect at one instant, the answered ones
  together are a run of the abstract store in the order of their instants, at most one of the
  uploads against one version wins (no request of the panel brings a version back), and the database stays well-formed; what holds only of
  requests one after the other is shown by concrete schedules (\<open>download_may_tear\<close>,
  \<open>last_admin_race\<close>). When the server starts, what a restart keeps, and that backups restore.

  \<^bold>\<open>Fuel.\<close> Only the client of \<open>Paging\<close> has fuel: one page more than there are paths is enough.

  \<^bold>\<open>Naming.\<close> A definition carries the name of the function it models; a method \<open>f\<close> of
  \<open>Database\<close> is \<open>db_f\<close>, the body of its transaction \<open>f_tx\<close>; a part of a
  long function is a definition of its own, used by it. The program of a handler \<open>f\<close> is
  \<open>f_steps\<close>.

  \<^bold>\<open>Not modelled.\<close> What the HTTP framework does with the route tables (matching is stated as
  it documents it), limits and preflight requests; log lines; the HTML and JavaScript text of
  the panel; the serde encoding of the structs, field defaults included (a codec parameter);
  reading the command line and environment, log setup and the listener in
  \<^verbatim>\<open>main.rs\<close>. Two paths of the maintenance modes are the same file exactly when they are the
  same text. Times are unbounded integers of nanoseconds: the panics of chrono, when a
  duration passes \<open>i64::MAX / 1000\<close> seconds or a sum leaves the years it represents, are not
  modelled; an extreme lockout or default expiry brings them about, and the theorem on the
  lockout assumes that its end is a time of the years 0 to 9999. The interruptible programs
  do not record, between two transactions, what an earlier one read: the metadata fields an
  upload keeps and the headers of a download are left open where a schedule is compared with
  the abstract store.
\<close>

end
